(* ===== verification/Prelude.thy ===== *)
theory Prelude
  imports Complex_Main "HOL-Library.AList" "HOL-Library.Multiset" "HOL-Library.Char_ord"
    "HOL-Library.List_Lexorder" "HOL-Library.Word"
begin

text \<open>
  What the Go code of shell-operator uses of the language and its standard library, shared by
  every component: outcomes that may panic, maps with an explicit iteration order, 64 bit
  integers, string ordering and the contract of the \<open>sort\<close> package. The named collections
  gather the lemmas that the component theories hand to the simplifier.
\<close>

named_theorems go_simps \<open>evaluation rules for outcomes, maps and loops\<close>
named_theorems queue_simps \<open>the content of a queue after an operation\<close>
named_theorems wf_intros \<open>operations keep a component well formed\<close>

section \<open>Outcomes: a Go call returns or panics\<close>

datatype 'a go = Panic | Ret 'a

fun go_bind :: "'a go \<Rightarrow> ('a \<Rightarrow> 'b go) \<Rightarrow> 'b go" where
  "go_bind Panic f = Panic"
| "go_bind (Ret x) f = f x"

fun returns :: "'a go \<Rightarrow> bool" where
  "returns Panic = False"
| "returns (Ret x) = True"

text \<open>A range loop over a slice whose body may panic.\<close>

fun go_fold :: "('a \<Rightarrow> 's \<Rightarrow> 's go) \<Rightarrow> 'a list \<Rightarrow> 's \<Rightarrow> 's go" where
  "go_fold f [] s = Ret s"
| "go_fold f (x # xs) s = go_bind (f x s) (go_fold f xs)"

fun go_map :: "('a \<Rightarrow> 'b go) \<Rightarrow> 'a list \<Rightarrow> 'b list go" where
  "go_map f [] = Ret []"
| "go_map f (x # xs) = go_bind (f x) (\<lambda>y. go_bind (go_map f xs) (\<lambda>ys. Ret (y # ys)))"

section \<open>Maps with an explicit iteration order\<close>

text \<open>
  A Go map is an association list with distinct keys. Its iteration order is not specified by
  the language and may differ from one range loop to the next, so an operation that ranges over
  a map takes the order of that loop as an argument \<open>ks\<close>, constrained by \<open>range_of\<close> only.
\<close>

type_synonym ('k, 'v) gomap = "('k \<times> 'v) list"

abbreviation mget :: "('k, 'v) gomap \<Rightarrow> 'k \<Rightarrow> 'v option" where
  "mget \<equiv> map_of"

abbreviation mput :: "'k \<Rightarrow> 'v \<Rightarrow> ('k, 'v) gomap \<Rightarrow> ('k, 'v) gomap" where
  "mput \<equiv> AList.update"

abbreviation mdel :: "'k \<Rightarrow> ('k, 'v) gomap \<Rightarrow> ('k, 'v) gomap" where
  "mdel \<equiv> AList.delete"

abbreviation mkeys :: "('k, 'v) gomap \<Rightarrow> 'k list" where
  "mkeys m \<equiv> map fst m"

definition wf_map :: "('k, 'v) gomap \<Rightarrow> bool" where
  "wf_map m \<longleftrightarrow> distinct (map fst m)"

definition range_of :: "('k, 'v) gomap \<Rightarrow> 'k list \<Rightarrow> bool" where
  "range_of m ks \<longleftrightarrow> distinct ks \<and> set ks = set (mkeys m)"

text \<open>
  \<open>for k, v := range m2 { m1[k] = v }\<close>: the content does not depend on the order of the loop.
\<close>

definition map_merge :: "('k, 'v) gomap \<Rightarrow> ('k, 'v) gomap \<Rightarrow> ('k, 'v) gomap" where
  "map_merge m1 m2 = foldl (\<lambda>m (k, v). mput k v m) m1 m2"

section \<open>64 bit integers, the sort package\<close>

text \<open>Go's \<open>int\<close> and \<open>int64\<close> on the supported platforms: two's complement wrap-around.\<close>

definition int64 :: "int \<Rightarrow> int" where
  "int64 x = (x + 2 ^ 63) mod 2 ^ 64 - 2 ^ 63"

text \<open>
  \<open>sort.Sort\<close> and \<open>sort.Slice\<close> promise a permutation without inversions when \<open>lt\<close> is a
  strict weak order; they are not stable. \<open>go_sort\<close> is the insertion sort that they run on
  short slices, and \<open>sort_spec\<close> is the documented contract.
\<close>

fun go_insert :: "('a \<Rightarrow> 'a \<Rightarrow> bool) \<Rightarrow> 'a \<Rightarrow> 'a list \<Rightarrow> 'a list" where
  "go_insert lt x [] = [x]"
| "go_insert lt x (y # ys) = (if lt y x then y # go_insert lt x ys else x # y # ys)"

fun go_sort :: "('a \<Rightarrow> 'a \<Rightarrow> bool) \<Rightarrow> 'a list \<Rightarrow> 'a list" where
  "go_sort lt [] = []"
| "go_sort lt (x # xs) = go_insert lt x (go_sort lt xs)"

definition weak_order :: "('a \<Rightarrow> 'a \<Rightarrow> bool) \<Rightarrow> 'a set \<Rightarrow> bool" where
  "weak_order lt A \<longleftrightarrow>
     (\<forall>x\<in>A. \<not> lt x x) \<and>
     (\<forall>x\<in>A. \<forall>y\<in>A. \<forall>z\<in>A. lt x y \<longrightarrow> lt y z \<longrightarrow> lt x z) \<and>
     (\<forall>x\<in>A. \<forall>y\<in>A. \<forall>z\<in>A. \<not> lt x y \<longrightarrow> \<not> lt y z \<longrightarrow> \<not> lt x z)"

definition no_inversion :: "('a \<Rightarrow> 'a \<Rightarrow> bool) \<Rightarrow> 'a list \<Rightarrow> bool" where
  "no_inversion lt xs \<longleftrightarrow> sorted_wrt (\<lambda>x y. \<not> lt y x) xs"

definition sort_spec :: "(('a \<Rightarrow> 'a \<Rightarrow> bool) \<Rightarrow> 'a list \<Rightarrow> 'a list) \<Rightarrow> bool" where
  "sort_spec srt \<longleftrightarrow> (\<forall>lt xs. mset (srt lt xs) = mset xs \<and>
     (weak_order lt (set xs) \<longrightarrow> no_inversion lt (srt lt xs)))"

section \<open>Formatting and joining strings\<close>

text \<open>\<open>fmt.Sprintf("%d", n)\<close> for a non-negative number, and \<open>strings.Join\<close>.\<close>

fun show_nat :: "nat \<Rightarrow> string" where
  "show_nat n = (if n < 10 then [char_of (48 + n)] else show_nat (n div 10) @ [char_of (48 + n mod 10)])"

declare show_nat.simps [simp del]

fun strings_Join :: "string list \<Rightarrow> string \<Rightarrow> string" where
  "strings_Join [] sep = []"
| "strings_Join [x] sep = x"
| "strings_Join (x # y # xs) sep = x @ sep @ strings_Join (y # xs) sep"

section \<open>Generic lemmas\<close>

lemma go_bind_Ret_iff [simp]: "go_bind m f = Ret y \<longleftrightarrow> (\<exists>x. m = Ret x \<and> f x = Ret y)"
  by (cases m) auto

lemma returns_iff: "returns m \<longleftrightarrow> (\<exists>x. m = Ret x)"
  by (cases m) auto

lemma go_fold_append: "go_fold f (xs @ ys) s = go_bind (go_fold f xs s) (go_fold f ys)"
proof (induction xs arbitrary: s)
  case (Cons x xs)
  then show ?case by (cases "f x s") auto
qed simp

lemma wf_map_Nil [simp, intro]: "wf_map []"
  by (simp add: wf_map_def)

lemma wf_map_mput [simp, intro, wf_intros]: "wf_map m \<Longrightarrow> wf_map (mput k v m)"
  by (simp add: wf_map_def distinct_update)

lemma wf_map_mdel [simp, intro, wf_intros]: "wf_map m \<Longrightarrow> wf_map (mdel k m)"
  by (simp add: wf_map_def distinct_delete)

lemma mget_mput [simp]: "mget (mput k v m) k' = (if k' = k then Some v else mget m k')"
  by (simp add: update_conv')

lemma mget_mdel [simp]: "mget (mdel k m) k' = (if k' = k then None else mget m k')"
  by (simp add: delete_conv')

lemma set_mkeys_mput [simp]: "fst ` set (mput k v m) = insert k (fst ` set m)"
  by (induction m) auto

declare AList.update.simps [simp del, go_simps]

lemma mput_not_Nil [simp]: "mput k v m \<noteq> []"
  by (cases m) (auto simp: AList.update.simps)

lemma set_mkeys_mdel [simp]: "fst ` set (mdel k m) = fst ` set m - {k}"
  by (force simp: AList.delete_eq)

lemma mget_None_iff: "mget m k = None \<longleftrightarrow> k \<notin> set (mkeys m)"
  by (simp add: map_of_eq_None_iff)

lemma mget_Some_key: "mget m k = Some v \<Longrightarrow> k \<in> set (mkeys m)"
  using mget_None_iff [of m k] by auto

lemma range_of_mem [dest]: "range_of m ks \<Longrightarrow> k \<in> set ks \<longleftrightarrow> mget m k \<noteq> None"
  by (simp add: range_of_def mget_None_iff)

lemma range_of_keys [simp, intro]: "wf_map m \<Longrightarrow> range_of m (mkeys m)"
  by (simp add: wf_map_def range_of_def)

lemma range_of_length: "wf_map m \<Longrightarrow> range_of m ks \<Longrightarrow> length ks = length m"
proof -
  assume wf: "wf_map m" and rng: "range_of m ks"
  from rng have "length ks = card (set (mkeys m))"
    by (metis distinct_card range_of_def)
  also from wf have "\<dots> = length m"
    by (metis distinct_card length_map wf_map_def)
  finally show ?thesis .
qed

lemma wf_map_merge [simp, intro]: "wf_map m1 \<Longrightarrow> wf_map (map_merge m1 m2)"
  unfolding map_merge_def by (induction m2 arbitrary: m1) auto

lemma mget_map_merge [simp]:
  "wf_map m2 \<Longrightarrow>
     mget (map_merge m1 m2) k = (case mget m2 k of None \<Rightarrow> mget m1 k | Some v \<Rightarrow> Some v)"
proof (induction m2 arbitrary: m1)
  case (Cons p m2)
  obtain a b where p: "p = (a, b)" by (cases p)
  from Cons.prems p have wf: "wf_map m2" and "mget m2 a = None"
    by (auto simp: wf_map_def map_of_eq_None_iff)
  with Cons.IH [OF wf, of "mput a b m1"] p show ?case
    by (auto simp: map_merge_def split: option.splits)
qed (simp add: map_merge_def)

lemma set_mkeys_merge [simp]: "fst ` set (map_merge m1 m2) = fst ` set m1 \<union> fst ` set m2"
proof (induction m2 arbitrary: m1)
  case (Cons p m2)
  then have "fst ` set (map_merge (mput (fst p) (snd p) m1) m2) =
      fst ` set (mput (fst p) (snd p) m1) \<union> fst ` set m2"
    by blast
  then show ?case by (simp add: map_merge_def split_beta)
qed (simp add: map_merge_def)

lemma go_map_Ret_iff: "returns (go_map f xs) \<longleftrightarrow> (\<forall>x\<in>set xs. returns (f x))"
  by (induction xs) (auto simp: returns_iff)

lemma go_map_length: "go_map f xs = Ret ys \<Longrightarrow> length ys = length xs"
  by (induction xs arbitrary: ys) auto

lemma int64_id: "- (2 ^ 63) \<le> x \<Longrightarrow> x < 2 ^ 63 \<Longrightarrow> int64 x = x"
  by (simp add: int64_def)

lemma int64_range: "- (2 ^ 63) \<le> int64 x \<and> int64 x < 2 ^ 63"
  using pos_mod_bound [of "2 ^ 64" "x + 2 ^ 63"] pos_mod_sign [of "2 ^ 64" "x + 2 ^ 63"]
  by (simp add: int64_def)

lemma mset_go_insert [simp]: "mset (go_insert lt x xs) = add_mset x (mset xs)"
  by (induction xs) auto

lemma mset_go_sort [simp]: "mset (go_sort lt xs) = mset xs"
  by (induction xs) auto

lemma set_go_insert [simp]: "set (go_insert lt x xs) = insert x (set xs)"
  by (induction xs) auto

lemma set_go_sort [simp]: "set (go_sort lt xs) = set xs"
  by (induction xs) auto

lemma length_go_sort [simp]: "length (go_sort lt xs) = length xs"
  by (metis mset_go_sort size_mset)

lemma weak_order_subset: "weak_order lt A \<Longrightarrow> B \<subseteq> A \<Longrightarrow> weak_order lt B"
  unfolding weak_order_def by (meson subsetD)

lemma no_inversion_insert:
  "weak_order lt (insert x (set xs)) \<Longrightarrow> no_inversion lt xs \<Longrightarrow>
   no_inversion lt (go_insert lt x xs)"
proof (induction xs)
  case (Cons y ys)
  have wo: "weak_order lt (insert x (set ys))"
    using Cons.prems(1) by (rule weak_order_subset) auto
  show ?case
  proof (cases "lt y x")
    case True
    then have "\<not> lt x y"
      using Cons.prems(1) unfolding weak_order_def by (meson insertCI list.set_intros(1))
    with True Cons.IH [OF wo] Cons.prems(2) show ?thesis
      by (auto simp: no_inversion_def)
  next
    case False
    have "\<not> lt z x" if "z \<in> set ys" for z
    proof -
      have "\<not> lt z y" using that Cons.prems(2) by (auto simp: no_inversion_def)
      with False that Cons.prems(1) show ?thesis
        unfolding weak_order_def by (meson insertCI list.set_intros)
    qed
    with False Cons.prems(2) show ?thesis by (auto simp: no_inversion_def)
  qed
qed (simp add: no_inversion_def)

lemma no_inversion_go_sort: "weak_order lt (set xs) \<Longrightarrow> no_inversion lt (go_sort lt xs)"
proof (induction xs)
  case (Cons x xs)
  have "weak_order lt (set xs)"
    using Cons.prems by (rule weak_order_subset) auto
  then show ?case using Cons by (auto intro!: no_inversion_insert)
qed (simp add: no_inversion_def)

lemma sort_spec_go_sort: "sort_spec go_sort"
  by (simp add: sort_spec_def no_inversion_go_sort)

end
