(* ===== verification/Kube_Types.thy ===== *)
theory Kube_Types
  imports Prelude
begin

text \<open>
  \<open>pkg/kube_events_manager/types/types.go\<close>: objects with their filter result, the events that
  monitors send, the order in which snapshots are sorted, and the selectors of a monitor.
  A Kubernetes object (\<open>unstructured.Unstructured\<close>, third-party) is known through its
  namespace, kind and name; the rest of its content is the uninterpreted field \<open>o_Data\<close>.
  A method call on a nil object pointer panics.
\<close>

section \<open>Data\<close>

record k8s_object =
  o_Namespace :: string
  o_Kind :: string
  o_Name :: string
  o_Data :: string

type_synonym WatchEventType = string

abbreviation WatchEventAdded :: WatchEventType where "WatchEventAdded \<equiv> ''Added''"
abbreviation WatchEventModified :: WatchEventType where "WatchEventModified \<equiv> ''Modified''"
abbreviation WatchEventDeleted :: WatchEventType where "WatchEventDeleted \<equiv> ''Deleted''"

type_synonym KubeEventType = string

abbreviation TypeSynchronization :: KubeEventType where
  "TypeSynchronization \<equiv> ''Synchronization''"
abbreviation TypeEvent :: KubeEventType where "TypeEvent \<equiv> ''Event''"

type_synonym KubeEventMode = string

abbreviation ModeV0 :: KubeEventMode where "ModeV0 \<equiv> ''v0''"
abbreviation ModeIncremental :: KubeEventMode where "ModeIncremental \<equiv> ''Incremental''"

record ObjectAndFilterResult =
  ofr_JqFilter :: string
  ofr_Checksum :: string
  ofr_ResourceId :: string
  ofr_RemoveObject :: bool
  ofr_Object :: "k8s_object option"
  ofr_FilterResult :: string
  ofr_ObjectBytes :: int

text \<open>The values of a \<open>map[string]interface{}\<close> that the code builds.\<close>

datatype json = JNull | JBool bool | JNum rat | JStr string | JArr "json list"
  | JObj "(string \<times> json) list"

datatype iface =
    INil
  | IStr string
  | IJson json
  | IObject "k8s_object option"
  | IObjects "ObjectAndFilterResult list"
  | ISnapshots "(string, ObjectAndFilterResult list) gomap"
  | IEmptyMap
  | IEmptyList

section \<open>Objects and filter results\<close>

text \<open>\<open>json.Unmarshal\<close> of a filter result is the parameter \<open>unmarshal\<close> (\<open>None\<close> for an error).\<close>

definition ObjectAndFilterResult_Map ::
    "(string \<Rightarrow> json option) \<Rightarrow> ObjectAndFilterResult \<Rightarrow> (string, iface) gomap" where
  "ObjectAndFilterResult_Map unmarshal r =
     (let m = (if \<not> ofr_RemoveObject r then mput ''object'' (IObject (ofr_Object r)) [] else [])
      in if ofr_JqFilter r = [] then m
         else if ofr_FilterResult r = [] then mput ''filterResult'' INil m
         else case unmarshal (ofr_FilterResult r) of
                None \<Rightarrow> mput ''filterResult'' INil m
              | Some res \<Rightarrow> mput ''filterResult'' (IJson res) m)"

definition RemoveFullObject :: "ObjectAndFilterResult \<Rightarrow> ObjectAndFilterResult" where
  "RemoveFullObject r = r\<lparr>ofr_Object := None, ofr_ObjectBytes := 0, ofr_RemoveObject := True\<rparr>"

definition ObjectAndFilterResults_Bytes ::
    "(string, ObjectAndFilterResult) gomap \<Rightarrow> string list \<Rightarrow> int" where
  "ObjectAndFilterResults_Bytes a ks =
     foldl (\<lambda>size k. case mget a k of
        None \<Rightarrow> size
      | Some r \<Rightarrow> int64 (int64 (size + int (length (ofr_FilterResult r))) + ofr_ObjectBytes r)) 0 ks"

text \<open>\<open>ByNamespaceAndName.Less\<close>.\<close>

definition ByNamespaceAndName_Less ::
    "ObjectAndFilterResult \<Rightarrow> ObjectAndFilterResult \<Rightarrow> bool" where
  "ByNamespaceAndName_Less p q =
     (case (ofr_Object p, ofr_Object q) of
        (Some a, Some b) \<Rightarrow>
          if o_Namespace a < o_Namespace b then True
          else if o_Namespace a > o_Namespace b then False
          else o_Name a < o_Name b
      | _ \<Rightarrow> ofr_ResourceId p < ofr_ResourceId q)"

section \<open>Events\<close>

record KubeEvent =
  ke_MonitorId :: string
  ke_Type :: KubeEventType
  ke_WatchEvents :: "WatchEventType list"
  ke_Objects :: "ObjectAndFilterResult list"

definition object_path :: "k8s_object \<Rightarrow> string" where
  "object_path obj = o_Namespace obj @ ''/'' @ o_Kind obj @ ''/'' @ o_Name obj"

definition KubeEvent_String :: "KubeEvent \<Rightarrow> string go" where
  "KubeEvent_String k =
     (if ke_Type k = TypeSynchronization then
        (case ke_Objects k of
           [] \<Rightarrow> Ret ''Synchronization with 0 objects''
         | r # _ \<Rightarrow>
             (case ofr_Object r of
                None \<Rightarrow> Panic
              | Some obj \<Rightarrow> Ret (''Synchronization with '' @ show_nat (length (ke_Objects k)) @
                  '' objects of kind '' @ [CHR 0x27] @ o_Kind obj @ [CHR 0x27])))
      else if ke_Type k = TypeEvent then
        (case ke_Objects k of
           [r] \<Rightarrow>
             (case (ke_WatchEvents k, ofr_Object r) of
                (w # _, Some obj) \<Rightarrow>
                  Ret (''Event '' @ [CHR 0x27] @ w @ [CHR 0x27] @ '' for '' @ object_path obj)
              | (w # _, None) \<Rightarrow>
                  Ret (''Event '' @ [CHR 0x27] @ w @ [CHR 0x27] @ '' without object'')
              | ([], Some obj) \<Rightarrow>
                  Ret (''Event with no kubernetes event type for '' @ object_path obj)
              | ([], None) \<Rightarrow> Ret ''Event with no kubernetes event type'')
         | _ \<Rightarrow>
             (case ke_WatchEvents k of
                w # _ \<Rightarrow> Ret (''Event '' @ [CHR 0x27] @ w @ [CHR 0x27] @ '' without objects'')
              | [] \<Rightarrow> Ret ''Event without objects and kubernetes event type''))
      else
        Ret (''unknown type: '' @ [CHR 0x27] @ ke_Type k @ [CHR 0x27] @ '' from monitor '' @
             [CHR 0x27] @ ke_MonitorId k @ [CHR 0x27]))"

section \<open>Selectors\<close>

record NameSelector =
  ns_MatchNames :: "string list"

record FieldSelectorRequirement =
  fr_Field :: string
  fr_Operator :: string
  fr_Value :: string

text \<open>\<open>None\<close> is the nil slice, which the code tells from an empty one.\<close>

record FieldSelector =
  fs_MatchExpressions :: "FieldSelectorRequirement list option"

text \<open>\<open>metav1.LabelSelector\<close> is third-party; the code only copies its two fields.\<close>

record LabelSelector =
  ls_MatchLabels :: "(string, string) gomap"
  ls_MatchExpressions :: "(string \<times> string \<times> string list) list"

record NamespaceSelector =
  nss_NameSelector :: "NameSelector option"
  nss_LabelSelector :: "LabelSelector option"

section \<open>The snapshot order\<close>

text \<open>
  The order used for snapshots is a strict weak order as long as all objects are kept in memory,
  or none is. A monitor never mixes the two: it drops objects by its own configuration flag.
\<close>

definition uniform_objects :: "ObjectAndFilterResult set \<Rightarrow> bool" where
  "uniform_objects A \<longleftrightarrow> (\<forall>r\<in>A. ofr_Object r \<noteq> None) \<or> (\<forall>r\<in>A. ofr_Object r = None)"

lemma weak_order_key:
  fixes key :: "'a \<Rightarrow> 'k :: linorder"
  assumes "\<And>p q. p \<in> A \<Longrightarrow> q \<in> A \<Longrightarrow> lt p q \<longleftrightarrow> key p < key q"
  shows "weak_order lt A"
  unfolding weak_order_def using assms by (auto simp: not_less intro: less_trans order_trans)

lemma ByNamespaceAndName_weak_order:
  assumes "uniform_objects A"
  shows "weak_order ByNamespaceAndName_Less A"
proof (cases "\<forall>r\<in>A. ofr_Object r = None")
  case True
  then show ?thesis
    by (intro weak_order_key [where key = ofr_ResourceId])
      (auto simp: ByNamespaceAndName_Less_def)
next
  case False
  with assms have some: "\<forall>r\<in>A. ofr_Object r \<noteq> None" by (auto simp: uniform_objects_def)
  define key where "key r = (case ofr_Object r of None \<Rightarrow> [] | Some a \<Rightarrow> [o_Namespace a, o_Name a])"
    for r :: ObjectAndFilterResult
  show ?thesis
  proof (rule weak_order_key [where key = key])
    fix p q assume "p \<in> A" "q \<in> A"
    with some obtain a b where "ofr_Object p = Some a" "ofr_Object q = Some b" by blast
    then show "ByNamespaceAndName_Less p q \<longleftrightarrow> key p < key q"
      by (auto simp: ByNamespaceAndName_Less_def key_def)
  qed
qed

end
