(* ===== verification/Binding_Context.thy ===== *)
theory Binding_Context
  imports Kube_Types
begin

text \<open>
  \<open>pkg/hook/types/bindings.go\<close> (the binding types) and
  \<open>pkg/hook/binding_context/binding_context.go\<close>: the record that a hook receives, and its
  rendering as a JSON map for the two versions of hook configurations.
\<close>

section \<open>Data\<close>

type_synonym BindingType = string

abbreviation Schedule :: BindingType where "Schedule \<equiv> ''schedule''"
abbreviation OnStartup :: BindingType where "OnStartup \<equiv> ''onStartup''"
abbreviation OnKubernetesEvent :: BindingType where "OnKubernetesEvent \<equiv> ''kubernetes''"

record BindingContext =
  bc_Version :: string
  bc_BindingType :: BindingType
  bc_JqFilter :: string
  bc_IncludeSnapshots :: "string list"
  bc_IncludeAllSnapshots :: bool
  bc_Group :: string
  bc_Binding :: string
  bc_Type :: KubeEventType
  bc_WatchEvent :: WatchEventType
  bc_Objects :: "ObjectAndFilterResult list"
  bc_Snapshots :: "(string, ObjectAndFilterResult list) gomap"

text \<open>The zero value of the struct.\<close>

definition empty_bc :: BindingContext where
  "empty_bc = \<lparr>bc_Version = [], bc_BindingType = [], bc_JqFilter = [], bc_IncludeSnapshots = [],
     bc_IncludeAllSnapshots = False, bc_Group = [], bc_Binding = [], bc_Type = [],
     bc_WatchEvent = [], bc_Objects = [], bc_Snapshots = []\<rparr>"

section \<open>Rendering\<close>

text \<open>\<open>MapV1\<close> in its three parts: the snapshots, the fields of a kubernetes event, the dispatch.\<close>

definition MapV1_snapshots :: "BindingContext \<Rightarrow> (string, iface) gomap \<Rightarrow> (string, iface) gomap" where
  "MapV1_snapshots bc res =
     (if bc_IncludeSnapshots bc \<noteq> [] \<or> bc_IncludeAllSnapshots bc then
        (if bc_Snapshots bc \<noteq> []
         then mput ''snapshots'' (ISnapshots (bc_Snapshots bc)) res
         else mput ''snapshots'' IEmptyMap res)
      else res)"

definition MapV1_kubernetes ::
    "(string \<Rightarrow> json option) \<Rightarrow> BindingContext \<Rightarrow> (string, iface) gomap \<Rightarrow> (string, iface) gomap" where
  "MapV1_kubernetes unmarshal bc res =
     (let res = mput ''type'' (IStr (bc_Type bc)) res;
          res = (if bc_WatchEvent bc \<noteq> []
                 then mput ''watchEvent'' (IStr (bc_WatchEvent bc)) res else res)
      in
      if bc_Type bc = TypeSynchronization then
        (case bc_Objects bc of
           [] \<Rightarrow> mput ''objects'' IEmptyList res
         | _ \<Rightarrow> mput ''objects'' (IObjects (bc_Objects bc)) res)
      else if bc_Type bc = TypeEvent then
        (case bc_Objects bc of
           [] \<Rightarrow>
             (let res = mput ''object'' INil res
              in if bc_JqFilter bc \<noteq> [] then mput ''filterResult'' (IStr []) res else res)
         | obj # _ \<Rightarrow> map_merge res (ObjectAndFilterResult_Map unmarshal obj))
      else res)"

definition BindingContext_MapV1 ::
    "(string \<Rightarrow> json option) \<Rightarrow> BindingContext \<Rightarrow> (string, iface) gomap" where
  "BindingContext_MapV1 unmarshal bc =
     (let res = mput ''binding'' (IStr (bc_Binding bc)) [] in
      if bc_BindingType bc = OnStartup then res
      else
        let res = MapV1_snapshots bc res in
        if bc_Group bc \<noteq> [] then
          mput ''type'' (IStr ''Group'') (mput ''binding'' (IStr (bc_Group bc)) res)
        else if bc_BindingType bc = Schedule then mput ''type'' (IStr ''Schedule'') res
        else if bc_BindingType bc \<noteq> OnKubernetesEvent \<or> bc_Type bc = [] then res
        else MapV1_kubernetes unmarshal bc res)"

definition event_name_v0 :: "WatchEventType \<Rightarrow> string" where
  "event_name_v0 w =
     (if w = WatchEventAdded then ''add''
      else if w = WatchEventModified then ''update''
      else if w = WatchEventDeleted then ''delete''
      else [])"

definition BindingContext_MapV0 :: "BindingContext \<Rightarrow> (string, iface) gomap go" where
  "BindingContext_MapV0 bc =
     (let res = mput ''binding'' (IStr (bc_Binding bc)) [] in
      if bc_BindingType bc \<noteq> OnKubernetesEvent then Ret res
      else
        let res = mput ''resourceEvent'' (IStr (event_name_v0 (bc_WatchEvent bc))) res in
        case bc_Objects bc of
          [] \<Rightarrow> Ret res
        | r # _ \<Rightarrow>
            (case ofr_Object r of
               None \<Rightarrow> Panic
             | Some obj \<Rightarrow>
                 Ret (mput ''resourceName'' (IStr (o_Name obj))
                       (mput ''resourceKind'' (IStr (o_Kind obj))
                         (mput ''resourceNamespace'' (IStr (o_Namespace obj)) res)))))"

definition BindingContext_Map ::
    "(string \<Rightarrow> json option) \<Rightarrow> BindingContext \<Rightarrow> (string, iface) gomap go" where
  "BindingContext_Map unmarshal bc =
     (if bc_Version bc = ''v0'' then BindingContext_MapV0 bc
      else if bc_Version bc = ''v1'' then Ret (BindingContext_MapV1 unmarshal bc)
      else Ret [])"

definition ConvertBindingContextList ::
    "(string \<Rightarrow> json option) \<Rightarrow> string \<Rightarrow> BindingContext list \<Rightarrow> (string, iface) gomap list go" where
  "ConvertBindingContextList unmarshal version contexts =
     go_map (\<lambda>bc. BindingContext_Map unmarshal (bc\<lparr>bc_Version := version\<rparr>)) contexts"

section \<open>What a hook sees\<close>

lemma wf_ofr_Map [simp]: "wf_map (ObjectAndFilterResult_Map unmarshal r)"
  by (auto simp: ObjectAndFilterResult_Map_def Let_def split: option.splits)

lemma ofr_Map_no_type [simp]:
  "mget (ObjectAndFilterResult_Map unmarshal r) ''type'' = None"
  "mget (ObjectAndFilterResult_Map unmarshal r) ''watchEvent'' = None"
  "mget (ObjectAndFilterResult_Map unmarshal r) ''binding'' = None"
  "mget (ObjectAndFilterResult_Map unmarshal r) ''snapshots'' = None"
  by (auto simp: ObjectAndFilterResult_Map_def Let_def split: option.splits)

lemma mget_MapV1_snapshots:
  "mget (MapV1_snapshots bc res) k =
     (if k = ''snapshots'' \<and> (bc_IncludeSnapshots bc \<noteq> [] \<or> bc_IncludeAllSnapshots bc)
      then Some (if bc_Snapshots bc \<noteq> [] then ISnapshots (bc_Snapshots bc) else IEmptyMap)
      else mget res k)"
  by (auto simp: MapV1_snapshots_def)

lemma mget_MapV1_kubernetes:
  "mget (MapV1_kubernetes unmarshal bc res) ''type'' = Some (IStr (bc_Type bc))"
  "mget (MapV1_kubernetes unmarshal bc res) ''binding'' = mget res ''binding''"
  "mget (MapV1_kubernetes unmarshal bc res) ''snapshots'' = mget res ''snapshots''"
  by (simp_all add: MapV1_kubernetes_def Let_def split: list.split)

text \<open>
  The \<open>type\<close> and \<open>binding\<close> fields that a v1 hook reads: a startup context has no type, a
  grouped one is a \<open>Group\<close> named after the group whatever caused it, a schedule one is a
  \<open>Schedule\<close>, and an ungrouped kubernetes one carries its event type.
\<close>

theorem MapV1_type_and_binding:
  "mget (BindingContext_MapV1 unmarshal bc) ''type'' =
     (if bc_BindingType bc = OnStartup then None
      else if bc_Group bc \<noteq> [] then Some (IStr ''Group'')
      else if bc_BindingType bc = Schedule then Some (IStr ''Schedule'')
      else if bc_BindingType bc = OnKubernetesEvent \<and> bc_Type bc \<noteq> []
        then Some (IStr (bc_Type bc))
      else None) \<and>
   mget (BindingContext_MapV1 unmarshal bc) ''binding'' =
     Some (IStr (if bc_BindingType bc \<noteq> OnStartup \<and> bc_Group bc \<noteq> []
                 then bc_Group bc else bc_Binding bc)) \<and>
   (mget (BindingContext_MapV1 unmarshal bc) ''snapshots'' \<noteq> None \<longleftrightarrow>
     bc_BindingType bc \<noteq> OnStartup \<and> (0 < length (bc_IncludeSnapshots bc) \<or> bc_IncludeAllSnapshots bc))"
  by (simp add: BindingContext_MapV1_def Let_def mget_MapV1_snapshots mget_MapV1_kubernetes)

text \<open>
  Rendering a list of contexts for a v1 hook always returns, one map per context, while for a
  v0 hook it panics exactly when some kubernetes context carries a first object that was dropped
  from memory.
\<close>

theorem ConvertBindingContextList_returns:
  "returns (ConvertBindingContextList unmarshal version contexts) \<longleftrightarrow>
     version \<noteq> ''v0'' \<or>
     (\<forall>bc\<in>set contexts. bc_BindingType bc = OnKubernetesEvent \<longrightarrow>
        (case bc_Objects bc of [] \<Rightarrow> True | r # _ \<Rightarrow> ofr_Object r \<noteq> None))"
proof -
  have "returns (BindingContext_Map unmarshal (bc\<lparr>bc_Version := version\<rparr>)) \<longleftrightarrow>
      version \<noteq> ''v0'' \<or> (bc_BindingType bc = OnKubernetesEvent \<longrightarrow>
        (case bc_Objects bc of [] \<Rightarrow> True | r # _ \<Rightarrow> ofr_Object r \<noteq> None))" for bc
    by (auto simp: BindingContext_Map_def BindingContext_MapV0_def Let_def
        split: list.splits option.splits)
  then show ?thesis by (auto simp: ConvertBindingContextList_def go_map_Ret_iff)
qed

theorem ConvertBindingContextList_returns_witness:
  "returns (ConvertBindingContextList (\<lambda>_. None) ''v1'' [empty_bc]) \<and>
   \<not> returns (ConvertBindingContextList (\<lambda>_. None) ''v0''
      [empty_bc\<lparr>bc_BindingType := OnKubernetesEvent, bc_Objects :=
         [\<lparr>ofr_JqFilter = [], ofr_Checksum = [], ofr_ResourceId = [], ofr_RemoveObject = True,
           ofr_Object = None, ofr_FilterResult = [], ofr_ObjectBytes = 0\<rparr>]\<rparr>])"
  unfolding ConvertBindingContextList_returns by (simp add: empty_bc_def)

end
