(* ===== verification/Labels.thy ===== *)
theory Labels
  imports Prelude
begin

text \<open>
  \<open>pkg/utils/labels/labels.go\<close>: label maps. \<open>sort.Strings\<close> sorts by the bytewise order, which is
  total on strings, so its result is the library's \<open>sort\<close>.
\<close>

type_synonym labels = "(string, string) gomap"

definition MergeLabels :: "labels list \<Rightarrow> labels" where
  "MergeLabels labelsMaps = foldl map_merge [] labelsMaps"

definition LabelNames :: "labels \<Rightarrow> string list \<Rightarrow> string list" where
  "LabelNames labels ks = sort ks"

text \<open>Reading a missing key of a Go map yields the zero value, the empty string.\<close>

definition LabelValues :: "labels \<Rightarrow> string list \<Rightarrow> string list" where
  "LabelValues labels labelNames =
     map (\<lambda>name. case mget labels name of None \<Rightarrow> [] | Some v \<Rightarrow> v) labelNames"

lemma wf_foldl_merge: "wf_map m \<Longrightarrow> wf_map (foldl map_merge m ms)"
  by (induction ms arbitrary: m) auto

lemma wf_MergeLabels [simp, intro]: "wf_map (MergeLabels ms)"
  by (simp add: MergeLabels_def wf_foldl_merge)

lemma mget_MergeLabels2:
  "wf_map a \<Longrightarrow> wf_map b \<Longrightarrow>
     mget (MergeLabels [a, b]) k = (case mget b k of None \<Rightarrow> mget a k | Some v \<Rightarrow> Some v)"
  by (simp add: MergeLabels_def split: option.splits)

lemma set_mkeys_MergeLabels2:
  "set (mkeys (MergeLabels [a, b])) = set (mkeys a) \<union> set (mkeys b)"
  by (simp add: MergeLabels_def)

text \<open>The label names do not depend on the order in which the map was ranged over.\<close>

lemma LabelNames_order_irrelevant:
  assumes "range_of m ks" "range_of m ks'"
  shows "LabelNames m ks = LabelNames m ks'"
proof -
  have "mset ks = mset ks'"
    using assms by (metis range_of_def set_eq_iff_mset_eq_distinct)
  then show ?thesis by (simp add: LabelNames_def properties_for_sort)
qed

lemma LabelNames_range: "range_of m ks \<Longrightarrow>
  sorted (LabelNames m ks) \<and> distinct (LabelNames m ks) \<and> set (LabelNames m ks) = set (mkeys m)"
  by (simp add: LabelNames_def range_of_def)

end
