(* ===== verification/Task.thy ===== *)
theory Task
  imports Binding_Context Labels
begin

text \<open>
  \<open>pkg/task/task.go\<close> and \<open>pkg/hook/task_metadata/task_metadata.go\<close>: the tasks that queues hold.
  Tasks are pointers in the code: queues hold references, and a task heap maps a reference to the
  current content of the task, so that a handler's change of a task is seen by every queue that
  holds it. A new task takes its identifier (\<open>uuid.NewV4\<close>, third-party) as an argument.
\<close>

section \<open>Hook metadata\<close>

record HookMetadata =
  hm_HookName :: string
  hm_Binding :: string
  hm_Group :: string
  hm_BindingType :: BindingType
  hm_BindingContext :: "BindingContext list"
  hm_AllowFailure :: bool

definition empty_HookMetadata :: HookMetadata where
  "empty_HookMetadata = \<lparr>hm_HookName = [], hm_Binding = [], hm_Group = [], hm_BindingType = [],
     hm_BindingContext = [], hm_AllowFailure = False\<rparr>"

text \<open>\<open>interface{}\<close>: nil, a \<open>HookMetadata\<close>, or a value of another type.\<close>

datatype metadata = MetaNil | MetaHook HookMetadata | MetaOther

definition HookMetadata_WithHookName :: "string \<Rightarrow> HookMetadata \<Rightarrow> HookMetadata" where
  "HookMetadata_WithHookName name m = m\<lparr>hm_HookName := name\<rparr>"

definition HookMetadata_WithBinding :: "BindingType \<Rightarrow> HookMetadata \<Rightarrow> HookMetadata" where
  "HookMetadata_WithBinding binding m = m\<lparr>hm_BindingType := binding\<rparr>"

definition HookMetadata_WithBindingContext :: "BindingContext list \<Rightarrow> HookMetadata \<Rightarrow> HookMetadata" where
  "HookMetadata_WithBindingContext context m = m\<lparr>hm_BindingContext := context\<rparr>"

definition HookMetadata_AppendBindingContext :: "BindingContext \<Rightarrow> HookMetadata \<Rightarrow> HookMetadata" where
  "HookMetadata_AppendBindingContext context m =
     m\<lparr>hm_BindingContext := hm_BindingContext m @ [context]\<rparr>"

definition HookMetadata_WithAllowFailure :: "bool \<Rightarrow> HookMetadata \<Rightarrow> HookMetadata" where
  "HookMetadata_WithAllowFailure allowFailure m = m\<lparr>hm_AllowFailure := allowFailure\<rparr>"

definition HookMetadata_GetDescription :: "HookMetadata \<Rightarrow> string" where
  "HookMetadata_GetDescription m =
     (let additional = (if hm_Group m \<noteq> [] then '':group='' @ hm_Group m else []);
          additional = (if hm_Binding m \<noteq> [] then additional @ '':'' @ hm_Binding m else additional)
      in hm_BindingType m @ '':'' @ hm_HookName m @ additional)"

section \<open>Tasks\<close>

type_synonym TaskType = string

abbreviation HookRun :: TaskType where "HookRun \<equiv> ''HookRun''"
abbreviation EnableKubernetesBindings :: TaskType where
  "EnableKubernetesBindings \<equiv> ''EnableKubernetesBindings''"
abbreviation EnableScheduleBindings :: TaskType where
  "EnableScheduleBindings \<equiv> ''EnableScheduleBindings''"

record BaseTask =
  t_Id :: string
  t_Type :: TaskType
  t_LogLabels :: labels
  t_FailureCount :: int
  t_FailureMessage :: string
  t_QueueName :: string
  t_QueuedAt :: int
  t_Metadata :: metadata

definition NewTask :: "string \<Rightarrow> TaskType \<Rightarrow> BaseTask" where
  "NewTask taskId taskType =
     \<lparr>t_Id = taskId, t_Type = taskType, t_LogLabels = [(''task.id'', taskId)], t_FailureCount = 0,
      t_FailureMessage = [], t_QueueName = [], t_QueuedAt = 0, t_Metadata = MetaNil\<rparr>"

definition WithLogLabels :: "labels \<Rightarrow> BaseTask \<Rightarrow> BaseTask" where
  "WithLogLabels labels t = t\<lparr>t_LogLabels := MergeLabels [t_LogLabels t, labels]\<rparr>"

definition WithQueueName :: "string \<Rightarrow> BaseTask \<Rightarrow> BaseTask" where
  "WithQueueName name t = t\<lparr>t_QueueName := name\<rparr>"

definition WithMetadata :: "metadata \<Rightarrow> BaseTask \<Rightarrow> BaseTask" where
  "WithMetadata meta t = t\<lparr>t_Metadata := meta\<rparr>"

definition WithQueuedAt :: "int \<Rightarrow> BaseTask \<Rightarrow> BaseTask" where
  "WithQueuedAt queuedAt t = t\<lparr>t_QueuedAt := queuedAt\<rparr>"

definition UpdateMetadata :: "metadata \<Rightarrow> BaseTask \<Rightarrow> BaseTask" where
  "UpdateMetadata meta t = t\<lparr>t_Metadata := meta\<rparr>"

definition IncrementFailureCount :: "BaseTask \<Rightarrow> BaseTask" where
  "IncrementFailureCount t = t\<lparr>t_FailureCount := int64 (t_FailureCount t + 1)\<rparr>"

definition UpdateFailureMessage :: "string \<Rightarrow> BaseTask \<Rightarrow> BaseTask" where
  "UpdateFailureMessage msg t = t\<lparr>t_FailureMessage := msg\<rparr>"

definition BaseTask_GetDescription :: "BaseTask \<Rightarrow> string" where
  "BaseTask_GetDescription t =
     (let metaDescription = (case t_Metadata t of
            MetaHook m \<Rightarrow> '':'' @ HookMetadata_GetDescription m
          | _ \<Rightarrow> []);
          failDescription =
            (if t_FailureCount t > 0 then
               (let d = '':failures '' @ show_nat (nat (t_FailureCount t))
                in if t_FailureMessage t \<noteq> [] then d @ '':'' @ t_FailureMessage t else d)
             else [])
      in t_Type t @ '':'' @ t_QueueName t @ metaDescription @ failDescription)"

text \<open>\<open>HookMetadataAccessor\<close>: the zero value when the task has no hook metadata.\<close>

definition HookMetadataAccessor :: "BaseTask \<Rightarrow> HookMetadata" where
  "HookMetadataAccessor t =
     (case t_Metadata t of MetaHook m \<Rightarrow> m | _ \<Rightarrow> empty_HookMetadata)"

section \<open>The heap of tasks\<close>

type_synonym task_ref = nat
type_synonym task_heap = "task_ref \<Rightarrow> BaseTask"

text \<open>A method call \<open>t.f(..)\<close> that changes the task behind a reference.\<close>

definition heap_apply :: "(BaseTask \<Rightarrow> BaseTask) \<Rightarrow> task_ref \<Rightarrow> task_heap \<Rightarrow> task_heap" where
  "heap_apply f r h = h(r := f (h r))"

abbreviation ref_id :: "task_heap \<Rightarrow> task_ref \<Rightarrow> string" where
  "ref_id h r \<equiv> t_Id (h r)"

lemmas task_updates = WithLogLabels_def WithQueueName_def WithMetadata_def WithQueuedAt_def
  UpdateMetadata_def IncrementFailureCount_def UpdateFailureMessage_def

text \<open>No task method changes the identifier, so references keep their identifiers for ever.\<close>

lemma task_id_stable [simp]:
  "t_Id (WithLogLabels l t) = t_Id t" "t_Id (WithQueueName n t) = t_Id t"
  "t_Id (WithMetadata m t) = t_Id t" "t_Id (WithQueuedAt q t) = t_Id t"
  "t_Id (UpdateMetadata m t) = t_Id t" "t_Id (IncrementFailureCount t) = t_Id t"
  "t_Id (UpdateFailureMessage msg t) = t_Id t" "t_Id (NewTask i ty) = i"
  by (simp_all add: task_updates NewTask_def)

lemma heap_apply_same [simp]: "heap_apply f r h r = f (h r)"
  and heap_apply_other [simp]: "r' \<noteq> r \<Longrightarrow> heap_apply f r h r' = h r'"
  by (simp_all add: heap_apply_def)

lemma heap_apply_ids:
  "(\<And>t. t_Id (f t) = t_Id t) \<Longrightarrow> ref_id (heap_apply f r h) = ref_id h"
  by (rule ext) (simp add: heap_apply_def)

end
