(* ===== verification/Backoff.thy ===== *)
theory Backoff
  imports Prelude
begin

text \<open>
  \<open>pkg/utils/exponential_backoff/delay.go\<close>: the delay before a failed task is retried.
  Durations are nanosecond counts in \<open>int64\<close>; the random addend of \<open>rand.Int63n\<close> is the
  argument \<open>rnd\<close>, constrained by \<open>0 \<le> rnd < ExponentialDelayRandomMs\<close>.
\<close>

section \<open>Durations\<close>

type_synonym duration = int

definition Millisecond :: duration where
  "Millisecond = 1000000"

definition Second :: duration where
  "Second = 1000 * Millisecond"

text \<open>\<open>time.Duration.Truncate\<close>: rounds towards zero to a multiple of \<open>m\<close>.\<close>

definition Duration_Truncate :: "duration \<Rightarrow> duration \<Rightarrow> duration" where
  "Duration_Truncate d m = (if m \<le> 0 then d else d - sgn d * (\<bar>d\<bar> mod m))"

section \<open>The delay calculation\<close>

definition MaxExponentialBackoffDelay :: duration where
  "MaxExponentialBackoffDelay = 32 * Second"

definition ExponentialDelayRandomMs :: int where
  "ExponentialDelayRandomMs = 1000"

text \<open>\<open>int(math.Log(32) / math.Log(2))\<close>, see \<open>ExponentialCalculationsCount_log\<close>.\<close>

definition ExponentialCalculationsCount :: int where
  "ExponentialCalculationsCount = 5"

text \<open>
  \<open>int64(float64(time.Second) * math.Pow(2.0, float64(retryCount-1)))\<close>: scaling by a power of
  two is exact in binary floating point, and the conversion truncates.
\<close>

definition exponential_delta :: "int \<Rightarrow> duration" where
  "exponential_delta retryCount =
     (if 1 \<le> retryCount then Second * 2 ^ nat (retryCount - 1)
      else Second div 2 ^ nat (1 - retryCount))"

definition CalculateDelayWithMax :: "duration \<Rightarrow> duration \<Rightarrow> int \<Rightarrow> int \<Rightarrow> duration" where
  "CalculateDelayWithMax initialDelay maxDelay retryCount rnd =
     (if retryCount = 0 then initialDelay
      else
        let delayNs = (if retryCount \<le> ExponentialCalculationsCount
                       then exponential_delta retryCount else maxDelay);
            rndDelayNs = rnd * Millisecond;
            delay = int64 (int64 (initialDelay + delayNs) + rndDelayNs);
            delay' = Duration_Truncate delay (100 * Millisecond)
        in if delay' > maxDelay then maxDelay else delay')"

definition CalculateDelay :: "duration \<Rightarrow> int \<Rightarrow> int \<Rightarrow> duration" where
  "CalculateDelay initialDelay retryCount rnd =
     CalculateDelayWithMax initialDelay MaxExponentialBackoffDelay retryCount rnd"

section \<open>Correctness\<close>

lemmas duration_defs = Millisecond_def Second_def MaxExponentialBackoffDelay_def
  ExponentialDelayRandomMs_def ExponentialCalculationsCount_def

lemma ExponentialCalculationsCount_log:
  "of_int ExponentialCalculationsCount = ln 32 / ln (2 :: real)"
proof -
  have "ln (32 :: real) = ln (2 ^ 5)" by simp
  also have "\<dots> = 5 * ln 2" by (subst ln_realpow) auto
  finally show ?thesis by (simp add: ExponentialCalculationsCount_def)
qed

lemma Truncate_bounds:
  assumes "0 \<le> d" "0 < m"
  shows "d - m < Duration_Truncate d m \<and> Duration_Truncate d m \<le> d \<and>
    0 \<le> Duration_Truncate d m \<and> m dvd Duration_Truncate d m"
proof -
  have eq: "Duration_Truncate d m = d - d mod m"
    using assms by (cases "d = 0") (auto simp: Duration_Truncate_def)
  have "m dvd d - d mod m" by (simp add: minus_mod_eq_mult_div)
  with assms pos_mod_bound [of m d] pos_mod_sign [of m d] zmod_le_nonneg_dividend [of d m]
  show ?thesis unfolding eq by linarith
qed

lemma Truncate_mono_multiple:
  assumes "0 < m" "m dvd b" "0 \<le> b" "b \<le> d"
  shows "b \<le> Duration_Truncate d m"
proof -
  have "m dvd Duration_Truncate d m" and lo: "d - m < Duration_Truncate d m"
    using assms Truncate_bounds [of d m] by auto
  with \<open>m dvd b\<close> obtain j k where j: "Duration_Truncate d m = m * j" and k: "b = m * k"
    by (auto elim!: dvdE)
  from lo j k \<open>b \<le> d\<close> have "m * k < m * (j + 1)" by (simp add: algebra_simps)
  with \<open>0 < m\<close> have "k \<le> j" by simp
  with j k \<open>0 < m\<close> show ?thesis by simp
qed

lemma exponential_delta_range:
  assumes "n \<le> ExponentialCalculationsCount"
  shows "0 \<le> exponential_delta n \<and> exponential_delta n \<le> 16 * Second"
proof (cases "1 \<le> n")
  case True
  with assms have "n \<in> {1, 2, 3, 4, 5}" by (auto simp: ExponentialCalculationsCount_def)
  then show ?thesis by (auto simp: exponential_delta_def duration_defs)
next
  case False
  have "Second div 2 ^ nat (1 - n) \<le> Second div 1"
    by (rule zdiv_mono2) (simp_all add: duration_defs)
  with False show ?thesis
    by (simp add: exponential_delta_def duration_defs pos_imp_zdiv_nonneg_iff)
qed

text \<open>The core estimate: without overflow, a retry delay is the rounded sum, capped by the maximum.\<close>

lemma CalculateDelayWithMax_bounds:
  assumes n: "n \<noteq> 0" and i: "0 \<le> i" "i < 2 ^ 61" and m: "0 \<le> m" "m < 2 ^ 61"
    and r: "0 \<le> rnd" "rnd < ExponentialDelayRandomMs"
  shows "CalculateDelayWithMax i m n rnd \<le> m"
    and "100 * Millisecond dvd b \<Longrightarrow> 0 \<le> b \<Longrightarrow> b \<le> m \<Longrightarrow>
           b \<le> i + (if n \<le> ExponentialCalculationsCount then exponential_delta n else m) \<Longrightarrow>
           b \<le> CalculateDelayWithMax i m n rnd"
proof -
  define d where "d = (if n \<le> ExponentialCalculationsCount then exponential_delta n else m)"
  have d: "0 \<le> d" "d < 2 ^ 61"
    using exponential_delta_range [of n] m by (auto simp: d_def duration_defs split: if_splits)
  have s: "int64 (int64 (i + d) + rnd * Millisecond) = i + d + rnd * Millisecond"
    using i d r by (simp add: int64_id duration_defs)
  have eq: "CalculateDelayWithMax i m n rnd =
      min m (Duration_Truncate (i + d + rnd * Millisecond) (100 * Millisecond))"
    using n s by (simp add: CalculateDelayWithMax_def Let_def min_def d_def)
  show "CalculateDelayWithMax i m n rnd \<le> m" by (simp add: eq)
  assume "100 * Millisecond dvd b" "0 \<le> b" "b \<le> m"
    and "b \<le> i + (if n \<le> ExponentialCalculationsCount then exponential_delta n else m)"
  moreover from this r have "b \<le> i + d + rnd * Millisecond" by (simp add: d_def duration_defs)
  ultimately show "b \<le> CalculateDelayWithMax i m n rnd"
    unfolding eq by (simp add: Truncate_mono_multiple duration_defs)
qed

lemma CalculateDelay_range:
  assumes "0 \<le> rnd" "rnd < ExponentialDelayRandomMs"
  shows "5 * Second \<le> CalculateDelay (5 * Second) retryCount rnd"
    and "CalculateDelay (5 * Second) retryCount rnd \<le> MaxExponentialBackoffDelay"
    and "ExponentialCalculationsCount < retryCount \<Longrightarrow>
      CalculateDelay (5 * Second) retryCount rnd = MaxExponentialBackoffDelay"
proof (atomize (full), cases "retryCount = 0")
  case True
  then show "5 * Second \<le> CalculateDelay (5 * Second) retryCount rnd \<and>
    CalculateDelay (5 * Second) retryCount rnd \<le> MaxExponentialBackoffDelay \<and>
    (ExponentialCalculationsCount < retryCount \<longrightarrow>
      CalculateDelay (5 * Second) retryCount rnd = MaxExponentialBackoffDelay)"
    by (simp add: CalculateDelay_def CalculateDelayWithMax_def duration_defs)
next
  case False
  let ?i = "5 * Second" and ?m = MaxExponentialBackoffDelay
  have i: "0 \<le> ?i" "?i < 2 ^ 61" "0 \<le> ?m" "?m < 2 ^ 61"
    by (simp_all add: duration_defs)
  note bounds = CalculateDelayWithMax_bounds [OF False i assms]
  have lo: "5 * Second \<le> CalculateDelay ?i retryCount rnd"
    unfolding CalculateDelay_def using exponential_delta_range [of retryCount] i
    by (intro bounds(2)) (auto simp: duration_defs)
  have hi: "?m \<le> CalculateDelay ?i retryCount rnd" if "ExponentialCalculationsCount < retryCount"
    unfolding CalculateDelay_def using that i
    by (intro bounds(2)) (auto simp: duration_defs)
  show "5 * Second \<le> CalculateDelay (5 * Second) retryCount rnd \<and>
    CalculateDelay (5 * Second) retryCount rnd \<le> MaxExponentialBackoffDelay \<and>
    (ExponentialCalculationsCount < retryCount \<longrightarrow>
      CalculateDelay (5 * Second) retryCount rnd = MaxExponentialBackoffDelay)"
    using lo hi bounds(1) by (auto simp: CalculateDelay_def intro: antisym)
qed

text \<open>
  C39. With the queue's five second initial delay, any failure count and any random addend, the
  delay before a retry is never shorter than the initial delay and never longer than 32 seconds: a
  failing task neither spins nor backs off for ever. From the sixth retry on it is exactly the
  maximum.
\<close>

theorem CalculateDelay_bounded:
  assumes "0 \<le> rnd" "rnd < ExponentialDelayRandomMs"
  shows "5 * Second \<le> CalculateDelay (5 * Second) retryCount rnd \<and>
    CalculateDelay (5 * Second) retryCount rnd \<le> MaxExponentialBackoffDelay \<and>
    (ExponentialCalculationsCount < retryCount \<longrightarrow>
      CalculateDelay (5 * Second) retryCount rnd = MaxExponentialBackoffDelay)"
  using CalculateDelay_range [OF assms] by blast

theorem CalculateDelay_bounded_witness:
  "CalculateDelay (5 * Second) 2 850 = 7800 * Millisecond \<and>
   5 * Second \<le> CalculateDelay (5 * Second) 2 850 \<and>
   CalculateDelay (5 * Second) 9 850 = MaxExponentialBackoffDelay"
proof -
  have two: "CalculateDelay (5 * Second) 2 850 = 7800 * Millisecond"
    by code_simp
  have "5 * Second \<le> CalculateDelay (5 * Second) 2 850"
    using CalculateDelay_bounded [of 850 2] by (simp add: ExponentialDelayRandomMs_def)
  moreover have "CalculateDelay (5 * Second) 9 850 = MaxExponentialBackoffDelay"
    using CalculateDelay_bounded [of 850 9]
    by (simp add: ExponentialDelayRandomMs_def ExponentialCalculationsCount_def)
  ultimately show ?thesis using two by simp
qed

end
