(* ===== verification/Task_Queue.thy ===== *)
theory Task_Queue
  imports Task Backoff
begin

text \<open>
  \<open>pkg/task/queue/task_queue.go\<close>: the working queue. An item is an interface value
  \<open>task.Task\<close>, which may be nil (\<open>None\<close>); the method \<open>GetId\<close> of the interface is the argument
  \<open>gid\<close>, and calling it on nil panics. The queue's add and remove callbacks are recorded in the
  field \<open>q_Calls\<close>, in the order in which the code makes them. Every method runs as one atomic
  step, as the mutex makes it in the code.
\<close>

section \<open>Data\<close>

text \<open>The status line of a queue, kept as what the code formats into it.\<close>

datatype queue_status =
    StatusEmpty
  | StatusStop
  | StatusRunFirstTask
  | StatusSleepAfterFail duration
  | StatusRepeatHeadTask
  | StatusSleepFor duration
  | StatusWaitingForTask duration
  | StatusElapsed queue_status duration

datatype 't queue_call = OnAdd 't | OnRemove "'t option"

record 't TaskQueue =
  q_Name :: string
  q_Items :: "'t option list"
  q_Started :: bool
  q_Cancelled :: bool
  q_Status :: queue_status
  q_Calls :: "'t queue_call list"

definition DelayOnQueueIsEmpty :: duration where "DelayOnQueueIsEmpty = 3 * Second"
definition DelayOnFailedTask :: duration where "DelayOnFailedTask = 5 * Second"
definition DelayOnRepeat :: duration where "DelayOnRepeat = 25 * Millisecond"

section \<open>Operations\<close>

definition NewTasksQueue :: "'t TaskQueue" where
  "NewTasksQueue = \<lparr>q_Name = [], q_Items = [], q_Started = False, q_Cancelled = False,
     q_Status = StatusEmpty, q_Calls = []\<rparr>"

definition TaskQueue_WithName :: "string \<Rightarrow> 't TaskQueue \<Rightarrow> 't TaskQueue" where
  "TaskQueue_WithName name q = q\<lparr>q_Name := name\<rparr>"

definition isEmpty :: "'t TaskQueue \<Rightarrow> bool" where
  "isEmpty q \<longleftrightarrow> length (q_Items q) = 0"

definition Length :: "'t TaskQueue \<Rightarrow> nat" where
  "Length q = length (q_Items q)"

definition AddFirst :: "'t \<Rightarrow> 't TaskQueue \<Rightarrow> 't TaskQueue" where
  "AddFirst t q =
     (let q = q\<lparr>q_Calls := q_Calls q @ [OnAdd t]\<rparr> in q\<lparr>q_Items := [Some t] @ q_Items q\<rparr>)"

definition RemoveFirst :: "'t TaskQueue \<Rightarrow> 't option \<times> 't TaskQueue" where
  "RemoveFirst q =
     (if isEmpty q then (None, q)
      else let t = q_Items q ! 0;
               q = q\<lparr>q_Items := drop 1 (q_Items q)\<rparr>
           in (t, q\<lparr>q_Calls := q_Calls q @ [OnRemove t]\<rparr>))"

definition GetFirst :: "'t TaskQueue \<Rightarrow> 't option" where
  "GetFirst q = (if isEmpty q then None else q_Items q ! 0)"

definition AddLast :: "'t \<Rightarrow> 't TaskQueue \<Rightarrow> 't TaskQueue" where
  "AddLast t q =
     (let q = q\<lparr>q_Calls := q_Calls q @ [OnAdd t]\<rparr> in q\<lparr>q_Items := q_Items q @ [Some t]\<rparr>)"

definition RemoveLast :: "'t TaskQueue \<Rightarrow> 't option \<times> 't TaskQueue" where
  "RemoveLast q =
     (if isEmpty q then (None, q)
      else let t = q_Items q ! (length (q_Items q) - 1);
               q = (if length (q_Items q) = 1 then q\<lparr>q_Items := []\<rparr>
                    else q\<lparr>q_Items := take (length (q_Items q) - 1) (q_Items q)\<rparr>)
           in (t, q\<lparr>q_Calls := q_Calls q @ [OnRemove t]\<rparr>))"

definition GetLast :: "'t TaskQueue \<Rightarrow> 't option" where
  "GetLast q = (if isEmpty q then None else q_Items q ! (length (q_Items q) - 1))"

text \<open>\<open>Get\<close>: the loop over the items calls \<open>GetId\<close> on each until the identifier is found.\<close>

fun find_task :: "('t \<Rightarrow> string) \<Rightarrow> string \<Rightarrow> 't option list \<Rightarrow> 't option go" where
  "find_task gid tid [] = Ret None"
| "find_task gid tid (None # ts) = Panic"
| "find_task gid tid (Some t # ts) = (if gid t = tid then Ret (Some t) else find_task gid tid ts)"

definition TaskQueue_Get :: "('t \<Rightarrow> string) \<Rightarrow> string \<Rightarrow> 't TaskQueue \<Rightarrow> 't option go" where
  "TaskQueue_Get gid tid q = find_task gid tid (q_Items q)"

text \<open>
  \<open>AddAfter\<close> fills a fresh array with one more slot than there are items; a slot that the loop
  does not write stays nil.
\<close>

fun AddAfter_loop ::
    "('t \<Rightarrow> string) \<Rightarrow> string \<Rightarrow> 't \<Rightarrow> nat \<Rightarrow> bool \<Rightarrow> 't option list \<Rightarrow> 't option list \<Rightarrow> 't option list go"
where
  "AddAfter_loop gid tid newTask i idFound newItems [] = Ret newItems"
| "AddAfter_loop gid tid newTask i idFound newItems (t # ts) =
     (if \<not> idFound then
        (let newItems = newItems[i := t] in
         case t of
           None \<Rightarrow> Panic
         | Some x \<Rightarrow>
             if gid x = tid
             then AddAfter_loop gid tid newTask (Suc i) True (newItems[i + 1 := Some newTask]) ts
             else AddAfter_loop gid tid newTask (Suc i) False newItems ts)
      else AddAfter_loop gid tid newTask (Suc i) True (newItems[i + 1 := t]) ts)"

definition AddAfter :: "('t \<Rightarrow> string) \<Rightarrow> string \<Rightarrow> 't \<Rightarrow> 't TaskQueue \<Rightarrow> 't TaskQueue go" where
  "AddAfter gid tid newTask q =
     (let q = q\<lparr>q_Calls := q_Calls q @ [OnAdd newTask]\<rparr>;
          newItems = replicate (length (q_Items q) + 1) None
      in go_bind (AddAfter_loop gid tid newTask 0 False newItems (q_Items q))
           (\<lambda>newItems. Ret (q\<lparr>q_Items := newItems\<rparr>)))"

fun AddBefore_loop ::
    "('t \<Rightarrow> string) \<Rightarrow> string \<Rightarrow> 't \<Rightarrow> nat \<Rightarrow> bool \<Rightarrow> 't option list \<Rightarrow> 't option list \<Rightarrow> 't option list go"
where
  "AddBefore_loop gid tid newTask i idFound newItems [] = Ret newItems"
| "AddBefore_loop gid tid newTask i idFound newItems (t # ts) =
     (if \<not> idFound then
        (case t of
           None \<Rightarrow> Panic
         | Some x \<Rightarrow>
             if gid x \<noteq> tid
             then AddBefore_loop gid tid newTask (Suc i) False (newItems[i := t]) ts
             else AddBefore_loop gid tid newTask (Suc i) True
                    (newItems[i := Some newTask, i + 1 := t]) ts)
      else AddBefore_loop gid tid newTask (Suc i) True (newItems[i + 1 := t]) ts)"

definition AddBefore :: "('t \<Rightarrow> string) \<Rightarrow> string \<Rightarrow> 't \<Rightarrow> 't TaskQueue \<Rightarrow> 't TaskQueue go" where
  "AddBefore gid tid newTask q =
     (let q = q\<lparr>q_Calls := q_Calls q @ [OnAdd newTask]\<rparr>;
          newItems = replicate (length (q_Items q) + 1) None
      in go_bind (AddBefore_loop gid tid newTask 0 False newItems (q_Items q))
           (\<lambda>newItems. Ret (q\<lparr>q_Items := newItems\<rparr>)))"

text \<open>\<open>Remove\<close>: the index loop with its break, then the deletion by slicing.\<close>

fun find_del_id :: "('t \<Rightarrow> string) \<Rightarrow> string \<Rightarrow> nat \<Rightarrow> 't option list \<Rightarrow> nat option go" where
  "find_del_id gid tid i [] = Ret None"
| "find_del_id gid tid i (None # ts) = Panic"
| "find_del_id gid tid i (Some t # ts) =
     (if gid t = tid then Ret (Some i) else find_del_id gid tid (Suc i) ts)"

definition TaskQueue_Remove ::
    "('t \<Rightarrow> string) \<Rightarrow> string \<Rightarrow> 't TaskQueue \<Rightarrow> ('t option \<times> 't TaskQueue) go" where
  "TaskQueue_Remove gid tid q =
     go_bind (find_del_id gid tid 0 (q_Items q)) (\<lambda>delId.
       case delId of
         None \<Rightarrow> Ret (None, q)
       | Some i \<Rightarrow>
           (let t = q_Items q ! i;
                q = q\<lparr>q_Items := take i (q_Items q) @ drop (i + 1) (q_Items q)\<rparr>
            in Ret (t, q\<lparr>q_Calls := q_Calls q @ [OnRemove t]\<rparr>)))"

definition TaskQueue_Stop :: "'t TaskQueue \<Rightarrow> 't TaskQueue" where
  "TaskQueue_Stop q = q\<lparr>q_Cancelled := True\<rparr>"

text \<open>\<open>Iterate\<close> hands every item, nil included, to the callback, which may panic.\<close>

definition Iterate :: "('t option \<Rightarrow> 's \<Rightarrow> 's go) \<Rightarrow> 't TaskQueue \<Rightarrow> 's \<Rightarrow> 's go" where
  "Iterate doFn q s = go_fold doFn (q_Items q) s"

fun filter_items :: "('t option \<Rightarrow> bool go) \<Rightarrow> 't option list \<Rightarrow> 't option list go" where
  "filter_items filterFn [] = Ret []"
| "filter_items filterFn (t # ts) =
     go_bind (filterFn t) (\<lambda>keep. go_bind (filter_items filterFn ts) (\<lambda>newItems.
       Ret (if keep then t # newItems else newItems)))"

definition TaskQueue_Filter :: "('t option \<Rightarrow> bool go) \<Rightarrow> 't TaskQueue \<Rightarrow> 't TaskQueue go" where
  "TaskQueue_Filter filterFn q =
     go_bind (filter_items filterFn (q_Items q)) (\<lambda>newItems. Ret (q\<lparr>q_Items := newItems\<rparr>))"

text \<open>\<open>String\<close>: \<open>%10.10s\<close> truncates to ten characters and pads on the left.\<close>

definition fmt_10_10s :: "string \<Rightarrow> string" where
  "fmt_10_10s s = replicate (10 - length (take 10 s)) (CHR '' '') @ take 10 s"

definition TaskQueue_String :: "('t \<Rightarrow> string) \<Rightarrow> ('t \<Rightarrow> string) \<Rightarrow> 't TaskQueue \<Rightarrow> string go" where
  "TaskQueue_String gid desc q =
     (let qLen = Length q in
      go_bind
        (Iterate (\<lambda>t (buf, index).
           case t of
             None \<Rightarrow> Panic
           | Some x \<Rightarrow>
               (let buf = buf @ ''['' @ desc x @ '',id='' @ fmt_10_10s (gid x) @ '']'';
                    index = Suc index
                in Ret (if index = qLen then (buf, index) else (buf @ '', '', index))))
           q ([], 0))
        (\<lambda>(buf, index). Ret buf))"

section \<open>Content and well-formedness\<close>

text \<open>
  The content of a queue is the list of its tasks; a queue is well formed when no item is nil.
\<close>

definition content :: "'t TaskQueue \<Rightarrow> 't list" where
  "content q = map the (q_Items q)"

definition wf_queue :: "'t TaskQueue \<Rightarrow> bool" where
  "wf_queue q \<longleftrightarrow> None \<notin> set (q_Items q)"

text \<open>Reference definitions on lists.\<close>

fun ins_after :: "('t \<Rightarrow> string) \<Rightarrow> string \<Rightarrow> 't \<Rightarrow> 't list \<Rightarrow> 't list" where
  "ins_after gid tid new [] = []"
| "ins_after gid tid new (x # xs) =
     (if gid x = tid then x # new # xs else x # ins_after gid tid new xs)"

fun ins_before :: "('t \<Rightarrow> string) \<Rightarrow> string \<Rightarrow> 't \<Rightarrow> 't list \<Rightarrow> 't list" where
  "ins_before gid tid new [] = []"
| "ins_before gid tid new (x # xs) =
     (if gid x = tid then new # x # xs else x # ins_before gid tid new xs)"

fun del_first :: "('t \<Rightarrow> string) \<Rightarrow> string \<Rightarrow> 't list \<Rightarrow> 't list" where
  "del_first gid tid [] = []"
| "del_first gid tid (x # xs) = (if gid x = tid then xs else x # del_first gid tid xs)"

section \<open>The list laws of the operations\<close>

lemma map_Some_the: "None \<notin> set xs \<Longrightarrow> map (Some \<circ> the) xs = xs"
  by (induction xs) auto

lemma wf_queue_items: "wf_queue q \<Longrightarrow> q_Items q = map Some (content q)"
  by (simp add: wf_queue_def content_def map_Some_the)

lemma wf_queueI: "q_Items q = map Some xs \<Longrightarrow> wf_queue q"
  by (auto simp: wf_queue_def)

lemma content_eqI: "q_Items q = map Some xs \<Longrightarrow> content q = xs"
  by (simp add: content_def comp_def)

lemma queue_cases:
  assumes "wf_queue q"
  obtains xs where "q_Items q = map Some xs" "content q = xs"
  using assms wf_queue_items by blast

lemma wf_NewTasksQueue [wf_intros]: "wf_queue NewTasksQueue"
  by (simp add: NewTasksQueue_def wf_queue_def)

lemma content_NewTasksQueue [queue_simps]: "content NewTasksQueue = []"
  by (simp add: NewTasksQueue_def content_def)

lemma isEmpty_content [queue_simps]: "isEmpty q \<longleftrightarrow> content q = []"
  by (simp add: isEmpty_def content_def)

lemma Length_content [queue_simps]: "Length q = length (content q)"
  by (simp add: Length_def content_def)

lemma content_AddFirst [queue_simps]: "content (AddFirst t q) = t # content q"
  by (simp add: AddFirst_def content_def Let_def)

lemma content_AddLast [queue_simps]: "content (AddLast t q) = content q @ [t]"
  by (simp add: AddLast_def content_def Let_def)

lemma wf_AddFirst [wf_intros]: "wf_queue q \<Longrightarrow> wf_queue (AddFirst t q)"
  by (simp add: AddFirst_def wf_queue_def Let_def)

lemma wf_AddLast [wf_intros]: "wf_queue q \<Longrightarrow> wf_queue (AddLast t q)"
  by (simp add: AddLast_def wf_queue_def Let_def)

lemma RemoveFirst_content [queue_simps]:
  "wf_queue q \<Longrightarrow> fst (RemoveFirst q) = (case content q of [] \<Rightarrow> None | t # _ \<Rightarrow> Some t)"
  "content (snd (RemoveFirst q)) = tl (content q)"
  by (cases "q_Items q"; auto simp: RemoveFirst_def isEmpty_def content_def wf_queue_def Let_def)+

lemma wf_RemoveFirst [wf_intros]: "wf_queue q \<Longrightarrow> wf_queue (snd (RemoveFirst q))"
  by (auto simp: RemoveFirst_def wf_queue_def isEmpty_def Let_def dest: in_set_dropD)

lemma GetFirst_content [queue_simps]:
  "wf_queue q \<Longrightarrow> GetFirst q = (case content q of [] \<Rightarrow> None | t # _ \<Rightarrow> Some t)"
  by (cases "q_Items q") (auto simp: GetFirst_def isEmpty_def content_def wf_queue_def)

lemma RemoveLast_content [queue_simps]:
  assumes "wf_queue q"
  shows "fst (RemoveLast q) = (if content q = [] then None else Some (last (content q)))"
    and "content (snd (RemoveLast q)) = butlast (content q)"
proof -
  obtain xs where xs: "q_Items q = map Some xs" "content q = xs"
    using assms by (rule queue_cases)
  show "fst (RemoveLast q) = (if content q = [] then None else Some (last (content q)))"
    using xs by (auto simp: RemoveLast_def isEmpty_def Let_def last_conv_nth)
  show "content (snd (RemoveLast q)) = butlast (content q)"
  proof (cases xs rule: rev_cases)
    case (snoc ys y)
    with xs show ?thesis by (auto simp: RemoveLast_def isEmpty_def content_def Let_def comp_def)
  qed (use xs in \<open>simp add: RemoveLast_def isEmpty_def\<close>)
qed

lemma wf_RemoveLast [wf_intros]: "wf_queue q \<Longrightarrow> wf_queue (snd (RemoveLast q))"
  by (auto simp: RemoveLast_def wf_queue_def isEmpty_def Let_def dest: in_set_takeD)

lemma GetLast_content [queue_simps]:
  "wf_queue q \<Longrightarrow> GetLast q = (if content q = [] then None else Some (last (content q)))"
  by (erule queue_cases) (auto simp: GetLast_def isEmpty_def last_conv_nth)

lemma find_task_map: "find_task gid tid (map Some xs) = Ret (find (\<lambda>t. gid t = tid) xs)"
  by (induction xs) auto

lemma Get_content [queue_simps]:
  "wf_queue q \<Longrightarrow> TaskQueue_Get gid tid q = Ret (find (\<lambda>t. gid t = tid) (content q))"
  by (simp add: TaskQueue_Get_def wf_queue_items find_task_map)

subsection \<open>Insertion next to a task\<close>

lemma AddAfter_loop_found:
  "length done = Suc i \<Longrightarrow>
   AddAfter_loop gid tid new i True (done @ replicate (length ts) None) ts = Ret (done @ ts)"
proof (induction ts arbitrary: i "done")
  case (Cons t ts)
  have "AddAfter_loop gid tid new (Suc i) True ((done @ [t]) @ replicate (length ts) None) ts =
      Ret ((done @ [t]) @ ts)"
    by (rule Cons.IH) (simp add: Cons.prems)
  with Cons.prems show ?case by (simp add: list_update_append)
qed simp

lemma AddAfter_loop_search:
  "length done = i \<Longrightarrow>
   AddAfter_loop gid tid new i False (done @ replicate (length xs + 1) None) (map Some xs) =
     Ret (done @ (if tid \<in> gid ` set xs then map Some (ins_after gid tid new xs)
                  else map Some xs @ [None]))"
proof (induction xs arbitrary: i "done")
  case (Cons x xs)
  show ?case
  proof (cases "gid x = tid")
    case True
    have "AddAfter_loop gid tid new (Suc i) True
        ((done @ [Some x, Some new]) @ replicate (length (map Some xs)) None) (map Some xs) =
        Ret ((done @ [Some x, Some new]) @ map Some xs)"
      by (rule AddAfter_loop_found) (simp add: Cons.prems)
    with True Cons.prems show ?thesis by (simp add: list_update_append)
  next
    case False
    have "AddAfter_loop gid tid new (Suc i) False
        ((done @ [Some x]) @ replicate (length xs + 1) None) (map Some xs) =
        Ret ((done @ [Some x]) @ (if tid \<in> gid ` set xs then map Some (ins_after gid tid new xs)
                  else map Some xs @ [None]))"
      by (rule Cons.IH) (simp add: Cons.prems)
    with False Cons.prems show ?thesis by (auto simp: list_update_append)
  qed
qed simp

lemma AddAfter_items:
  "wf_queue q \<Longrightarrow>
   AddAfter gid tid new q = Ret (q\<lparr>q_Calls := q_Calls q @ [OnAdd new], q_Items :=
     (if tid \<in> gid ` set (content q) then map Some (ins_after gid tid new (content q))
      else map Some (content q) @ [None])\<rparr>)"
  using AddAfter_loop_search [of "[]" 0 gid tid new "content q"]
  by (simp add: AddAfter_def Let_def wf_queue_items)

lemma AddBefore_loop_found:
  "length done = Suc i \<Longrightarrow>
   AddBefore_loop gid tid new i True (done @ replicate (length ts) None) ts = Ret (done @ ts)"
proof (induction ts arbitrary: i "done")
  case (Cons t ts)
  have "AddBefore_loop gid tid new (Suc i) True ((done @ [t]) @ replicate (length ts) None) ts =
      Ret ((done @ [t]) @ ts)"
    by (rule Cons.IH) (simp add: Cons.prems)
  with Cons.prems show ?case by (simp add: list_update_append)
qed simp

lemma AddBefore_loop_search:
  "length done = i \<Longrightarrow>
   AddBefore_loop gid tid new i False (done @ replicate (length xs + 1) None) (map Some xs) =
     Ret (done @ (if tid \<in> gid ` set xs then map Some (ins_before gid tid new xs)
                  else map Some xs @ [None]))"
proof (induction xs arbitrary: i "done")
  case (Cons x xs)
  show ?case
  proof (cases "gid x = tid")
    case True
    have "AddBefore_loop gid tid new (Suc i) True
        ((done @ [Some new, Some x]) @ replicate (length (map Some xs)) None) (map Some xs) =
        Ret ((done @ [Some new, Some x]) @ map Some xs)"
      by (rule AddBefore_loop_found) (simp add: Cons.prems)
    with True Cons.prems show ?thesis by (simp add: list_update_append)
  next
    case False
    have "AddBefore_loop gid tid new (Suc i) False
        ((done @ [Some x]) @ replicate (length xs + 1) None) (map Some xs) =
        Ret ((done @ [Some x]) @ (if tid \<in> gid ` set xs then map Some (ins_before gid tid new xs)
                  else map Some xs @ [None]))"
      by (rule Cons.IH) (simp add: Cons.prems)
    with False Cons.prems show ?thesis by (auto simp: list_update_append)
  qed
qed simp

lemma AddBefore_items:
  "wf_queue q \<Longrightarrow>
   AddBefore gid tid new q = Ret (q\<lparr>q_Calls := q_Calls q @ [OnAdd new], q_Items :=
     (if tid \<in> gid ` set (content q) then map Some (ins_before gid tid new (content q))
      else map Some (content q) @ [None])\<rparr>)"
  using AddBefore_loop_search [of "[]" 0 gid tid new "content q"]
  by (simp add: AddBefore_def Let_def wf_queue_items)

subsection \<open>Removal and filtering\<close>

lemma find_del_id_map:
  "find_del_id gid tid i (map Some xs) =
     Ret (if tid \<in> gid ` set xs then Some (i + length (takeWhile (\<lambda>t. gid t \<noteq> tid) xs)) else None)"
  by (induction xs arbitrary: i) auto

lemma del_first_conv:
  "del_first gid tid xs =
     take (length (takeWhile (\<lambda>t. gid t \<noteq> tid) xs)) xs @
     drop (Suc (length (takeWhile (\<lambda>t. gid t \<noteq> tid) xs))) xs"
  by (induction xs) auto

lemma del_first_absent: "tid \<notin> gid ` set xs \<Longrightarrow> del_first gid tid xs = xs"
  by (induction xs) auto

lemma find_conv_nth_takeWhile:
  "tid \<in> gid ` set xs \<Longrightarrow>
     find (\<lambda>t. gid t = tid) xs = Some (xs ! length (takeWhile (\<lambda>t. gid t \<noteq> tid) xs))"
  by (induction xs) auto

lemma find_absent: "tid \<notin> gid ` set xs \<Longrightarrow> find (\<lambda>t. gid t = tid) xs = None"
  by (induction xs) auto

lemma takeWhile_length_less:
  "tid \<in> gid ` set xs \<Longrightarrow> length (takeWhile (\<lambda>t. gid t \<noteq> tid) xs) < length xs"
  by (induction xs) auto

lemma Remove_content:
  assumes "wf_queue q"
  shows "\<exists>q'. TaskQueue_Remove gid tid q = Ret (find (\<lambda>t. gid t = tid) (content q), q') \<and>
    wf_queue q' \<and> content q' = del_first gid tid (content q) \<and>
    q_Name q' = q_Name q \<and> q_Started q' = q_Started q \<and> q_Cancelled q' = q_Cancelled q \<and>
    q_Status q' = q_Status q"
proof (cases "tid \<in> gid ` set (content q)")
  case True
  let ?i = "length (takeWhile (\<lambda>t. gid t \<noteq> tid) (content q))"
  let ?items = "take ?i (q_Items q) @ drop (?i + 1) (q_Items q)"
  have items: "?items = map Some (del_first gid tid (content q))"
    using assms by (simp add: wf_queue_items del_first_conv take_map drop_map)
  have nth: "q_Items q ! ?i = find (\<lambda>t. gid t = tid) (content q)"
    using True assms by (simp add: wf_queue_items find_conv_nth_takeWhile takeWhile_length_less)
  have "TaskQueue_Remove gid tid q = Ret (find (\<lambda>t. gid t = tid) (content q),
      q\<lparr>q_Items := map Some (del_first gid tid (content q)),
        q_Calls := q_Calls q @ [OnRemove (find (\<lambda>t. gid t = tid) (content q))]\<rparr>)"
    using True assms items nth
    by (simp add: TaskQueue_Remove_def wf_queue_items find_del_id_map Let_def)
  then show ?thesis by (auto intro!: wf_queueI content_eqI)
next
  case False
  then show ?thesis using assms
    by (simp add: TaskQueue_Remove_def wf_queue_items find_del_id_map del_first_absent find_absent)
qed

lemma filter_items_map:
  "(\<And>x. x \<in> set xs \<Longrightarrow> f (Some x) = Ret (P x)) \<Longrightarrow>
   filter_items f (map Some xs) = Ret (map Some (filter P xs))"
  by (induction xs) auto

lemma Filter_content:
  assumes "wf_queue q" "\<And>x. x \<in> set (content q) \<Longrightarrow> f (Some x) = Ret (P x)"
  shows "TaskQueue_Filter f q = Ret (q\<lparr>q_Items := map Some (filter P (content q))\<rparr>)"
  using assms by (simp add: TaskQueue_Filter_def wf_queue_items filter_items_map)

section \<open>The queue as a double-ended queue\<close>

text \<open>
  What the event handler and the queue's own loop rely on: the two ends of the queue, and the
  insertion and removal of tasks by identifier. Clients of these laws are proved once.
\<close>

locale deque =
  fixes elems :: "'q \<Rightarrow> 't list"
    and ok :: "'q \<Rightarrow> bool"
    and add_first :: "'t \<Rightarrow> 'q \<Rightarrow> 'q"
    and add_last :: "'t \<Rightarrow> 'q \<Rightarrow> 'q"
    and get_first :: "'q \<Rightarrow> 't option"
    and remove_first :: "'q \<Rightarrow> 't option \<times> 'q"
  assumes elems_add_first: "ok q \<Longrightarrow> elems (add_first t q) = t # elems q"
    and elems_add_last: "ok q \<Longrightarrow> elems (add_last t q) = elems q @ [t]"
    and ok_add_first: "ok q \<Longrightarrow> ok (add_first t q)"
    and ok_add_last: "ok q \<Longrightarrow> ok (add_last t q)"
    and get_first_elems: "ok q \<Longrightarrow> get_first q = (case elems q of [] \<Rightarrow> None | t # _ \<Rightarrow> Some t)"
    and remove_first_elems: "ok q \<Longrightarrow> elems (snd (remove_first q)) = tl (elems q)"
    and remove_first_get: "ok q \<Longrightarrow> fst (remove_first q) = get_first q"
    and ok_remove_first: "ok q \<Longrightarrow> ok (snd (remove_first q))"
begin

lemma add_all_last: "ok q \<Longrightarrow> elems (fold add_last ts q) = elems q @ ts \<and> ok (fold add_last ts q)"
  by (induction ts arbitrary: q) (auto simp: elems_add_last ok_add_last)

lemma add_all_first:
  "ok q \<Longrightarrow> elems (fold add_first ts q) = rev ts @ elems q \<and> ok (fold add_first ts q)"
  by (induction ts arbitrary: q) (auto simp: elems_add_first ok_add_first)

text \<open>First in, first out: tasks added at the tail of an empty queue come out in that order.\<close>

lemma fifo:
  "ok q \<Longrightarrow> elems q = [] \<Longrightarrow> i < length ts \<Longrightarrow>
   fst (remove_first (((snd \<circ> remove_first) ^^ i) (fold add_last ts q))) = Some (ts ! i)"
proof -
  assume ok: "ok q" and empty: "elems q = []" and i: "i < length ts"
  have "ok (((snd \<circ> remove_first) ^^ i) p) \<and>
      elems (((snd \<circ> remove_first) ^^ i) p) = drop i (elems p)" if "ok p" for p
    using that by (induction i) (auto simp: remove_first_elems ok_remove_first drop_Suc tl_drop)
  from this [of "fold add_last ts q"] add_all_last [OF ok, of ts] empty
  have "ok (((snd \<circ> remove_first) ^^ i) (fold add_last ts q))"
    and "elems (((snd \<circ> remove_first) ^^ i) (fold add_last ts q)) = drop i ts" by simp_all
  then show ?thesis using i
    by (simp add: remove_first_get get_first_elems Cons_nth_drop_Suc [symmetric])
qed

end

locale keyed_deque = deque +
  fixes key :: "'t \<Rightarrow> string"
    and insert_after :: "string \<Rightarrow> 't \<Rightarrow> 'q \<Rightarrow> 'q go"
    and remove_key :: "string \<Rightarrow> 'q \<Rightarrow> ('t option \<times> 'q) go"
  assumes insert_after_elems:
    "ok q \<Longrightarrow> tid \<in> key ` set (elems q) \<Longrightarrow>
       \<exists>q'. insert_after tid t q = Ret q' \<and> ok q' \<and> elems q' = ins_after key tid t (elems q)"
    and remove_key_elems:
    "ok q \<Longrightarrow> \<exists>t q'. remove_key tid q = Ret (t, q') \<and> ok q' \<and>
       elems q' = del_first key tid (elems q)"
begin

text \<open>Inserting a list backwards after a task puts it behind that task in its own order.\<close>

lemma insert_all_after:
  assumes "ok q" "elems q = x # xs"
  shows "\<exists>q'. go_fold (insert_after (key x)) (rev ts) q = Ret q' \<and> ok q' \<and> elems q' = x # ts @ xs"
proof (induction ts)
  case Nil
  with assms show ?case by simp
next
  case (Cons t ts)
  then obtain q' where q': "go_fold (insert_after (key x)) (rev ts) q = Ret q'" "ok q'"
    "elems q' = x # ts @ xs" by blast
  from insert_after_elems [of q' "key x" t] q' obtain q'' where
    "insert_after (key x) t q' = Ret q''" "ok q''" "elems q'' = x # t # ts @ xs" by auto
  with q' show ?case by (simp add: go_fold_append)
qed

end

interpretation tq: deque content wf_queue AddFirst AddLast GetFirst RemoveFirst
  by unfold_locales (simp_all add: queue_simps wf_intros)

text \<open>One instance per \<open>GetId\<close> method, that is, per content of the task heap.\<close>

interpretation tq_by_id: keyed_deque content wf_queue AddFirst AddLast GetFirst RemoveFirst
  gid "AddAfter gid" "TaskQueue_Remove gid" for gid
proof unfold_locales
  show "wf_queue q \<Longrightarrow> tid \<in> gid ` set (content q) \<Longrightarrow>
    \<exists>q'. AddAfter gid tid t q = Ret q' \<and> wf_queue q' \<and> content q' = ins_after gid tid t (content q)"
    for q :: "'a TaskQueue" and tid t
    by (auto simp: AddAfter_items intro!: wf_queueI content_eqI)
  show "wf_queue q \<Longrightarrow> \<exists>t q'. TaskQueue_Remove gid tid q = Ret (t, q') \<and> wf_queue q' \<and>
    content q' = del_first gid tid (content q)" for q :: "'a TaskQueue" and tid
    using Remove_content [of q gid tid] by auto
qed


section \<open>Correctness of the queue\<close>

lemma go_fold_nil_tail: "(\<And>s. g None s = Panic) \<Longrightarrow> go_fold g (xs @ [None]) s = Panic"
  unfolding go_fold_append by (cases "go_fold g xs s") simp_all

lemma ins_after_split:
  "tid \<notin> gid ` set xs \<Longrightarrow> gid x = tid \<Longrightarrow>
   ins_after gid tid new (xs @ x # ys) = xs @ x # new # ys"
  by (induction xs) auto

lemma ins_before_split:
  "tid \<notin> gid ` set xs \<Longrightarrow> gid x = tid \<Longrightarrow>
   ins_before gid tid new (xs @ x # ys) = xs @ new # x # ys"
  by (induction xs) auto

lemma del_first_split:
  "tid \<notin> gid ` set xs \<Longrightarrow> gid x = tid \<Longrightarrow> del_first gid tid (xs @ x # ys) = xs @ ys"
  by (induction xs) auto

lemma find_split: "tid \<notin> gid ` set xs \<Longrightarrow> gid x = tid \<Longrightarrow> find (\<lambda>t. gid t = tid) (xs @ x # ys) = Some x"
  by (induction xs) auto

text \<open>
  Tasks that are added at the tail of an empty queue leave it from the head in the order in
  which they were added.
\<close>

theorem queue_fifo:
  assumes "wf_queue q" "isEmpty q" "i < length ts"
  shows "fst (RemoveFirst (((snd \<circ> RemoveFirst) ^^ i) (fold AddLast ts q))) = Some (ts ! i)"
  using assms by (intro tq.fifo) (simp_all add: queue_simps)

theorem queue_fifo_witness:
  "fst (RemoveFirst (((snd \<circ> RemoveFirst) ^^ 1)
     (fold AddLast [''a'', ''b'', ''c''] NewTasksQueue))) = Some ''b''"
  using queue_fifo [of NewTasksQueue 1 "[''a'', ''b'', ''c'']"]
  by (simp add: wf_NewTasksQueue isEmpty_content content_NewTasksQueue)

text \<open>
  \<open>AddAfter\<close> and \<open>AddBefore\<close> put the new task directly behind or directly in front of the first
  task with the given identifier, keep all other tasks in their order, and call the add callback
  once.
\<close>

theorem AddAfter_AddBefore_position:
  assumes "wf_queue q" "content q = xs @ x # ys" "gid x = tid" "tid \<notin> gid ` set xs"
  shows "AddAfter gid tid new q = Ret (q\<lparr>q_Calls := q_Calls q @ [OnAdd new],
      q_Items := map Some (xs @ x # new # ys)\<rparr>) \<and>
    AddBefore gid tid new q = Ret (q\<lparr>q_Calls := q_Calls q @ [OnAdd new],
      q_Items := map Some (xs @ new # x # ys)\<rparr>)"
  using assms by (auto simp: AddAfter_items AddBefore_items ins_after_split ins_before_split)

theorem AddAfter_AddBefore_position_witness:
  "let q = fold AddLast [''a'', ''b'', ''c''] NewTasksQueue in
   AddAfter (\<lambda>x. x) ''b'' ''new'' q = Ret (q\<lparr>q_Calls := q_Calls q @ [OnAdd ''new''],
      q_Items := map Some [''a'', ''b'', ''new'', ''c'']\<rparr>)"
  using AddAfter_AddBefore_position [of "fold AddLast [''a'', ''b'', ''c''] NewTasksQueue" "[''a'']" "''b''" "[''c'']"
      "\<lambda>x. x" "''b''" "''new''"]
  by (simp add: wf_AddLast wf_NewTasksQueue content_AddLast content_NewTasksQueue)

text \<open>
  C35. When the identifier is not in the queue, \<open>AddAfter\<close> and \<open>AddBefore\<close> drop the new task and
  leave a nil item at the tail, although the add callback has counted the task. The queue is then
  broken: every later search for an unknown identifier, and every dump of the queue, panics.
\<close>

theorem AddAfter_AddBefore_unknown_id:
  assumes "wf_queue q" "tid \<notin> gid ` set (content q)"
  shows "\<exists>q'. AddAfter gid tid new q = Ret q' \<and> AddBefore gid tid new q = Ret q' \<and>
    q_Items q' = q_Items q @ [None] \<and> q_Calls q' = q_Calls q @ [OnAdd new] \<and>
    (\<forall>tid'. tid' \<notin> gid ` set (content q) \<longrightarrow>
       TaskQueue_Get gid tid' q' = Panic \<and> TaskQueue_Remove gid tid' q' = Panic) \<and>
    TaskQueue_String gid desc q' = Panic"
proof -
  let ?q = "q\<lparr>q_Calls := q_Calls q @ [OnAdd new], q_Items := map Some (content q) @ [None]\<rparr>"
  have find: "find_task gid tid' (map Some xs @ [None]) = Panic"
    if "tid' \<notin> gid ` set xs" for tid' xs
    using that by (induction xs) auto
  have del: "find_del_id gid tid' i (map Some xs @ [None]) = Panic"
    if "tid' \<notin> gid ` set xs" for tid' xs i
    using that by (induction xs arbitrary: i) auto
  have "TaskQueue_String gid desc ?q = Panic"
    by (simp add: TaskQueue_String_def Iterate_def go_fold_nil_tail split_beta)
  with assms find del show ?thesis
    by (intro exI [of _ ?q])
      (simp add: AddAfter_items AddBefore_items wf_queue_items TaskQueue_Get_def TaskQueue_Remove_def)
qed

theorem AddAfter_AddBefore_unknown_id_witness:
  "\<exists>q'. AddAfter (\<lambda>x. x) ''z'' ''new'' (AddLast ''a'' NewTasksQueue) = Ret q' \<and>
     q_Items q' = [Some ''a'', None] \<and> TaskQueue_String (\<lambda>x. x) (\<lambda>x. x) q' = Panic"
  using AddAfter_AddBefore_unknown_id [of "AddLast ''a'' NewTasksQueue" "''z''" "\<lambda>x. x" "''new''" "\<lambda>x. x"]
  by (auto simp: wf_AddLast wf_NewTasksQueue content_AddLast content_NewTasksQueue)
    (simp add: AddLast_def NewTasksQueue_def)

text \<open>Every insertion splices the new task into the content.\<close>

definition spliced :: "'t \<Rightarrow> 't TaskQueue \<Rightarrow> 't TaskQueue \<Rightarrow> bool" where
  "spliced t q q1 \<longleftrightarrow> wf_queue q1 \<and> (\<exists>xs ys. content q = xs @ ys \<and> content q1 = xs @ t # ys)"

lemma splicedI: "wf_queue q1 \<Longrightarrow> content q = xs @ ys \<Longrightarrow> content q1 = xs @ t # ys \<Longrightarrow> spliced t q q1"
  unfolding spliced_def by blast

lemma spliced_AddFirst: "wf_queue q \<Longrightarrow> spliced t q (AddFirst t q)"
  by (rule splicedI [of _ _ "[]"]) (simp_all add: content_AddFirst wf_AddFirst)

lemma spliced_AddLast: "wf_queue q \<Longrightarrow> spliced t q (AddLast t q)"
  by (rule splicedI [of _ _ "content q" "[]"]) (simp_all add: content_AddLast wf_AddLast)

lemma split_at_id:
  assumes "tid \<in> gid ` set zs"
  obtains xs y ys where "zs = xs @ y # ys" "gid y = tid" "tid \<notin> gid ` set xs"
proof -
  from assms have "\<exists>y\<in>set zs. gid y = tid" by auto
  from split_list_first_propE [OF this] that show ?thesis by (metis (no_types, lifting) imageE)
qed

lemma spliced_items: "q_Items q1 = map Some (xs @ t # ys) \<Longrightarrow> content q = xs @ ys \<Longrightarrow> spliced t q q1"
  by (rule splicedI [of _ _ xs ys]) (rule wf_queueI, assumption, assumption, rule content_eqI, assumption)

lemma spliced_AddAfter_AddBefore:
  assumes "wf_queue q" "tid \<in> gid ` set (content q)"
  shows "AddAfter gid tid t q = Ret q1 \<Longrightarrow> spliced t q q1"
    and "AddBefore gid tid t q = Ret q1 \<Longrightarrow> spliced t q q1"
proof -
  obtain xs y ys where q: "content q = xs @ y # ys" "gid y = tid" "tid \<notin> gid ` set xs"
    using assms(2) by (rule split_at_id)
  show "spliced t q q1" if "AddAfter gid tid t q = Ret q1"
    using that assms q by (intro spliced_items [of _ "xs @ [y]" _ ys]) (auto simp: AddAfter_items ins_after_split)
  show "spliced t q q1" if "AddBefore gid tid t q = Ret q1"
    using that assms q by (intro spliced_items [of _ xs _ "y # ys"]) (auto simp: AddBefore_items ins_before_split)
qed

text \<open>
  Round trip: whichever way a task with a fresh identifier was put into the queue, \<open>Get\<close> finds
  it, and \<open>Remove\<close> returns it and restores the content and the order of the queue; the queue stays
  free of nil items.
\<close>

theorem insert_Remove_roundtrip:
  assumes "wf_queue q" "gid t \<notin> gid ` set (content q)" "tid \<in> gid ` set (content q)"
    and "Ret q1 \<in> {Ret (AddFirst t q), Ret (AddLast t q), AddAfter gid tid t q, AddBefore gid tid t q}"
  shows "TaskQueue_Get gid (gid t) q1 = Ret (Some t) \<and>
    (\<exists>q2. TaskQueue_Remove gid (gid t) q1 = Ret (Some t, q2) \<and> wf_queue q2 \<and> content q2 = content q)"
proof -
  have "spliced t q q1"
    using assms(4) spliced_AddFirst [OF assms(1)] spliced_AddLast [OF assms(1)]
      spliced_AddAfter_AddBefore [OF assms(1,3), of t q1] by auto
  then obtain xs ys where q1: "wf_queue q1" "content q = xs @ ys" "content q1 = xs @ t # ys"
    unfolding spliced_def by blast
  with assms(2) have "gid t \<notin> gid ` set xs" by auto
  then show ?thesis
    using Remove_content [OF q1(1), of gid "gid t"] q1
    by (auto simp: Get_content find_split del_first_split)
qed

theorem insert_Remove_roundtrip_witness:
  "\<exists>q2. TaskQueue_Remove (\<lambda>x. x) ''b'' (AddLast ''b'' (AddLast ''a'' NewTasksQueue)) =
     Ret (Some ''b'', q2) \<and> content q2 = [''a'']"
  using insert_Remove_roundtrip [of "AddLast ''a'' NewTasksQueue" "\<lambda>x. x" "''b''" "''a''"
      "AddLast ''b'' (AddLast ''a'' NewTasksQueue)"]
  by (auto simp: wf_AddLast wf_NewTasksQueue content_AddLast content_NewTasksQueue)

end
