(* ===== verification/Task_Queue_Loop.thy ===== *)
theory Task_Queue_Loop
  imports Task_Queue "HOL-Library.Sublist"
begin

text \<open>
  The goroutine of \<open>TaskQueue.Start\<close> with \<open>waitForTask\<close> (\<open>task_queue.go\<close>), as a labelled step
  relation: the loop's own steps interleave with the tasks that other goroutines add at the tail
  and with the cancellation of the context. The handler is a relation between the state in which
  it is called and its result, since it runs a hook process. \<open>AfterHandle\<close>, a callback that no
  caller of the package sets, is left out.
\<close>

section \<open>Applying the result of a handler\<close>

record TaskResult =
  tr_Status :: string
  tr_HeadTasks :: "task_ref list"
  tr_TailTasks :: "task_ref list"
  tr_AfterTasks :: "task_ref list"
  tr_DelayBeforeNextTask :: duration

type_synonym queue_state = "task_heap \<times> task_ref TaskQueue"

text \<open>The \<open>case "Success"\<close> branch: tasks after the current one, at the tail, at the head.\<close>

definition handle_success ::
    "task_ref \<Rightarrow> TaskResult \<Rightarrow> task_heap \<Rightarrow> task_ref TaskQueue \<Rightarrow> task_ref TaskQueue go" where
  "handle_success t taskRes h q =
     go_bind (go_fold (AddAfter (ref_id h) (ref_id h t)) (rev (tr_AfterTasks taskRes)) q) (\<lambda>q.
       let q = fold AddLast (tr_TailTasks taskRes) q in
       go_bind (TaskQueue_Remove (ref_id h) (ref_id h t) q) (\<lambda>(_, q).
         let q = fold AddFirst (tr_HeadTasks taskRes) q in
         Ret (q\<lparr>q_Status := StatusEmpty\<rparr>)))"

text \<open>The switch on the result's status and the delay override; \<open>rnd\<close> is the backoff's random part.\<close>

definition handle_result ::
    "int \<Rightarrow> task_ref \<Rightarrow> TaskResult \<Rightarrow> queue_state \<Rightarrow> (queue_state \<times> duration) go" where
  "handle_result rnd t taskRes s =
     (case s of (h, q) \<Rightarrow>
       go_bind
         (if tr_Status taskRes = ''Fail'' then
            (let delay = CalculateDelay DelayOnFailedTask (t_FailureCount (h t)) rnd;
                 h = heap_apply IncrementFailureCount t h
             in Ret ((h, q\<lparr>q_Status := StatusSleepAfterFail delay\<rparr>), delay))
          else if tr_Status taskRes = ''Success'' then
            go_bind (handle_success t taskRes h q) (\<lambda>q. Ret ((h, q), 0))
          else if tr_Status taskRes = ''Repeat'' then
            Ret ((h, q\<lparr>q_Status := StatusRepeatHeadTask\<rparr>), DelayOnRepeat)
          else Ret ((h, q), 0))
         (\<lambda>((h, q), nextSleepDelay).
            if tr_DelayBeforeNextTask taskRes \<noteq> 0 then
              Ret ((h, q\<lparr>q_Status := StatusSleepFor (tr_DelayBeforeNextTask taskRes)\<rparr>),
                   tr_DelayBeforeNextTask taskRes)
            else Ret ((h, q), nextSleepDelay)))"

text \<open>
  The arguments of the debug messages are evaluated whatever the log level is, so the queue is
  dumped before and after the handler runs, and the dump of a nil item panics.
\<close>

definition dump_queue :: "queue_state \<Rightarrow> string go" where
  "dump_queue s = (case s of (h, q) \<Rightarrow>
     TaskQueue_String (ref_id h) (\<lambda>r. BaseTask_GetDescription (h r)) q)"

definition after_handler ::
    "int \<Rightarrow> task_ref \<Rightarrow> TaskResult \<Rightarrow> queue_state \<Rightarrow> (queue_state \<times> duration) go" where
  "after_handler rnd t taskRes s =
     go_bind (handle_result rnd t taskRes s) (\<lambda>(s, delay).
       go_bind (dump_queue s) (\<lambda>_. Ret (s, delay)))"

section \<open>The loop as a step relation\<close>

datatype loop_pc =
    NotStarted
  | Entering                          \<comment> \<open>about to call \<open>waitForTask(sleepDelay)\<close>\<close>
  | AtTop duration queue_status       \<comment> \<open>head of the loop of \<open>waitForTask\<close>\<close>
  | Asleep duration queue_status      \<comment> \<open>in its \<open>select\<close>, the delay ticker running\<close>
  | Running task_ref                  \<comment> \<open>the handler runs\<close>
  | Stopped
  | Crashed

record loop =
  l_heap :: task_heap
  l_queue :: "task_ref TaskQueue"
  l_sleepDelay :: duration
  l_pc :: loop_pc

datatype loop_label =
    LTau | LTake task_ref | LHandled task_ref string | LAdd task_ref | LCancel

type_synonym handler = "task_ref \<Rightarrow> queue_state \<Rightarrow> TaskResult \<Rightarrow> queue_state \<Rightarrow> bool"

definition TaskQueue_Start :: "loop \<Rightarrow> loop" where
  "TaskQueue_Start l =
     (if q_Started (l_queue l) then l
      else l\<lparr>l_queue := (l_queue l)\<lparr>q_Status := StatusEmpty, q_Started := True\<rparr>,
             l_sleepDelay := 0, l_pc := Entering\<rparr>)"

abbreviation set_status :: "queue_status \<Rightarrow> loop \<Rightarrow> loop" where
  "set_status st l \<equiv> l\<lparr>l_queue := (l_queue l)\<lparr>q_Status := st\<rparr>\<rparr>"

text \<open>
  \<open>fresh_task\<close>: a task that another goroutine queues has an identifier of its own, as
  \<open>uuid.NewV4\<close> gives it, and a reference of its own.
\<close>

definition fresh_task :: "task_ref \<Rightarrow> BaseTask \<Rightarrow> loop \<Rightarrow> bool" where
  "fresh_task r t l \<longleftrightarrow> r \<notin> set (content (l_queue l)) \<and>
     t_Id t \<notin> ref_id (l_heap l) ` set (content (l_queue l))"

inductive loop_step :: "handler option \<Rightarrow> loop \<Rightarrow> loop_label \<Rightarrow> loop \<Rightarrow> bool" for hnd where
  start: "\<not> q_Started (l_queue l) \<Longrightarrow> l_pc l = NotStarted \<Longrightarrow>
    loop_step hnd l LTau (TaskQueue_Start l)"
| enter_done: "l_pc l = Entering \<Longrightarrow> q_Cancelled (l_queue l) \<Longrightarrow>
    loop_step hnd l LTau (set_status StatusStop l\<lparr>l_pc := Stopped\<rparr>)"
| enter_wait: "l_pc l = Entering \<Longrightarrow> \<not> q_Cancelled (l_queue l) \<Longrightarrow>
    loop_step hnd l LTau (l\<lparr>l_pc := AtTop (l_sleepDelay l) (q_Status (l_queue l))\<rparr>)"
| top_take: "l_pc l = AtTop 0 st \<Longrightarrow> \<not> isEmpty (l_queue l) \<Longrightarrow> GetFirst (l_queue l) = Some t \<Longrightarrow>
    returns (dump_queue (l_heap l, l_queue l)) \<Longrightarrow> hnd = Some f \<Longrightarrow>
    loop_step hnd l (LTake t) (set_status StatusRunFirstTask l\<lparr>l_pc := Running t\<rparr>)"
| top_no_handler: "l_pc l = AtTop 0 st \<Longrightarrow> \<not> isEmpty (l_queue l) \<Longrightarrow>
    GetFirst (l_queue l) = Some t \<Longrightarrow> returns (dump_queue (l_heap l, l_queue l)) \<Longrightarrow> hnd = None \<Longrightarrow>
    loop_step hnd l LTau (l\<lparr>l_pc := Entering\<rparr>)"
| top_dump_panic: "l_pc l = AtTop 0 st \<Longrightarrow> \<not> isEmpty (l_queue l) \<Longrightarrow>
    GetFirst (l_queue l) = Some t \<Longrightarrow> \<not> returns (dump_queue (l_heap l, l_queue l)) \<Longrightarrow>
    loop_step hnd l LTau (l\<lparr>l_pc := Crashed\<rparr>)"
| top_nil: "l_pc l = AtTop 0 st \<Longrightarrow> \<not> isEmpty (l_queue l) \<Longrightarrow> GetFirst (l_queue l) = None \<Longrightarrow>
    loop_step hnd l LTau (set_status StatusStop l\<lparr>l_pc := Stopped\<rparr>)"
| top_sleep: "l_pc l = AtTop d st \<Longrightarrow> isEmpty (l_queue l) \<or> d \<noteq> 0 \<Longrightarrow> 0 \<le> d \<Longrightarrow>
    loop_step hnd l LTau (l\<lparr>l_pc := Asleep d st\<rparr>)"
| top_bad_ticker: "l_pc l = AtTop d st \<Longrightarrow> d < 0 \<Longrightarrow>
    loop_step hnd l LTau (l\<lparr>l_pc := Crashed\<rparr>)"
| delay_tick: "l_pc l = Asleep d st \<Longrightarrow> loop_step hnd l LTau (l\<lparr>l_pc := AtTop 0 st\<rparr>)"
| second_tick: "l_pc l = Asleep d st \<Longrightarrow>
    loop_step hnd l LTau
      (set_status (if d = 0 then StatusWaitingForTask wait else StatusElapsed st wait) l)"
| asleep_done: "l_pc l = Asleep d st \<Longrightarrow> q_Cancelled (l_queue l) \<Longrightarrow>
    loop_step hnd l LTau (set_status StatusStop l\<lparr>l_pc := Stopped\<rparr>)"
| handled: "l_pc l = Running t \<Longrightarrow> hnd = Some f \<Longrightarrow> f t (l_heap l, l_queue l) taskRes s \<Longrightarrow>
    \<not> q_Cancelled (snd s) \<Longrightarrow> 0 \<le> rnd \<Longrightarrow> rnd < ExponentialDelayRandomMs \<Longrightarrow>
    after_handler rnd t taskRes s = Ret ((h', q'), delay) \<Longrightarrow>
    loop_step hnd l (LHandled t (tr_Status taskRes))
      (l\<lparr>l_heap := h', l_queue := q', l_sleepDelay := delay, l_pc := Entering\<rparr>)"
| handled_panic: "l_pc l = Running t \<Longrightarrow> hnd = Some f \<Longrightarrow>
    f t (l_heap l, l_queue l) taskRes s \<Longrightarrow>
    \<not> q_Cancelled (snd s) \<Longrightarrow> 0 \<le> rnd \<Longrightarrow> rnd < ExponentialDelayRandomMs \<Longrightarrow>
    after_handler rnd t taskRes s = Panic \<Longrightarrow>
    loop_step hnd l (LHandled t (tr_Status taskRes)) (l\<lparr>l_pc := Crashed\<rparr>)"
| handled_cancelled: "l_pc l = Running t \<Longrightarrow> hnd = Some f \<Longrightarrow>
    f t (l_heap l, l_queue l) taskRes s \<Longrightarrow> q_Cancelled (snd s) \<Longrightarrow>
    loop_step hnd l (LHandled t (tr_Status taskRes))
      (l\<lparr>l_heap := fst s, l_queue := (snd s)\<lparr>q_Status := StatusStop\<rparr>, l_pc := Stopped\<rparr>)"
| add: "fresh_task r t l \<Longrightarrow>
    loop_step hnd l (LAdd r)
      (l\<lparr>l_heap := (l_heap l)(r := t), l_queue := AddLast r (l_queue l)\<rparr>)"
| cancel: "loop_step hnd l LCancel (l\<lparr>l_queue := TaskQueue_Stop (l_queue l)\<rparr>)"

inductive_cases loop_step_handledE: "loop_step hnd l (LHandled t st) l'"
inductive_cases loop_step_takeE: "loop_step hnd l (LTake t) l'"

inductive loop_run :: "handler option \<Rightarrow> loop \<Rightarrow> loop_label list \<Rightarrow> loop \<Rightarrow> bool" for hnd where
  run_nil: "loop_run hnd l [] l"
| run_step: "loop_run hnd l es l' \<Longrightarrow> loop_step hnd l' e l'' \<Longrightarrow> loop_run hnd l (es @ [e]) l''"

section \<open>What a result does to the queue\<close>

lemma del_first_head [simp]: "del_first gid (gid t) (t # xs) = xs"
  by simp

lemma handle_success_content:
  assumes "wf_queue q" "content q = t # rest"
  shows "\<exists>q'. handle_success t res h q = Ret q' \<and> wf_queue q' \<and>
    content q' = rev (tr_HeadTasks res) @ tr_AfterTasks res @ rest @ tr_TailTasks res"
proof -
  let ?gid = "ref_id h"
  obtain q1 where q1: "go_fold (AddAfter ?gid (?gid t)) (rev (tr_AfterTasks res)) q = Ret q1"
    "wf_queue q1" "content q1 = t # tr_AfterTasks res @ rest"
    using tq_by_id.insert_all_after [of q t rest ?gid "tr_AfterTasks res"] assms by auto
  define q2 where "q2 = fold AddLast (tr_TailTasks res) q1"
  have q2: "wf_queue q2" "content q2 = t # tr_AfterTasks res @ rest @ tr_TailTasks res"
    using tq.add_all_last [OF q1(2), of "tr_TailTasks res"] q1(3) by (auto simp: q2_def)
  obtain r q3 where q3: "TaskQueue_Remove ?gid (?gid t) q2 = Ret (r, q3)" "wf_queue q3"
    "content q3 = tr_AfterTasks res @ rest @ tr_TailTasks res"
    using tq_by_id.remove_key_elems [OF q2(1), of ?gid "?gid t"] q2(2) by auto
  define q4 where "q4 = fold AddFirst (tr_HeadTasks res) q3"
  have "wf_queue q4" "content q4 = rev (tr_HeadTasks res) @ content q3"
    using tq.add_all_first [OF q3(2), of "tr_HeadTasks res"] by (auto simp: q4_def)
  moreover have "handle_success t res h q = Ret (q4\<lparr>q_Status := StatusEmpty\<rparr>)"
    using q1(1) q3(1) by (simp add: handle_success_def q2_def [symmetric] q4_def [symmetric] Let_def)
  ultimately show ?thesis using q3(3) by (auto simp: wf_queue_def content_def)
qed


lemma handle_result_unfinished:
  assumes "tr_Status res \<noteq> ''Success''"
  shows "\<exists>h' q' d. handle_result rnd t res (h, q) = Ret ((h', q'), d) \<and>
    q_Items q' = q_Items q \<and> q_Cancelled q' = q_Cancelled q \<and> ref_id h' = ref_id h"
  using assms by (auto simp: handle_result_def Let_def heap_apply_ids)

lemma handle_result_success:
  assumes "wf_queue q" "content q = t # rest" "tr_Status res = ''Success''"
  shows "\<exists>q' d. handle_result rnd t res (h, q) = Ret ((h, q'), d) \<and> wf_queue q' \<and>
    content q' = rev (tr_HeadTasks res) @ tr_AfterTasks res @ rest @ tr_TailTasks res"
proof -
  obtain q1 where "handle_success t res h q = Ret q1" "wf_queue q1"
    "content q1 = rev (tr_HeadTasks res) @ tr_AfterTasks res @ rest @ tr_TailTasks res"
    using handle_success_content [OF assms(1,2), of res h] by blast
  with assms(3) show ?thesis
    by (cases "tr_DelayBeforeNextTask res = 0")
      (simp_all add: handle_result_def wf_queue_def content_def)
qed

lemma handle_result_delay:
  assumes "handle_result rnd t res s = Ret (s', d)" "0 \<le> tr_DelayBeforeNextTask res"
    "0 \<le> rnd" "rnd < ExponentialDelayRandomMs"
  shows "0 \<le> d"
proof -
  have "0 \<le> 5 * Second" by (simp add: duration_defs)
  also note CalculateDelay_range(1) [OF assms(3,4)]
  finally show ?thesis using assms(1,2)
    by (auto simp: handle_result_def Let_def DelayOnFailedTask_def DelayOnRepeat_def duration_defs
        split: prod.splits if_splits)
qed

lemma go_fold_String_returns:
  "None \<notin> set items \<Longrightarrow> returns (go_fold (\<lambda>t (buf, index).
     case t of None \<Rightarrow> Panic
     | Some x \<Rightarrow> (let buf = buf @ g x; index = Suc index
                  in Ret (if index = n then (buf, index) else (buf @ sep, index)))) items s)"
proof (induction items arbitrary: s)
  case (Cons t items)
  then show ?case by (cases t; cases s) (auto simp: Let_def)
qed simp

lemma wf_queue_dump: "wf_queue q \<Longrightarrow> returns (dump_queue (h, q))"
  using go_fold_String_returns [of "q_Items q" _ _ _ "([], 0)"]
  by (auto simp: dump_queue_def TaskQueue_String_def Iterate_def wf_queue_def Let_def returns_iff
      split: prod.splits)


section \<open>The contract of a handler and what it gives the loop\<close>

text \<open>
  \<open>queue_inv\<close>: no nil item and no two tasks with one identifier. A handler may drop queued tasks
  behind the one it handles (it combines their binding contexts), keeps every identifier, returns
  tasks with new identifiers and a delay that is not negative, and leaves a cancelled queue
  cancelled.
\<close>

definition queue_inv :: "queue_state \<Rightarrow> bool" where
  "queue_inv s \<longleftrightarrow> wf_queue (snd s) \<and> distinct (map (ref_id (fst s)) (content (snd s)))"

definition result_tasks :: "TaskResult \<Rightarrow> task_ref list" where
  "result_tasks res = rev (tr_HeadTasks res) @ tr_AfterTasks res @ tr_TailTasks res"

definition handler_ok :: "task_ref \<Rightarrow> queue_state \<Rightarrow> TaskResult \<Rightarrow> queue_state \<Rightarrow> bool" where
  "handler_ok t s res s' \<longleftrightarrow>
     wf_queue (snd s') \<and>
     (\<exists>rest'. content (snd s') = t # rest' \<and> subseq rest' (tl (content (snd s)))) \<and>
     (\<forall>r\<in>set (content (snd s)). ref_id (fst s') r = ref_id (fst s) r) \<and>
     distinct (map (ref_id (fst s')) (result_tasks res)) \<and>
     ref_id (fst s') ` set (result_tasks res) \<inter> ref_id (fst s') ` set (content (snd s')) = {} \<and>
     0 \<le> tr_DelayBeforeNextTask res \<and>
     (q_Cancelled (snd s) \<longrightarrow> q_Cancelled (snd s'))"

definition loop_inv :: "loop \<Rightarrow> bool" where
  "loop_inv l \<longleftrightarrow>
     queue_inv (l_heap l, l_queue l) \<and> 0 \<le> l_sleepDelay l \<and> l_pc l \<noteq> Crashed \<and>
     (\<forall>t. l_pc l = Running t \<longrightarrow> (\<exists>rest. content (l_queue l) = t # rest)) \<and>
     (\<forall>d st. l_pc l = AtTop d st \<or> l_pc l = Asleep d st \<longrightarrow> 0 \<le> d)"

lemma subseq_set_subset: "subseq xs ys \<Longrightarrow> set xs \<subseteq> set ys"
  by (induction rule: list_emb.induct) auto

lemma subseq_distinct: "subseq xs ys \<Longrightarrow> distinct ys \<Longrightarrow> distinct xs"
  by (induction rule: list_emb.induct) (auto dest: subseq_set_subset)

lemma queue_inv_AddLast:
  "queue_inv (h, q) \<Longrightarrow> r \<notin> set (content q) \<Longrightarrow> t_Id t \<notin> ref_id h ` set (content q) \<Longrightarrow>
   queue_inv (h(r := t), AddLast r q)"
proof -
  assume inv: "queue_inv (h, q)" and r: "r \<notin> set (content q)"
    and i: "t_Id t \<notin> ref_id h ` set (content q)"
  from r have eq: "map (ref_id (h(r := t))) (content q) = map (ref_id h) (content q)" by auto
  have "distinct (map (ref_id (h(r := t))) (content q @ [r]))"
    unfolding map_append eq using inv i by (simp add: queue_inv_def)
  with inv show ?thesis by (simp add: queue_inv_def content_AddLast wf_AddLast)
qed

lemma handler_ok_queue_inv:
  assumes "handler_ok t s res s'" "queue_inv s" "content (snd s) = t # rest"
  shows "queue_inv s'"
proof -
  obtain rest' where r: "content (snd s') = t # rest'" "subseq rest' rest"
    using assms(1,3) by (auto simp: handler_ok_def)
  from r have sub: "subseq (content (snd s')) (content (snd s))" using assms(3) by simp
  then have "set (content (snd s')) \<subseteq> set (content (snd s))" by (rule subseq_set_subset)
  then have "map (ref_id (fst s')) (content (snd s')) = map (ref_id (fst s)) (content (snd s'))"
    using assms(1) by (auto simp: handler_ok_def)
  moreover have "subseq (map (ref_id (fst s)) (content (snd s'))) (map (ref_id (fst s)) (content (snd s)))"
    using sub by (rule subseq_map)
  ultimately have "distinct (map (ref_id (fst s')) (content (snd s')))"
    using assms(2) subseq_distinct unfolding queue_inv_def by metis
  with assms(1) show ?thesis by (simp add: handler_ok_def queue_inv_def)
qed

lemma after_handler_inv:
  assumes ok: "handler_ok t s res s'" and inv: "queue_inv s" and hdt: "content (snd s) = t # rest"
    and rnd: "0 \<le> rnd" "rnd < ExponentialDelayRandomMs"
  shows "\<exists>s'' d. after_handler rnd t res s' = Ret (s'', d) \<and> queue_inv s'' \<and> 0 \<le> d \<and>
    (tr_Status res \<noteq> ''Success'' \<longrightarrow> (\<exists>rest'. content (snd s'') = t # rest'))"
proof -
  obtain h q where s': "s' = (h, q)" by (cases s')
  have inv': "queue_inv (h, q)" using handler_ok_queue_inv [OF ok inv hdt] s' by simp
  obtain rest' where q: "wf_queue q" "content q = t # rest'"
    using ok s' by (auto simp: handler_ok_def)
  have "\<exists>h' q' d. handle_result rnd t res (h, q) = Ret ((h', q'), d) \<and> queue_inv (h', q') \<and>
    (tr_Status res \<noteq> ''Success'' \<longrightarrow> (\<exists>rest'. content q' = t # rest'))"
  proof (cases "tr_Status res = ''Success''")
    case True
    obtain q' d where r: "handle_result rnd t res (h, q) = Ret ((h, q'), d)" "wf_queue q'"
      "content q' = rev (tr_HeadTasks res) @ tr_AfterTasks res @ rest' @ tr_TailTasks res"
      using handle_result_success [OF q True] by blast
    have "distinct (map (ref_id h) (content q'))"
      using ok inv' q(2) r(3) s'
      by (auto simp: handler_ok_def queue_inv_def result_tasks_def)
    with r True show ?thesis by (auto simp: queue_inv_def)
  next
    case False
    from handle_result_unfinished [OF this, of rnd t h q] obtain h' q' d where
      r: "handle_result rnd t res (h, q) = Ret ((h', q'), d)" "q_Items q' = q_Items q"
      "ref_id h' = ref_id h" by blast
    then have "queue_inv (h', q')" "content q' = content q"
      using inv' by (simp_all add: queue_inv_def wf_queue_def content_def)
    with r(1) q(2) show ?thesis by auto
  qed
  then obtain h' q' d where r: "handle_result rnd t res (h, q) = Ret ((h', q'), d)"
    "queue_inv (h', q')" "tr_Status res \<noteq> ''Success'' \<longrightarrow> (\<exists>rest'. content q' = t # rest')"
    by blast
  have "0 \<le> d" using handle_result_delay [OF r(1)] ok rnd by (simp add: handler_ok_def)
  moreover have "returns (dump_queue (h', q'))" using r(2) by (simp add: queue_inv_def wf_queue_dump)
  ultimately show ?thesis using r s' by (auto simp: after_handler_def returns_iff)
qed


fun is_take :: "loop_label \<Rightarrow> bool" where
  "is_take (LTake t) = True"
| "is_take _ = False"

fun is_handled :: "loop_label \<Rightarrow> bool" where
  "is_handled (LHandled t st) = True"
| "is_handled _ = False"

lemma stopped_stays: "loop_run hnd l es l' \<Longrightarrow> l_pc l = Stopped \<Longrightarrow> l_pc l' = Stopped"
proof (induction rule: loop_run.induct)
  case (run_step l es l' e l'')
  then have "l_pc l' = Stopped" by simp
  with run_step.hyps(2) show ?case by (auto elim: loop_step.cases)
qed

locale task_handler =
  fixes f :: handler
  assumes contract: "queue_inv s \<Longrightarrow> content (snd s) = t # rest \<Longrightarrow> f t s res s' \<Longrightarrow>
    handler_ok t s res s'"
begin

lemma step_after_handler:
  assumes inv: "loop_inv l" "l_pc l = Running t" and res: "f t (l_heap l, l_queue l) res s"
    and rnd: "0 \<le> rnd" "rnd < ExponentialDelayRandomMs"
  shows "\<exists>s'' d. after_handler rnd t res s = Ret (s'', d) \<and> queue_inv s'' \<and> 0 \<le> d \<and>
    (tr_Status res \<noteq> ''Success'' \<longrightarrow> (\<exists>rest'. content (snd s'') = t # rest'))"
proof -
  obtain rest where q: "queue_inv (l_heap l, l_queue l)" "content (l_queue l) = t # rest"
    using inv by (auto simp: loop_inv_def)
  then have ok: "handler_ok t (l_heap l, l_queue l) res s" using res by (auto intro: contract)
  from after_handler_inv [OF ok q(1) _ rnd, of rest] q(2) show ?thesis by simp
qed

lemma step_inv: "loop_step (Some f) l e l' \<Longrightarrow> loop_inv l \<Longrightarrow> loop_inv l'"
proof (induction rule: loop_step.induct)
  case (handled l t f' res s rnd h' q' delay)
  then show ?case using step_after_handler [of l t res s rnd] by (auto simp: loop_inv_def)
next
  case (handled_panic l t f' res s rnd)
  then show ?case using step_after_handler [of l t res s rnd] by auto
next
  case (handled_cancelled l t f' res s)
  then obtain rest where q: "queue_inv (l_heap l, l_queue l)" "content (l_queue l) = t # rest"
    by (auto simp: loop_inv_def)
  then have "handler_ok t (l_heap l, l_queue l) res s" using handled_cancelled by (auto intro: contract)
  from handler_ok_queue_inv [OF this q(1)] q(2) handled_cancelled show ?case
    by (auto simp: loop_inv_def queue_inv_def wf_queue_def content_def)
next
  case (add r t l)
  then have "queue_inv ((l_heap l)(r := t), AddLast r (l_queue l))"
    by (auto simp: loop_inv_def fresh_task_def intro!: queue_inv_AddLast)
  with add show ?case by (auto simp: loop_inv_def queue_simps)
next
  case (top_take l st t f')
  then show ?case
    by (auto simp: loop_inv_def queue_inv_def queue_simps wf_queue_def content_def split: list.splits)
next
  case (top_dump_panic l st t)
  then show ?case by (auto simp: loop_inv_def queue_inv_def wf_queue_dump)
qed (auto simp: loop_inv_def queue_inv_def wf_queue_def content_def TaskQueue_Start_def TaskQueue_Stop_def)

lemma run_inv: "loop_run (Some f) l es l' \<Longrightarrow> loop_inv l \<Longrightarrow> loop_inv l'"
  by (induction rule: loop_run.induct) (auto intro: step_inv)

text \<open>An unfinished task stays at the head of the queue until it is taken again.\<close>

lemma step_keeps_head:
  "loop_step (Some f) l e l' \<Longrightarrow> \<not> is_take e \<Longrightarrow> \<not> is_handled e \<Longrightarrow> content (l_queue l) = t # rest \<Longrightarrow>
   \<exists>rest'. content (l_queue l') = t # rest'"
  by (erule loop_step.cases)
    (auto simp: TaskQueue_Start_def TaskQueue_Stop_def content_def AddLast_def Let_def)

lemma run_keeps_head:
  "loop_run (Some f) l es l' \<Longrightarrow> \<forall>e\<in>set es. \<not> is_take e \<and> \<not> is_handled e \<Longrightarrow>
   content (l_queue l) = t # rest \<Longrightarrow> \<exists>rest'. content (l_queue l') = t # rest'"
proof (induction arbitrary: rest rule: loop_run.induct)
  case (run_step l es l' e l'')
  then obtain rest' where "content (l_queue l') = t # rest'" by auto
  with run_step step_keeps_head show ?case by auto
qed auto

lemma handled_unfinished_head:
  assumes "loop_step (Some f) l (LHandled t st) l'" "loop_inv l" "st \<noteq> ''Success''"
  shows "l_pc l' = Stopped \<or> (\<exists>rest. content (l_queue l') = t # rest)"
  using assms(1)
proof (rule loop_step_handledE)
  fix f' res s h' q' delay and rnd :: int
  assume "l' = l\<lparr>l_heap := h', l_queue := q', l_sleepDelay := delay, l_pc := Entering\<rparr>"
    "st = tr_Status res" "l_pc l = Running t" "Some f = Some f'"
    "f' t (l_heap l, l_queue l) res s" "0 \<le> rnd" "rnd < ExponentialDelayRandomMs"
    "after_handler rnd t res s = Ret ((h', q'), delay)"
  then show ?thesis using step_after_handler [OF assms(2), of t res s rnd] assms(3) by auto
next
  fix f' res s and rnd :: int
  assume "l_pc l = Running t" "Some f = Some f'" "f' t (l_heap l, l_queue l) res s" "0 \<le> rnd"
    "rnd < ExponentialDelayRandomMs" "after_handler rnd t res s = Panic"
  then show ?thesis using step_after_handler [OF assms(2), of t res s rnd] by auto
qed simp

lemma retry_before_next:
  assumes inv: "loop_inv l0"
    and pre: "loop_run (Some f) l0 es l1" and hnd: "loop_step (Some f) l1 (LHandled t st) l2"
    and mid: "loop_run (Some f) l2 ms l3" and nxt: "loop_step (Some f) l3 (LTake t') l4"
    and st: "st \<noteq> ''Success''" and quiet: "\<forall>e\<in>set ms. \<not> is_take e \<and> \<not> is_handled e"
  shows "t' = t"
proof -
  have inv1: "loop_inv l1" using run_inv [OF pre inv] .
  have inv3: "loop_inv l3" using run_inv [OF mid step_inv [OF hnd inv1]] .
  obtain d where top: "l_pc l3 = AtTop 0 d" "GetFirst (l_queue l3) = Some t'"
    using nxt by (auto elim: loop_step_takeE)
  with stopped_stays [OF mid] have "l_pc l2 \<noteq> Stopped" by auto
  with handled_unfinished_head [OF hnd inv1 st] obtain rest where "content (l_queue l2) = t # rest"
    by auto
  with run_keeps_head [OF mid quiet] obtain rest' where "content (l_queue l3) = t # rest'" by blast
  with top inv3 show ?thesis by (auto simp: loop_inv_def queue_inv_def queue_simps)
qed

text \<open>After the cancellation at most one more task is started.\<close>

lemma cancelled_stays:
  "loop_step (Some f) l e l' \<Longrightarrow> loop_inv l \<Longrightarrow> q_Cancelled (l_queue l) \<Longrightarrow>
   q_Cancelled (l_queue l') \<and>
   (l_pc l = Stopped \<longrightarrow> l_pc l' = Stopped) \<and>
   (\<forall>t. l_pc l = Running t \<longrightarrow> l_pc l' = Running t \<or> l_pc l' = Stopped)"
proof (induction rule: loop_step.induct)
  case (handled l t f' res s rnd h' q' delay)
  then have "handler_ok t (l_heap l, l_queue l) res s" by (auto simp: loop_inv_def intro: contract)
  with handled show ?case by (simp add: handler_ok_def)
next
  case (handled_panic l t f' res s rnd)
  then show ?case using step_after_handler [of l t res s rnd] by auto
qed (auto simp: TaskQueue_Start_def TaskQueue_Stop_def AddLast_def Let_def)

lemma takes_after_cancel:
  "loop_run (Some f) l es l' \<Longrightarrow> loop_inv l \<Longrightarrow> q_Cancelled (l_queue l) \<Longrightarrow>
   loop_inv l' \<and> q_Cancelled (l_queue l') \<and>
   (filter is_take es = [] \<or>
    length (filter is_take es) = 1 \<and> (l_pc l' = Stopped \<or> (\<exists>t. l_pc l' = Running t)))"
proof (induction rule: loop_run.induct)
  case (run_step l es l' e l'')
  then have l': "loop_inv l'" "q_Cancelled (l_queue l')" by auto
  note keep = cancelled_stays [OF run_step.hyps(2) l']
  show ?case
  proof (cases "is_take e")
    case True
    then obtain t where e: "e = LTake t" by (cases e) auto
    then have "l_pc l'' = Running t \<and> (\<exists>st. l_pc l' = AtTop 0 st)"
      using run_step.hyps(2) by (auto elim: loop_step_takeE)
    with run_step keep l' e step_inv show ?thesis by auto
  next
    case False
    with run_step keep l' step_inv show ?thesis by auto
  qed
qed simp

end


section \<open>Correctness of the result handling\<close>

lemma after_handler_Ret:
  "handle_result rnd t res s = Ret ((h, q), d) \<Longrightarrow> wf_queue q \<Longrightarrow>
   after_handler rnd t res s = Ret ((h, q), d)"
  using wf_queue_dump [of q h] by (auto simp: after_handler_def returns_iff)

text \<open>
  C6. When a task succeeds it leaves the queue: the tasks that it returns for the head of the
  queue come first, in reverse order because each of them is added with \<open>AddFirst\<close>, then the tasks
  that replace it, in their order, then the rest of the queue and the new tail tasks. Nothing
  else of the queue changes and no task is lost.
\<close>

theorem Success_splices_tasks:
  assumes "wf_queue q" "content q = t # rest" "tr_Status res = ''Success''"
  shows "\<exists>q' d. after_handler rnd t res (h, q) = Ret ((h, q'), d) \<and> wf_queue q' \<and>
    content q' = rev (tr_HeadTasks res) @ tr_AfterTasks res @ rest @ tr_TailTasks res"
  using handle_result_success [OF assms, of rnd h] after_handler_Ret by blast

theorem Success_splices_tasks_witness:
  "\<exists>q' d. after_handler 0 1 \<lparr>tr_Status = ''Success'', tr_HeadTasks = [5, 6], tr_TailTasks = [9],
       tr_AfterTasks = [7, 8], tr_DelayBeforeNextTask = 0\<rparr>
     (\<lambda>r. NewTask (show_nat r) HookRun, fold AddLast [1, 2] NewTasksQueue) =
       Ret ((\<lambda>r. NewTask (show_nat r) HookRun, q'), d) \<and> content q' = [6, 5, 7, 8, 2, 9]"
  using Success_splices_tasks [of "fold AddLast [1, 2] NewTasksQueue" 1 "[2]"
      "\<lparr>tr_Status = ''Success'', tr_HeadTasks = [5, 6], tr_TailTasks = [9], tr_AfterTasks = [7, 8],
        tr_DelayBeforeNextTask = 0\<rparr>" 0 "\<lambda>r. NewTask (show_nat r) HookRun"]
  by (auto simp: wf_AddLast wf_NewTasksQueue content_AddLast content_NewTasksQueue)



end
