(* ===== verification/Queue_Set.thy ===== *)
theory Queue_Set
  imports Task_Queue
begin

text \<open>
  \<open>pkg/task/queue/queue_set.go\<close>, \<open>pkg/task/dump/dump.go\<close> and the queueing half of
  \<open>pkg/shell-operator/manager_events_handler.go\<close>: the named queues, their text dump, and how the
  tasks that events give rise to are distributed over them. Queue contexts are children of the
  set's context, so stopping the set cancels every queue that was made by \<open>NewNamedQueue\<close>, the
  only way the operator makes queues.
\<close>

section \<open>The set of queues\<close>

record 't TaskQueueSet =
  tqs_Queues :: "(string, 't TaskQueue) gomap"
  tqs_MainName :: string
  tqs_Cancelled :: bool

definition NewTaskQueueSet :: "'t TaskQueueSet" where
  "NewTaskQueueSet = \<lparr>tqs_Queues = [], tqs_MainName = [], tqs_Cancelled = False\<rparr>"

definition WithMainName :: "string \<Rightarrow> 't TaskQueueSet \<Rightarrow> 't TaskQueueSet" where
  "WithMainName name tqs = tqs\<lparr>tqs_MainName := name\<rparr>"

definition TaskQueueSet_Stop :: "'t TaskQueueSet \<Rightarrow> 't TaskQueueSet" where
  "TaskQueueSet_Stop tqs =
     tqs\<lparr>tqs_Cancelled := True, tqs_Queues := map (\<lambda>(n, q). (n, TaskQueue_Stop q)) (tqs_Queues tqs)\<rparr>"

definition TaskQueueSet_Add :: "'t TaskQueue \<Rightarrow> 't TaskQueueSet \<Rightarrow> 't TaskQueueSet" where
  "TaskQueueSet_Add queue tqs = tqs\<lparr>tqs_Queues := mput (q_Name queue) queue (tqs_Queues tqs)\<rparr>"

definition NewNamedQueue :: "string \<Rightarrow> 't TaskQueueSet \<Rightarrow> 't TaskQueueSet" where
  "NewNamedQueue name tqs =
     (let q = TaskQueue_WithName name NewTasksQueue;
          q = q\<lparr>q_Cancelled := tqs_Cancelled tqs\<rparr>
      in tqs\<lparr>tqs_Queues := mput name q (tqs_Queues tqs)\<rparr>)"

definition GetByName :: "string \<Rightarrow> 't TaskQueueSet \<Rightarrow> 't TaskQueue option" where
  "GetByName name tqs = mget (tqs_Queues tqs) name"

definition GetMain :: "'t TaskQueueSet \<Rightarrow> 't TaskQueue option" where
  "GetMain tqs = GetByName (tqs_MainName tqs) tqs"

text \<open>
  \<open>Start\<close> marks a queue as started (its goroutine is the subject of \<open>Task_Queue_Loop\<close>);
  \<open>StartMain\<close> dereferences nil when the main queue is missing.
\<close>

definition start_queue :: "'t TaskQueue \<Rightarrow> 't TaskQueue" where
  "start_queue q = (if q_Started q then q else q\<lparr>q_Status := StatusEmpty, q_Started := True\<rparr>)"

definition StartMain :: "'t TaskQueueSet \<Rightarrow> 't TaskQueueSet go" where
  "StartMain tqs =
     (case GetByName (tqs_MainName tqs) tqs of
        None \<Rightarrow> Panic
      | Some q \<Rightarrow> Ret (tqs\<lparr>tqs_Queues := mput (tqs_MainName tqs) (start_queue q) (tqs_Queues tqs)\<rparr>))"

definition TaskQueueSet_Start :: "'t TaskQueueSet \<Rightarrow> 't TaskQueueSet" where
  "TaskQueueSet_Start tqs = tqs\<lparr>tqs_Queues := map (\<lambda>(n, q). (n, start_queue q)) (tqs_Queues tqs)\<rparr>"

text \<open>\<open>Iterate\<close> calls back for the main queue first and then for the others in map order.\<close>

definition TaskQueueSet_Iterate ::
    "('t TaskQueue \<Rightarrow> 's \<Rightarrow> 's) \<Rightarrow> string list \<Rightarrow> 't TaskQueueSet \<Rightarrow> 's \<Rightarrow> 's" where
  "TaskQueueSet_Iterate doFn ks tqs s =
     (if length (tqs_Queues tqs) = 0 then s
      else
        let s = (case GetMain tqs of None \<Rightarrow> s | Some main \<Rightarrow> doFn main s)
        in foldl (\<lambda>s k. case mget (tqs_Queues tqs) k of
                          None \<Rightarrow> s
                        | Some q \<Rightarrow> if q_Name q \<noteq> tqs_MainName tqs then doFn q s else s) s ks)"

definition TaskQueueSet_Remove :: "string \<Rightarrow> 't TaskQueueSet \<Rightarrow> 't TaskQueueSet" where
  "TaskQueueSet_Remove name tqs = tqs\<lparr>tqs_Queues := mdel name (tqs_Queues tqs)\<rparr>"

text \<open>
  \<open>WaitStopWithTimeout\<close> over the ticks it receives, each check tick with the queues it sees; the
  result is \<open>None\<close> while the call still waits, and otherwise whether every queue had stopped.
\<close>

datatype 't wait_tick = CheckTick "'t TaskQueueSet" | TimeoutTick

fun WaitStopWithTimeout :: "'t wait_tick list \<Rightarrow> bool option" where
  "WaitStopWithTimeout [] = None"
| "WaitStopWithTimeout (TimeoutTick # ticks) = Some False"
| "WaitStopWithTimeout (CheckTick tqs # ticks) =
     (if list_all (\<lambda>(_, q). q_Status q = StatusStop) (tqs_Queues tqs) then Some True
      else WaitStopWithTimeout ticks)"

section \<open>The text dump\<close>

definition AsQueueNames_Less :: "string \<Rightarrow> string \<Rightarrow> bool" where
  "AsQueueNames_Less p q =
     (if q = ''main'' then False
      else if p = ''main'' then True
      else p < q)"

text \<open>\<open>%2d\<close> pads on the left to two columns.\<close>

definition fmt_2d :: "nat \<Rightarrow> string" where
  "fmt_2d n = (let s = show_nat n in replicate (2 - length s) (CHR '' '') @ s)"

abbreviation newline :: string where "newline \<equiv> [char_of (10 :: nat)]"
abbreviation quote :: string where "quote \<equiv> [char_of (39 :: nat)]"

definition TaskQueueToText ::
    "('t \<Rightarrow> string) \<Rightarrow> (queue_status \<Rightarrow> string) \<Rightarrow> 't TaskQueue \<Rightarrow> string go" where
  "TaskQueueToText desc status q =
     (let buf = ''Queue '' @ quote @ q_Name q @ quote @ '': length '' @ show_nat (Length q) @
                '', status: '' @ quote @ status (q_Status q) @ quote @ newline;
          buf = buf @ newline
      in go_bind
           (Iterate (\<lambda>t (buf, index).
              case t of
                None \<Rightarrow> Panic
              | Some x \<Rightarrow> Ret (buf @ fmt_2d index @ ''. '' @ desc x @ newline, Suc index)) q (buf, 1))
           (\<lambda>(buf, index). Ret buf))"

definition queue_names :: "string list \<Rightarrow> 't TaskQueueSet \<Rightarrow> string list" where
  "queue_names ks tqs = TaskQueueSet_Iterate (\<lambda>queue names. names @ [q_Name queue]) ks tqs []"

fun dump_names ::
    "('t \<Rightarrow> string) \<Rightarrow> (queue_status \<Rightarrow> string) \<Rightarrow> 't TaskQueueSet \<Rightarrow> nat \<Rightarrow> string list \<Rightarrow> string \<Rightarrow> string go"
where
  "dump_names desc status tqs i [] buf = Ret buf"
| "dump_names desc status tqs i (name # names) buf =
     (let buf = (if i > 0 then buf @ ''=========='' @ newline @ newline else buf) in
      case GetByName name tqs of
        None \<Rightarrow> dump_names desc status tqs (Suc i) names
                  (buf @ ''Queue '' @ quote @ name @ quote @ '' is not created'' @ newline)
      | Some q \<Rightarrow> go_bind (TaskQueueToText desc status q) (\<lambda>txt.
                  dump_names desc status tqs (Suc i) names (buf @ txt)))"

definition TaskQueueSetToText ::
    "((string \<Rightarrow> string \<Rightarrow> bool) \<Rightarrow> string list \<Rightarrow> string list) \<Rightarrow> ('t \<Rightarrow> string) \<Rightarrow>
     (queue_status \<Rightarrow> string) \<Rightarrow> string list \<Rightarrow> 't TaskQueueSet \<Rightarrow> string go" where
  "TaskQueueSetToText srt desc status ks tqs =
     dump_names desc status tqs 0 (srt AsQueueNames_Less (queue_names ks tqs)) []"

section \<open>Distributing the tasks of an event\<close>

type_synonym queues_state = "task_heap \<times> task_ref TaskQueueSet"

text \<open>The body of the loop under \<open>DoWithLock\<close>; a task for a queue that is missing is only logged.\<close>

definition enqueue_task :: "int \<Rightarrow> task_ref \<Rightarrow> queues_state \<Rightarrow> queues_state" where
  "enqueue_task now resTask s =
     (case s of (h, tqs) \<Rightarrow>
       case GetByName (t_QueueName (h resTask)) tqs of
         None \<Rightarrow> (h, tqs)
       | Some q \<Rightarrow>
           (let h = heap_apply (WithQueuedAt now) resTask h;
                q' = AddLast resTask q
            in (h, tqs\<lparr>tqs_Queues := mput (t_QueueName (h resTask)) q' (tqs_Queues tqs)\<rparr>)))"

definition enqueue_tasks :: "int \<Rightarrow> task_ref list \<Rightarrow> queues_state \<Rightarrow> queues_state" where
  "enqueue_tasks now tailTasks s = fold (enqueue_task now) tailTasks s"

section \<open>Invariants and lemmas\<close>

definition wf_queues :: "'t TaskQueueSet \<Rightarrow> bool" where
  "wf_queues tqs \<longleftrightarrow> wf_map (tqs_Queues tqs) \<and>
     (\<forall>n q. mget (tqs_Queues tqs) n = Some q \<longrightarrow> q_Name q = n \<and> wf_queue q)"

lemma GetByName_NewNamedQueue [simp]:
  "GetByName n (NewNamedQueue name tqs) =
     (if n = name then Some ((TaskQueue_WithName name NewTasksQueue)\<lparr>q_Cancelled := tqs_Cancelled tqs\<rparr>)
      else GetByName n tqs)"
  by (simp add: GetByName_def NewNamedQueue_def Let_def)

lemma wf_queues_New [wf_intros]: "wf_queues NewTaskQueueSet"
  by (simp add: wf_queues_def NewTaskQueueSet_def)

lemma wf_queues_NewNamedQueue [wf_intros]: "wf_queues tqs \<Longrightarrow> wf_queues (NewNamedQueue name tqs)"
  by (auto simp: wf_queues_def NewNamedQueue_def Let_def TaskQueue_WithName_def NewTasksQueue_def
      wf_queue_def)

lemma wf_queues_Remove [wf_intros]: "wf_queues tqs \<Longrightarrow> wf_queues (TaskQueueSet_Remove name tqs)"
  by (auto simp: wf_queues_def TaskQueueSet_Remove_def split: if_splits)

lemma map_of_map_snd: "map_of (map (\<lambda>(n, q). (n, f q)) m) k = map_option f (map_of m k)"
  by (induction m) auto

lemma wf_queues_Stop [wf_intros]: "wf_queues tqs \<Longrightarrow> wf_queues (TaskQueueSet_Stop tqs)"
  by (auto simp: wf_queues_def TaskQueueSet_Stop_def map_of_map_snd wf_map_def TaskQueue_Stop_def
      wf_queue_def comp_def split_beta)

lemma AsQueueNames_weak_order: "weak_order AsQueueNames_Less A"
  by (auto simp: weak_order_def AsQueueNames_Less_def)

lemma AddLast_keeps [simp]:
  "q_Name (AddLast t q) = q_Name q" "q_Cancelled (AddLast t q) = q_Cancelled q"
  "q_Started (AddLast t q) = q_Started q" "q_Status (AddLast t q) = q_Status q"
  by (simp_all add: AddLast_def Let_def)

lemma wf_queues_enqueue [wf_intros]: "wf_queues (snd s) \<Longrightarrow> wf_queues (snd (enqueue_task now r s))"
  by (cases s) (auto simp: enqueue_task_def wf_queues_def GetByName_def Let_def wf_AddLast
      task_updates split: option.splits)

lemma enqueue_task_queue:
  "mget (tqs_Queues (snd (enqueue_task now r (h, tqs)))) name =
     map_option (\<lambda>q. if t_QueueName (h r) = name then AddLast r q else q) (mget (tqs_Queues tqs) name)"
  by (cases "mget (tqs_Queues tqs) name"; cases "mget (tqs_Queues tqs) (t_QueueName (h r))")
    (auto simp: enqueue_task_def GetByName_def Let_def task_updates)

lemma enqueue_task_QueueName: "t_QueueName (fst (enqueue_task now r (h, tqs)) r') = t_QueueName (h r')"
  by (auto simp: enqueue_task_def Let_def task_updates heap_apply_def split: option.splits)

text \<open>A list that is sorted by a total order without repetitions is determined by its elements.\<close>

lemma AsQueueNames_order_unique:
  assumes "distinct xs" "distinct ys" "set xs = set ys"
    "sorted_wrt (\<lambda>x y. x = y \<or> AsQueueNames_Less x y) xs"
    "sorted_wrt (\<lambda>x y. x = y \<or> AsQueueNames_Less x y) ys"
  shows "xs = ys"
  using assms
proof (induction xs arbitrary: ys)
  case (Cons x xs)
  then obtain y zs where ys: "ys = y # zs" by (cases ys) auto
  have "x = y"
  proof (rule ccontr)
    assume ne: "x \<noteq> y"
    then have "y \<in> set xs" "x \<in> set zs" using Cons.prems(3) ys by auto
    then have "AsQueueNames_Less x y" "AsQueueNames_Less y x" using Cons.prems(4,5) ys ne by auto
    then show False by (auto simp: AsQueueNames_Less_def split: if_splits)
  qed
  moreover have "xs = zs" using Cons.prems ys \<open>x = y\<close> by (intro Cons.IH) auto
  ultimately show ?case using ys by simp
qed simp

text \<open>The names that \<open>Iterate\<close> yields: every queue once, the main queue first.\<close>

lemma Iterate_names:
  assumes "wf_queues tqs" "range_of (tqs_Queues tqs) ks"
  shows "queue_names ks tqs = (if tqs_MainName tqs \<in> set ks then [tqs_MainName tqs] else []) @
    filter (\<lambda>n. n \<noteq> tqs_MainName tqs) ks"
proof -
  have known: "k \<in> set ks \<longleftrightarrow> mget (tqs_Queues tqs) k \<noteq> None" for k
    using assms(2) by (rule range_of_mem)
  let ?step = "\<lambda>names k. case mget (tqs_Queues tqs) k of None \<Rightarrow> names
    | Some q \<Rightarrow> if q_Name q \<noteq> tqs_MainName tqs then names @ [q_Name q] else names"
  have fold: "foldl ?step acc xs = acc @ filter (\<lambda>n. n \<noteq> tqs_MainName tqs) xs"
    if "set xs \<subseteq> set ks" for xs acc
    using that
  proof (induction xs arbitrary: acc)
    case (Cons x xs)
    then obtain q where "mget (tqs_Queues tqs) x = Some q" "q_Name q = x"
      using known [of x] assms(1) by (auto simp: wf_queues_def)
    with Cons show ?case by simp
  qed simp
  show ?thesis
  proof (cases "tqs_Queues tqs = []")
    case True
    with assms(2) show ?thesis by (simp add: queue_names_def TaskQueueSet_Iterate_def range_of_def)
  next
    case False
    then show ?thesis using fold [of ks] known [of "tqs_MainName tqs"] assms(1)
      by (auto simp: queue_names_def TaskQueueSet_Iterate_def Let_def GetMain_def GetByName_def
          wf_queues_def split: option.splits)
  qed
qed

section \<open>Correctness\<close>

text \<open>
  The tasks of an event reach exactly the queues that they name: every existing queue gets its
  own tasks at its tail in the order of the event's list, tasks for a queue that does not exist
  are dropped, and no queue is created or removed.
\<close>

theorem enqueue_tasks_routes:
  "mget (tqs_Queues (snd (enqueue_tasks now ts (h, tqs)))) name =
     map_option (fold AddLast (filter (\<lambda>r. t_QueueName (h r) = name) ts)) (mget (tqs_Queues tqs) name)"
proof (induction ts arbitrary: h tqs)
  case (Cons r ts)
  obtain h' tqs' where step: "enqueue_task now r (h, tqs) = (h', tqs')" by fastforce
  have names: "t_QueueName (h' r') = t_QueueName (h r')" for r'
    using enqueue_task_QueueName [of now r h tqs r'] step by simp
  have queue: "mget (tqs_Queues tqs') name =
      map_option (\<lambda>q. if t_QueueName (h r) = name then AddLast r q else q) (mget (tqs_Queues tqs) name)"
    using enqueue_task_queue [of now r h tqs name] step by simp
  have "mget (tqs_Queues (snd (enqueue_tasks now (r # ts) (h, tqs)))) name =
      map_option (fold AddLast (filter (\<lambda>r. t_QueueName (h' r) = name) ts)) (mget (tqs_Queues tqs') name)"
    using Cons.IH [of h' tqs'] step by (simp add: enqueue_tasks_def)
  with queue show ?case by (cases "mget (tqs_Queues tqs) name") (simp_all add: names)
qed (simp add: enqueue_tasks_def option.map_id0)

lemma dump_order:
  assumes "sort_spec srt" "wf_queues tqs" "range_of (tqs_Queues tqs) ks"
  shows "srt AsQueueNames_Less (queue_names ks tqs) =
    (if ''main'' \<in> set ks then [''main''] else []) @ sort (filter (\<lambda>n. n \<noteq> ''main'') (mkeys (tqs_Queues tqs)))"
proof -
  let ?names = "queue_names ks tqs" and ?s = "srt AsQueueNames_Less (queue_names ks tqs)"
  let ?r = "(if ''main'' \<in> set ks then [''main''] else []) @
    sort (filter (\<lambda>n. n \<noteq> ''main'') (mkeys (tqs_Queues tqs)))"
  have d: "distinct ks" "set ks = set (mkeys (tqs_Queues tqs))" using assms(3) by (auto simp: range_of_def)
  have dn: "distinct ?names" "set ?names = set ks"
    unfolding Iterate_names [OF assms(2,3)] using d(1) by auto
  have s: "mset ?s = mset ?names" "no_inversion AsQueueNames_Less ?s"
    using assms(1) AsQueueNames_weak_order by (auto simp: sort_spec_def)
  have ds: "distinct ?s" "set ?s = set ks" using s(1) dn by (metis mset_eq_imp_distinct_iff mset_eq_setD)+
  have dr: "distinct ?r" "set ?r = set ks"
    using d(2) assms(2) by (auto simp: wf_queues_def wf_map_def simp del: set_map)
  let ?lt = "\<lambda>x y. x = y \<or> AsQueueNames_Less x y"
  have total: "\<not> AsQueueNames_Less y x \<longleftrightarrow> ?lt x y" for x y by (auto simp: AsQueueNames_Less_def)
  have "sorted_wrt ?lt ?s" using s(2) by (simp add: no_inversion_def total)
  moreover have "sorted_wrt ?lt ?r"
  proof -
    have "sorted_wrt ?lt (sort (filter (\<lambda>n. n \<noteq> ''main'') (mkeys (tqs_Queues tqs))))"
      by (rule sorted_wrt_mono_rel [OF _ sorted_sort]) (auto simp: AsQueueNames_Less_def)
    then show ?thesis by (auto simp: AsQueueNames_Less_def)
  qed
  ultimately show ?thesis using ds dr AsQueueNames_order_unique [of ?s ?r] by blast
qed

text \<open>
  The dump lists the queues in one order, whatever the iteration order of the map and whatever
  sort algorithm the library uses: each queue once, the main queue first, the others ascending.
\<close>

theorem TaskQueueSetToText_order:
  assumes "sort_spec srt" "wf_queues tqs" "range_of (tqs_Queues tqs) ks"
  shows "TaskQueueSetToText srt desc status ks tqs =
    dump_names desc status tqs 0
      ((if GetByName ''main'' tqs = None then [] else [''main'']) @
       sort (filter (\<lambda>n. n \<noteq> ''main'') (mkeys (tqs_Queues tqs)))) []"
  using dump_order [OF assms] range_of_mem [OF assms(3), of "''main''"]
  by (auto simp: TaskQueueSetToText_def GetByName_def)

theorem TaskQueueSetToText_order_witness:
  "let tqs = fold NewNamedQueue [''b'', ''main'', ''a''] (WithMainName ''main'' NewTaskQueueSet) in
   TaskQueueSetToText go_sort (\<lambda>x. x) (\<lambda>_. []) [''a'', ''b'', ''main''] tqs =
   dump_names (\<lambda>x. x) (\<lambda>_. []) tqs 0 [''main'', ''a'', ''b''] []"
proof -
  let ?new = "WithMainName ''main'' NewTaskQueueSet :: string TaskQueueSet"
  let ?tqs = "fold NewNamedQueue [''b'', ''main'', ''a''] ?new"
  have q: "mkeys (tqs_Queues ?tqs) = [''b'', ''main'', ''a'']"
    by (simp add: NewNamedQueue_def Let_def WithMainName_def NewTaskQueueSet_def go_simps)
  then have "range_of (tqs_Queues ?tqs) [''a'', ''b'', ''main'']"
    unfolding range_of_def q by auto
  moreover have "wf_queues ?new"
    by (simp add: wf_queues_def WithMainName_def NewTaskQueueSet_def)
  then have "wf_queues ?tqs" by (auto intro!: wf_queues_NewNamedQueue)
  ultimately have "TaskQueueSetToText go_sort (\<lambda>x. x) (\<lambda>_. []) [''a'', ''b'', ''main''] ?tqs =
      dump_names (\<lambda>x. x) (\<lambda>_. []) ?tqs 0 ((if GetByName ''main'' ?tqs = None then [] else [''main'']) @
       sort (filter (\<lambda>n. n \<noteq> ''main'') (mkeys (tqs_Queues ?tqs)))) []"
    using TaskQueueSetToText_order [OF sort_spec_go_sort] by blast
  then show ?thesis unfolding q by simp
qed

definition all_stopped :: "'t TaskQueueSet \<Rightarrow> bool" where
  "all_stopped tqs \<longleftrightarrow> (\<forall>n q. (n, q) \<in> set (tqs_Queues tqs) \<longrightarrow> q_Status q = StatusStop)"



end
