(* ===== verification/Monitor_Config.thy ===== *)
theory Monitor_Config
  imports Kube_Types Labels Backoff
begin

text \<open>
  \<open>pkg/kube_events_manager/monitor_config.go\<close> and \<open>util.go\<close>: what a monitor watches. The builder
  methods copy selectors, \<open>Namespaces\<close> and \<open>Names\<close> say for which namespaces and names informers are
  made. Rendering of label and field selectors belongs to the Kubernetes client library and is an
  argument of the definitions that use it.
\<close>

section \<open>Configuration\<close>

record MonitorConfig =
  mc_MonitorId :: string
  mc_DebugName :: string
  mc_LogLabels :: labels
  mc_MetricLabels :: labels
  mc_EventTypes :: "WatchEventType list"
  mc_ApiVersion :: string
  mc_Kind :: string
  mc_NameSelector :: "NameSelector option"
  mc_NamespaceSelector :: "NamespaceSelector option"
  mc_LabelSelector :: "LabelSelector option"
  mc_FieldSelector :: "FieldSelector option"
  mc_JqFilter :: string
  mc_Mode :: KubeEventMode
  mc_KeepFullObjectsInMemory :: bool
  mc_FilterFunc :: "(k8s_object \<Rightarrow> string + string) option"

definition empty_MonitorConfig :: MonitorConfig where
  "empty_MonitorConfig = \<lparr>mc_MonitorId = [], mc_DebugName = [], mc_LogLabels = [], mc_MetricLabels = [],
     mc_EventTypes = [], mc_ApiVersion = [], mc_Kind = [], mc_NameSelector = None,
     mc_NamespaceSelector = None, mc_LabelSelector = None, mc_FieldSelector = None, mc_JqFilter = [],
     mc_Mode = [], mc_KeepFullObjectsInMemory = False, mc_FilterFunc = None\<rparr>"

definition WithEventTypes :: "WatchEventType list option \<Rightarrow> MonitorConfig \<Rightarrow> MonitorConfig" where
  "WithEventTypes types c =
     (case types of
        None \<Rightarrow> c\<lparr>mc_EventTypes := [WatchEventAdded, WatchEventModified, WatchEventDeleted]\<rparr>
      | Some ts \<Rightarrow> c\<lparr>mc_EventTypes := [] @ ts\<rparr>)"

definition WithNameSelector :: "NameSelector option \<Rightarrow> MonitorConfig \<Rightarrow> MonitorConfig" where
  "WithNameSelector nSel c =
     (case nSel of
        None \<Rightarrow> c
      | Some s \<Rightarrow> c\<lparr>mc_NameSelector := Some \<lparr>ns_MatchNames = ns_MatchNames s\<rparr>\<rparr>)"

definition WithNamespaceSelector :: "NamespaceSelector option \<Rightarrow> MonitorConfig \<Rightarrow> MonitorConfig" where
  "WithNamespaceSelector nsSel c =
     (case nsSel of
        None \<Rightarrow> c
      | Some s \<Rightarrow>
          c\<lparr>mc_NamespaceSelector := Some
              \<lparr>nss_NameSelector = (case nss_NameSelector s of None \<Rightarrow> None
                  | Some n \<Rightarrow> Some \<lparr>ns_MatchNames = ns_MatchNames n\<rparr>),
               nss_LabelSelector = (case nss_LabelSelector s of None \<Rightarrow> None
                  | Some l \<Rightarrow> Some \<lparr>ls_MatchLabels = ls_MatchLabels l,
                                   ls_MatchExpressions = ls_MatchExpressions l\<rparr>)\<rparr>\<rparr>)"

definition WithFieldSelector :: "FieldSelector option \<Rightarrow> MonitorConfig \<Rightarrow> MonitorConfig" where
  "WithFieldSelector fieldSel c =
     (case fieldSel of
        None \<Rightarrow> c
      | Some s \<Rightarrow> c\<lparr>mc_FieldSelector := Some \<lparr>fs_MatchExpressions = fs_MatchExpressions s\<rparr>\<rparr>)"

definition AddFieldSelectorRequirement :: "string \<Rightarrow> string \<Rightarrow> string \<Rightarrow> MonitorConfig \<Rightarrow> MonitorConfig" where
  "AddFieldSelectorRequirement field opr value c =
     (let sel = (case mc_FieldSelector c of None \<Rightarrow> \<lparr>fs_MatchExpressions = Some []\<rparr> | Some s \<Rightarrow> s);
          exprs = (case fs_MatchExpressions sel of None \<Rightarrow> [] | Some es \<Rightarrow> es);
          req = \<lparr>fr_Field = field, fr_Operator = opr, fr_Value = value\<rparr>
      in c\<lparr>mc_FieldSelector := Some (sel\<lparr>fs_MatchExpressions := Some (exprs @ [req])\<rparr>)\<rparr>)"

definition WithLabelSelector :: "LabelSelector option \<Rightarrow> MonitorConfig \<Rightarrow> MonitorConfig" where
  "WithLabelSelector labelSel c =
     (case labelSel of
        None \<Rightarrow> c
      | Some s \<Rightarrow> c\<lparr>mc_LabelSelector := Some \<lparr>ls_MatchLabels = ls_MatchLabels s,
                                             ls_MatchExpressions = ls_MatchExpressions s\<rparr>\<rparr>)"

definition IsAnyNamespace :: "MonitorConfig \<Rightarrow> bool" where
  "IsAnyNamespace c =
     (case mc_NamespaceSelector c of
        None \<Rightarrow> True
      | Some s \<Rightarrow>
          (nss_NameSelector s = None \<and> nss_LabelSelector s = None) \<or>
          (case nss_NameSelector s of None \<Rightarrow> False | Some n \<Rightarrow> length (ns_MatchNames n) = 0))"

definition MonitorConfig_Names :: "MonitorConfig \<Rightarrow> string list" where
  "MonitorConfig_Names c = (case mc_NameSelector c of None \<Rightarrow> [] | Some s \<Rightarrow> ns_MatchNames s)"

definition Namespaces :: "MonitorConfig \<Rightarrow> string list" where
  "Namespaces c =
     (case mc_NamespaceSelector c of
        None \<Rightarrow> [[]]
      | Some s \<Rightarrow>
          if nss_LabelSelector s \<noteq> None then []
          else case nss_NameSelector s of
              None \<Rightarrow> [[]]
            | Some n \<Rightarrow> if length (ns_MatchNames n) = 0 then [[]] else ns_MatchNames n)"

definition WithMode :: "KubeEventMode \<Rightarrow> MonitorConfig \<Rightarrow> MonitorConfig" where
  "WithMode mode c =
     (let c = (if mode = [] then c\<lparr>mc_Mode := ModeIncremental\<rparr> else c) in c\<lparr>mc_Mode := mode\<rparr>)"

section \<open>Utilities\<close>

definition ResourceId :: "k8s_object \<Rightarrow> string" where
  "ResourceId obj = o_Namespace obj @ ''/'' @ o_Kind obj @ ''/'' @ o_Name obj"

text \<open>
  \<open>FormatFieldSelector\<close>: the terms of the library's selector (\<open>True\<close> for equality), whose string
  form \<open>fields_String\<close> is third-party; \<open>Inl\<close> is the error for an unknown operator.
\<close>

fun field_terms :: "FieldSelectorRequirement list \<Rightarrow> string + (string \<times> bool \<times> string) list" where
  "field_terms [] = Inr []"
| "field_terms (req # reqs) =
     (if fr_Operator req \<in> {''='', ''=='', ''Equals''} then
        (case field_terms reqs of Inl e \<Rightarrow> Inl e
         | Inr ts \<Rightarrow> Inr ((fr_Field req, True, fr_Value req) # ts))
      else if fr_Operator req \<in> {''!='', ''NotEquals''} then
        (case field_terms reqs of Inl e \<Rightarrow> Inl e
         | Inr ts \<Rightarrow> Inr ((fr_Field req, False, fr_Value req) # ts))
      else Inl (fr_Field req @ fr_Operator req @ fr_Value req @ '': operator '' @ [CHR 0x27] @
                fr_Operator req @ [CHR 0x27] @ '' is not recognized''))"

definition FormatFieldSelector ::
    "((string \<times> bool \<times> string) list \<Rightarrow> string) \<Rightarrow> FieldSelector option \<Rightarrow> string + string" where
  "FormatFieldSelector fields_String selector =
     (case selector of
        None \<Rightarrow> Inr []
      | Some s \<Rightarrow>
          (case fs_MatchExpressions s of
             None \<Rightarrow> Inr []
           | Some reqs \<Rightarrow>
               (case field_terms reqs of Inl e \<Rightarrow> Inl e | Inr ts \<Rightarrow> Inr (fields_String ts))))"

text \<open>\<open>metav1.LabelSelectorAsSelector\<close> is third-party: an error or a selector's string form.\<close>

definition FormatLabelSelector ::
    "(LabelSelector option \<Rightarrow> string + string) \<Rightarrow> LabelSelector option \<Rightarrow> string + string" where
  "FormatLabelSelector asSelector selector =
     (case asSelector selector of Inl e \<Rightarrow> Inl e | Inr s \<Rightarrow> Inr s)"

definition Minute :: duration where "Minute = 60 * Second"
definition Hour :: duration where "Hour = 60 * Minute"

definition ResyncPeriodMedian :: duration where "ResyncPeriodMedian = 3 * Hour"
definition ResyncPeriodSpread :: duration where "ResyncPeriodSpread = 2 * Hour"
definition ResyncPeriodGranularity :: duration where "ResyncPeriodGranularity = 5 * Minute"
definition ResyncPeriodJitterGranularity :: duration where "ResyncPeriodJitterGranularity = 15 * Second"

text \<open>The two random draws are the arguments, bounded by the counts that the code computes.\<close>

definition spreadCount :: int where
  "spreadCount = ResyncPeriodSpread div ResyncPeriodGranularity"

definition jitterCount :: int where
  "jitterCount = ResyncPeriodGranularity div ResyncPeriodJitterGranularity"

definition RandomizedResyncPeriod :: "int \<Rightarrow> int \<Rightarrow> duration" where
  "RandomizedResyncPeriod rndSpread rndJitter =
     (let rndSpreadDelta = rndSpread * ResyncPeriodGranularity;
          rndJitterDelta = rndJitter * ResyncPeriodJitterGranularity
      in ResyncPeriodMedian - ResyncPeriodSpread div 2 + rndSpreadDelta + rndJitterDelta)"

text \<open>\<open>resourceInformer.adjustFieldSelector\<close>.\<close>

definition adjustFieldSelector :: "FieldSelector option \<Rightarrow> string \<Rightarrow> FieldSelector option" where
  "adjustFieldSelector selector objName =
     (let selectorCopy = (case selector of None \<Rightarrow> None
            | Some s \<Rightarrow> Some \<lparr>fs_MatchExpressions = fs_MatchExpressions s\<rparr>)
      in if objName \<noteq> [] then
           (let objNameReq = \<lparr>fr_Field = ''metadata.name'', fr_Operator = ''='', fr_Value = objName\<rparr> in
            case selectorCopy of
              None \<Rightarrow> Some \<lparr>fs_MatchExpressions = Some [objNameReq]\<rparr>
            | Some s \<Rightarrow> Some (s\<lparr>fs_MatchExpressions := Some (
                (case fs_MatchExpressions s of None \<Rightarrow> [] | Some es \<Rightarrow> es) @ [objNameReq])\<rparr>))
         else selectorCopy)"

section \<open>Correctness\<close>

lemmas resync_defs = ResyncPeriodMedian_def ResyncPeriodSpread_def ResyncPeriodGranularity_def
  ResyncPeriodJitterGranularity_def Minute_def Hour_def Second_def Millisecond_def

lemma field_terms_append:
  "field_terms (xs @ ys) =
     (case field_terms xs of Inl e \<Rightarrow> Inl e
      | Inr ts \<Rightarrow> (case field_terms ys of Inl e \<Rightarrow> Inl e | Inr us \<Rightarrow> Inr (ts @ us)))"
  by (induction xs) (auto split: sum.splits)

lemma RandomizedResyncPeriod_range:
  assumes "0 \<le> a" "a < spreadCount" "0 \<le> b" "b < jitterCount"
  shows "2 * Hour \<le> RandomizedResyncPeriod a b" "RandomizedResyncPeriod a b < 4 * Hour"
    "ResyncPeriodJitterGranularity dvd RandomizedResyncPeriod a b"
proof -
  have a: "a \<le> 23" using assms(2) by (simp add: spreadCount_def resync_defs)
  have b: "b \<le> 19" using assms(4) by (simp add: jitterCount_def resync_defs)
  show "2 * Hour \<le> RandomizedResyncPeriod a b"
    using assms(1,3) by (simp add: RandomizedResyncPeriod_def Let_def resync_defs)
  show "RandomizedResyncPeriod a b < 4 * Hour"
    using a b by (simp add: RandomizedResyncPeriod_def Let_def resync_defs)
  have "RandomizedResyncPeriod a b = ResyncPeriodJitterGranularity * (480 + 20 * a + b)"
    by (simp add: RandomizedResyncPeriod_def Let_def resync_defs algebra_simps)
  then show "ResyncPeriodJitterGranularity dvd RandomizedResyncPeriod a b" by simp
qed

text \<open>
  Informers never resynchronize in lockstep or too often: for every pair of random draws the
  period is at least two and less than four hours, and different draws give different periods.
\<close>

theorem RandomizedResyncPeriod_spread:
  assumes "0 \<le> a" "a < spreadCount" "0 \<le> b" "b < jitterCount"
    "0 \<le> a'" "a' < spreadCount" "0 \<le> b'" "b' < jitterCount"
  shows "2 * Hour \<le> RandomizedResyncPeriod a b \<and> RandomizedResyncPeriod a b < 4 * Hour \<and>
    (RandomizedResyncPeriod a b = RandomizedResyncPeriod a' b' \<longrightarrow> a = a' \<and> b = b')"
proof -
  have eq: "RandomizedResyncPeriod x y = ResyncPeriodJitterGranularity * (480 + 20 * x + y)" for x y
    by (simp add: RandomizedResyncPeriod_def Let_def resync_defs algebra_simps)
  have pos: "ResyncPeriodJitterGranularity \<noteq> 0" by (simp add: resync_defs)
  have b: "b < 20" "b' < 20" using assms(4,8) by (simp_all add: jitterCount_def resync_defs)
  have "a = a' \<and> b = b'" if "20 * a + b = 20 * a' + b'"
  proof -
    have "a = (20 * a + b) div 20" "a' = (20 * a' + b') div 20" using b assms(3,7) by simp_all
    with that show ?thesis by simp
  qed
  then have "RandomizedResyncPeriod a b = RandomizedResyncPeriod a' b' \<longrightarrow> a = a' \<and> b = b'"
    using pos by (auto simp: eq)
  then show ?thesis using RandomizedResyncPeriod_range [OF assms(1-4)] by simp
qed

theorem RandomizedResyncPeriod_spread_witness:
  "2 * Hour \<le> RandomizedResyncPeriod 23 19 \<and> RandomizedResyncPeriod 23 19 < 4 * Hour \<and>
   RandomizedResyncPeriod 23 19 \<noteq> RandomizedResyncPeriod 0 0"
proof -
  have "23 < spreadCount" "19 < jitterCount" "0 < spreadCount" "0 < jitterCount" by code_simp+
  then show ?thesis using RandomizedResyncPeriod_spread [of 23 19 0 0] by simp
qed

text \<open>
  The field selector of an informer for one object name keeps every requirement of the
  configuration and adds the name: formatting the adjusted selector succeeds exactly when the
  configured one does, and then selects by the configured terms and by the name.
\<close>

theorem adjustFieldSelector_adds_name:
  assumes "objName \<noteq> []"
  shows "FormatFieldSelector fs (adjustFieldSelector (Some \<lparr>fs_MatchExpressions = Some reqs\<rparr>) objName) =
    (case field_terms reqs of
       Inl e \<Rightarrow> Inl e
     | Inr ts \<Rightarrow> Inr (fs (ts @ [(''metadata.name'', True, objName)])))"
  using assms
  by (auto simp: adjustFieldSelector_def FormatFieldSelector_def Let_def field_terms_append
      split: sum.splits)

theorem adjustFieldSelector_adds_name_witness:
  "FormatFieldSelector (\<lambda>ts. concat (map (\<lambda>(f, e, v). f @ (if e then ''='' else ''!='') @ v @ '','') ts))
     (adjustFieldSelector (Some \<lparr>fs_MatchExpressions = Some
        [\<lparr>fr_Field = ''spec.node'', fr_Operator = ''NotEquals'', fr_Value = ''n1''\<rparr>]\<rparr>) ''pod'') =
   Inr ''spec.node!=n1,metadata.name=pod,''"
  by (subst adjustFieldSelector_adds_name) simp_all

text \<open>
  \<open>WithMode\<close> does not apply its default: for an empty mode the value \<open>Incremental\<close> is written
  first and then overwritten by the empty string.
\<close>

theorem WithMode_default_is_lost: "mc_Mode (WithMode mode c) = mode"
  by (simp add: WithMode_def Let_def)

end
