(* ===== verification/Contexts.thy ===== *)
theory Contexts
  imports Prelude
begin

text \<open>
  Go's \<open>context\<close> package as far as the operator uses it. A context that \<open>context.WithCancel\<close> makes
  has a fresh number and knows its ancestors: it is the list of its own number and theirs, and
  \<open>[]\<close> is the background context. The store holds the numbers that were cancelled; a context is
  done when it or one of its ancestors was cancelled.
\<close>

type_synonym ctx = "nat list"

record ctx_store =
  cs_next :: nat
  cs_cancelled :: "nat list"

definition WithCancel :: "ctx \<Rightarrow> ctx_store \<Rightarrow> ctx \<times> ctx_store" where
  "WithCancel parent st = (cs_next st # parent, st\<lparr>cs_next := Suc (cs_next st)\<rparr>)"

definition cancel_ctx :: "ctx \<Rightarrow> ctx_store \<Rightarrow> ctx_store" where
  "cancel_ctx c st = (case c of [] \<Rightarrow> st | n # _ \<Rightarrow> st\<lparr>cs_cancelled := n # cs_cancelled st\<rparr>)"

definition ctx_done :: "ctx_store \<Rightarrow> ctx \<Rightarrow> bool" where
  "ctx_done st c = list_ex (\<lambda>n. n \<in> set (cs_cancelled st)) c"

text \<open>Numbers in use are below the next one, so that a new context starts out like its parent.\<close>

definition wf_ctx :: "ctx_store \<Rightarrow> ctx \<Rightarrow> bool" where
  "wf_ctx st c \<longleftrightarrow> list_all (\<lambda>n. n < cs_next st) c"

definition wf_store :: "ctx_store \<Rightarrow> bool" where
  "wf_store st \<longleftrightarrow> list_all (\<lambda>n. n < cs_next st) (cs_cancelled st)"

lemma ctx_done_cancel:
  "ctx_done (cancel_ctx c st) d \<longleftrightarrow> ctx_done st d \<or> (c \<noteq> [] \<and> hd c \<in> set d)"
  by (cases c) (auto simp: ctx_done_def cancel_ctx_def list_ex_iff)

lemma ctx_done_WithCancel:
  "wf_store st \<Longrightarrow> ctx_done (snd (WithCancel p st)) (fst (WithCancel p st)) = ctx_done st p"
  by (auto simp: WithCancel_def ctx_done_def wf_store_def list_ex_iff list_all_iff)

lemma ctx_done_cong: "cs_cancelled st' = cs_cancelled st \<Longrightarrow> ctx_done st' c = ctx_done st c"
  by (simp add: ctx_done_def)

lemma wf_ctx_mono: "wf_ctx st c \<Longrightarrow> cs_next st \<le> cs_next st' \<Longrightarrow> wf_ctx st' c"
  by (auto simp: wf_ctx_def list_all_iff)

lemma WithCancel_simps [simp]:
  "cs_cancelled (snd (WithCancel p st)) = cs_cancelled st"
  "cs_next (snd (WithCancel p st)) = Suc (cs_next st)"
  "wf_ctx st p \<Longrightarrow> wf_ctx (snd (WithCancel p st)) (fst (WithCancel p st))"
  "wf_store st \<Longrightarrow> wf_store (snd (WithCancel p st))"
  by (auto simp: WithCancel_def wf_ctx_def wf_store_def list_all_iff)

end
