(* ===== verification/Resource_Informer.thy ===== *)
theory Resource_Informer
  imports Monitor_Config Contexts
begin

text \<open>
  \<open>pkg/kube_events_manager/filter.go\<close>, \<open>resource_informer.go\<close> and the checksum of
  \<open>pkg/utils/checksum\<close>: one informer caches the filtered objects of one namespace and fires an
  event when an object appears, disappears or changes in its filtered form. What the code calls
  and this repository does not define (JSON encoding, jq, MD5, the API server) is collected in the
  record \<open>kube_env\<close>; an error is a left value. Duration histograms are not modelled; the two
  snapshot gauges are kept as the last values that were set.
\<close>

section \<open>Filtering\<close>

record kube_env =
  env_Marshal :: "k8s_object \<Rightarrow> string + string"
  env_ApplyJqFilter :: "string \<Rightarrow> string \<Rightarrow> string + string"
  env_md5hex :: "string \<Rightarrow> string"
  env_GroupVersionResource :: "string \<Rightarrow> string \<Rightarrow> string + string"
  env_fields_String :: "(string \<times> bool \<times> string) list \<Rightarrow> string"
  env_AsSelector :: "LabelSelector option \<Rightarrow> string + string"
  env_ListNamespaces :: "string \<Rightarrow> string + string list"
  env_List :: "string \<Rightarrow> string \<Rightarrow> string \<Rightarrow> string \<Rightarrow> string + k8s_object list"

definition CalculateChecksum :: "kube_env \<Rightarrow> string list \<Rightarrow> string" where
  "CalculateChecksum env stringArr = env_md5hex env (concat (sort stringArr))"

definition ApplyFilter ::
    "kube_env \<Rightarrow> string \<Rightarrow> (k8s_object \<Rightarrow> string + string) option \<Rightarrow> k8s_object \<Rightarrow>
     string + ObjectAndFilterResult" where
  "ApplyFilter env jqFilter filterFn obj =
     (let res = \<lparr>ofr_JqFilter = jqFilter, ofr_Checksum = [], ofr_ResourceId = ResourceId obj,
                 ofr_RemoveObject = False, ofr_Object = Some obj, ofr_FilterResult = [],
                 ofr_ObjectBytes = 0\<rparr> in
      case env_Marshal env obj of
        Inl err \<Rightarrow> Inl err
      | Inr data \<Rightarrow>
          (let res = res\<lparr>ofr_ObjectBytes := int (length data)\<rparr> in
           case filterFn of
             Some fn \<Rightarrow>
               (case fn obj of
                  Inl err \<Rightarrow> Inl (''filterFn: '' @ err)
                | Inr filtered \<Rightarrow>
                    Inr (res\<lparr>ofr_FilterResult := filtered,
                             ofr_Checksum := CalculateChecksum env [filtered]\<rparr>))
           | None \<Rightarrow>
               if jqFilter = [] then Inr (res\<lparr>ofr_Checksum := CalculateChecksum env [data]\<rparr>)
               else case env_ApplyJqFilter env jqFilter data of
                   Inl err \<Rightarrow> Inl (''jqFilter: '' @ err)
                 | Inr filtered \<Rightarrow>
                     Inr (res\<lparr>ofr_FilterResult := filtered,
                              ofr_Checksum := CalculateChecksum env [filtered]\<rparr>)))"

section \<open>The informer\<close>

record resourceInformer =
  ei_Monitor :: MonitorConfig
  ei_Namespace :: string
  ei_Name :: string
  ei_CachedObjects :: "(string, ObjectAndFilterResult) gomap"
  ei_GroupVersionResource :: string
  ei_FieldSelector :: string
  ei_LabelSelector :: string
  ei_Gauges :: "(int \<times> int) option"
  ei_ctx :: ctx
  ei_started :: bool
  ei_stopped :: bool

definition NewResourceInformer :: "MonitorConfig \<Rightarrow> resourceInformer" where
  "NewResourceInformer monitor =
     \<lparr>ei_Monitor = monitor, ei_Namespace = [], ei_Name = [], ei_CachedObjects = [],
      ei_GroupVersionResource = [], ei_FieldSelector = [], ei_LabelSelector = [], ei_Gauges = None,
      ei_ctx = [], ei_started = False, ei_stopped = False\<rparr>"

definition informer_WithContext :: "ctx \<Rightarrow> ctx_store \<Rightarrow> resourceInformer \<Rightarrow> ctx_store \<times> resourceInformer" where
  "informer_WithContext parent st ei =
     (case WithCancel parent st of (c, st) \<Rightarrow> (st, ei\<lparr>ei_ctx := c\<rparr>))"

definition WithNamespace :: "string \<Rightarrow> resourceInformer \<Rightarrow> resourceInformer" where
  "WithNamespace ns ei = ei\<lparr>ei_Namespace := ns\<rparr>"

definition informer_WithName :: "string \<Rightarrow> resourceInformer \<Rightarrow> resourceInformer" where
  "informer_WithName name ei = ei\<lparr>ei_Name := name\<rparr>"

text \<open>The two \<open>GaugeSet\<close> calls after each change of the cache; the sum does not depend on map order.\<close>

definition set_gauges :: "resourceInformer \<Rightarrow> resourceInformer" where
  "set_gauges ei = ei\<lparr>ei_Gauges := Some (int (length (ei_CachedObjects ei)),
     ObjectAndFilterResults_Bytes (ei_CachedObjects ei) (mkeys (ei_CachedObjects ei)))\<rparr>"

definition GetExistedObjects :: "string list \<Rightarrow> resourceInformer \<Rightarrow> ObjectAndFilterResult list" where
  "GetExistedObjects ks ei =
     foldl (\<lambda>res k. case mget (ei_CachedObjects ei) k of None \<Rightarrow> res | Some obj \<Rightarrow> res @ [obj]) [] ks"

definition CachedObjectsBytes :: "string list \<Rightarrow> resourceInformer \<Rightarrow> int" where
  "CachedObjectsBytes ks ei = ObjectAndFilterResults_Bytes (ei_CachedObjects ei) ks"

text \<open>The filter with the full object dropped when the configuration says so.\<close>

definition informer_filter :: "kube_env \<Rightarrow> MonitorConfig \<Rightarrow> k8s_object \<Rightarrow> string + ObjectAndFilterResult" where
  "informer_filter env c obj =
     (case ApplyFilter env (mc_JqFilter c) (mc_FilterFunc c) obj of
        Inl err \<Rightarrow> Inl err
      | Inr objFilterRes \<Rightarrow>
          Inr (if \<not> mc_KeepFullObjectsInMemory c then RemoveFullObject objFilterRes else objFilterRes))"

text \<open>\<open>LoadExistedObjects\<close>: the loop stops at the first error, before the cache is touched.\<close>

fun load_items ::
    "kube_env \<Rightarrow> MonitorConfig \<Rightarrow> k8s_object list \<Rightarrow> (string, ObjectAndFilterResult) gomap \<Rightarrow>
     string + (string, ObjectAndFilterResult) gomap" where
  "load_items env c [] filteredObjects = Inr filteredObjects"
| "load_items env c (item # items) filteredObjects =
     (case informer_filter env c item of
        Inl err \<Rightarrow> Inl err
      | Inr r \<Rightarrow> load_items env c items (mput (ofr_ResourceId r) r filteredObjects))"

definition LoadExistedObjects :: "kube_env \<Rightarrow> resourceInformer \<Rightarrow> resourceInformer \<times> string option" where
  "LoadExistedObjects env ei =
     (case env_List env (ei_GroupVersionResource ei) (ei_Namespace ei) (ei_FieldSelector ei)
             (ei_LabelSelector ei) of
        Inl err \<Rightarrow> (ei, Some err)
      | Inr objList \<Rightarrow>
          if length objList = 0 then (ei, None)
          else case load_items env (ei_Monitor ei) objList [] of
              Inl err \<Rightarrow> (ei, Some err)
            | Inr filteredObjects \<Rightarrow>
                (set_gauges (ei\<lparr>ei_CachedObjects := map_merge (ei_CachedObjects ei) filteredObjects\<rparr>), None))"

definition CreateSharedInformer :: "kube_env \<Rightarrow> resourceInformer \<Rightarrow> resourceInformer \<times> string option" where
  "CreateSharedInformer env ei =
     (case env_GroupVersionResource env (mc_ApiVersion (ei_Monitor ei)) (mc_Kind (ei_Monitor ei)) of
        Inl err \<Rightarrow> (ei, Some err)
      | Inr gvr \<Rightarrow>
          (let ei = ei\<lparr>ei_GroupVersionResource := gvr\<rparr> in
           case FormatLabelSelector (env_AsSelector env) (mc_LabelSelector (ei_Monitor ei)) of
             Inl err \<Rightarrow> (ei, Some (''format label selector: '' @ err))
           | Inr fmtLabelSelector \<Rightarrow>
               (let fieldSelector = adjustFieldSelector (mc_FieldSelector (ei_Monitor ei)) (ei_Name ei) in
                case FormatFieldSelector (env_fields_String env) fieldSelector of
                  Inl err \<Rightarrow> (ei, Some (''format field selector: '' @ err))
                | Inr fmtFieldSelector \<Rightarrow>
                    LoadExistedObjects env
                      (ei\<lparr>ei_FieldSelector := fmtFieldSelector, ei_LabelSelector := fmtLabelSelector\<rparr>))))"

definition ShouldFireEvent :: "WatchEventType \<Rightarrow> resourceInformer \<Rightarrow> bool" where
  "ShouldFireEvent checkEvent ei = list_ex (\<lambda>event. event = checkEvent) (mc_EventTypes (ei_Monitor ei))"

text \<open>
  The argument of a watch callback: an object, a tombstone of the client library, or a value of
  another type, on which the type assertion panics.
\<close>

datatype watch_object = WObj k8s_object | DeletedFinalStateUnknown watch_object | WOther

fun unwrap_object :: "watch_object \<Rightarrow> k8s_object go" where
  "unwrap_object (WObj obj) = Ret obj"
| "unwrap_object (DeletedFinalStateUnknown (WObj obj)) = Ret obj"
| "unwrap_object _ = Panic"

text \<open>The switch on the event type: whether the event is skipped, and the informer after it.\<close>

definition update_cache ::
    "string \<Rightarrow> WatchEventType \<Rightarrow> ObjectAndFilterResult \<Rightarrow> resourceInformer \<Rightarrow> bool \<times> resourceInformer" where
  "update_cache resourceId eventType r ei =
     (if eventType = WatchEventAdded \<or> eventType = WatchEventModified then
        (let skipEvent = (case mget (ei_CachedObjects ei) resourceId of
               None \<Rightarrow> False
             | Some cachedObject \<Rightarrow> ofr_Checksum cachedObject = ofr_Checksum r)
         in (skipEvent, set_gauges (ei\<lparr>ei_CachedObjects := mput resourceId r (ei_CachedObjects ei)\<rparr>)))
      else if eventType = WatchEventDeleted then
        (False, set_gauges (ei\<lparr>ei_CachedObjects := mdel resourceId (ei_CachedObjects ei)\<rparr>))
      else (False, ei))"

definition HandleWatchEvent ::
    "kube_env \<Rightarrow> watch_object \<Rightarrow> WatchEventType \<Rightarrow> resourceInformer \<Rightarrow> (KubeEvent list \<times> resourceInformer) go" where
  "HandleWatchEvent env object eventType ei =
     (if ei_stopped ei then Ret ([], ei)
      else go_bind (unwrap_object object) (\<lambda>obj.
        let resourceId = ResourceId obj in
        case informer_filter env (ei_Monitor ei) obj of
          Inl err \<Rightarrow> Ret ([], ei)
        | Inr objFilterRes \<Rightarrow>
            (let (skipEvent, ei) = update_cache resourceId eventType objFilterRes ei in
             if skipEvent then Ret ([], ei)
             else if ShouldFireEvent eventType ei then
               Ret ([\<lparr>ke_MonitorId = mc_MonitorId (ei_Monitor ei), ke_Type = [],
                      ke_WatchEvents = [eventType], ke_Objects = [objFilterRes]\<rparr>], ei)
             else Ret ([], ei))))"

definition OnAdd :: "kube_env \<Rightarrow> watch_object \<Rightarrow> resourceInformer \<Rightarrow> (KubeEvent list \<times> resourceInformer) go" where
  "OnAdd env obj ei = HandleWatchEvent env obj WatchEventAdded ei"

definition OnUpdate ::
    "kube_env \<Rightarrow> watch_object \<Rightarrow> watch_object \<Rightarrow> resourceInformer \<Rightarrow> (KubeEvent list \<times> resourceInformer) go" where
  "OnUpdate env oldObj newObj ei = HandleWatchEvent env newObj WatchEventModified ei"

definition OnDelete :: "kube_env \<Rightarrow> watch_object \<Rightarrow> resourceInformer \<Rightarrow> (KubeEvent list \<times> resourceInformer) go" where
  "OnDelete env obj ei = HandleWatchEvent env obj WatchEventDeleted ei"

definition informer_Start :: "resourceInformer \<Rightarrow> resourceInformer" where
  "informer_Start ei = ei\<lparr>ei_started := True\<rparr>"

text \<open>The goroutine of \<open>Start\<close>: when the context is done, events are ignored from then on.\<close>

definition informer_ctx_done :: "ctx_store \<Rightarrow> resourceInformer \<Rightarrow> resourceInformer" where
  "informer_ctx_done st ei =
     (if ei_started ei \<and> ctx_done st (ei_ctx ei) then ei\<lparr>ei_stopped := True\<rparr> else ei)"

definition informer_Stop :: "ctx_store \<Rightarrow> resourceInformer \<Rightarrow> ctx_store \<times> resourceInformer" where
  "informer_Stop st ei = (cancel_ctx (ei_ctx ei) st, ei\<lparr>ei_stopped := True\<rparr>)"

definition PauseHandleEvents :: "resourceInformer \<Rightarrow> resourceInformer" where
  "PauseHandleEvents ei = ei\<lparr>ei_stopped := True\<rparr>"

section \<open>The abstract view of a cluster\<close>

text \<open>
  The specification of an informer: a view of the filtered objects, and the events that a change
  of the view gives rise to. \<open>flt\<close> is the filter, \<open>types\<close> the watched event types.
\<close>

type_synonym view = "string \<rightharpoonup> ObjectAndFilterResult"

fun view_event :: "(k8s_object \<Rightarrow> string + ObjectAndFilterResult) \<Rightarrow> WatchEventType \<times> k8s_object \<Rightarrow> view \<Rightarrow> view" where
  "view_event flt (ty, obj) v =
     (case flt obj of
        Inl _ \<Rightarrow> v
      | Inr r \<Rightarrow> if ty = WatchEventDeleted then v(ResourceId obj := None) else v(ResourceId obj \<mapsto> r))"

fun view_fires ::
    "(k8s_object \<Rightarrow> string + ObjectAndFilterResult) \<Rightarrow> WatchEventType list \<Rightarrow>
     WatchEventType \<times> k8s_object \<Rightarrow> view \<Rightarrow> (WatchEventType \<times> ObjectAndFilterResult) list" where
  "view_fires flt types (ty, obj) v =
     (case flt obj of
        Inl _ \<Rightarrow> []
      | Inr r \<Rightarrow>
          if ty \<in> set types \<and>
             (ty = WatchEventDeleted \<or> map_option ofr_Checksum (v (ResourceId obj)) \<noteq> Some (ofr_Checksum r))
          then [(ty, r)] else [])"

fun view_run ::
    "(k8s_object \<Rightarrow> string + ObjectAndFilterResult) \<Rightarrow> WatchEventType list \<Rightarrow>
     (WatchEventType \<times> k8s_object) list \<Rightarrow> view \<Rightarrow> (WatchEventType \<times> ObjectAndFilterResult) list \<times> view" where
  "view_run flt types [] v = ([], v)"
| "view_run flt types (e # es) v =
     (let (fired, v') = view_run flt types es (view_event flt e v)
      in (view_fires flt types e v @ fired, v'))"

text \<open>The informer on the same input; the object of an event arrives as an object.\<close>

fun informer_run ::
    "kube_env \<Rightarrow> (WatchEventType \<times> k8s_object) list \<Rightarrow> resourceInformer \<Rightarrow> (KubeEvent list \<times> resourceInformer) go" where
  "informer_run env [] ei = Ret ([], ei)"
| "informer_run env ((ty, obj) # es) ei =
     go_bind (HandleWatchEvent env (WObj obj) ty ei) (\<lambda>(fired, ei).
       go_bind (informer_run env es ei) (\<lambda>(fired', ei). Ret (fired @ fired', ei)))"

section \<open>Lemmas\<close>

lemma ApplyFilter_ResourceId: "ApplyFilter env jq fn obj = Inr r \<Longrightarrow> ofr_ResourceId r = ResourceId obj"
  by (auto simp: ApplyFilter_def Let_def split: sum.splits option.splits if_splits)

lemma informer_filter_ResourceId:
  "informer_filter env c obj = Inr r \<Longrightarrow> ofr_ResourceId r = ResourceId obj"
  by (auto simp: informer_filter_def RemoveFullObject_def split: sum.splits dest: ApplyFilter_ResourceId)

lemma informer_filter_object:
  "informer_filter env c obj = Inr r \<Longrightarrow>
     (mc_KeepFullObjectsInMemory c \<longrightarrow> ofr_Object r = Some obj \<and> \<not> ofr_RemoveObject r) \<and>
     (\<not> mc_KeepFullObjectsInMemory c \<longrightarrow> ofr_Object r = None \<and> ofr_RemoveObject r)"
  by (auto simp: informer_filter_def RemoveFullObject_def ApplyFilter_def Let_def
      split: sum.splits option.splits if_splits)

lemma load_items_keeps_wf: "load_items env c items m = Inr m' \<Longrightarrow> wf_map m \<Longrightarrow> wf_map m'"
  by (induction items arbitrary: m) (auto split: sum.splits)

lemma set_gauges_keeps [simp]:
  "ei_CachedObjects (set_gauges ei) = ei_CachedObjects ei" "ei_Monitor (set_gauges ei) = ei_Monitor ei"
  "ei_stopped (set_gauges ei) = ei_stopped ei"
  by (simp_all add: set_gauges_def)

lemma HandleWatchEvent_view:
  assumes "ty \<in> {WatchEventAdded, WatchEventModified, WatchEventDeleted}" "\<not> ei_stopped ei"
    "flt = informer_filter env (ei_Monitor ei)" "types = mc_EventTypes (ei_Monitor ei)"
  shows "\<exists>fired ei'. HandleWatchEvent env (WObj obj) ty ei = Ret (fired, ei') \<and>
    ei_Monitor ei' = ei_Monitor ei \<and> \<not> ei_stopped ei' \<and>
    mget (ei_CachedObjects ei') = view_event flt (ty, obj) (mget (ei_CachedObjects ei)) \<and>
    map (\<lambda>k. (ke_MonitorId k, ke_WatchEvents k, ke_Objects k)) fired =
      map (\<lambda>(ty, r). (mc_MonitorId (ei_Monitor ei), [ty], [r]))
        (view_fires flt types (ty, obj) (mget (ei_CachedObjects ei)))"
proof (cases "flt obj")
  case (Inl err)
  then show ?thesis using assms(2,3) by (auto simp: HandleWatchEvent_def Let_def)
next
  case (Inr r)
  let ?c = "ei_CachedObjects ei" and ?rid = "ResourceId obj"
  show ?thesis
  proof (cases "ty = WatchEventDeleted")
    case True
    with Inr assms(2-4) show ?thesis
      by (auto simp: HandleWatchEvent_def update_cache_def ShouldFireEvent_def list_ex_iff Let_def
          delete_conv)
  next
    case False
    then have "ty = WatchEventAdded \<or> ty = WatchEventModified" using assms(1) by blast
    with False Inr assms(2-4) show ?thesis
      by (cases "mget ?c ?rid")
        (auto simp: HandleWatchEvent_def update_cache_def ShouldFireEvent_def list_ex_iff Let_def
          update_conv)
  qed
qed

lemma informer_run_view:
  assumes "list_all (\<lambda>(ty, _). ty \<in> {WatchEventAdded, WatchEventModified, WatchEventDeleted}) es"
    "\<not> ei_stopped ei" "flt = informer_filter env (ei_Monitor ei)" "types = mc_EventTypes (ei_Monitor ei)"
    "view_run flt types es (mget (ei_CachedObjects ei)) = (changes, v)"
  shows "\<exists>fired ei'. informer_run env es ei = Ret (fired, ei') \<and>
    mget (ei_CachedObjects ei') = v \<and>
    map (\<lambda>k. (ke_MonitorId k, ke_WatchEvents k, ke_Objects k)) fired =
      map (\<lambda>(ty, r). (mc_MonitorId (ei_Monitor ei), [ty], [r])) changes"
  using assms
proof (induction es arbitrary: ei changes v)
  case (Cons e es)
  obtain ty obj where e: "e = (ty, obj)" by (cases e)
  obtain fired1 ei1 where step: "HandleWatchEvent env (WObj obj) ty ei = Ret (fired1, ei1)"
    "ei_Monitor ei1 = ei_Monitor ei" "\<not> ei_stopped ei1"
    "mget (ei_CachedObjects ei1) = view_event flt e (mget (ei_CachedObjects ei))"
    "map (\<lambda>k. (ke_MonitorId k, ke_WatchEvents k, ke_Objects k)) fired1 =
      map (\<lambda>(ty, r). (mc_MonitorId (ei_Monitor ei), [ty], [r]))
        (view_fires flt types e (mget (ei_CachedObjects ei)))"
    using HandleWatchEvent_view [of ty ei flt env types obj] Cons.prems e by auto
  obtain changes2 v2 where rest: "view_run flt types es (mget (ei_CachedObjects ei1)) = (changes2, v2)"
    by fastforce
  have split: "changes = view_fires flt types e (mget (ei_CachedObjects ei)) @ changes2" "v = v2"
    using Cons.prems(5) rest step(4) by auto
  obtain fired2 ei2 where "informer_run env es ei1 = Ret (fired2, ei2)"
    "mget (ei_CachedObjects ei2) = v2"
    "map (\<lambda>k. (ke_MonitorId k, ke_WatchEvents k, ke_Objects k)) fired2 =
      map (\<lambda>(ty, r). (mc_MonitorId (ei_Monitor ei1), [ty], [r])) changes2"
    using Cons.IH [OF _ step(3) _ _ rest] Cons.prems(1,3,4) step(2) by auto
  with step e split show ?case by auto
qed simp

lemma int64_add_int64 [simp]: "int64 (int64 a + b) = int64 (a + b)"
  unfolding int64_def by (simp add: algebra_simps mod_simps)

definition object_bytes :: "(string, ObjectAndFilterResult) gomap \<Rightarrow> string \<Rightarrow> int" where
  "object_bytes a k = (case mget a k of None \<Rightarrow> 0
     | Some r \<Rightarrow> int (length (ofr_FilterResult r)) + ofr_ObjectBytes r)"

lemma Bytes_foldl:
  "foldl (\<lambda>size k. case mget a k of None \<Rightarrow> size
      | Some r \<Rightarrow> int64 (int64 (size + int (length (ofr_FilterResult r))) + ofr_ObjectBytes r)) (int64 s) ks =
   int64 (s + (\<Sum>k\<leftarrow>ks. object_bytes a k))"
proof (induction ks arbitrary: s)
  case (Cons k ks)
  show ?case
  proof (cases "mget a k")
    case None
    with Cons [of s] show ?thesis by (simp add: object_bytes_def)
  next
    case (Some r)
    with Cons [of "s + object_bytes a k"] show ?thesis
      by (simp add: object_bytes_def add.assoc)
  qed
qed simp

lemma Bytes_sum: "ObjectAndFilterResults_Bytes a ks = int64 (\<Sum>k\<leftarrow>ks. object_bytes a k)"
  using Bytes_foldl [of a 0 ks] by (simp add: ObjectAndFilterResults_Bytes_def int64_id)

lemma Bytes_order: "wf_map a \<Longrightarrow> range_of a ks \<Longrightarrow>
  ObjectAndFilterResults_Bytes a ks = ObjectAndFilterResults_Bytes a (mkeys a)"
proof -
  assume "wf_map a" "range_of a ks"
  then have "mset ks = mset (mkeys a)"
    unfolding range_of_def wf_map_def by (metis set_eq_iff_mset_eq_distinct)
  then have "mset (map (object_bytes a) ks) = mset (map (object_bytes a) (mkeys a))"
    by (metis mset_map)
  then show ?thesis unfolding Bytes_sum by (metis sum_mset_sum_list)
qed

section \<open>Invariant\<close>

text \<open>
  The cache is keyed by the resource identifiers of its objects, holds full objects exactly when
  the configuration asks for them, and the gauges show its size.
\<close>

definition cached_ok :: "MonitorConfig \<Rightarrow> string \<Rightarrow> ObjectAndFilterResult \<Rightarrow> bool" where
  "cached_ok c k r \<longleftrightarrow> ofr_ResourceId r = k \<and>
     (ofr_Object r \<noteq> None \<longleftrightarrow> mc_KeepFullObjectsInMemory c) \<and>
     (ofr_RemoveObject r \<longleftrightarrow> \<not> mc_KeepFullObjectsInMemory c)"

definition cache_ok :: "MonitorConfig \<Rightarrow> (string, ObjectAndFilterResult) gomap \<Rightarrow> bool" where
  "cache_ok c m \<longleftrightarrow> wf_map m \<and> (\<forall>k r. mget m k = Some r \<longrightarrow> cached_ok c k r)"

definition informer_inv :: "resourceInformer \<Rightarrow> bool" where
  "informer_inv ei \<longleftrightarrow> cache_ok (ei_Monitor ei) (ei_CachedObjects ei) \<and>
     (case ei_Gauges ei of
        None \<Rightarrow> ei_CachedObjects ei = []
      | Some g \<Rightarrow> g = (int (length (ei_CachedObjects ei)),
                      CachedObjectsBytes (mkeys (ei_CachedObjects ei)) ei))"

lemma informer_filter_cached_ok: "informer_filter env c obj = Inr r \<Longrightarrow> cached_ok c (ResourceId obj) r"
  using informer_filter_ResourceId [of env c obj r] informer_filter_object [of env c obj r]
  by (auto simp: cached_ok_def)

lemma cache_ok_mput: "cache_ok c m \<Longrightarrow> cached_ok c k r \<Longrightarrow> cache_ok c (mput k r m)"
  by (auto simp: cache_ok_def)

lemma cache_ok_mdel: "cache_ok c m \<Longrightarrow> cache_ok c (mdel k m)"
  by (auto simp: cache_ok_def)

lemma cache_ok_merge: "cache_ok c m1 \<Longrightarrow> cache_ok c m2 \<Longrightarrow> cache_ok c (map_merge m1 m2)"
  by (auto simp: cache_ok_def split: option.splits)

lemma load_items_ok: "load_items env c items m = Inr m' \<Longrightarrow> cache_ok c m \<Longrightarrow> cache_ok c m'"
proof (induction items arbitrary: m)
  case (Cons item items)
  then show ?case
    using informer_filter_cached_ok [of env c item] informer_filter_ResourceId [of env c item]
    by (auto split: sum.splits intro: cache_ok_mput)
qed simp

lemma informer_inv_gauges: "cache_ok (ei_Monitor ei) (ei_CachedObjects ei) \<Longrightarrow> informer_inv (set_gauges ei)"
  by (simp add: informer_inv_def CachedObjectsBytes_def set_gauges_def)

lemma informer_inv_update_cache:
  assumes "informer_inv ei" "cached_ok (ei_Monitor ei) rid r"
  shows "informer_inv (snd (update_cache rid ty r ei))"
  using assms
  by (auto simp: update_cache_def Let_def informer_inv_def [of ei] intro!: informer_inv_gauges
      cache_ok_mput cache_ok_mdel)

lemma informer_inv_LoadExistedObjects:
  assumes "informer_inv ei"
  shows "informer_inv (fst (LoadExistedObjects env ei))"
proof -
  have "cache_ok (ei_Monitor ei) m" if "load_items env (ei_Monitor ei) items [] = Inr m" for items m
    using that load_items_ok by (fastforce simp: cache_ok_def)
  with assms show ?thesis
    by (auto simp: LoadExistedObjects_def informer_inv_def [of ei] intro!: informer_inv_gauges cache_ok_merge
        split: sum.splits)
qed

lemma informer_inv_HandleWatchEvent:
  assumes inv: "informer_inv ei" and run: "HandleWatchEvent env object ty ei = Ret (fired, ei')"
  shows "informer_inv ei'"
proof (cases "ei_stopped ei")
  case True
  with run inv show ?thesis by (simp add: HandleWatchEvent_def)
next
  case False
  with run obtain obj where obj: "unwrap_object object = Ret obj"
    by (auto simp: HandleWatchEvent_def)
  show ?thesis
  proof (cases "informer_filter env (ei_Monitor ei) obj")
    case (Inl err)
    with run inv obj False show ?thesis by (simp add: HandleWatchEvent_def Let_def)
  next
    case (Inr r)
    then have "ei' = snd (update_cache (ResourceId obj) ty r ei)"
      using run obj False by (auto simp: HandleWatchEvent_def Let_def split: prod.splits if_splits)
    with informer_inv_update_cache [OF inv informer_filter_cached_ok [OF Inr]] show ?thesis by simp
  qed
qed

lemma informer_run_inv: "informer_inv ei \<Longrightarrow> informer_run env es ei = Ret (fired, ei') \<Longrightarrow> informer_inv ei'"
proof (induction es arbitrary: ei fired)
  case (Cons e es)
  then show ?case by (cases e) (auto dest: informer_inv_HandleWatchEvent)
qed simp

section \<open>Correctness\<close>

lemma informer_inv_Create:
  "informer_inv ei \<Longrightarrow> informer_inv (fst (CreateSharedInformer env ei))"
  by (auto simp: CreateSharedInformer_def Let_def split: sum.splits
      intro!: informer_inv_LoadExistedObjects)
    (auto simp: informer_inv_def CachedObjectsBytes_def split: option.splits)

text \<open>
  C17. An informer implements the abstract view: for every sequence of watch events, its cache is
  the view of the latest filtered object of every resource, and the events that it fires are,
  in order, exactly the watched changes. In particular an addition or a modification that leaves
  the filtered form of a cached object unchanged updates the cache but fires nothing, a deletion
  always fires, and an object that cannot be filtered changes nothing.
\<close>

theorem informer_refines_view:
  assumes "list_all (\<lambda>(ty, _). ty \<in> {WatchEventAdded, WatchEventModified, WatchEventDeleted}) es"
    "\<not> ei_stopped ei"
    "view_run (informer_filter env (ei_Monitor ei)) (mc_EventTypes (ei_Monitor ei)) es
       (mget (ei_CachedObjects ei)) = (changes, v)"
  shows "\<exists>fired ei'. informer_run env es ei = Ret (fired, ei') \<and>
    mget (ei_CachedObjects ei') = v \<and>
    map (\<lambda>k. (ke_MonitorId k, ke_WatchEvents k, ke_Objects k)) fired =
      map (\<lambda>(ty, r). (mc_MonitorId (ei_Monitor ei), [ty], [r])) changes"
  using informer_run_view [OF assms(1,2) refl refl assms(3)] .


text \<open>A concrete environment for the witnesses: filters take the data field, checksums are the text.\<close>

definition demo_env :: kube_env where
  "demo_env = \<lparr>env_Marshal = (\<lambda>obj. Inr (o_Name obj @ o_Data obj)),
     env_ApplyJqFilter = (\<lambda>flt data. Inr (rev (take 1 (rev data)))), env_md5hex = (\<lambda>s. s),
     env_GroupVersionResource = (\<lambda>v k. Inr (v @ ''/'' @ k)),
     env_fields_String = (\<lambda>ts. concat (map (\<lambda>(f, e, v). f @ v) ts)), env_AsSelector = (\<lambda>_. Inr []),
     env_ListNamespaces = (\<lambda>sel. Inr [''n'']),
     env_List = (\<lambda>gvr ns f l. Inr [\<lparr>o_Namespace = ''n'', o_Kind = ''Pod'', o_Name = ''a'', o_Data = ''x''\<rparr>])\<rparr>"

definition demo_config :: MonitorConfig where
  "demo_config = empty_MonitorConfig\<lparr>mc_MonitorId := ''m'', mc_JqFilter := ''.f'',
     mc_EventTypes := [WatchEventAdded, WatchEventModified, WatchEventDeleted]\<rparr>"

abbreviation demo_pod :: "string \<Rightarrow> k8s_object" where
  "demo_pod data \<equiv> \<lparr>o_Namespace = ''n'', o_Kind = ''Pod'', o_Name = ''a'', o_Data = data\<rparr>"

lemmas demo_defs = demo_env_def demo_config_def empty_MonitorConfig_def NewResourceInformer_def
  informer_filter_def ApplyFilter_def RemoveFullObject_def CalculateChecksum_def ResourceId_def

theorem informer_refines_view_witness:
  "\<exists>fired ei'. informer_run demo_env [(WatchEventAdded, demo_pod ''x''), (WatchEventModified, demo_pod ''yx''),
       (WatchEventModified, demo_pod ''z'')] (NewResourceInformer demo_config) = Ret (fired, ei') \<and>
     map ke_WatchEvents fired = [[WatchEventAdded], [WatchEventModified]] \<and>
     map_option ofr_FilterResult (mget (ei_CachedObjects ei') ''n/Pod/a'') = Some ''z''"
proof -
  let ?es = "[(WatchEventAdded, demo_pod ''x''), (WatchEventModified, demo_pod ''yx''),
       (WatchEventModified, demo_pod ''z'')]"
  let ?ei = "NewResourceInformer demo_config"
  obtain changes v where run: "view_run (informer_filter demo_env (ei_Monitor ?ei))
      (mc_EventTypes (ei_Monitor ?ei)) ?es (mget (ei_CachedObjects ?ei)) = (changes, v)" by fastforce
  then have ch: "map fst changes = [WatchEventAdded, WatchEventModified]"
    "map_option ofr_FilterResult (v ''n/Pod/a'') = Some ''z''"
    by (auto simp: demo_defs Let_def)
  obtain fired ei' where f: "informer_run demo_env ?es ?ei = Ret (fired, ei')"
    "mget (ei_CachedObjects ei') = v"
    "map (\<lambda>k. (ke_MonitorId k, ke_WatchEvents k, ke_Objects k)) fired =
      map (\<lambda>(ty, r). (mc_MonitorId (ei_Monitor ?ei), [ty], [r])) changes"
    using informer_refines_view [OF _ _ run] by (auto simp: NewResourceInformer_def)
  have "map ke_WatchEvents fired = map (\<lambda>t. [t]) (map fst changes)"
    using arg_cong [OF f(3), of "map (fst \<circ> snd)"] by (simp add: comp_def split_beta)
  then have "map ke_WatchEvents fired = [[WatchEventAdded], [WatchEventModified]]"
    unfolding ch by simp
  moreover have "map_option ofr_FilterResult (mget (ei_CachedObjects ei') ''n/Pod/a'') = Some ''z''"
    using ch(2) f(2) by simp
  ultimately show ?thesis
    by (intro exI [of _ fired] exI [of _ ei'] conjI f(1))
qed


end
