(* ===== verification/Monitor.thy ===== *)
theory Monitor
  imports Resource_Informer
begin

text \<open>
  \<open>pkg/kube_events_manager/monitor.go\<close>, \<open>namespace_informer.go\<close> and \<open>kube_events_manager.go\<close>: a
  monitor owns the informers of one binding, static ones for named namespaces and varying ones for
  the namespaces that match a label selector; the manager owns the monitors and turns informer
  events into the events that it sends to the operator. The context store is threaded through
  every operation that makes or cancels contexts.
\<close>

section \<open>Monitors\<close>

record namespaceInformer =
  ni_ctx :: ctx
  ni_ExistedObjects :: "(string, bool) gomap"
  ni_started :: bool
  ni_stopped :: bool

record monitor =
  m_Config :: MonitorConfig
  m_ResourceInformers :: "resourceInformer list"
  m_NamespaceInformer :: "namespaceInformer option"
  m_VaryingInformers :: "(string, resourceInformer list) gomap"
  m_staticNamespaces :: "(string, bool) gomap"
  m_cancelForNs :: "(string, ctx) gomap"
  m_ctx :: ctx

definition NewMonitor :: "MonitorConfig \<Rightarrow> ctx \<Rightarrow> monitor" where
  "NewMonitor config c =
     \<lparr>m_Config = config, m_ResourceInformers = [], m_NamespaceInformer = None, m_VaryingInformers = [],
      m_staticNamespaces = [], m_cancelForNs = [], m_ctx = c\<rparr>"

text \<open>\<open>CreateInformersForNamespace\<close>: the loop over the object names ends with the first error.\<close>

fun create_informers ::
    "kube_env \<Rightarrow> MonitorConfig \<Rightarrow> ctx \<Rightarrow> string \<Rightarrow> string list \<Rightarrow> ctx_store \<Rightarrow>
     ctx_store \<times> (string + resourceInformer list)" where
  "create_informers env c parent namespace [] st = (st, Inr [])"
| "create_informers env c parent namespace (objName # objNames) st =
     (let (st, informer) = informer_WithContext parent st (NewResourceInformer c);
          informer = informer_WithName objName (WithNamespace namespace informer);
          (informer, err) = CreateSharedInformer env informer
      in case err of
           Some e \<Rightarrow> (st, Inl e)
         | None \<Rightarrow>
             (case create_informers env c parent namespace objNames st of
                (st, Inl e) \<Rightarrow> (st, Inl e)
              | (st, Inr informers) \<Rightarrow> (st, Inr (informer # informers))))"

definition CreateInformersForNamespace ::
    "kube_env \<Rightarrow> string \<Rightarrow> monitor \<Rightarrow> ctx_store \<Rightarrow> ctx_store \<times> (string + resourceInformer list)" where
  "CreateInformersForNamespace env namespace m st =
     (let objNames = (if length (MonitorConfig_Names (m_Config m)) > 0
                      then MonitorConfig_Names (m_Config m) else [[]])
      in create_informers env (m_Config m) (m_ctx m) namespace objNames st)"

text \<open>The loop over the static namespaces; informers made before an error stay in the monitor.\<close>

fun create_static :: "kube_env \<Rightarrow> string list \<Rightarrow> monitor \<Rightarrow> ctx_store \<Rightarrow> ctx_store \<times> monitor \<times> string option" where
  "create_static env [] m st = (st, m, None)"
| "create_static env (nsName # nsNames) m st =
     (let m = (if nsName \<noteq> [] then m\<lparr>m_staticNamespaces := mput nsName True (m_staticNamespaces m)\<rparr> else m)
      in case CreateInformersForNamespace env nsName m st of
           (st, Inl err) \<Rightarrow> (st, m, Some err)
         | (st, Inr informers) \<Rightarrow>
             create_static env nsNames
               (m\<lparr>m_ResourceInformers := m_ResourceInformers m @ informers\<rparr>) st)"

text \<open>Starts the informers of one namespace under a context of that namespace.\<close>

fun start_under :: "ctx \<Rightarrow> resourceInformer list \<Rightarrow> ctx_store \<Rightarrow> ctx_store \<times> resourceInformer list" where
  "start_under c [] st = (st, [])"
| "start_under c (informer # informers) st =
     (let (st, informer) = informer_WithContext c st informer;
          (st, rest) = start_under c informers st
      in (st, informer_Start informer # rest))"

definition start_namespace :: "string \<Rightarrow> monitor \<Rightarrow> ctx_store \<Rightarrow> ctx_store \<times> monitor" where
  "start_namespace nsName m st =
     (let (c, st) = WithCancel (m_ctx m) st;
          m = m\<lparr>m_cancelForNs := mput nsName c (m_cancelForNs m)\<rparr>;
          informers = (case mget (m_VaryingInformers m) nsName of None \<Rightarrow> [] | Some is \<Rightarrow> is);
          (st, informers) = start_under c informers st
      in (st, m\<lparr>m_VaryingInformers := mput nsName informers (m_VaryingInformers m)\<rparr>))"

text \<open>The add callback of the namespace informer; on an error the namespace keeps a nil list.\<close>

definition ns_added :: "kube_env \<Rightarrow> string \<Rightarrow> monitor \<Rightarrow> ctx_store \<Rightarrow> ctx_store \<times> monitor" where
  "ns_added env nsName m st =
     (if mget (m_staticNamespaces m) nsName \<noteq> None then (st, m)
      else if mget (m_VaryingInformers m) nsName \<noteq> None then (st, m)
      else
        let (st, res) = CreateInformersForNamespace env nsName m st;
            informers = (case res of Inl err \<Rightarrow> [] | Inr is \<Rightarrow> is);
            m = m\<lparr>m_VaryingInformers := mput nsName informers (m_VaryingInformers m)\<rparr>
        in start_namespace nsName m st)"

text \<open>The delete callback cancels the namespace's context and forgets its informers.\<close>

definition ns_deleted :: "string \<Rightarrow> monitor \<Rightarrow> ctx_store \<Rightarrow> ctx_store \<times> monitor" where
  "ns_deleted nsName m st =
     (if mget (m_staticNamespaces m) nsName \<noteq> None then (st, m)
      else case mget (m_cancelForNs m) nsName of
          None \<Rightarrow> (st, m)
        | Some c \<Rightarrow>
            (cancel_ctx c st,
             m\<lparr>m_VaryingInformers := mdel nsName (m_VaryingInformers m),
               m_cancelForNs := mdel nsName (m_cancelForNs m)\<rparr>))"

text \<open>\<open>namespaceInformer.CreateSharedInformer\<close>, and its callbacks on the name of a namespace.\<close>

definition ni_CreateSharedInformer ::
    "kube_env \<Rightarrow> MonitorConfig \<Rightarrow> namespaceInformer \<Rightarrow> namespaceInformer \<times> string option" where
  "ni_CreateSharedInformer env c ni =
     (case FormatLabelSelector (env_AsSelector env)
             (case mc_NamespaceSelector c of None \<Rightarrow> None | Some s \<Rightarrow> nss_LabelSelector s) of
        Inl err \<Rightarrow> (ni, Some (''format label selector: '' @ err))
      | Inr formatSelector \<Rightarrow>
          (case env_ListNamespaces env formatSelector of
             Inl err \<Rightarrow> (ni, Some err)
           | Inr names \<Rightarrow>
               (ni\<lparr>ni_ExistedObjects := fold (\<lambda>n. mput n True) names (ni_ExistedObjects ni)\<rparr>, None)))"

definition ni_OnAdd :: "kube_env \<Rightarrow> string \<Rightarrow> monitor \<Rightarrow> ctx_store \<Rightarrow> ctx_store \<times> monitor" where
  "ni_OnAdd env nsName m st =
     (case m_NamespaceInformer m of
        None \<Rightarrow> (st, m)
      | Some ni \<Rightarrow> if ni_stopped ni then (st, m) else ns_added env nsName m st)"

definition ni_OnDelete :: "string \<Rightarrow> monitor \<Rightarrow> ctx_store \<Rightarrow> ctx_store \<times> monitor" where
  "ni_OnDelete nsName m st =
     (case m_NamespaceInformer m of
        None \<Rightarrow> (st, m)
      | Some ni \<Rightarrow> if ni_stopped ni then (st, m) else ns_deleted nsName m st)"

definition ni_Stop :: "ctx_store \<Rightarrow> namespaceInformer \<Rightarrow> ctx_store \<times> namespaceInformer" where
  "ni_Stop st ni = (cancel_ctx (ni_ctx ni) st, ni\<lparr>ni_stopped := True\<rparr>)"

text \<open>The loop over the namespaces that exist already, in the map order \<open>ks\<close>.\<close>

fun create_varying :: "kube_env \<Rightarrow> string list \<Rightarrow> monitor \<Rightarrow> ctx_store \<Rightarrow> ctx_store \<times> monitor" where
  "create_varying env [] m st = (st, m)"
| "create_varying env (nsName # nsNames) m st =
     (if mget (m_staticNamespaces m) nsName \<noteq> None then create_varying env nsNames m st
      else
        let (st, res) = CreateInformersForNamespace env nsName m st;
            informers = (case res of Inl err \<Rightarrow> [] | Inr is \<Rightarrow> is)
        in create_varying env nsNames
             (m\<lparr>m_VaryingInformers := mput nsName informers (m_VaryingInformers m)\<rparr>) st)"

text \<open>The second half of \<open>CreateInformers\<close>: the namespace informer and its namespaces.\<close>

definition create_dynamic ::
    "kube_env \<Rightarrow> ((string, bool) gomap \<Rightarrow> string list) \<Rightarrow> monitor \<Rightarrow> ctx_store \<Rightarrow>
     ctx_store \<times> monitor \<times> string option" where
  "create_dynamic env order m st =
     (if (case mc_NamespaceSelector (m_Config m) of None \<Rightarrow> False
          | Some s \<Rightarrow> nss_LabelSelector s \<noteq> None) then
        (let (c, st) = WithCancel (m_ctx m) st;
             ni = \<lparr>ni_ctx = c, ni_ExistedObjects = [], ni_started = False, ni_stopped = False\<rparr>;
             (ni, err) = ni_CreateSharedInformer env (m_Config m) ni;
             m = m\<lparr>m_NamespaceInformer := Some ni\<rparr>
         in case err of
              Some e \<Rightarrow> (st, m, Some (''create namespace informer: '' @ e))
            | None \<Rightarrow>
                (let (st, m) = create_varying env (order (ni_ExistedObjects ni)) m st
                 in (st, m, None)))
      else (st, m, None))"

definition CreateInformers ::
    "kube_env \<Rightarrow> ((string, bool) gomap \<Rightarrow> string list) \<Rightarrow> monitor \<Rightarrow> ctx_store \<Rightarrow>
     ctx_store \<times> monitor \<times> string option" where
  "CreateInformers env order m st =
     (let nsNames = Namespaces (m_Config m) in
      case (if length nsNames > 0 then create_static env nsNames m st else (st, m, None)) of
        (st, m, Some e) \<Rightarrow> (st, m, Some e)
      | (st, m, None) \<Rightarrow> create_dynamic env order m st)"

text \<open>
  \<open>GetExistedObjects\<close>: the sort algorithm, the order of each informer's cache and the order of
  the varying namespaces are arguments.
\<close>

definition monitor_informers :: "string list \<Rightarrow> monitor \<Rightarrow> resourceInformer list" where
  "monitor_informers ks m =
     m_ResourceInformers m @
     concat (map (\<lambda>nsName. case mget (m_VaryingInformers m) nsName of None \<Rightarrow> [] | Some is \<Rightarrow> is) ks)"

type_synonym object_sort =
  "(ObjectAndFilterResult \<Rightarrow> ObjectAndFilterResult \<Rightarrow> bool) \<Rightarrow> ObjectAndFilterResult list \<Rightarrow>
   ObjectAndFilterResult list"

definition monitor_GetExistedObjects ::
    "object_sort \<Rightarrow> (resourceInformer \<Rightarrow> string list) \<Rightarrow> string list \<Rightarrow> monitor \<Rightarrow> ObjectAndFilterResult list" where
  "monitor_GetExistedObjects srt iks ks m =
     (let objects = concat (map (\<lambda>informer. GetExistedObjects (iks informer) informer) (monitor_informers ks m))
      in srt ByNamespaceAndName_Less objects)"

fun start_varying :: "string list \<Rightarrow> monitor \<Rightarrow> ctx_store \<Rightarrow> ctx_store \<times> monitor" where
  "start_varying [] m st = (st, m)"
| "start_varying (nsName # nsNames) m st =
     (let (st, m) = start_namespace nsName m st in start_varying nsNames m st)"

definition monitor_Start :: "ctx \<Rightarrow> string list \<Rightarrow> monitor \<Rightarrow> ctx_store \<Rightarrow> ctx_store \<times> monitor" where
  "monitor_Start parentCtx ks m st =
     (let (c, st) = WithCancel parentCtx st;
          m = m\<lparr>m_ctx := c\<rparr>;
          m = m\<lparr>m_ResourceInformers := map informer_Start (m_ResourceInformers m)\<rparr>;
          (st, m) = start_varying ks m st
      in (st, m\<lparr>m_NamespaceInformer := map_option (\<lambda>ni. ni\<lparr>ni_started := True\<rparr>) (m_NamespaceInformer m)\<rparr>))"

definition monitor_Stop :: "monitor \<Rightarrow> ctx_store \<Rightarrow> ctx_store" where
  "monitor_Stop m st = cancel_ctx (m_ctx m) st"

definition monitor_PauseHandleEvents :: "monitor \<Rightarrow> monitor" where
  "monitor_PauseHandleEvents m =
     m\<lparr>m_ResourceInformers := map PauseHandleEvents (m_ResourceInformers m),
       m_VaryingInformers := map (\<lambda>(ns, is). (ns, map PauseHandleEvents is)) (m_VaryingInformers m),
       m_NamespaceInformer := map_option (\<lambda>ni. ni\<lparr>ni_stopped := True\<rparr>) (m_NamespaceInformer m)\<rparr>"

section \<open>The manager\<close>

record kubeEventsManager =
  kem_Monitors :: "(string, monitor) gomap"
  kem_ctx :: ctx

text \<open>The orders of the range loops inside an operation of the manager.\<close>

record orders =
  ord_sort :: object_sort
  ord_cache :: "resourceInformer \<Rightarrow> string list"
  ord_ns :: "(string, bool) gomap \<Rightarrow> string list"
  ord_varying :: "monitor \<Rightarrow> string list"

definition MakeKubeEvent :: "orders \<Rightarrow> monitor \<Rightarrow> KubeEvent list \<Rightarrow> KubeEvent option" where
  "MakeKubeEvent ord monitor ev =
     (if length ev = 0 then
        (if mc_Mode (m_Config monitor) = ModeV0 then None
         else Some \<lparr>ke_MonitorId = mc_MonitorId (m_Config monitor), ke_Type = TypeSynchronization,
                    ke_WatchEvents = [],
                    ke_Objects = monitor_GetExistedObjects (ord_sort ord) (ord_cache ord)
                      (ord_varying ord monitor) monitor\<rparr>)
      else Some \<lparr>ke_MonitorId = ke_MonitorId (ev ! 0), ke_Type = TypeEvent,
                 ke_WatchEvents = ke_WatchEvents (ev ! 0), ke_Objects = ke_Objects (ev ! 0)\<rparr>)"

definition AddMonitor ::
    "kube_env \<Rightarrow> orders \<Rightarrow> MonitorConfig \<Rightarrow> kubeEventsManager \<Rightarrow> ctx_store \<Rightarrow>
     ctx_store \<times> kubeEventsManager \<times> (string + KubeEvent option)" where
  "AddMonitor env ord monitorConfig mgr st =
     (let (c, st) = WithCancel (kem_ctx mgr) st;
          (st, monitor, err) = CreateInformers env (ord_ns ord) (NewMonitor monitorConfig c) st
      in case err of
           Some e \<Rightarrow> (st, mgr, Inl e)
         | None \<Rightarrow>
             (st, mgr\<lparr>kem_Monitors := mput (mc_MonitorId monitorConfig) monitor (kem_Monitors mgr)\<rparr>,
              Inr (MakeKubeEvent ord monitor [])))"

definition HasMonitor :: "string \<Rightarrow> kubeEventsManager \<Rightarrow> bool" where
  "HasMonitor monitorId mgr \<longleftrightarrow> mget (kem_Monitors mgr) monitorId \<noteq> None"

definition GetMonitor :: "string \<Rightarrow> kubeEventsManager \<Rightarrow> monitor option" where
  "GetMonitor monitorId mgr = mget (kem_Monitors mgr) monitorId"

definition StartMonitor ::
    "orders \<Rightarrow> string \<Rightarrow> kubeEventsManager \<Rightarrow> ctx_store \<Rightarrow> (ctx_store \<times> kubeEventsManager) go" where
  "StartMonitor ord monitorId mgr st =
     (case mget (kem_Monitors mgr) monitorId of
        None \<Rightarrow> Panic
      | Some monitor \<Rightarrow>
          (let (st, monitor) = monitor_Start (kem_ctx mgr) (ord_varying ord monitor) monitor st
           in Ret (st, mgr\<lparr>kem_Monitors := mput monitorId monitor (kem_Monitors mgr)\<rparr>)))"

definition kem_Start ::
    "orders \<Rightarrow> string list \<Rightarrow> kubeEventsManager \<Rightarrow> ctx_store \<Rightarrow> (ctx_store \<times> kubeEventsManager) go" where
  "kem_Start ord ks mgr st = go_fold (\<lambda>k (st, mgr). StartMonitor ord k mgr st) ks (st, mgr)"

definition StopMonitor :: "string \<Rightarrow> kubeEventsManager \<Rightarrow> ctx_store \<Rightarrow> ctx_store \<times> kubeEventsManager" where
  "StopMonitor configId mgr st =
     (case mget (kem_Monitors mgr) configId of
        None \<Rightarrow> (st, mgr)
      | Some monitor \<Rightarrow>
          (monitor_Stop monitor st, mgr\<lparr>kem_Monitors := mdel configId (kem_Monitors mgr)\<rparr>))"

definition kem_PauseHandleEvents :: "kubeEventsManager \<Rightarrow> kubeEventsManager" where
  "kem_PauseHandleEvents mgr =
     mgr\<lparr>kem_Monitors := map (\<lambda>(k, m). (k, monitor_PauseHandleEvents m)) (kem_Monitors mgr)\<rparr>"


section \<open>What creation keeps\<close>

definition st_ext :: "ctx_store \<Rightarrow> ctx_store \<Rightarrow> bool" where
  "st_ext st st' \<longleftrightarrow> cs_cancelled st' = cs_cancelled st \<and> cs_next st \<le> cs_next st'"

lemma st_ext_refl [simp]: "st_ext st st"
  by (simp add: st_ext_def)

lemma st_ext_trans [trans]: "st_ext a b \<Longrightarrow> st_ext b c \<Longrightarrow> st_ext a c"
  by (simp add: st_ext_def)

lemma st_ext_WithCancel: "WithCancel p st = (c, st') \<Longrightarrow> st_ext st st' \<and> c = cs_next st # p \<and> cs_next st < cs_next st'"
  by (auto simp: WithCancel_def st_ext_def)

lemma st_ext_informer_WithContext:
  "informer_WithContext p st ei = (st', ei') \<Longrightarrow>
   st_ext st st' \<and> ei' = ei\<lparr>ei_ctx := cs_next st # p\<rparr> \<and> cs_next st < cs_next st'"
  by (auto simp: informer_WithContext_def WithCancel_def st_ext_def)

definition informer_ident :: "resourceInformer \<Rightarrow> MonitorConfig \<times> string \<times> string \<times> ctx" where
  "informer_ident ei = (ei_Monitor ei, ei_Namespace ei, ei_Name ei, ei_ctx ei)"

lemma informer_ident_updates [simp]:
  "informer_ident (set_gauges ei) = informer_ident ei"
  "informer_ident (ei\<lparr>ei_CachedObjects := c\<rparr>) = informer_ident ei"
  "informer_ident (ei\<lparr>ei_GroupVersionResource := g\<rparr>) = informer_ident ei"
  "informer_ident (ei\<lparr>ei_FieldSelector := f\<rparr>) = informer_ident ei"
  "informer_ident (ei\<lparr>ei_LabelSelector := l\<rparr>) = informer_ident ei"
  "informer_ident (informer_Start ei) = informer_ident ei"
  by (simp_all add: informer_ident_def set_gauges_def informer_Start_def)

lemma LoadExistedObjects_ident [simp]:
  "informer_ident (fst (LoadExistedObjects env ei)) = informer_ident ei"
  by (auto simp: LoadExistedObjects_def split: sum.splits)

lemma fst_CreateSharedInformer_ident: "informer_ident (fst (CreateSharedInformer env ei)) = informer_ident ei"
  by (simp add: CreateSharedInformer_def Let_def split: sum.splits)

lemma CreateSharedInformer_ident:
  "CreateSharedInformer env ei = (ei', err) \<Longrightarrow> informer_ident ei' = informer_ident ei"
  using fst_CreateSharedInformer_ident [of env ei] by simp

text \<open>The informers of one call: their order, their configuration, their contexts, their caches.\<close>

lemma create_informers_ok:
  assumes "create_informers env c parent ns names st = (st', Inr informers)"
  shows "st_ext st st' \<and> list_all informer_inv informers \<and>
    list_all (\<lambda>ei. ei_Monitor ei = c \<and> tl (ei_ctx ei) = parent \<and> ei_ctx ei \<noteq> [] \<and>
      cs_next st \<le> hd (ei_ctx ei) \<and> hd (ei_ctx ei) < cs_next st') informers \<and>
    map (\<lambda>ei. (ei_Namespace ei, ei_Name ei)) informers = map (Pair ns) names"
  using assms
proof (induction names arbitrary: st st' informers)
  case (Cons name names)
  obtain st1 ei0 where ctx: "informer_WithContext parent st (NewResourceInformer c) = (st1, ei0)" by fastforce
  obtain ei err where cr: "CreateSharedInformer env (informer_WithName name (WithNamespace ns ei0)) = (ei, err)"
    by fastforce
  obtain st2 res where rec: "create_informers env c parent ns names st1 = (st2, res)" by fastforce
  from Cons.prems ctx cr rec obtain rest where ok: "err = None" "res = Inr rest" "st' = st2"
    "informers = ei # rest"
    by (auto simp: Let_def split: option.splits sum.splits)
  note c1 = st_ext_informer_WithContext [OF ctx]
  note rest = Cons.IH [OF rec [unfolded ok]]
  have "informer_ident ei = (c, ns, name, cs_next st # parent)"
    using CreateSharedInformer_ident [OF cr] c1
    by (simp add: informer_ident_def informer_WithName_def WithNamespace_def NewResourceInformer_def)
  moreover have "informer_inv (informer_WithName name (WithNamespace ns ei0))"
    using c1 by (simp add: informer_inv_def informer_WithName_def WithNamespace_def
        NewResourceInformer_def cache_ok_def)
  then have "informer_inv ei" using informer_inv_Create cr by (metis fst_conv)
  ultimately show ?case using c1 rest ok st_ext_trans
    by (auto simp: informer_ident_def st_ext_def list_all_iff)
qed simp


lemma create_informers_ext: "st_ext st (fst (create_informers env c parent ns names st))"
proof (induction names arbitrary: st)
  case (Cons name names)
  obtain st1 ei0 where ctx: "informer_WithContext parent st (NewResourceInformer c) = (st1, ei0)" by fastforce
  with st_ext_informer_WithContext [OF ctx] st_ext_trans Cons.IH [of st1] show ?case
    by (auto simp: Let_def split: prod.splits option.splits sum.splits)
qed simp

definition informers_for :: "MonitorConfig \<Rightarrow> string list" where
  "informers_for c = (if length (MonitorConfig_Names c) > 0 then MonitorConfig_Names c else [[]])"

lemma CreateInformersForNamespace_eq:
  "CreateInformersForNamespace env ns m st =
     create_informers env (m_Config m) (m_ctx m) ns (informers_for (m_Config m)) st"
  by (simp add: CreateInformersForNamespace_def informers_for_def Let_def)

definition good_informer :: "MonitorConfig \<Rightarrow> resourceInformer \<Rightarrow> bool" where
  "good_informer c ei \<longleftrightarrow> ei_Monitor ei = c \<and> informer_inv ei"

lemma create_static_ok:
  assumes "create_static env nsNames m st = (st', m', None)"
  shows "st_ext st st' \<and> m_Config m' = m_Config m \<and> m_ctx m' = m_ctx m \<and>
    m_VaryingInformers m' = m_VaryingInformers m \<and> m_cancelForNs m' = m_cancelForNs m \<and>
    (\<exists>new. m_ResourceInformers m' = m_ResourceInformers m @ new \<and>
      list_all (good_informer (m_Config m)) new \<and>
      list_all (\<lambda>ei. tl (ei_ctx ei) = m_ctx m \<and> ei_ctx ei \<noteq> [] \<and>
        cs_next st \<le> hd (ei_ctx ei) \<and> hd (ei_ctx ei) < cs_next st') new \<and>
      map (\<lambda>ei. (ei_Namespace ei, ei_Name ei)) new = List.product nsNames (informers_for (m_Config m)))"
  using assms
proof (induction nsNames arbitrary: m st)
  case (Cons ns nsNames)
  define m1 where "m1 = (if ns \<noteq> [] then m\<lparr>m_staticNamespaces := mput ns True (m_staticNamespaces m)\<rparr> else m)"
  have m1: "m_Config m1 = m_Config m" "m_ctx m1 = m_ctx m" "m_VaryingInformers m1 = m_VaryingInformers m"
    "m_cancelForNs m1 = m_cancelForNs m" "m_ResourceInformers m1 = m_ResourceInformers m"
    by (simp_all add: m1_def)
  obtain st1 res where cr: "CreateInformersForNamespace env ns m1 st = (st1, res)" by fastforce
  from Cons.prems cr obtain infs where ok: "res = Inr infs"
    "create_static env nsNames (m1\<lparr>m_ResourceInformers := m_ResourceInformers m1 @ infs\<rparr>) st1 = (st', m', None)"
    by (auto simp: m1_def [symmetric] Let_def split: sum.splits)
  note here = create_informers_ok [OF cr [unfolded CreateInformersForNamespace_eq ok(1) m1]]
  from Cons.IH [OF ok(2)] obtain new where rest: "st_ext st1 st'" "m_Config m' = m_Config m"
    "m_ctx m' = m_ctx m" "m_VaryingInformers m' = m_VaryingInformers m" "m_cancelForNs m' = m_cancelForNs m"
    "m_ResourceInformers m' = m_ResourceInformers m @ infs @ new"
    "list_all (good_informer (m_Config m)) new"
    "list_all (\<lambda>ei. tl (ei_ctx ei) = m_ctx m \<and> ei_ctx ei \<noteq> [] \<and>
      cs_next st1 \<le> hd (ei_ctx ei) \<and> hd (ei_ctx ei) < cs_next st') new"
    "map (\<lambda>ei. (ei_Namespace ei, ei_Name ei)) new = List.product nsNames (informers_for (m_Config m))"
    by (auto simp: m1)
  have "list_all (good_informer (m_Config m)) (infs @ new)"
    using here rest(7) by (auto simp: good_informer_def list_all_iff)
  moreover have "list_all (\<lambda>ei. tl (ei_ctx ei) = m_ctx m \<and> ei_ctx ei \<noteq> [] \<and>
      cs_next st \<le> hd (ei_ctx ei) \<and> hd (ei_ctx ei) < cs_next st') (infs @ new)"
    using here rest(1,8) by (fastforce simp: list_all_iff st_ext_def)
  moreover have "map (\<lambda>ei. (ei_Namespace ei, ei_Name ei)) (infs @ new) =
      List.product (ns # nsNames) (informers_for (m_Config m))"
    using here rest(9) by simp
  moreover have "st_ext st st'" using here rest(1) st_ext_trans by blast
  ultimately show ?case using rest(2-6) by blast
qed simp

text \<open>Every informer of a monitor uses its configuration and has a consistent cache.\<close>

definition monitor_inv :: "monitor \<Rightarrow> bool" where
  "monitor_inv m \<longleftrightarrow> wf_map (m_VaryingInformers m) \<and>
     list_all (good_informer (m_Config m)) (m_ResourceInformers m) \<and>
     (\<forall>ns infs. mget (m_VaryingInformers m) ns = Some infs \<longrightarrow> list_all (good_informer (m_Config m)) infs)"

lemma create_varying_ok:
  assumes "create_varying env nsNames m st = (st', m')" "monitor_inv m"
  shows "st_ext st st' \<and> monitor_inv m' \<and> m_Config m' = m_Config m \<and> m_ctx m' = m_ctx m \<and>
    m_ResourceInformers m' = m_ResourceInformers m"
  using assms
proof (induction nsNames arbitrary: m st)
  case (Cons ns nsNames)
  show ?case
  proof (cases "mget (m_staticNamespaces m) ns")
    case (Some b)
    with Cons show ?thesis by simp
  next
    case None
    obtain st1 res where cr: "CreateInformersForNamespace env ns m st = (st1, res)" by fastforce
    define infs where "infs = (case res of Inl err \<Rightarrow> [] | Inr xs \<Rightarrow> xs)"
    define m1 where "m1 = m\<lparr>m_VaryingInformers := mput ns infs (m_VaryingInformers m)\<rparr>"
    have "st_ext st st1"
      using create_informers_ext cr unfolding CreateInformersForNamespace_eq by (metis fst_conv)
    moreover have "list_all (good_informer (m_Config m)) infs"
      using create_informers_ok cr unfolding CreateInformersForNamespace_eq
      by (cases res) (fastforce simp: infs_def good_informer_def list_all_iff)+
    then have "monitor_inv m1" using Cons.prems(2) by (auto simp: monitor_inv_def m1_def)
    moreover have "create_varying env nsNames m1 st1 = (st', m')"
      using Cons.prems(1) None cr by (simp add: m1_def infs_def)
    ultimately show ?thesis using Cons.IH [of m1 st1] st_ext_trans by (auto simp: m1_def)
  qed
qed simp


definition static_ctxs :: "nat \<Rightarrow> monitor \<Rightarrow> ctx_store \<Rightarrow> bool" where
  "static_ctxs lo m st \<longleftrightarrow> list_all (\<lambda>ei. tl (ei_ctx ei) = m_ctx m \<and> ei_ctx ei \<noteq> [] \<and>
     lo \<le> hd (ei_ctx ei) \<and> hd (ei_ctx ei) < cs_next st) (m_ResourceInformers m)"

lemma static_ctxs_mono:
  assumes "static_ctxs lo m st" "st_ext st st'" "m_ctx m' = m_ctx m"
    "m_ResourceInformers m' = m_ResourceInformers m"
  shows "static_ctxs lo m' st'"
  using assms unfolding static_ctxs_def list_all_iff st_ext_def by fastforce

lemma create_dynamic_ok:
  assumes "create_dynamic env order m st = (st', m', None)" "monitor_inv m"
  shows "st_ext st st' \<and> monitor_inv m' \<and> m_Config m' = m_Config m \<and> m_ctx m' = m_ctx m \<and>
    m_ResourceInformers m' = m_ResourceInformers m"
proof (cases "case mc_NamespaceSelector (m_Config m) of None \<Rightarrow> False | Some s \<Rightarrow> nss_LabelSelector s \<noteq> None")
  case False
  then show ?thesis using assms by (simp add: create_dynamic_def)
next
  case True
  obtain c st1 where wc: "WithCancel (m_ctx m) st = (c, st1)" by fastforce
  obtain ni err where ni: "ni_CreateSharedInformer env (m_Config m)
      \<lparr>ni_ctx = c, ni_ExistedObjects = [], ni_started = False, ni_stopped = False\<rparr> = (ni, err)"
    by fastforce
  obtain st2 m2 where cv:
    "create_varying env (order (ni_ExistedObjects ni)) (m\<lparr>m_NamespaceInformer := Some ni\<rparr>) st1 = (st2, m2)"
    by fastforce
  have "st2 = st' \<and> m2 = m'"
    using assms(1) True wc ni cv by (cases err) (simp_all add: create_dynamic_def)
  moreover have "monitor_inv (m\<lparr>m_NamespaceInformer := Some ni\<rparr>)"
    using assms(2) by (simp add: monitor_inv_def)
  ultimately show ?thesis
    using create_varying_ok [OF cv] st_ext_WithCancel [OF wc] st_ext_trans by auto
qed

lemma CreateInformers_ok:
  assumes "CreateInformers env order (NewMonitor c ctx) st = (st', m, None)"
  shows "st_ext st st' \<and> monitor_inv m \<and> m_Config m = c \<and> m_ctx m = ctx \<and> static_ctxs (cs_next st) m st' \<and>
    map (\<lambda>ei. (ei_Namespace ei, ei_Name ei)) (m_ResourceInformers m) =
      List.product (Namespaces c) (informers_for c)"
proof -
  let ?m0 = "NewMonitor c ctx"
  obtain st1 m1 err1 where cs: "create_static env (Namespaces c) ?m0 st = (st1, m1, err1)"
    by (metis prod_cases3)
  have same: "(if length (Namespaces c) > 0 then create_static env (Namespaces c) ?m0 st
      else (st, ?m0, None)) = (st1, m1, err1)"
    using cs by (cases "Namespaces c") auto
  have cfg: "m_Config ?m0 = c" by (simp add: NewMonitor_def)
  have "(case (st1, m1, err1) of (st, m, Some e) \<Rightarrow> (st, m, Some e)
      | (st, m, None) \<Rightarrow> create_dynamic env order m st) = (st', m, None)"
    using assms unfolding CreateInformers_def cfg Let_def same .
  then have run: "err1 = None" "create_dynamic env order m1 st1 = (st', m, None)"
    by (cases err1; simp)+
  note s1 = create_static_ok [OF cs [unfolded run(1)]]
  have s2: "monitor_inv m1" "m_Config m1 = c" "m_ctx m1 = ctx" "static_ctxs (cs_next st) m1 st1" "st_ext st st1"
    "map (\<lambda>ei. (ei_Namespace ei, ei_Name ei)) (m_ResourceInformers m1) =
      List.product (Namespaces c) (informers_for c)"
    using s1 by (auto simp: NewMonitor_def monitor_inv_def static_ctxs_def)
  note d = create_dynamic_ok [OF run(2) s2(1)]
  show ?thesis using d s2 static_ctxs_mono [of "cs_next st" m1 st1 st' m] st_ext_trans [of st st1 st'] by simp
qed

lemma GetExistedObjects_mset:
  assumes "informer_inv ei" "range_of (ei_CachedObjects ei) ks"
  shows "mset (GetExistedObjects ks ei) = mset (map snd (ei_CachedObjects ei))"
    and "set (GetExistedObjects ks ei) = snd ` set (ei_CachedObjects ei)"
proof -
  let ?m = "ei_CachedObjects ei"
  have wf: "wf_map ?m" using assms(1) by (simp add: informer_inv_def cache_ok_def)
  have fold: "foldl (\<lambda>res k. case mget ?m k of None \<Rightarrow> res | Some obj \<Rightarrow> res @ [obj]) acc xs =
      acc @ List.map_filter (mget ?m) xs" for acc xs
    by (induction xs arbitrary: acc) (auto simp: List.map_filter_simps split: option.splits)
  have "mset ks = mset (mkeys ?m)"
    using assms(2) wf unfolding range_of_def wf_map_def by (metis set_eq_iff_mset_eq_distinct)
  then have "mset (List.map_filter (mget ?m) ks) = mset (List.map_filter (mget ?m) (mkeys ?m))"
    unfolding List.map_filter_def by (simp only: mset_map mset_filter)
  also have "List.map_filter (mget ?m) (mkeys ?m) = map snd ?m"
  proof -
    have "mget ?m (fst p) = Some (snd p)" if "p \<in> set ?m" for p
      using that wf by (simp add: wf_map_def)
    then show ?thesis by (auto simp: List.map_filter_def filter_id_conv comp_def)
  qed
  finally show mset: "mset (GetExistedObjects ks ei) = mset (map snd ?m)"
    using fold [of "[]" ks] by (simp add: GetExistedObjects_def)
  show "set (GetExistedObjects ks ei) = snd ` set ?m" using mset_eq_setD [OF mset] by simp
qed


section \<open>Snapshots\<close>

text \<open>The map orders and the sort algorithm that an implementation may choose.\<close>

definition orders_ok :: "orders \<Rightarrow> bool" where
  "orders_ok ord \<longleftrightarrow> sort_spec (ord_sort ord) \<and>
     (\<forall>ei. wf_map (ei_CachedObjects ei) \<longrightarrow> range_of (ei_CachedObjects ei) (ord_cache ord ei)) \<and>
     (\<forall>m. wf_map m \<longrightarrow> range_of m (ord_ns ord m)) \<and>
     (\<forall>m. wf_map (m_VaryingInformers m) \<longrightarrow> range_of (m_VaryingInformers m) (ord_varying ord m))"

definition informer_of :: "monitor \<Rightarrow> resourceInformer \<Rightarrow> bool" where
  "informer_of m ei \<longleftrightarrow> ei \<in> set (m_ResourceInformers m) \<or>
     (\<exists>ns infs. mget (m_VaryingInformers m) ns = Some infs \<and> ei \<in> set infs)"

lemma set_monitor_informers:
  "range_of (m_VaryingInformers m) ks \<Longrightarrow> set (monitor_informers ks m) = Collect (informer_of m)"
  by (auto simp: monitor_informers_def informer_of_def split: option.splits dest: range_of_mem) 
    (metis option.distinct(1) range_of_mem)

lemma monitor_snapshot:
  assumes inv: "monitor_inv m" and ord: "orders_ok ord"
    and snap: "snap = monitor_GetExistedObjects (ord_sort ord) (ord_cache ord) (ord_varying ord m) m"
  shows "set snap = {r. \<exists>ei k. informer_of m ei \<and> mget (ei_CachedObjects ei) k = Some r}"
    and "no_inversion ByNamespaceAndName_Less snap"
proof -
  let ?infs = "monitor_informers (ord_varying ord m) m"
  let ?objs = "concat (map (\<lambda>ei. GetExistedObjects (ord_cache ord ei) ei) ?infs)"
  have infs: "set ?infs = Collect (informer_of m)"
    using inv ord by (intro set_monitor_informers) (simp add: monitor_inv_def orders_ok_def)
  have good: "good_informer (m_Config m) ei" if "informer_of m ei" for ei
    using that inv by (auto simp: informer_of_def monitor_inv_def list_all_iff)
  have cache: "set (GetExistedObjects (ord_cache ord ei) ei) = {r. \<exists>k. mget (ei_CachedObjects ei) k = Some r}"
    if "informer_of m ei" for ei
  proof -
    have wf: "informer_inv ei" "wf_map (ei_CachedObjects ei)"
      using good [OF that] by (auto simp: good_informer_def informer_inv_def cache_ok_def)
    then have "set (GetExistedObjects (ord_cache ord ei) ei) = snd ` set (ei_CachedObjects ei)"
      using ord by (intro GetExistedObjects_mset(2)) (auto simp: orders_ok_def)
    also have "\<dots> = {r. \<exists>k. mget (ei_CachedObjects ei) k = Some r}"
      using wf(2) by (force simp: wf_map_def)
    finally show ?thesis .
  qed
  have objs: "set ?objs = {r. \<exists>ei k. informer_of m ei \<and> mget (ei_CachedObjects ei) k = Some r}"
    using infs cache by auto
  have sorted: "mset snap = mset ?objs" "weak_order ByNamespaceAndName_Less (set ?objs) \<Longrightarrow>
      no_inversion ByNamespaceAndName_Less snap"
    using ord unfolding snap monitor_GetExistedObjects_def Let_def orders_ok_def sort_spec_def by blast+
  show "set snap = {r. \<exists>ei k. informer_of m ei \<and> mget (ei_CachedObjects ei) k = Some r}"
    using mset_eq_setD [OF sorted(1)] objs by simp
  have "ofr_Object r \<noteq> None \<longleftrightarrow> mc_KeepFullObjectsInMemory (m_Config m)" if "r \<in> set ?objs" for r
  proof -
    from that objs obtain ei k where ei: "informer_of m ei" "mget (ei_CachedObjects ei) k = Some r" by blast
    with good [OF ei(1)] have "cached_ok (m_Config m) k r"
      by (auto simp: good_informer_def informer_inv_def cache_ok_def)
    then show ?thesis by (simp add: cached_ok_def)
  qed
  then have "uniform_objects (set ?objs)" unfolding uniform_objects_def by blast
  then show "no_inversion ByNamespaceAndName_Less snap"
    by (intro sorted(2) ByNamespaceAndName_weak_order)
qed


section \<open>Namespaces that come and go\<close>

text \<open>
  While a monitor runs, the varying namespaces are those with a context to cancel. All informers of
  a namespace run under its context; the numbers of contexts do not clash.
\<close>

definition under_ctx :: "ctx_store \<Rightarrow> ctx \<Rightarrow> resourceInformer \<Rightarrow> bool" where
  "under_ctx st c ei \<longleftrightarrow> (\<exists>k. ei_ctx ei = k # c \<and> hd c < k \<and> k < cs_next st)"

definition varying_inv :: "monitor \<Rightarrow> ctx_store \<Rightarrow> bool" where
  "varying_inv m st \<longleftrightarrow>
     (\<forall>ns. mget (m_VaryingInformers m) ns = None \<longleftrightarrow> mget (m_cancelForNs m) ns = None) \<and>
     (\<forall>ns c. mget (m_cancelForNs m) ns = Some c \<longrightarrow>
        (\<exists>n. c = n # m_ctx m \<and> n < cs_next st \<and> n \<notin> set (m_ctx m))) \<and>
     (\<forall>ns c infs. mget (m_cancelForNs m) ns = Some c \<longrightarrow> mget (m_VaryingInformers m) ns = Some infs \<longrightarrow>
        (\<forall>ei\<in>set infs. ei_Namespace ei = ns \<and> ei_started ei \<and> under_ctx st c ei)) \<and>
     (\<forall>ns ns' c infs. mget (m_cancelForNs m) ns = Some c \<longrightarrow> mget (m_VaryingInformers m) ns' = Some infs \<longrightarrow>
        ns' \<noteq> ns \<longrightarrow> (\<forall>ei\<in>set infs. hd c \<notin> set (ei_ctx ei)))"

lemma varying_inv_dom:
  "varying_inv m st \<Longrightarrow> mget (m_VaryingInformers m) ns = None \<longleftrightarrow> mget (m_cancelForNs m) ns = None"
  by (simp add: varying_inv_def)

lemma varying_inv_ctx:
  "varying_inv m st \<Longrightarrow> mget (m_cancelForNs m) ns = Some c \<Longrightarrow>
   \<exists>n. c = n # m_ctx m \<and> n < cs_next st \<and> n \<notin> set (m_ctx m)"
  by (simp add: varying_inv_def)

lemma varying_inv_informers:
  "varying_inv m st \<Longrightarrow> mget (m_cancelForNs m) ns = Some c \<Longrightarrow> mget (m_VaryingInformers m) ns = Some infs \<Longrightarrow>
   ei \<in> set infs \<Longrightarrow> ei_Namespace ei = ns \<and> ei_started ei \<and> under_ctx st c ei"
  by (simp add: varying_inv_def)

lemma varying_inv_apart:
  "varying_inv m st \<Longrightarrow> mget (m_cancelForNs m) ns = Some c \<Longrightarrow> mget (m_VaryingInformers m) ns' = Some infs \<Longrightarrow>
   ns' \<noteq> ns \<Longrightarrow> ei \<in> set infs \<Longrightarrow> hd c \<notin> set (ei_ctx ei)"
  by (simp add: varying_inv_def)

lemma start_under_ok:
  assumes "start_under c infs st = (st', infs')"
  shows "st_ext st st' \<and> map ei_Namespace infs' = map ei_Namespace infs \<and>
    (\<forall>ei\<in>set infs'. ei_started ei \<and> (\<exists>k. ei_ctx ei = k # c \<and> cs_next st \<le> k \<and> k < cs_next st'))"
  using assms
proof (induction infs arbitrary: st infs')
  case (Cons ei infs)
  obtain st1 ei1 where w: "informer_WithContext c st ei = (st1, ei1)" by fastforce
  obtain rest where r: "start_under c infs st1 = (st', rest)" "infs' = informer_Start ei1 # rest"
    using Cons.prems w by (auto simp: Let_def split: prod.splits)
  from Cons.IH [OF r(1)] st_ext_informer_WithContext [OF w] r(2) show ?case
    by (auto simp: st_ext_def informer_Start_def)
qed simp

lemma start_namespace_inv:
  assumes run: "start_namespace ns m st = (st', m')" and inv: "varying_inv m0 st0" and ext: "st_ext st0 st"
    and wf: "wf_ctx st0 (m_ctx m)" and new: "mget (m_VaryingInformers m0) ns = None"
    and m: "m = m0\<lparr>m_VaryingInformers := mput ns infs (m_VaryingInformers m0)\<rparr>"
    and infs: "\<forall>ei\<in>set infs. ei_Namespace ei = ns"
  shows "varying_inv m' st' \<and> st_ext st0 st' \<and> m_ctx m' = m_ctx m \<and>
    (\<forall>x. mget (m_VaryingInformers m') x \<noteq> None \<longleftrightarrow> x = ns \<or> mget (m_VaryingInformers m0) x \<noteq> None) \<and>
    m_staticNamespaces m' = m_staticNamespaces m \<and> m_NamespaceInformer m' = m_NamespaceInformer m"
proof -
  obtain c st1 where wc: "WithCancel (m_ctx m) st = (c, st1)" by fastforce
  obtain infs' where su: "start_under c infs st1 = (st', infs')"
    "m' = m0\<lparr>m_VaryingInformers := mput ns infs' (mput ns infs (m_VaryingInformers m0)),
             m_cancelForNs := mput ns c (m_cancelForNs m0)\<rparr>"
    using run wc by (auto simp: start_namespace_def Let_def m split: prod.splits)
  note c = st_ext_WithCancel [OF wc]
  note s = start_under_ok [OF su(1)]
  have "set (map ei_Namespace infs') = set (map ei_Namespace infs)" using s by simp
  then have ns: "\<forall>ei\<in>set infs'. ei_Namespace ei = ns" using infs by auto
  let ?n = "cs_next st"
  have fresh: "?n \<notin> set (m_ctx m0)" using wf ext m by (fastforce simp: wf_ctx_def list_all_iff st_ext_def)
  have old: "?n \<notin> set (ei_ctx ei)" if v: "mget (m_VaryingInformers m0) x = Some infs0" "ei \<in> set infs0" for x infs0 ei
  proof -
    obtain c' where c': "mget (m_cancelForNs m0) x = Some c'"
      using varying_inv_dom [OF inv, of x] v(1) by auto
    obtain n where n: "c' = n # m_ctx m0" "n < cs_next st0" using varying_inv_ctx [OF inv c'] by blast
    from varying_inv_informers [OF inv c' v] have "under_ctx st0 c' ei" by simp
    with n fresh ext show ?thesis by (auto simp: under_ctx_def st_ext_def)
  qed
  have other: "hd c' \<notin> set (ei_ctx ei)" if v: "mget (m_cancelForNs m0) x = Some c'" "ei \<in> set infs'" for x c' ei
  proof -
    obtain n where n: "c' = n # m_ctx m0" "n < cs_next st0" "n \<notin> set (m_ctx m0)"
      using varying_inv_ctx [OF inv v(1)] by blast
    with s c ext v(2) m show ?thesis by (auto simp: st_ext_def)
  qed
  have mono: "under_ctx st' c' ei" if "under_ctx st0 c' ei" for c' ei
    using that s c ext by (auto simp: under_ctx_def st_ext_def)
  have here: "under_ctx st' c ei" if "ei \<in> set infs'" for ei
    using that s c by (auto simp: under_ctx_def)
  have "varying_inv m' st'"
    unfolding varying_inv_def
  proof (intro conjI allI impI ballI)
    fix x show "mget (m_VaryingInformers m') x = None \<longleftrightarrow> mget (m_cancelForNs m') x = None"
      using varying_inv_dom [OF inv, of x] by (simp add: su(2))
  next
    fix x c' assume "mget (m_cancelForNs m') x = Some c'"
    then show "\<exists>n. c' = n # m_ctx m' \<and> n < cs_next st' \<and> n \<notin> set (m_ctx m')"
      using varying_inv_ctx [OF inv, of x c'] c s ext fresh
      by (auto simp: su(2) m st_ext_def split: if_splits)
  next
    fix x c' is' ei
    assume "mget (m_cancelForNs m') x = Some c'" "mget (m_VaryingInformers m') x = Some is'" "ei \<in> set is'"
    then show "ei_Namespace ei = x" "ei_started ei" "under_ctx st' c' ei"
      using varying_inv_informers [OF inv, of x c' is' ei] s ns here mono
      by (auto simp: su(2) split: if_splits)
  next
    fix x x' c' is' ei
    assume "mget (m_cancelForNs m') x = Some c'" "mget (m_VaryingInformers m') x' = Some is'" "x' \<noteq> x"
      "ei \<in> set is'"
    then show "hd c' \<notin> set (ei_ctx ei)"
      using varying_inv_apart [OF inv, of x c' x' is' ei] c old other by (auto simp: su(2) split: if_splits)
  qed
  then show ?thesis using su(2) c s ext m st_ext_trans by auto
qed


definition monitor_frame :: "monitor \<Rightarrow> monitor \<Rightarrow> bool" where
  "monitor_frame m m' \<longleftrightarrow> m_ctx m' = m_ctx m \<and> m_staticNamespaces m' = m_staticNamespaces m \<and>
     m_NamespaceInformer m' = m_NamespaceInformer m"

lemma ns_added_ok:
  assumes run: "ns_added env ns m st = (st', m')" and inv: "varying_inv m st" and wf: "wf_ctx st (m_ctx m)"
  shows "varying_inv m' st' \<and> wf_ctx st' (m_ctx m') \<and> monitor_frame m m' \<and>
    (\<forall>x. mget (m_VaryingInformers m') x \<noteq> None \<longleftrightarrow>
       mget (m_VaryingInformers m) x \<noteq> None \<or> (x = ns \<and> mget (m_staticNamespaces m) ns = None))"
proof (cases "mget (m_staticNamespaces m) ns \<noteq> None \<or> mget (m_VaryingInformers m) ns \<noteq> None")
  case True
  then have "st' = st \<and> m' = m" using run by (auto simp: ns_added_def split: if_splits)
  with True inv wf show ?thesis by (auto simp: monitor_frame_def)
next
  case False
  obtain st1 res where cr: "CreateInformersForNamespace env ns m st = (st1, res)" by fastforce
  define infs where "infs = (case res of Inl err \<Rightarrow> [] | Inr xs \<Rightarrow> xs)"
  have ext: "st_ext st st1"
    using create_informers_ext cr unfolding CreateInformersForNamespace_eq by (metis fst_conv)
  have "map (\<lambda>ei. (ei_Namespace ei, ei_Name ei)) xs = map (Pair ns) (informers_for (m_Config m))"
    if "res = Inr xs" for xs
    using create_informers_ok [OF cr [unfolded CreateInformersForNamespace_eq that]] by simp
  then have "fst ` set (map (\<lambda>ei. (ei_Namespace ei, ei_Name ei)) infs) \<subseteq> {ns}"
    by (cases res) (auto simp: infs_def)
  then have infs: "\<forall>ei\<in>set infs. ei_Namespace ei = ns" by force
  have start: "start_namespace ns (m\<lparr>m_VaryingInformers := mput ns infs (m_VaryingInformers m)\<rparr>) st1 = (st', m')"
    using run False cr by (simp add: ns_added_def infs_def)
  have none: "mget (m_VaryingInformers m) ns = None" using False by simp
  note r = start_namespace_inv [OF start inv ext _ none refl infs]
  then show ?thesis using wf False wf_ctx_mono [of st "m_ctx m" st']
    by (auto simp: monitor_frame_def st_ext_def)
qed

lemma ns_deleted_ok:
  assumes run: "ns_deleted ns m st = (st', m')" and inv: "varying_inv m st" and wf: "wf_ctx st (m_ctx m)"
  shows "varying_inv m' st' \<and> wf_ctx st' (m_ctx m') \<and> monitor_frame m m' \<and>
    (\<forall>x. mget (m_VaryingInformers m') x \<noteq> None \<longleftrightarrow>
       mget (m_VaryingInformers m) x \<noteq> None \<and> (x \<noteq> ns \<or> mget (m_staticNamespaces m) ns \<noteq> None))"
proof (cases "mget (m_staticNamespaces m) ns \<noteq> None \<or> mget (m_cancelForNs m) ns = None")
  case True
  then have "st' = st \<and> m' = m" using run by (auto simp: ns_deleted_def split: if_splits option.splits)
  with True inv wf varying_inv_dom [OF inv, of ns] show ?thesis by (auto simp: monitor_frame_def)
next
  case False
  then obtain c where c: "mget (m_cancelForNs m) ns = Some c" "mget (m_staticNamespaces m) ns = None" by auto
  then have m': "m' = m\<lparr>m_VaryingInformers := mdel ns (m_VaryingInformers m),
      m_cancelForNs := mdel ns (m_cancelForNs m)\<rparr>" "st' = cancel_ctx c st"
    using run by (simp_all add: ns_deleted_def)
  have next': "cs_next st' = cs_next st" by (simp add: m'(2) cancel_ctx_def split: list.splits)
  have "varying_inv m' st'" using inv by (auto simp: varying_inv_def m'(1) next' under_ctx_def)
  moreover have "wf_ctx st' (m_ctx m')" using wf by (simp add: m'(1) wf_ctx_def next')
  ultimately show ?thesis using c(2) by (auto simp: m'(1) monitor_frame_def)
qed

datatype ns_event = NsAdded string | NsDeleted string

fun ns_handle :: "kube_env \<Rightarrow> ns_event \<Rightarrow> ctx_store \<times> monitor \<Rightarrow> ctx_store \<times> monitor" where
  "ns_handle env (NsAdded ns) (st, m) = ni_OnAdd env ns m st"
| "ns_handle env (NsDeleted ns) (st, m) = ni_OnDelete ns m st"

text \<open>Whether the events leave a namespace alive that was alive, or not, before them.\<close>

fun ns_live :: "string \<Rightarrow> ns_event list \<Rightarrow> bool \<Rightarrow> bool" where
  "ns_live ns [] b = b"
| "ns_live ns (NsAdded x # es) b = ns_live ns es (b \<or> x = ns)"
| "ns_live ns (NsDeleted x # es) b = ns_live ns es (b \<and> x \<noteq> ns)"

lemma ns_handle_run:
  assumes "fold (ns_handle env) es (st, m) = (st', m')" "varying_inv m st" "wf_ctx st (m_ctx m)"
    "m_NamespaceInformer m = Some ni" "\<not> ni_stopped ni" "mget (m_staticNamespaces m) ns = None"
  shows "varying_inv m' st' \<and> monitor_frame m m' \<and>
    (mget (m_VaryingInformers m') ns \<noteq> None \<longleftrightarrow> ns_live ns es (mget (m_VaryingInformers m) ns \<noteq> None))"
  using assms
proof (induction es arbitrary: st m)
  case (Cons e es)
  obtain st1 m1 where step: "ns_handle env e (st, m) = (st1, m1)" by fastforce
  have ok: "varying_inv m1 st1 \<and> wf_ctx st1 (m_ctx m1) \<and> monitor_frame m m1 \<and>
    (mget (m_VaryingInformers m1) ns \<noteq> None \<longleftrightarrow>
      (case e of NsAdded x \<Rightarrow> mget (m_VaryingInformers m) ns \<noteq> None \<or> x = ns
       | NsDeleted x \<Rightarrow> mget (m_VaryingInformers m) ns \<noteq> None \<and> x \<noteq> ns))"
  proof (cases e)
    case (NsAdded x)
    then have "ns_added env x m st = (st1, m1)" using step Cons.prems(4,5) by (simp add: ni_OnAdd_def)
    from ns_added_ok [OF this Cons.prems(2,3)] NsAdded Cons.prems(6) show ?thesis by auto
  next
    case (NsDeleted x)
    then have "ns_deleted x m st = (st1, m1)" using step Cons.prems(4,5) by (simp add: ni_OnDelete_def)
    from ns_deleted_ok [OF this Cons.prems(2,3)] NsDeleted Cons.prems(6) show ?thesis by auto
  qed
  have run: "fold (ns_handle env) es (st1, m1) = (st', m')" using Cons.prems(1) step by simp
  have "varying_inv m' st' \<and> monitor_frame m1 m' \<and>
    (mget (m_VaryingInformers m') ns \<noteq> None \<longleftrightarrow> ns_live ns es (mget (m_VaryingInformers m1) ns \<noteq> None))"
    using ok Cons.prems(4-6) by (intro Cons.IH [OF run]) (auto simp: monitor_frame_def)
  with ok show ?case by (cases e) (auto simp: monitor_frame_def)
qed (simp add: monitor_frame_def)


section \<open>Correctness\<close>

lemma start_under_ext: "st_ext st (fst (start_under c infs st))"
  using start_under_ok [of c infs st] by (cases "start_under c infs st") auto

lemma start_namespace_keeps:
  assumes "start_namespace ns m st = (st', m')"
  shows "st_ext st st' \<and> m_ctx m' = m_ctx m \<and> m_ResourceInformers m' = m_ResourceInformers m"
proof -
  obtain c st1 where wc: "WithCancel (m_ctx m) st = (c, st1)" by fastforce
  obtain infs where i: "infs = (case mget (m_VaryingInformers m) ns of None \<Rightarrow> [] | Some xs \<Rightarrow> xs)" by blast
  obtain st2 infs' where su: "start_under c infs st1 = (st2, infs')" by fastforce
  have "st' = st2" "m_ctx m' = m_ctx m" "m_ResourceInformers m' = m_ResourceInformers m"
    using assms wc su by (auto simp: start_namespace_def Let_def i split: option.splits)
  then show ?thesis using st_ext_WithCancel [OF wc] start_under_ok [OF su] st_ext_trans by blast
qed

lemma start_varying_keeps:
  "start_varying ks m st = (st', m') \<Longrightarrow>
   st_ext st st' \<and> m_ctx m' = m_ctx m \<and> m_ResourceInformers m' = m_ResourceInformers m"
proof (induction ks arbitrary: m st)
  case (Cons ns ks)
  obtain st1 m1 where s: "start_namespace ns m st = (st1, m1)" by fastforce
  with Cons.prems have "start_varying ks m1 st1 = (st', m')" by simp
  from Cons.IH [OF this] start_namespace_keeps [OF s] st_ext_trans show ?case by auto
qed simp

lemma AddMonitor_ok:
  assumes "AddMonitor env ord c mgr st = (st', mgr', Inr ev)"
  obtains m where "mget (kem_Monitors mgr') (mc_MonitorId c) = Some m" "ev = MakeKubeEvent ord m []"
    "monitor_inv m" "m_Config m = c" "m_ctx m = cs_next st # kem_ctx mgr" "st_ext st st'"
    "cs_next st < cs_next st'" "static_ctxs (Suc (cs_next st)) m st'" "kem_ctx mgr' = kem_ctx mgr"
    "map (\<lambda>ei. (ei_Namespace ei, ei_Name ei)) (m_ResourceInformers m) =
       List.product (Namespaces c) (informers_for c)"
proof -
  obtain ctx st1 where wc: "WithCancel (kem_ctx mgr) st = (ctx, st1)" by fastforce
  obtain st2 m err where ci: "CreateInformers env (ord_ns ord) (NewMonitor c ctx) st1 = (st2, m, err)"
    by (metis prod_cases3)
  have r: "err = None" "st2 = st'" "ev = MakeKubeEvent ord m []"
    "mgr' = mgr\<lparr>kem_Monitors := mput (mc_MonitorId c) m (kem_Monitors mgr)\<rparr>"
    using assms wc ci by (auto simp: AddMonitor_def Let_def split: option.splits)
  have next1: "cs_next st1 = Suc (cs_next st)" using wc by (auto simp: WithCancel_def)
  note ok = CreateInformers_ok [OF ci [unfolded r(1,2)]]
  show ?thesis
  proof (rule that)
    show "mget (kem_Monitors mgr') (mc_MonitorId c) = Some m" using r(4) by simp
    show "m_ctx m = cs_next st # kem_ctx mgr" using ok st_ext_WithCancel [OF wc] by simp
    show "st_ext st st'" using ok st_ext_WithCancel [OF wc] st_ext_trans by blast
    show "cs_next st < cs_next st'" using ok next1 by (auto simp: st_ext_def)
    show "static_ctxs (Suc (cs_next st)) m st'" using ok next1 by simp
  qed (use ok r in simp_all)
qed



definition key_orders :: orders where
  "key_orders = \<lparr>ord_sort = go_sort, ord_cache = (\<lambda>ei. mkeys (ei_CachedObjects ei)), ord_ns = mkeys,
     ord_varying = (\<lambda>m. mkeys (m_VaryingInformers m))\<rparr>"

lemma key_orders_ok: "orders_ok key_orders"
  by (simp add: orders_ok_def key_orders_def sort_spec_go_sort)

abbreviation demo_manager :: kubeEventsManager where
  "demo_manager \<equiv> \<lparr>kem_Monitors = [], kem_ctx = []\<rparr>"

abbreviation demo_store :: ctx_store where
  "demo_store \<equiv> \<lparr>cs_next = 0, cs_cancelled = []\<rparr>"

lemmas demo_monitor_defs = AddMonitor_def CreateInformers_def create_dynamic_def NewMonitor_def Namespaces_def
  CreateInformersForNamespace_def MonitorConfig_Names_def informer_WithContext_def WithCancel_def
  CreateSharedInformer_def LoadExistedObjects_def FormatLabelSelector_def FormatFieldSelector_def
  adjustFieldSelector_def informer_WithName_def WithNamespace_def set_gauges_def

lemma demo_AddMonitor:
  "\<exists>st mgr ev. AddMonitor demo_env key_orders demo_config demo_manager demo_store = (st, mgr, Inr (Some ev)) \<and>
     (\<exists>m. mget (kem_Monitors mgr) ''m'' = Some m \<and> m_VaryingInformers m = [] \<and> length (m_ResourceInformers m) = 1)"
  by (simp add: demo_monitor_defs demo_defs Let_def MakeKubeEvent_def go_simps)






end
