(* ===== verification/Schedule_Manager.thy ===== *)
theory Schedule_Manager
  imports Prelude
begin

text \<open>
  \<open>pkg/schedule_manager/schedule_manager.go\<close>: crontabs are registered with the cron library once
  and shared by the bindings that use them. The library (\<open>robfig/cron\<close>, third-party) is the
  argument \<open>lib\<close>: its \<open>AddFunc\<close>, its \<open>Remove\<close> and what its \<open>Entries\<close> lists. \<open>cron_spec\<close> is
  what it documents of them, for the crontabs that it can parse.
\<close>

section \<open>The cron library\<close>

type_synonym cron_id = int

record 'c cron_lib =
  cron_AddFunc :: "string \<Rightarrow> 'c \<Rightarrow> cron_id \<times> 'c"
  cron_Remove :: "cron_id \<Rightarrow> 'c \<Rightarrow> 'c"
  cron_Entries :: "'c \<Rightarrow> (cron_id \<times> string) set"
  cron_Parses :: "string \<Rightarrow> bool"

definition cron_spec :: "'c cron_lib \<Rightarrow> bool" where
  "cron_spec lib \<longleftrightarrow>
     (\<forall>tab c. cron_Parses lib tab \<longrightarrow>
        fst (cron_AddFunc lib tab c) \<notin> fst ` cron_Entries lib c \<and>
        cron_Entries lib (snd (cron_AddFunc lib tab c)) =
          insert (fst (cron_AddFunc lib tab c), tab) (cron_Entries lib c)) \<and>
     (\<forall>eid c. cron_Entries lib (cron_Remove lib eid c) = {e \<in> cron_Entries lib c. fst e \<noteq> eid})"

section \<open>The manager\<close>

record ScheduleEntry =
  se_Crontab :: string
  se_Id :: string

record CronEntry =
  ce_EntryID :: cron_id
  ce_Ids :: "(string, bool) gomap"

record 'c scheduleManager =
  sm_cron :: 'c
  sm_Entries :: "(string, CronEntry) gomap"

definition NewScheduleManager :: "'c \<Rightarrow> 'c scheduleManager" where
  "NewScheduleManager cron = \<lparr>sm_cron = cron, sm_Entries = []\<rparr>"

text \<open>
  \<open>Add\<close>: the map of identifiers is read from the copy of the entry that was fetched first, and
  written through the entry that is stored.
\<close>

definition scheduleManager_Add ::
    "'c cron_lib \<Rightarrow> ScheduleEntry \<Rightarrow> 'c scheduleManager \<Rightarrow> 'c scheduleManager" where
  "scheduleManager_Add lib newEntry sm =
     (let cronEntry = mget (sm_Entries sm) (se_Crontab newEntry);
          sm = (case cronEntry of
              Some _ \<Rightarrow> sm
            | None \<Rightarrow>
                (let (entryId, cron) = cron_AddFunc lib (se_Crontab newEntry) (sm_cron sm) in
                 sm\<lparr>sm_cron := cron,
                    sm_Entries := mput (se_Crontab newEntry)
                      \<lparr>ce_EntryID = entryId, ce_Ids = [(se_Id newEntry, True)]\<rparr> (sm_Entries sm)\<rparr>));
          hasId = (case cronEntry of
              None \<Rightarrow> False
            | Some e \<Rightarrow> mget (ce_Ids e) (se_Id newEntry) \<noteq> None)
      in if hasId then sm
         else case mget (sm_Entries sm) (se_Crontab newEntry) of
             None \<Rightarrow> sm
           | Some e \<Rightarrow> sm\<lparr>sm_Entries := mput (se_Crontab newEntry)
               (e\<lparr>ce_Ids := mput (se_Id newEntry) True (ce_Ids e)\<rparr>) (sm_Entries sm)\<rparr>)"

definition scheduleManager_Remove ::
    "'c cron_lib \<Rightarrow> ScheduleEntry \<Rightarrow> 'c scheduleManager \<Rightarrow> 'c scheduleManager" where
  "scheduleManager_Remove lib delEntry sm =
     (case mget (sm_Entries sm) (se_Crontab delEntry) of
        None \<Rightarrow> sm
      | Some cronEntry \<Rightarrow>
          if mget (ce_Ids cronEntry) (se_Id delEntry) = None then sm
          else
            let e = cronEntry\<lparr>ce_Ids := mdel (se_Id delEntry) (ce_Ids cronEntry)\<rparr>;
                sm = sm\<lparr>sm_Entries := mput (se_Crontab delEntry) e (sm_Entries sm)\<rparr>
            in if length (ce_Ids e) = 0
               then sm\<lparr>sm_cron := cron_Remove lib (ce_EntryID e) (sm_cron sm)\<rparr>
               else sm)"

text \<open>The operations as the bindings' controllers issue them, and the crontabs that can fire.\<close>

datatype schedule_op = SAdd ScheduleEntry | SRemove ScheduleEntry

fun run_op :: "'c cron_lib \<Rightarrow> schedule_op \<Rightarrow> 'c scheduleManager \<Rightarrow> 'c scheduleManager" where
  "run_op lib (SAdd e) sm = scheduleManager_Add lib e sm"
| "run_op lib (SRemove e) sm = scheduleManager_Remove lib e sm"

fun op_entry :: "schedule_op \<Rightarrow> ScheduleEntry" where
  "op_entry (SAdd e) = e"
| "op_entry (SRemove e) = e"

section \<open>Invariant\<close>

text \<open>
  Every function that cron holds belongs to the entry of its crontab, and that entry still has
  users. Entry identifiers are not reused while their function is registered.
\<close>

definition sm_inv :: "'c cron_lib \<Rightarrow> 'c scheduleManager \<Rightarrow> bool" where
  "sm_inv lib sm \<longleftrightarrow>
     (\<forall>eid tab. (eid, tab) \<in> cron_Entries lib (sm_cron sm) \<longrightarrow>
        (\<exists>e. mget (sm_Entries sm) tab = Some e \<and> ce_EntryID e = eid \<and> ce_Ids e \<noteq> []))"

lemma sm_inv_New: "cron_Entries lib c = {} \<Longrightarrow> sm_inv lib (NewScheduleManager c)"
  by (simp add: sm_inv_def NewScheduleManager_def)

lemma sm_inv_Add:
  assumes "cron_spec lib" "sm_inv lib sm" "cron_Parses lib (se_Crontab e)"
  shows "sm_inv lib (scheduleManager_Add lib e sm)"
proof (cases "mget (sm_Entries sm) (se_Crontab e)")
  case None
  obtain eid c where add: "cron_AddFunc lib (se_Crontab e) (sm_cron sm) = (eid, c)" by fastforce
  then have "cron_Entries lib c = insert (eid, se_Crontab e) (cron_Entries lib (sm_cron sm))"
    using assms(1,3) unfolding cron_spec_def by (metis fst_conv snd_conv)
  with None add assms(2) show ?thesis
    by (fastforce simp: sm_inv_def scheduleManager_Add_def Let_def)
next
  case (Some x)
  with assms(2) show ?thesis
    by (fastforce simp: sm_inv_def scheduleManager_Add_def Let_def)
qed

lemma sm_inv_Remove:
  assumes "cron_spec lib" "sm_inv lib sm"
  shows "sm_inv lib (scheduleManager_Remove lib e sm)"
proof -
  have rm: "cron_Entries lib (cron_Remove lib eid c) = {e \<in> cron_Entries lib c. fst e \<noteq> eid}" for eid c
    using assms(1) unfolding cron_spec_def by blast
  show ?thesis using assms(2)
    by (auto simp: sm_inv_def scheduleManager_Remove_def Let_def rm split: option.splits)
      (metis option.inject)+
qed

lemma sm_inv_ops:
  assumes "cron_spec lib" "sm_inv lib sm"
    "list_all (\<lambda>opr. cron_Parses lib (se_Crontab (op_entry opr))) oprs"
  shows "sm_inv lib (fold (run_op lib) oprs sm)"
  using assms(2,3)
proof (induction oprs arbitrary: sm)
  case (Cons opr oprs)
  then show ?case by (cases opr) (auto simp: sm_inv_Add [OF assms(1)] sm_inv_Remove [OF assms(1)])
qed simp

section \<open>Correctness\<close>


text \<open>
  C37. The entry of a crontab is never deleted: when its last binding is removed and a binding with
  the same crontab is added again, the manager has a user for the crontab but cron has no function
  for it, so the schedule does not fire any more.
\<close>

theorem schedule_readd_is_lost:
  assumes "cron_spec lib" "cron_Parses lib tab" "tab \<notin> snd ` cron_Entries lib (sm_cron sm)"
    "mget (sm_Entries sm) tab = None"
    "sm' = fold (run_op lib) [SAdd \<lparr>se_Crontab = tab, se_Id = i\<rparr>,
       SRemove \<lparr>se_Crontab = tab, se_Id = i\<rparr>, SAdd \<lparr>se_Crontab = tab, se_Id = j\<rparr>] sm"
  shows "(\<exists>e. mget (sm_Entries sm') tab = Some e \<and> mget (ce_Ids e) j = Some True) \<and>
    tab \<notin> snd ` cron_Entries lib (sm_cron sm')"
proof -
  obtain eid c where add: "cron_AddFunc lib tab (sm_cron sm) = (eid, c)" by fastforce
  then have c: "cron_Entries lib c = insert (eid, tab) (cron_Entries lib (sm_cron sm))"
    using assms(1,2) unfolding cron_spec_def by (metis fst_conv snd_conv)
  have rm: "cron_Entries lib (cron_Remove lib eid c) = {e \<in> cron_Entries lib c. fst e \<noteq> eid}"
    using assms(1) unfolding cron_spec_def by blast
  show ?thesis using assms(3,4) unfolding assms(5)
    by (auto simp: scheduleManager_Add_def scheduleManager_Remove_def Let_def add c rm go_simps)
qed

text \<open>A concrete library for the witnesses: a new identifier exceeds those in use.\<close>

definition counting_cron :: "(int \<times> string) list cron_lib" where
  "counting_cron =
     \<lparr>cron_AddFunc = (\<lambda>tab es. (let n = foldr (\<lambda>e. max (fst e)) es 0 + 1 in (n, (n, tab) # es))),
      cron_Remove = (\<lambda>eid es. filter (\<lambda>e. fst e \<noteq> eid) es),
      cron_Entries = set,
      cron_Parses = (\<lambda>tab. tab \<noteq> [])\<rparr>"

lemma foldr_max_upper: "e \<in> set es \<Longrightarrow> fst e \<le> foldr (\<lambda>e. max (fst e)) es (0 :: int)"
  by (induction es) auto

lemma counting_cron_spec: "cron_spec counting_cron"
  by (force simp: cron_spec_def counting_cron_def Let_def dest: foldr_max_upper)


theorem schedule_readd_is_lost_witness:
  "''t'' \<notin> snd ` cron_Entries counting_cron (sm_cron (fold (run_op counting_cron)
     [SAdd \<lparr>se_Crontab = ''t'', se_Id = ''a''\<rparr>, SRemove \<lparr>se_Crontab = ''t'', se_Id = ''a''\<rparr>,
      SAdd \<lparr>se_Crontab = ''t'', se_Id = ''b''\<rparr>] (NewScheduleManager [])))"
  using schedule_readd_is_lost [OF counting_cron_spec _ _ _ refl, of "''t''" "NewScheduleManager []"]
  by (simp add: NewScheduleManager_def) (simp add: counting_cron_def)

end
