(* ===== verification/Controllers.thy ===== *)
theory Controllers
  imports Monitor Schedule_Manager Binding_Context
begin

text \<open>
  \<open>pkg/hook/types/bindings.go\<close> and \<open>pkg/hook/controller/\<close>: the effective binding configurations
  of a hook and the controllers that connect them to the managers of Kubernetes events and of
  schedules. The managers are shared by all hooks and form the record \<open>managers\<close>; \<open>libs\<close> collects
  the third-party behaviour and the map orders that the operations depend on.
\<close>

section \<open>Effective configurations\<close>

record OnStartupConfig =
  os_BindingName :: string
  os_AllowFailure :: bool
  os_Order :: rat

record ScheduleConfig =
  sc_BindingName :: string
  sc_AllowFailure :: bool
  sc_ScheduleEntry :: ScheduleEntry
  sc_IncludeSnapshotsFrom :: "string list"
  sc_Queue :: string
  sc_Group :: string

record OnKubernetesEventConfig =
  kc_BindingName :: string
  kc_AllowFailure :: bool
  kc_Monitor :: MonitorConfig
  kc_IncludeSnapshotsFrom :: "string list"
  kc_Queue :: string
  kc_Group :: string
  kc_ExecuteHookOnSynchronization :: bool
  kc_WaitForSynchronization :: bool
  kc_KeepFullObjectsInMemory :: bool

record 'c managers =
  w_store :: ctx_store
  w_kem :: kubeEventsManager
  w_sm :: "'c scheduleManager"

record 'c libs =
  lib_kube :: kube_env
  lib_ord :: orders
  lib_cron :: "'c cron_lib"

record BindingExecutionInfo =
  bei_BindingContext :: "BindingContext list"
  bei_IncludeSnapshots :: "string list"
  bei_IncludeAllSnapshots :: bool
  bei_AllowFailure :: bool
  bei_QueueName :: string
  bei_Binding :: string
  bei_Group :: string
  bei_WaitForSynchronization :: bool

section \<open>Kubernetes bindings\<close>

record KubernetesBindingToMonitorLink =
  kl_BindingName :: string
  kl_MonitorId :: string
  kl_IncludeSnapshots :: "string list"
  kl_AllowFailure :: bool
  kl_JqFilter :: string
  kl_QueueName :: string
  kl_Group :: string
  kl_WaitForSynchronization :: bool

record kubernetesBindingsController =
  kbc_BindingMonitorLinks :: "(string, KubernetesBindingToMonitorLink) gomap"
  kbc_KubernetesBindings :: "OnKubernetesEventConfig list"

definition kube_bc :: "KubeEvent \<Rightarrow> KubernetesBindingToMonitorLink \<Rightarrow> WatchEventType \<Rightarrow> BindingContext" where
  "kube_bc kubeEvent link kEvent =
     empty_bc\<lparr>bc_Binding := kl_BindingName link, bc_Type := ke_Type kubeEvent, bc_WatchEvent := kEvent,
              bc_Objects := ke_Objects kubeEvent, bc_JqFilter := kl_JqFilter link,
              bc_BindingType := OnKubernetesEvent, bc_IncludeSnapshots := kl_IncludeSnapshots link,
              bc_Group := kl_Group link\<rparr>"

definition ConvertKubeEventToBindingContext ::
    "KubeEvent \<Rightarrow> KubernetesBindingToMonitorLink \<Rightarrow> BindingContext list" where
  "ConvertKubeEventToBindingContext kubeEvent link =
     (if ke_Type kubeEvent = TypeSynchronization then [kube_bc kubeEvent link []]
      else if ke_Type kubeEvent = TypeEvent then map (kube_bc kubeEvent link) (ke_WatchEvents kubeEvent)
      else [])"

definition kbc_HandleEvent :: "KubeEvent \<Rightarrow> kubernetesBindingsController \<Rightarrow> BindingExecutionInfo" where
  "kbc_HandleEvent kubeEvent c =
     (case mget (kbc_BindingMonitorLinks c) (ke_MonitorId kubeEvent) of
        None \<Rightarrow>
          \<lparr>bei_BindingContext = [], bei_IncludeSnapshots = [], bei_IncludeAllSnapshots = False,
           bei_AllowFailure = False, bei_QueueName = [], bei_Binding = [], bei_Group = [],
           bei_WaitForSynchronization = False\<rparr>
      | Some link \<Rightarrow>
          \<lparr>bei_BindingContext = ConvertKubeEventToBindingContext kubeEvent link,
           bei_IncludeSnapshots = kl_IncludeSnapshots link, bei_IncludeAllSnapshots = False,
           bei_AllowFailure = kl_AllowFailure link, bei_QueueName = kl_QueueName link,
           bei_Binding = kl_BindingName link, bei_Group = kl_Group link,
           bei_WaitForSynchronization = kl_WaitForSynchronization link\<rparr>)"

definition binding_link :: "OnKubernetesEventConfig \<Rightarrow> KubernetesBindingToMonitorLink" where
  "binding_link config =
     \<lparr>kl_BindingName = kc_BindingName config, kl_MonitorId = mc_MonitorId (kc_Monitor config),
      kl_IncludeSnapshots = kc_IncludeSnapshotsFrom config, kl_AllowFailure = kc_AllowFailure config,
      kl_JqFilter = mc_JqFilter (kc_Monitor config), kl_QueueName = kc_Queue config,
      kl_Group = kc_Group config, kl_WaitForSynchronization = kc_WaitForSynchronization config\<rparr>"

text \<open>\<open>EnableKubernetesBindings\<close>: the loop; monitors and links made before an error stay.\<close>

fun enable_bindings ::
    "'c libs \<Rightarrow> OnKubernetesEventConfig list \<Rightarrow> kubernetesBindingsController \<Rightarrow> 'c managers \<Rightarrow>
     BindingExecutionInfo list \<Rightarrow>
     kubernetesBindingsController \<times> 'c managers \<times> (string + BindingExecutionInfo list)" where
  "enable_bindings lib [] c w res = (c, w, Inr res)"
| "enable_bindings lib (config # configs) c w res =
     (case AddMonitor (lib_kube lib) (lib_ord lib) (kc_Monitor config) (w_kem w) (w_store w) of
        (st, mgr, Inl err) \<Rightarrow> (c, w\<lparr>w_store := st, w_kem := mgr\<rparr>, Inl (''run monitor: '' @ err))
      | (st, mgr, Inr firstKubeEvent) \<Rightarrow>
          (let w = w\<lparr>w_store := st, w_kem := mgr\<rparr>;
               c = c\<lparr>kbc_BindingMonitorLinks := mput (mc_MonitorId (kc_Monitor config)) (binding_link config)
                       (kbc_BindingMonitorLinks c)\<rparr>
           in case firstKubeEvent of
                None \<Rightarrow> enable_bindings lib configs c w res
              | Some ev \<Rightarrow>
                  if \<not> kc_ExecuteHookOnSynchronization config then enable_bindings lib configs c w res
                  else enable_bindings lib configs c w (res @ [kbc_HandleEvent ev c])))"

definition kbc_EnableKubernetesBindings ::
    "'c libs \<Rightarrow> kubernetesBindingsController \<Rightarrow> 'c managers \<Rightarrow>
     kubernetesBindingsController \<times> 'c managers \<times> (string + BindingExecutionInfo list)" where
  "kbc_EnableKubernetesBindings lib c w = enable_bindings lib (kbc_KubernetesBindings c) c w []"

definition kbc_StartMonitors ::
    "'c libs \<Rightarrow> string list \<Rightarrow> kubernetesBindingsController \<Rightarrow> 'c managers \<Rightarrow> 'c managers go" where
  "kbc_StartMonitors lib ks c w =
     go_fold (\<lambda>monitorId w. go_bind (StartMonitor (lib_ord lib) monitorId (w_kem w) (w_store w))
       (\<lambda>(st, mgr). Ret (w\<lparr>w_store := st, w_kem := mgr\<rparr>))) ks w"

definition kbc_StopMonitors :: "string list \<Rightarrow> kubernetesBindingsController \<Rightarrow> 'c managers \<Rightarrow> 'c managers" where
  "kbc_StopMonitors ks c w =
     fold (\<lambda>monitorId w. case StopMonitor monitorId (w_kem w) (w_store w) of
       (st, mgr) \<Rightarrow> w\<lparr>w_store := st, w_kem := mgr\<rparr>) ks w"

definition kbc_CanHandleEvent :: "KubeEvent \<Rightarrow> kubernetesBindingsController \<Rightarrow> bool" where
  "kbc_CanHandleEvent kubeEvent c =
     list_ex (\<lambda>key. key = ke_MonitorId kubeEvent) (mkeys (kbc_BindingMonitorLinks c))"

definition kbc_BindingNames :: "kubernetesBindingsController \<Rightarrow> string list" where
  "kbc_BindingNames c = map kc_BindingName (kbc_KubernetesBindings c)"

text \<open>The inner loop of \<open>SnapshotsFrom\<close>: the last binding of that name with a monitor wins.\<close>

definition snapshot_of ::
    "orders \<Rightarrow> kubeEventsManager \<Rightarrow> OnKubernetesEventConfig list \<Rightarrow> string \<Rightarrow> ObjectAndFilterResult list" where
  "snapshot_of ord mgr bindings bindingName =
     foldl (\<lambda>objs binding.
        if bindingName = kc_BindingName binding then
          (case GetMonitor (mc_MonitorId (kc_Monitor binding)) mgr of
             None \<Rightarrow> objs
           | Some m \<Rightarrow> monitor_GetExistedObjects (ord_sort ord) (ord_cache ord) (ord_varying ord m) m)
        else objs) [] bindings"

definition SnapshotsFrom ::
    "orders \<Rightarrow> kubeEventsManager \<Rightarrow> string list \<Rightarrow> kubernetesBindingsController \<Rightarrow>
     (string, ObjectAndFilterResult list) gomap" where
  "SnapshotsFrom ord mgr bindingNames c =
     foldl (\<lambda>res bindingName. mput bindingName (snapshot_of ord mgr (kbc_KubernetesBindings c) bindingName) res)
       [] bindingNames"

definition kbc_Snapshots ::
    "orders \<Rightarrow> kubeEventsManager \<Rightarrow> kubernetesBindingsController \<Rightarrow> (string, ObjectAndFilterResult list) gomap" where
  "kbc_Snapshots ord mgr c = SnapshotsFrom ord mgr (kbc_BindingNames c) c"

section \<open>Schedule bindings\<close>

record ScheduleBindingToCrontabLink =
  sl_BindingName :: string
  sl_Crontab :: string
  sl_IncludeSnapshots :: "string list"
  sl_AllowFailure :: bool
  sl_QueueName :: string
  sl_Group :: string

record scheduleBindingsController =
  sbc_ScheduleLinks :: "(string, ScheduleBindingToCrontabLink) gomap"
  sbc_ScheduleBindings :: "ScheduleConfig list"

definition sbc_CanHandleEvent :: "string \<Rightarrow> scheduleBindingsController \<Rightarrow> bool" where
  "sbc_CanHandleEvent crontab c = list_ex (\<lambda>(_, link). sl_Crontab link = crontab) (sbc_ScheduleLinks c)"

definition schedule_info :: "ScheduleBindingToCrontabLink \<Rightarrow> BindingExecutionInfo" where
  "schedule_info link =
     (let bc = empty_bc\<lparr>bc_Binding := sl_BindingName link, bc_BindingType := Schedule,
                 bc_IncludeSnapshots := sl_IncludeSnapshots link, bc_Group := sl_Group link\<rparr>
      in \<lparr>bei_BindingContext = [bc], bei_IncludeSnapshots = sl_IncludeSnapshots link,
          bei_IncludeAllSnapshots = False, bei_AllowFailure = sl_AllowFailure link,
          bei_QueueName = sl_QueueName link, bei_Binding = sl_BindingName link,
          bei_Group = sl_Group link, bei_WaitForSynchronization = False\<rparr>)"

definition sbc_HandleEvent ::
    "string list \<Rightarrow> string \<Rightarrow> scheduleBindingsController \<Rightarrow> BindingExecutionInfo list" where
  "sbc_HandleEvent ks crontab c =
     foldl (\<lambda>res k. case mget (sbc_ScheduleLinks c) k of
         None \<Rightarrow> res
       | Some link \<Rightarrow> if sl_Crontab link = crontab then res @ [schedule_info link] else res) [] ks"

definition schedule_link :: "ScheduleConfig \<Rightarrow> ScheduleBindingToCrontabLink" where
  "schedule_link config =
     \<lparr>sl_BindingName = sc_BindingName config, sl_Crontab = se_Crontab (sc_ScheduleEntry config),
      sl_IncludeSnapshots = sc_IncludeSnapshotsFrom config, sl_AllowFailure = sc_AllowFailure config,
      sl_QueueName = sc_Queue config, sl_Group = sc_Group config\<rparr>"

definition sbc_EnableScheduleBindings ::
    "'c cron_lib \<Rightarrow> scheduleBindingsController \<Rightarrow> 'c scheduleManager \<Rightarrow>
     scheduleBindingsController \<times> 'c scheduleManager" where
  "sbc_EnableScheduleBindings lib c sm =
     fold (\<lambda>config (c, sm).
        (c\<lparr>sbc_ScheduleLinks := mput (se_Id (sc_ScheduleEntry config)) (schedule_link config)
             (sbc_ScheduleLinks c)\<rparr>,
         scheduleManager_Add lib (sc_ScheduleEntry config) sm))
       (sbc_ScheduleBindings c) (c, sm)"

definition sbc_DisableScheduleBindings ::
    "'c cron_lib \<Rightarrow> scheduleBindingsController \<Rightarrow> 'c scheduleManager \<Rightarrow>
     scheduleBindingsController \<times> 'c scheduleManager" where
  "sbc_DisableScheduleBindings lib c sm =
     fold (\<lambda>config (c, sm).
        (c\<lparr>sbc_ScheduleLinks := mdel (se_Id (sc_ScheduleEntry config)) (sbc_ScheduleLinks c)\<rparr>,
         scheduleManager_Remove lib (sc_ScheduleEntry config) sm))
       (sbc_ScheduleBindings c) (c, sm)"

section \<open>The controller of a hook\<close>

record hookController =
  hc_KubernetesController :: "kubernetesBindingsController option"
  hc_ScheduleController :: "scheduleBindingsController option"
  hc_kubernetesBindings :: "OnKubernetesEventConfig list"
  hc_scheduleBindings :: "ScheduleConfig list"

definition NewHookController :: hookController where
  "NewHookController = \<lparr>hc_KubernetesController = None, hc_ScheduleController = None,
     hc_kubernetesBindings = [], hc_scheduleBindings = []\<rparr>"

definition InitKubernetesBindings :: "OnKubernetesEventConfig list \<Rightarrow> hookController \<Rightarrow> hookController" where
  "InitKubernetesBindings bindings hc =
     (if length bindings = 0 then hc
      else hc\<lparr>hc_KubernetesController :=
                Some \<lparr>kbc_BindingMonitorLinks = [], kbc_KubernetesBindings = bindings\<rparr>,
              hc_kubernetesBindings := bindings\<rparr>)"

definition InitScheduleBindings :: "ScheduleConfig list \<Rightarrow> hookController \<Rightarrow> hookController" where
  "InitScheduleBindings bindings hc =
     (if length bindings = 0 then hc
      else hc\<lparr>hc_ScheduleController := Some \<lparr>sbc_ScheduleLinks = [], sbc_ScheduleBindings = bindings\<rparr>,
              hc_scheduleBindings := bindings\<rparr>)"

definition CanHandleKubeEvent :: "KubeEvent \<Rightarrow> hookController \<Rightarrow> bool" where
  "CanHandleKubeEvent kubeEvent hc =
     (case hc_KubernetesController hc of None \<Rightarrow> False | Some c \<Rightarrow> kbc_CanHandleEvent kubeEvent c)"

definition CanHandleScheduleEvent :: "string \<Rightarrow> hookController \<Rightarrow> bool" where
  "CanHandleScheduleEvent crontab hc =
     (case hc_ScheduleController hc of None \<Rightarrow> False | Some c \<Rightarrow> sbc_CanHandleEvent crontab c)"

text \<open>The callbacks of the \<open>Handle*\<close> methods receive the infos in order; the model returns them.\<close>

definition HandleEnableKubernetesBindings ::
    "'c libs \<Rightarrow> hookController \<Rightarrow> 'c managers \<Rightarrow>
     hookController \<times> 'c managers \<times> (string + BindingExecutionInfo list)" where
  "HandleEnableKubernetesBindings lib hc w =
     (case hc_KubernetesController hc of
        None \<Rightarrow> (hc, w, Inr [])
      | Some c \<Rightarrow>
          (case kbc_EnableKubernetesBindings lib c w of
             (c, w, res) \<Rightarrow> (hc\<lparr>hc_KubernetesController := Some c\<rparr>, w, res)))"

definition hc_HandleKubeEvent ::
    "orders \<Rightarrow> kubeEventsManager \<Rightarrow> KubeEvent \<Rightarrow> hookController \<Rightarrow> BindingExecutionInfo list" where
  "hc_HandleKubeEvent ord mgr event hc =
     (case hc_KubernetesController hc of
        None \<Rightarrow> []
      | Some c \<Rightarrow>
          (let execInfo = kbc_HandleEvent event c in
           case bei_BindingContext execInfo of
             bc # bcs \<Rightarrow>
               if length (bei_IncludeSnapshots execInfo) > 0 then
                 [execInfo\<lparr>bei_BindingContext :=
                    bc\<lparr>bc_Snapshots := SnapshotsFrom ord mgr (bei_IncludeSnapshots execInfo) c\<rparr> # bcs\<rparr>]
               else [execInfo]
           | [] \<Rightarrow> [execInfo]))"

definition hc_HandleScheduleEvent ::
    "orders \<Rightarrow> kubeEventsManager \<Rightarrow> string list \<Rightarrow> string \<Rightarrow> hookController \<Rightarrow> BindingExecutionInfo list" where
  "hc_HandleScheduleEvent ord mgr ks crontab hc =
     (case hc_ScheduleController hc of
        None \<Rightarrow> []
      | Some s \<Rightarrow>
          map (\<lambda>info.
            case (hc_KubernetesController hc, bei_BindingContext info) of
              (Some c, bc # bcs) \<Rightarrow>
                if length (bei_IncludeSnapshots info) > 0 then
                  info\<lparr>bei_BindingContext :=
                    bc\<lparr>bc_Snapshots := SnapshotsFrom ord mgr (bei_IncludeSnapshots info) c\<rparr> # bcs\<rparr>
                else info
            | _ \<Rightarrow> info) (sbc_HandleEvent ks crontab s))"

definition hc_StartMonitors ::
    "'c libs \<Rightarrow> string list \<Rightarrow> hookController \<Rightarrow> 'c managers \<Rightarrow> 'c managers go" where
  "hc_StartMonitors lib ks hc w =
     (case hc_KubernetesController hc of None \<Rightarrow> Ret w | Some c \<Rightarrow> kbc_StartMonitors lib ks c w)"

definition hc_StopMonitors :: "string list \<Rightarrow> hookController \<Rightarrow> 'c managers \<Rightarrow> 'c managers" where
  "hc_StopMonitors ks hc w =
     (case hc_KubernetesController hc of None \<Rightarrow> w | Some c \<Rightarrow> kbc_StopMonitors ks c w)"

definition hc_EnableScheduleBindings ::
    "'c cron_lib \<Rightarrow> hookController \<Rightarrow> 'c managers \<Rightarrow> hookController \<times> 'c managers" where
  "hc_EnableScheduleBindings lib hc w =
     (case hc_ScheduleController hc of
        None \<Rightarrow> (hc, w)
      | Some c \<Rightarrow> (case sbc_EnableScheduleBindings lib c (w_sm w) of
          (c, sm) \<Rightarrow> (hc\<lparr>hc_ScheduleController := Some c\<rparr>, w\<lparr>w_sm := sm\<rparr>)))"

definition hc_DisableScheduleBindings ::
    "'c cron_lib \<Rightarrow> hookController \<Rightarrow> 'c managers \<Rightarrow> hookController \<times> 'c managers" where
  "hc_DisableScheduleBindings lib hc w =
     (case hc_ScheduleController hc of
        None \<Rightarrow> (hc, w)
      | Some c \<Rightarrow> (case sbc_DisableScheduleBindings lib c (w_sm w) of
          (c, sm) \<Rightarrow> (hc\<lparr>hc_ScheduleController := Some c\<rparr>, w\<lparr>w_sm := sm\<rparr>)))"

definition KubernetesSnapshots ::
    "orders \<Rightarrow> kubeEventsManager \<Rightarrow> hookController \<Rightarrow> (string, ObjectAndFilterResult list) gomap" where
  "KubernetesSnapshots ord mgr hc =
     (case hc_KubernetesController hc of None \<Rightarrow> [] | Some c \<Rightarrow> kbc_Snapshots ord mgr c)"

text \<open>
  \<open>KubernetesSnapshotsFor\<close>: the first binding of that type and name decides. It does not check
  that there is a Kubernetes controller; a call without one panics.
\<close>

definition included_snapshots :: "BindingType \<Rightarrow> string \<Rightarrow> hookController \<Rightarrow> string list" where
  "included_snapshots bindingType bindingName hc =
     (if bindingType = OnKubernetesEvent then
        (case find (\<lambda>b. bindingName = kc_BindingName b) (hc_kubernetesBindings hc) of
           None \<Rightarrow> [] | Some b \<Rightarrow> kc_IncludeSnapshotsFrom b)
      else if bindingType = Schedule then
        (case find (\<lambda>b. bindingName = sc_BindingName b) (hc_scheduleBindings hc) of
           None \<Rightarrow> [] | Some b \<Rightarrow> sc_IncludeSnapshotsFrom b)
      else [])"

definition KubernetesSnapshotsFor ::
    "orders \<Rightarrow> kubeEventsManager \<Rightarrow> BindingType \<Rightarrow> string \<Rightarrow> hookController \<Rightarrow>
     (string, ObjectAndFilterResult list) gomap go" where
  "KubernetesSnapshotsFor ord mgr bindingType bindingName hc =
     (case hc_KubernetesController hc of
        None \<Rightarrow> Panic
      | Some c \<Rightarrow> Ret (SnapshotsFrom ord mgr (included_snapshots bindingType bindingName hc) c))"

definition UpdateSnapshots ::
    "orders \<Rightarrow> kubeEventsManager \<Rightarrow> BindingContext list \<Rightarrow> hookController \<Rightarrow> BindingContext list go" where
  "UpdateSnapshots ord mgr bcs hc =
     (case hc_KubernetesController hc of
        None \<Rightarrow> Ret bcs
      | Some c \<Rightarrow>
          go_map (\<lambda>bc. go_bind (KubernetesSnapshotsFor ord mgr (bc_BindingType bc) (bc_Binding bc) hc)
            (\<lambda>snaps. Ret (bc\<lparr>bc_Snapshots := snaps\<rparr>))) bcs)"


section \<open>The registry of monitors\<close>

text \<open>
  What the controllers rely on: a monitor can be started once it was added, until it is stopped,
  and operations on one monitor do not affect the presence of others.
\<close>

locale monitor_registry =
  fixes has :: "string \<Rightarrow> 's \<Rightarrow> bool"
    and key :: "'c \<Rightarrow> string"
    and add :: "'c \<Rightarrow> 's \<Rightarrow> 's \<times> (string + 'e)"
    and start :: "string \<Rightarrow> 's \<Rightarrow> 's go"
    and stop :: "string \<Rightarrow> 's \<Rightarrow> 's"
  assumes add_success: "add c s = (s', Inr ev) \<Longrightarrow> has k s' \<longleftrightarrow> has k s \<or> k = key c"
    and add_failure: "add c s = (s', Inl err) \<Longrightarrow> has k s' \<longleftrightarrow> has k s"
    and start_known: "has k s \<Longrightarrow> \<exists>s'. start k s = Ret s' \<and> (\<forall>x. has x s' \<longleftrightarrow> has x s)"
    and start_unknown: "\<not> has k s \<Longrightarrow> start k s = Panic"
    and stop_removes: "has k (stop x s) \<longleftrightarrow> has k s \<and> k \<noteq> x"
begin

lemma start_all:
  "\<forall>k\<in>set ks. has k s \<Longrightarrow> \<exists>s'. go_fold start ks s = Ret s' \<and> (\<forall>x. has x s' \<longleftrightarrow> has x s)"
proof (induction ks arbitrary: s)
  case (Cons k ks)
  from Cons.prems start_known [of k s] obtain s1 where
    s1: "start k s = Ret s1" "\<forall>x. has x s1 \<longleftrightarrow> has x s" by auto
  then obtain s2 where "go_fold start ks s1 = Ret s2" "\<forall>x. has x s2 \<longleftrightarrow> has x s1"
    using Cons.IH [of s1] Cons.prems by auto
  with s1 show ?case by simp
qed simp

lemma stop_all: "has k (fold stop ks s) \<longleftrightarrow> has k s \<and> k \<notin> set ks"
  by (induction ks arbitrary: s) (auto simp: stop_removes)

end

definition reg_has :: "string \<Rightarrow> ctx_store \<times> kubeEventsManager \<Rightarrow> bool" where
  "reg_has k s = HasMonitor k (snd s)"

definition reg_add ::
    "kube_env \<Rightarrow> orders \<Rightarrow> MonitorConfig \<Rightarrow> ctx_store \<times> kubeEventsManager \<Rightarrow>
     (ctx_store \<times> kubeEventsManager) \<times> (string + KubeEvent option)" where
  "reg_add env ord c s = (case AddMonitor env ord c (snd s) (fst s) of (st, mgr, res) \<Rightarrow> ((st, mgr), res))"

definition reg_start ::
    "orders \<Rightarrow> string \<Rightarrow> ctx_store \<times> kubeEventsManager \<Rightarrow> (ctx_store \<times> kubeEventsManager) go" where
  "reg_start ord k s = StartMonitor ord k (snd s) (fst s)"

definition reg_stop :: "string \<Rightarrow> ctx_store \<times> kubeEventsManager \<Rightarrow> ctx_store \<times> kubeEventsManager" where
  "reg_stop k s = StopMonitor k (snd s) (fst s)"

interpretation kem: monitor_registry reg_has mc_MonitorId "reg_add env ord" "reg_start ord" reg_stop
  for env ord
proof unfold_locales
  show "reg_has k s' \<longleftrightarrow> reg_has k s \<or> k = mc_MonitorId c" if "reg_add env ord c s = (s', Inr ev)" for c s s' ev k
    using that by (auto simp: reg_add_def reg_has_def HasMonitor_def AddMonitor_def Let_def
        split: prod.splits option.splits)
  show "reg_has k s' \<longleftrightarrow> reg_has k s" if "reg_add env ord c s = (s', Inl err)" for c s s' err k
    using that by (auto simp: reg_add_def reg_has_def HasMonitor_def AddMonitor_def Let_def
        split: prod.splits option.splits)
  show "\<exists>s'. reg_start ord k s = Ret s' \<and> (\<forall>x. reg_has x s' \<longleftrightarrow> reg_has x s)" if "reg_has k s" for k s
    using that by (auto simp: reg_start_def reg_has_def HasMonitor_def StartMonitor_def split: prod.splits)
  show "reg_start ord k s = Panic" if "\<not> reg_has k s" for k s
    using that by (simp add: reg_start_def reg_has_def HasMonitor_def StartMonitor_def)
  show "reg_has k (reg_stop x s) \<longleftrightarrow> reg_has k s \<and> k \<noteq> x" for k x s
    by (auto simp: reg_stop_def reg_has_def HasMonitor_def StopMonitor_def split: option.splits)
qed

section \<open>Lemmas\<close>

abbreviation kem_state :: "'c managers \<Rightarrow> ctx_store \<times> kubeEventsManager" where
  "kem_state w \<equiv> (w_store w, w_kem w)"

definition executed_on_synchronization :: "OnKubernetesEventConfig \<Rightarrow> bool" where
  "executed_on_synchronization b \<longleftrightarrow>
     kc_ExecuteHookOnSynchronization b \<and> mc_Mode (kc_Monitor b) \<noteq> ModeV0"

lemma AddMonitor_event:
  assumes "AddMonitor env ord c mgr st = (st', mgr', Inr ev)"
  shows "ev = None \<longleftrightarrow> mc_Mode c = ModeV0"
    and "ev = Some e \<Longrightarrow> ke_MonitorId e = mc_MonitorId c \<and> ke_Type e = TypeSynchronization"
  by (rule AddMonitor_ok [OF assms]; auto simp: MakeKubeEvent_def split: if_splits)+

lemma enable_bindings_ok:
  assumes "enable_bindings lib configs c w res = (c', w', Inr infos)"
  shows "(\<forall>k. reg_has k (kem_state w') \<longleftrightarrow>
      reg_has k (kem_state w) \<or> k \<in> set (map (mc_MonitorId \<circ> kc_Monitor) configs)) \<and>
    set (mkeys (kbc_BindingMonitorLinks c')) =
      set (mkeys (kbc_BindingMonitorLinks c)) \<union> set (map (mc_MonitorId \<circ> kc_Monitor) configs) \<and>
    map (\<lambda>i. (bei_Binding i, bei_QueueName i, map bc_Type (bei_BindingContext i))) infos =
      map (\<lambda>i. (bei_Binding i, bei_QueueName i, map bc_Type (bei_BindingContext i))) res @
      map (\<lambda>b. (kc_BindingName b, kc_Queue b, [TypeSynchronization]))
        (filter executed_on_synchronization configs)"
  using assms
proof (induction configs arbitrary: c w res)
  case (Cons config configs)
  let ?key = "mc_MonitorId (kc_Monitor config)"
  obtain st mgr r where add: "AddMonitor (lib_kube lib) (lib_ord lib) (kc_Monitor config) (w_kem w) (w_store w) = (st, mgr, r)"
    by (metis prod_cases3)
  with Cons.prems obtain ev where r: "r = Inr ev" by (cases r) auto
  define w1 where "w1 = w\<lparr>w_store := st, w_kem := mgr\<rparr>"
  define c1 where "c1 = c\<lparr>kbc_BindingMonitorLinks := mput ?key (binding_link config) (kbc_BindingMonitorLinks c)\<rparr>"
  define res1 where "res1 = (if executed_on_synchronization config
    then res @ [kbc_HandleEvent (the ev) c1] else res)"
  have has: "reg_has k (kem_state w1) \<longleftrightarrow> reg_has k (kem_state w) \<or> k = ?key" for k
    using kem.add_success [of "lib_kube lib" "lib_ord lib" "kc_Monitor config" "kem_state w" "(st, mgr)" ev k] add r
    by (simp add: reg_add_def w1_def)
  note ev = AddMonitor_event [OF add [unfolded r]]
  have rest: "enable_bindings lib configs c1 w1 res1 = (c', w', Inr infos)"
    using Cons.prems add r ev(1)
    by (cases ev) (auto simp: Let_def w1_def c1_def res1_def executed_on_synchronization_def split: if_splits)
  have info: "(bei_Binding i, bei_QueueName i, map bc_Type (bei_BindingContext i)) =
      (kc_BindingName config, kc_Queue config, [TypeSynchronization])"
    if "executed_on_synchronization config" "i = kbc_HandleEvent (the ev) c1" for i
  proof -
    from that(1) ev(1) obtain e where e: "ev = Some e" by (cases ev) (auto simp: executed_on_synchronization_def)
    with ev(2) that(2) show ?thesis
      by (simp add: kbc_HandleEvent_def c1_def binding_link_def ConvertKubeEventToBindingContext_def
          kube_bc_def empty_bc_def)
  qed
  note ih = Cons.IH [OF rest]
  show ?case
  proof (intro conjI allI)
    show "reg_has k (kem_state w') \<longleftrightarrow> reg_has k (kem_state w) \<or>
        k \<in> set (map (mc_MonitorId \<circ> kc_Monitor) (config # configs))" for k
      using conjunct1 [OF ih] has [of k] by simp
    show "set (mkeys (kbc_BindingMonitorLinks c')) = set (mkeys (kbc_BindingMonitorLinks c)) \<union>
        set (map (mc_MonitorId \<circ> kc_Monitor) (config # configs))"
      using ih by (simp add: c1_def)
  next
    show "map (\<lambda>i. (bei_Binding i, bei_QueueName i, map bc_Type (bei_BindingContext i))) infos =
        map (\<lambda>i. (bei_Binding i, bei_QueueName i, map bc_Type (bei_BindingContext i))) res @
        map (\<lambda>b. (kc_BindingName b, kc_Queue b, [TypeSynchronization]))
          (filter executed_on_synchronization (config # configs))"
    proof (cases "executed_on_synchronization config")
      case True
      then show ?thesis using conjunct2 [OF conjunct2 [OF ih]] info [OF True refl] by (simp add: res1_def)
    next
      case False
      then show ?thesis using conjunct2 [OF conjunct2 [OF ih]] by (simp add: res1_def)
    qed
  qed
qed simp

lemma SnapshotsFrom_lookup:
  "mget (SnapshotsFrom ord mgr names c) n =
     (if n \<in> set names then Some (snapshot_of ord mgr (kbc_KubernetesBindings c) n) else None)"
proof -
  have "mget (foldl (\<lambda>res bn. mput bn (f bn) res) acc names) n =
      (if n \<in> set names then Some (f n) else mget acc n)" for f :: "string \<Rightarrow> ObjectAndFilterResult list" and acc
    by (induction names arbitrary: acc) auto
  then show ?thesis by (simp add: SnapshotsFrom_def)
qed

lemma snapshot_of_unique:
  assumes "distinct (map kc_BindingName bindings)" "b \<in> set bindings"
    "GetMonitor (mc_MonitorId (kc_Monitor b)) mgr = Some m"
  shows "snapshot_of ord mgr bindings (kc_BindingName b) =
    monitor_GetExistedObjects (ord_sort ord) (ord_cache ord) (ord_varying ord m) m"
proof -
  obtain xs ys where split: "bindings = xs @ b # ys" using assms(2) by (meson split_list)
  have skip: "foldl (\<lambda>objs binding. if n = kc_BindingName binding then g binding objs else objs) acc zs = acc"
    if "n \<notin> kc_BindingName ` set zs" for n zs acc and g :: "OnKubernetesEventConfig \<Rightarrow> _ \<Rightarrow> ObjectAndFilterResult list"
    using that by (induction zs) auto
  show ?thesis using assms(1,3) unfolding snapshot_of_def split
    by (simp add: skip [where g = "\<lambda>binding objs. case GetMonitor (mc_MonitorId (kc_Monitor binding)) mgr of
          None \<Rightarrow> objs | Some m \<Rightarrow> monitor_GetExistedObjects (ord_sort ord) (ord_cache ord) (ord_varying ord m) m"])
qed


lemma kbc_StartMonitors_registry:
  "go_fold (reg_start (lib_ord lib)) ks (kem_state w) = Ret s \<Longrightarrow>
   kbc_StartMonitors lib ks c w = Ret (w\<lparr>w_store := fst s, w_kem := snd s\<rparr>)"
proof (induction ks arbitrary: w)
  case (Cons k ks)
  then obtain s1 where "reg_start (lib_ord lib) k (kem_state w) = Ret s1"
    and rest: "go_fold (reg_start (lib_ord lib)) ks s1 = Ret s" by auto
  then have s1: "StartMonitor (lib_ord lib) k (w_kem w) (w_store w) = Ret s1"
    by (simp add: reg_start_def)
  from rest Cons.IH [of "w\<lparr>w_store := fst s1, w_kem := snd s1\<rparr>"] s1 show ?case
    by (simp add: kbc_StartMonitors_def split_beta)
qed (auto simp: kbc_StartMonitors_def)

lemma schedule_links_fold:
  assumes "distinct (map (se_Id \<circ> sc_ScheduleEntry) configs)"
    "\<forall>b\<in>set configs. mget (sbc_ScheduleLinks c) (se_Id (sc_ScheduleEntry b)) = None"
  shows "sbc_ScheduleLinks (fst (fold (\<lambda>config (c, sm).
        (c\<lparr>sbc_ScheduleLinks := mput (se_Id (sc_ScheduleEntry config)) (schedule_link config)
             (sbc_ScheduleLinks c)\<rparr>,
         scheduleManager_Add lib (sc_ScheduleEntry config) sm)) configs (c, sm))) =
    sbc_ScheduleLinks c @ map (\<lambda>b. (se_Id (sc_ScheduleEntry b), schedule_link b)) configs"
  using assms
proof (induction configs arbitrary: c sm)
  case (Cons b configs)
  have new: "mput k v m = m @ [(k, v)]" if "mget m k = None" for k v and m :: "(string, ScheduleBindingToCrontabLink) gomap"
    using that by (induction m) (auto simp: go_simps split: if_splits)
  let ?c = "c\<lparr>sbc_ScheduleLinks := sbc_ScheduleLinks c @ [(se_Id (sc_ScheduleEntry b), schedule_link b)]\<rparr>"
  have "\<forall>x\<in>set configs. mget (sbc_ScheduleLinks ?c) (se_Id (sc_ScheduleEntry x)) = None"
  proof
    fix x assume x: "x \<in> set configs"
    then have "se_Id (sc_ScheduleEntry x) \<noteq> se_Id (sc_ScheduleEntry b)"
      using Cons.prems(1) by (auto simp: image_iff)
    with x Cons.prems(2) show "mget (sbc_ScheduleLinks ?c) (se_Id (sc_ScheduleEntry x)) = None" by simp
  qed
  from Cons.IH [OF _ this, of "scheduleManager_Add lib (sc_ScheduleEntry b) sm"] Cons.prems show ?case
    by (simp add: new)
qed simp

section \<open>Correctness\<close>

text \<open>
  C21. When the Kubernetes bindings of a hook are enabled without an error, the monitors can be
  started in any order without a panic, events of every binding's monitor can be handled, and the
  hook is first run once for each binding that wants the synchronization, in the order of the
  configuration, each time in the queue of that binding.
\<close>

theorem EnableKubernetesBindings_complete:
  assumes "kbc_EnableKubernetesBindings lib c w = (c', w', Inr infos)" "kbc_BindingMonitorLinks c = []"
    "range_of (kbc_BindingMonitorLinks c') ks"
  shows "(\<exists>w''. kbc_StartMonitors lib ks c' w' = Ret w'') \<and>
    (\<forall>b ev. b \<in> set (kbc_KubernetesBindings c) \<longrightarrow> ke_MonitorId ev = mc_MonitorId (kc_Monitor b) \<longrightarrow>
       kbc_CanHandleEvent ev c' \<and> HasMonitor (ke_MonitorId ev) (w_kem w')) \<and>
    map (\<lambda>i. (bei_Binding i, bei_QueueName i, map bc_Type (bei_BindingContext i))) infos =
      map (\<lambda>b. (kc_BindingName b, kc_Queue b, [TypeSynchronization]))
        (filter executed_on_synchronization (kbc_KubernetesBindings c))"
proof -
  note ok = enable_bindings_ok [OF assms(1) [unfolded kbc_EnableKubernetesBindings_def]]
  have "\<forall>k\<in>set ks. reg_has k (kem_state w')"
    using ok assms(2,3) by (auto simp: range_of_def)
  from kem.start_all [OF this, of "lib_ord lib"] obtain s where
    "go_fold (reg_start (lib_ord lib)) ks (kem_state w') = Ret s" by blast
  from kbc_StartMonitors_registry [OF this, of c'] have "\<exists>w''. kbc_StartMonitors lib ks c' w' = Ret w''" by blast
  moreover have "kbc_CanHandleEvent ev c' \<and> HasMonitor (ke_MonitorId ev) (w_kem w')"
    if "b \<in> set (kbc_KubernetesBindings c)" "ke_MonitorId ev = mc_MonitorId (kc_Monitor b)" for b ev
  proof -
    have "ke_MonitorId ev \<in> set (map (mc_MonitorId \<circ> kc_Monitor) (kbc_KubernetesBindings c))"
      using that by auto
    then show ?thesis using ok by (simp add: kbc_CanHandleEvent_def list_ex_iff reg_has_def)
  qed
  ultimately show ?thesis using ok by simp
qed

text \<open>
  A schedule event reaches every binding that uses its crontab: after the schedule bindings
  of a hook are enabled, handling a crontab yields exactly one execution per binding with that
  crontab, whatever the iteration order of the links.
\<close>

theorem schedule_bindings_handle:
  assumes "distinct (map (se_Id \<circ> sc_ScheduleEntry) (sbc_ScheduleBindings c))" "sbc_ScheduleLinks c = []"
    "sbc_EnableScheduleBindings lib c sm = (c', sm')" "range_of (sbc_ScheduleLinks c') ks"
  shows "mset (sbc_HandleEvent ks crontab c') =
      mset (map (schedule_info \<circ> schedule_link)
        (filter (\<lambda>b. se_Crontab (sc_ScheduleEntry b) = crontab) (sbc_ScheduleBindings c))) \<and>
    (sbc_CanHandleEvent crontab c' \<longleftrightarrow>
      (\<exists>b. b \<in> set (sbc_ScheduleBindings c) \<and> se_Crontab (sc_ScheduleEntry b) = crontab))"
proof -
  let ?bs = "sbc_ScheduleBindings c" and ?ls = "sbc_ScheduleLinks c'"
  have links: "?ls = map (\<lambda>b. (se_Id (sc_ScheduleEntry b), schedule_link b)) ?bs"
    using schedule_links_fold [OF assms(1), of c lib sm] assms(2,3)
    by (simp add: sbc_EnableScheduleBindings_def)
  have wf: "wf_map ?ls" using assms(1) by (simp add: wf_map_def links comp_def)
  have fold: "foldl (\<lambda>res k. case mget ?ls k of None \<Rightarrow> res
      | Some link \<Rightarrow> if sl_Crontab link = crontab then res @ [schedule_info link] else res) acc xs =
    acc @ map schedule_info (filter (\<lambda>l. sl_Crontab l = crontab) (List.map_filter (mget ?ls) xs))" for acc xs
    by (induction xs arbitrary: acc) (auto simp: List.map_filter_simps split: option.splits)
  have "mset ks = mset (mkeys ?ls)"
    using assms(4) wf unfolding range_of_def wf_map_def by (metis set_eq_iff_mset_eq_distinct)
  then have "mset (List.map_filter (mget ?ls) ks) = mset (List.map_filter (mget ?ls) (mkeys ?ls))"
    unfolding List.map_filter_def by (simp only: mset_map mset_filter)
  also have "List.map_filter (mget ?ls) (mkeys ?ls) = map snd ?ls"
  proof -
    have "mget ?ls (fst p) = Some (snd p)" if "p \<in> set ?ls" for p
      using that wf by (simp add: wf_map_def)
    then show ?thesis by (auto simp: List.map_filter_def filter_id_conv comp_def)
  qed
  finally have "mset (sbc_HandleEvent ks crontab c') =
      mset (map schedule_info (filter (\<lambda>l. sl_Crontab l = crontab) (map snd ?ls)))"
    unfolding sbc_HandleEvent_def fold by (simp only: append_Nil mset_map mset_filter)
  then show ?thesis
    by (auto simp: links filter_map comp_def schedule_link_def sbc_CanHandleEvent_def list_ex_iff)
qed


definition demo_libs :: "(int \<times> string) list libs" where
  "demo_libs = \<lparr>lib_kube = demo_env, lib_ord = key_orders, lib_cron = counting_cron\<rparr>"

definition demo_binding :: OnKubernetesEventConfig where
  "demo_binding = \<lparr>kc_BindingName = ''pods'', kc_AllowFailure = False, kc_Monitor = demo_config,
     kc_IncludeSnapshotsFrom = [''pods''], kc_Queue = ''main'', kc_Group = [],
     kc_ExecuteHookOnSynchronization = True, kc_WaitForSynchronization = True,
     kc_KeepFullObjectsInMemory = False\<rparr>"

definition demo_managers :: "(int \<times> string) list managers" where
  "demo_managers = \<lparr>w_store = demo_store, w_kem = demo_manager, w_sm = NewScheduleManager []\<rparr>"

abbreviation demo_kbc :: kubernetesBindingsController where
  "demo_kbc \<equiv> \<lparr>kbc_BindingMonitorLinks = [], kbc_KubernetesBindings = [demo_binding]\<rparr>"

lemma demo_enable: "\<exists>c w infos. kbc_EnableKubernetesBindings demo_libs demo_kbc demo_managers = (c, w, Inr infos) \<and>
    mkeys (kbc_BindingMonitorLinks c) = [''m'']"
proof -
  obtain st mgr ev where add: "AddMonitor demo_env key_orders demo_config demo_manager demo_store = (st, mgr, Inr (Some ev))"
    using demo_AddMonitor by blast
  have "mc_MonitorId demo_config = ''m''" by (simp add: demo_config_def)
  with add show ?thesis
    by (simp add: kbc_EnableKubernetesBindings_def demo_libs_def demo_managers_def demo_binding_def Let_def go_simps)
qed

theorem EnableKubernetesBindings_complete_witness:
  "\<exists>c w infos w'. kbc_EnableKubernetesBindings demo_libs demo_kbc demo_managers = (c, w, Inr infos) \<and>
     kbc_StartMonitors demo_libs [''m''] c w = Ret w' \<and> map bei_Binding infos = [''pods'']"
proof -
  obtain c w infos where run: "kbc_EnableKubernetesBindings demo_libs demo_kbc demo_managers = (c, w, Inr infos)"
    and keys: "mkeys (kbc_BindingMonitorLinks c) = [''m'']" using demo_enable by (elim exE conjE)
  have "range_of (kbc_BindingMonitorLinks c) [''m'']" unfolding range_of_def keys by simp
  note r = EnableKubernetesBindings_complete [OF run _ this]
  have "executed_on_synchronization demo_binding"
    by (simp add: executed_on_synchronization_def demo_binding_def demo_config_def empty_MonitorConfig_def)
  with r have "map (\<lambda>i. (bei_Binding i, bei_QueueName i, map bc_Type (bei_BindingContext i))) infos =
      [(''pods'', ''main'', [TypeSynchronization])]" by (simp add: demo_binding_def)
  then have "map bei_Binding infos = [''pods'']" by auto
  with r run show ?thesis by auto
qed

theorem schedule_bindings_handle_witness:
  "let b = \<lparr>sc_BindingName = ''s'', sc_AllowFailure = False,
       sc_ScheduleEntry = \<lparr>se_Crontab = ''* * * * *'', se_Id = ''1''\<rparr>, sc_IncludeSnapshotsFrom = [],
       sc_Queue = ''main'', sc_Group = []\<rparr>
   in sbc_CanHandleEvent ''* * * * *'' (fst (sbc_EnableScheduleBindings counting_cron
        \<lparr>sbc_ScheduleLinks = [], sbc_ScheduleBindings = [b]\<rparr> (NewScheduleManager [])))"
proof -
  let ?b = "\<lparr>sc_BindingName = ''s'', sc_AllowFailure = False,
       sc_ScheduleEntry = \<lparr>se_Crontab = ''* * * * *'', se_Id = ''1''\<rparr>, sc_IncludeSnapshotsFrom = [],
       sc_Queue = ''main'', sc_Group = []\<rparr>"
  let ?c = "\<lparr>sbc_ScheduleLinks = [], sbc_ScheduleBindings = [?b]\<rparr>"
  obtain c' sm' where run: "sbc_EnableScheduleBindings counting_cron ?c (NewScheduleManager []) = (c', sm')"
    by fastforce
  then have "range_of (sbc_ScheduleLinks c') [''1'']"
    by (auto simp: sbc_EnableScheduleBindings_def range_of_def go_simps)
  from schedule_bindings_handle [OF _ _ run this, of "''* * * * *''"] run show ?thesis by simp
qed


end
