(* ===== verification/Hook_Config.thy ===== *)
theory Hook_Config
  imports Controllers "HOL-Library.Sublist"
begin

text \<open>
  \<open>pkg/hook/hook_config.go\<close>, \<open>config/versioned_untyped.go\<close> and \<open>config/validator.go\<close>: from the
  output of a hook to its effective configuration. YAML decoding, OpenAPI validation, crontab and
  group-version parsing and UUIDs belong to libraries and are fields of \<open>config_env\<close>; each new
  UUID is \<open>ce_newid\<close> of a counter that is threaded through the conversion. Errors are values of
  \<open>config_error\<close>, a branch per place where the code makes one.
\<close>

section \<open>Raw configurations\<close>

record ScheduleConfigV0 =
  s0_Name :: string
  s0_Crontab :: string
  s0_AllowFailure :: bool

record ScheduleConfigV1 =
  s1_Name :: string
  s1_Crontab :: string
  s1_AllowFailure :: bool
  s1_IncludeSnapshotsFrom :: "string list"
  s1_Queue :: string
  s1_Group :: string

record KubeNamespaceSelectorV0 =
  n0_MatchNames :: "string list"
  n0_Any :: bool

record OnKubernetesEventConfigV0 =
  k0_Name :: string
  k0_EventTypes :: "string list"
  k0_Kind :: string
  k0_Selector :: "LabelSelector option"
  k0_ObjectName :: string
  k0_NamespaceSelector :: "KubeNamespaceSelectorV0 option"
  k0_JqFilter :: string
  k0_AllowFailure :: bool

record OnKubernetesEventConfigV1 =
  k1_Name :: string
  k1_WatchEventTypes :: "WatchEventType list option"
  k1_ExecuteHookOnEvents :: "WatchEventType list option"
  k1_ExecuteHookOnSynchronization :: string
  k1_WaitForSynchronization :: string
  k1_KeepFullObjectsInMemory :: string
  k1_Mode :: KubeEventMode
  k1_ApiVersion :: string
  k1_Kind :: string
  k1_NameSelector :: "NameSelector option"
  k1_LabelSelector :: "LabelSelector option"
  k1_FieldSelector :: "FieldSelector option"
  k1_Namespace :: "NamespaceSelector option"
  k1_JqFilter :: string
  k1_AllowFailure :: bool
  k1_IncludeSnapshotsFrom :: "string list"
  k1_Queue :: string
  k1_Group :: string

record HookConfigV0 =
  v0_OnStartup :: json
  v0_Schedule :: "ScheduleConfigV0 list"
  v0_OnKubernetesEvent :: "OnKubernetesEventConfigV0 list"

record HookConfigV1 =
  v1_ConfigVersion :: string
  v1_OnStartup :: json
  v1_Schedule :: "ScheduleConfigV1 list"
  v1_OnKubernetesEvent :: "OnKubernetesEventConfigV1 list"

record HookConfig =
  cfg_Version :: string
  cfg_V0 :: "HookConfigV0 option"
  cfg_V1 :: "HookConfigV1 option"
  cfg_OnStartup :: "OnStartupConfig option"
  cfg_Schedules :: "ScheduleConfig list"
  cfg_OnKubernetesEvents :: "OnKubernetesEventConfig list"

definition empty_HookConfig :: HookConfig where
  "empty_HookConfig = \<lparr>cfg_Version = [], cfg_V0 = None, cfg_V1 = None, cfg_OnStartup = None,
     cfg_Schedules = [], cfg_OnKubernetesEvents = []\<rparr>"

record config_env =
  ce_kube :: kube_env
  ce_cronParse :: "string \<Rightarrow> string option"
  ce_ParseGroupVersion :: "string \<Rightarrow> string option"
  ce_newid :: "nat \<Rightarrow> string"
  ce_Unmarshal :: "string \<Rightarrow> string + (string \<times> json) list"
  ce_UnmarshalV0 :: "string \<Rightarrow> string + HookConfigV0"
  ce_UnmarshalV1 :: "string \<Rightarrow> string + HookConfigV1"
  ce_Validate :: "(string \<times> json) list \<Rightarrow> string \<Rightarrow> bool \<times> string list"

datatype config_error =
    EUnmarshal string
  | EVersion string
  | EValidate "string list"
  | EUnsupportedVersion string
  | EOnStartup string
  | EKubernetes nat "string list"
  | EEventType string
  | EIncludeSnapshots nat string
  | ESchedule nat "string list"

section \<open>Versions and validation\<close>

definition VersionKey :: string where "VersionKey = ''configVersion''"

definition Schemas :: "string list" where "Schemas = [''v1'', ''v0'']"

text \<open>\<open>GetString\<close>: an error, or the value with a flag that says whether the key was found.\<close>

definition GetString :: "string \<Rightarrow> (string \<times> json) list \<Rightarrow> string + string \<times> bool" where
  "GetString key obj =
     (case map_of obj key of
        None \<Rightarrow> Inr ([], False)
      | Some JNull \<Rightarrow> Inl (''missing '' @ key @ '' value'')
      | Some (JStr value) \<Rightarrow> Inr (value, True)
      | Some _ \<Rightarrow> Inl (''string value is expected for key '' @ key))"

definition VersionValidator :: "string \<Rightarrow> bool \<Rightarrow> string + string" where
  "VersionValidator origVer found =
     (let newVer = (if \<not> found then ''v0'' else origVer)
      in if newVer \<in> set Schemas then Inr newVer
         else Inl (VersionKey @ '' value '' @ origVer @ '' is unsupported''))"

definition LoadConfigVersion :: "(string \<times> json) list \<Rightarrow> string + string" where
  "LoadConfigVersion obj =
     (case GetString VersionKey obj of
        Inl err \<Rightarrow> Inl err
      | Inr (value, found) \<Rightarrow> VersionValidator value found)"

definition VersionedUntyped_Load :: "config_env \<Rightarrow> string \<Rightarrow> config_error + (string \<times> json) list \<times> string" where
  "VersionedUntyped_Load env data =
     (case ce_Unmarshal env data of
        Inl err \<Rightarrow> Inl (EUnmarshal err)
      | Inr obj \<Rightarrow>
          (case LoadConfigVersion obj of
             Inl err \<Rightarrow> Inl (EVersion err)
           | Inr ver \<Rightarrow> Inr (obj, ver)))"

definition ValidateConfig :: "config_env \<Rightarrow> (string \<times> json) list \<Rightarrow> string \<Rightarrow> string list" where
  "ValidateConfig env obj ver =
     (if ver \<notin> set Schemas then [''validate config: schema is not provided'']
      else case ce_Validate env obj ver of
          (True, _) \<Rightarrow> []
        | (False, errs) \<Rightarrow> if length errs = 0 then [''configuration is not valid''] else errs)"

section \<open>Checks\<close>

definition ConvertFloatForBinding :: "json \<Rightarrow> string \<Rightarrow> config_error + rat option" where
  "ConvertFloatForBinding value bindingName =
     (case value of
        JNull \<Rightarrow> Inr None
      | JNum x \<Rightarrow> Inr (Some x)
      | _ \<Rightarrow> Inl (EOnStartup (''binding '' @ bindingName @ '' has unsupported value'')))"

definition ConvertOnStartup :: "json \<Rightarrow> config_error + OnStartupConfig option" where
  "ConvertOnStartup value =
     (case ConvertFloatForBinding value ''onStartup'' of
        Inl err \<Rightarrow> Inl err
      | Inr None \<Rightarrow> Inr None
      | Inr (Some order) \<Rightarrow>
          Inr (Some \<lparr>os_BindingName = OnStartup, os_AllowFailure = False, os_Order = order\<rparr>))"

fun CheckIncludeSnapshots :: "OnKubernetesEventConfig list \<Rightarrow> string list \<Rightarrow> string option" where
  "CheckIncludeSnapshots kubeCfgs [] = None"
| "CheckIncludeSnapshots kubeCfgs (include # includes) =
     (let bindings = length (filter (\<lambda>kubeCfg. kc_BindingName kubeCfg = include) kubeCfgs)
      in if bindings = 0 then Some (include @ '' binding name not found'')
         else if bindings > 1
              then Some (''there are '' @ show_nat bindings @ '' '' @ include @ '' binding names'')
         else CheckIncludeSnapshots kubeCfgs includes)"

definition CheckScheduleV0 :: "config_env \<Rightarrow> ScheduleConfigV0 \<Rightarrow> string list" where
  "CheckScheduleV0 env schV0 =
     (case ce_cronParse env (s0_Crontab schV0) of
        Some err \<Rightarrow> [''crontab is invalid: '' @ err]
      | None \<Rightarrow> [])"

definition CheckScheduleV1 ::
    "config_env \<Rightarrow> OnKubernetesEventConfig list \<Rightarrow> ScheduleConfigV1 \<Rightarrow> string list" where
  "CheckScheduleV1 env kubeCfgs schV1 =
     (let allErr = (case ce_cronParse env (s1_Crontab schV1) of
            Some err \<Rightarrow> [''crontab is invalid: '' @ err] | None \<Rightarrow> [])
      in if length (s1_IncludeSnapshotsFrom schV1) > 0 then
           (case CheckIncludeSnapshots kubeCfgs (s1_IncludeSnapshotsFrom schV1) of
              Some err \<Rightarrow> allErr @ [''includeSnapshotsFrom is invalid: '' @ err]
            | None \<Rightarrow> allErr)
         else allErr)"

definition CheckOnKubernetesEventV0 :: "OnKubernetesEventConfigV0 \<Rightarrow> string list" where
  "CheckOnKubernetesEventV0 kubeCfg = []"

definition CheckOnKubernetesEventV1 :: "config_env \<Rightarrow> OnKubernetesEventConfigV1 \<Rightarrow> string list" where
  "CheckOnKubernetesEventV1 env kubeCfg =
     (let e1 = (if k1_ApiVersion kubeCfg \<noteq> [] then
                  (case ce_ParseGroupVersion env (k1_ApiVersion kubeCfg) of
                     Some err \<Rightarrow> [''apiVersion is invalid''] | None \<Rightarrow> []) else []);
          e2 = (if k1_LabelSelector kubeCfg \<noteq> None then
                  (case FormatLabelSelector (env_AsSelector (ce_kube env)) (k1_LabelSelector kubeCfg) of
                     Inl err \<Rightarrow> [''labelSelector is invalid: '' @ err] | Inr _ \<Rightarrow> []) else []);
          e3 = (if k1_FieldSelector kubeCfg \<noteq> None then
                  (case FormatFieldSelector (env_fields_String (ce_kube env)) (k1_FieldSelector kubeCfg) of
                     Inl err \<Rightarrow> [''fieldSelector is invalid: '' @ err] | Inr _ \<Rightarrow> []) else []);
          names = (case k1_NameSelector kubeCfg of None \<Rightarrow> [] | Some s \<Rightarrow> ns_MatchNames s);
          exprs = (case k1_FieldSelector kubeCfg of None \<Rightarrow> []
                   | Some s \<Rightarrow> (case fs_MatchExpressions s of None \<Rightarrow> [] | Some es \<Rightarrow> es));
          e4 = (if length names > 0 then
                  map (\<lambda>_. ''fieldSelector metadata.name and nameSelector.matchNames are mutually exclusive'')
                    (filter (\<lambda>expr. fr_Field expr = ''metadata.name'') exprs)
                else [])
      in e1 @ e2 @ e3 @ e4)"

section \<open>Conversion\<close>

definition MonitorDebugName :: "string \<Rightarrow> nat \<Rightarrow> string" where
  "MonitorDebugName configName configIndex =
     (if configName = [] then ''kubernetes['' @ show_nat configIndex @ '']''
      else ''kubernetes['' @ show_nat configIndex @ '']{'' @ configName @ ''}'')"

definition ConvertScheduleV0 :: "config_env \<Rightarrow> nat \<Rightarrow> ScheduleConfigV0 \<Rightarrow> ScheduleConfig" where
  "ConvertScheduleV0 env n schV0 =
     \<lparr>sc_BindingName = (if s0_Name schV0 \<noteq> [] then s0_Name schV0 else Schedule),
      sc_AllowFailure = s0_AllowFailure schV0,
      sc_ScheduleEntry = \<lparr>se_Crontab = s0_Crontab schV0, se_Id = ce_newid env n\<rparr>,
      sc_IncludeSnapshotsFrom = [], sc_Queue = ''main'', sc_Group = []\<rparr>"

definition ConvertScheduleV1 :: "config_env \<Rightarrow> nat \<Rightarrow> ScheduleConfigV1 \<Rightarrow> ScheduleConfig" where
  "ConvertScheduleV1 env n schV1 =
     \<lparr>sc_BindingName = (if s1_Name schV1 \<noteq> [] then s1_Name schV1 else Schedule),
      sc_AllowFailure = s1_AllowFailure schV1,
      sc_ScheduleEntry = \<lparr>se_Crontab = s1_Crontab schV1, se_Id = ce_newid env n\<rparr>,
      sc_IncludeSnapshotsFrom = s1_IncludeSnapshotsFrom schV1,
      sc_Queue = (if s1_Queue schV1 = [] then ''main'' else s1_Queue schV1),
      sc_Group = s1_Group schV1\<rparr>"

fun schedules_v0 ::
    "config_env \<Rightarrow> nat \<Rightarrow> nat \<Rightarrow> ScheduleConfigV0 list \<Rightarrow> config_error + nat \<times> ScheduleConfig list" where
  "schedules_v0 env n i [] = Inr (n, [])"
| "schedules_v0 env n i (raw # raws) =
     (if CheckScheduleV0 env raw \<noteq> [] then Inl (ESchedule i (CheckScheduleV0 env raw))
      else case schedules_v0 env (Suc n) (Suc i) raws of
          Inl err \<Rightarrow> Inl err
        | Inr (n', rest) \<Rightarrow> Inr (n', ConvertScheduleV0 env n raw # rest))"

fun schedules_v1 ::
    "config_env \<Rightarrow> OnKubernetesEventConfig list \<Rightarrow> nat \<Rightarrow> nat \<Rightarrow> ScheduleConfigV1 list \<Rightarrow>
     config_error + nat \<times> ScheduleConfig list" where
  "schedules_v1 env kubeCfgs n i [] = Inr (n, [])"
| "schedules_v1 env kubeCfgs n i (raw # raws) =
     (if CheckScheduleV1 env kubeCfgs raw \<noteq> [] then Inl (ESchedule i (CheckScheduleV1 env kubeCfgs raw))
      else case schedules_v1 env kubeCfgs (Suc n) (Suc i) raws of
          Inl err \<Rightarrow> Inl err
        | Inr (n', rest) \<Rightarrow> Inr (n', ConvertScheduleV1 env n raw # rest))"

fun event_types_v0 :: "string list \<Rightarrow> config_error + WatchEventType list" where
  "event_types_v0 [] = Inr []"
| "event_types_v0 (eventName # rest) =
     (case (if eventName = ''add'' then Inr WatchEventAdded
            else if eventName = ''update'' then Inr WatchEventModified
            else if eventName = ''delete'' then Inr WatchEventDeleted
            else Inl (EEventType eventName)) of
        Inl err \<Rightarrow> Inl err
      | Inr t \<Rightarrow> (case event_types_v0 rest of Inl err \<Rightarrow> Inl err | Inr ts \<Rightarrow> Inr (t # ts)))"

definition monitor_base :: "config_env \<Rightarrow> nat \<Rightarrow> nat \<Rightarrow> string \<Rightarrow> MonitorConfig" where
  "monitor_base env n i name =
     empty_MonitorConfig\<lparr>mc_DebugName := MonitorDebugName name i, mc_MonitorId := ce_newid env n\<rparr>"

definition convert_kube_v0 ::
    "config_env \<Rightarrow> nat \<Rightarrow> nat \<Rightarrow> OnKubernetesEventConfigV0 \<Rightarrow> config_error + OnKubernetesEventConfig" where
  "convert_kube_v0 env n i kubeCfg =
     (if CheckOnKubernetesEventV0 kubeCfg \<noteq> [] then Inl (EKubernetes i (CheckOnKubernetesEventV0 kubeCfg))
      else
        let m = WithMode ModeV0 (monitor_base env n i (k0_Name kubeCfg)) in
        case event_types_v0 (k0_EventTypes kubeCfg) of
          Inl err \<Rightarrow> Inl err
        | Inr eventTypes \<Rightarrow>
            (let m = (WithEventTypes (Some eventTypes) m)\<lparr>mc_Kind := k0_Kind kubeCfg\<rparr>;
                 m = (if k0_ObjectName kubeCfg \<noteq> []
                      then WithNameSelector (Some \<lparr>ns_MatchNames = [k0_ObjectName kubeCfg]\<rparr>) m else m);
                 m = (case k0_NamespaceSelector kubeCfg of
                        None \<Rightarrow> m
                      | Some s \<Rightarrow> if \<not> n0_Any s then WithNamespaceSelector
                          (Some \<lparr>nss_NameSelector = Some \<lparr>ns_MatchNames = n0_MatchNames s\<rparr>,
                                 nss_LabelSelector = None\<rparr>) m else m);
                 m = (WithLabelSelector (k0_Selector kubeCfg) m)\<lparr>mc_JqFilter := k0_JqFilter kubeCfg\<rparr>
             in Inr \<lparr>kc_BindingName = (if k0_Name kubeCfg = [] then ''onKubernetesEvent'' else k0_Name kubeCfg),
                     kc_AllowFailure = k0_AllowFailure kubeCfg, kc_Monitor = m,
                     kc_IncludeSnapshotsFrom = [], kc_Queue = ''main'', kc_Group = [],
                     kc_ExecuteHookOnSynchronization = False, kc_WaitForSynchronization = False,
                     kc_KeepFullObjectsInMemory = False\<rparr>))"

definition convert_kube_v1 ::
    "config_env \<Rightarrow> nat \<Rightarrow> nat \<Rightarrow> OnKubernetesEventConfigV1 \<Rightarrow> config_error + OnKubernetesEventConfig" where
  "convert_kube_v1 env n i kubeCfg =
     (if CheckOnKubernetesEventV1 env kubeCfg \<noteq> [] then Inl (EKubernetes i (CheckOnKubernetesEventV1 env kubeCfg))
      else
        let m = WithMode (k1_Mode kubeCfg) (monitor_base env n i (k1_Name kubeCfg));
            m = m\<lparr>mc_ApiVersion := k1_ApiVersion kubeCfg, mc_Kind := k1_Kind kubeCfg\<rparr>;
            m = WithNameSelector (k1_NameSelector kubeCfg) m;
            m = WithFieldSelector (k1_FieldSelector kubeCfg) m;
            m = WithNamespaceSelector (k1_Namespace kubeCfg) m;
            m = (WithLabelSelector (k1_LabelSelector kubeCfg) m)\<lparr>mc_JqFilter := k1_JqFilter kubeCfg\<rparr>;
            m = (case k1_ExecuteHookOnEvents kubeCfg of
                   Some ts \<Rightarrow> WithEventTypes (Some ts) m
                 | None \<Rightarrow> (case k1_WatchEventTypes kubeCfg of
                     Some ts \<Rightarrow> WithEventTypes (Some ts) m
                   | None \<Rightarrow> WithEventTypes None m));
            keep = (if k1_KeepFullObjectsInMemory kubeCfg = ''false'' then False else True)
        in Inr \<lparr>kc_BindingName = (if k1_Name kubeCfg = [] then OnKubernetesEvent else k1_Name kubeCfg),
                kc_AllowFailure = k1_AllowFailure kubeCfg,
                kc_Monitor = m\<lparr>mc_KeepFullObjectsInMemory := keep\<rparr>,
                kc_IncludeSnapshotsFrom = k1_IncludeSnapshotsFrom kubeCfg,
                kc_Queue = (if k1_Queue kubeCfg = [] then ''main'' else k1_Queue kubeCfg),
                kc_Group = k1_Group kubeCfg,
                kc_ExecuteHookOnSynchronization =
                  (if k1_ExecuteHookOnSynchronization kubeCfg = ''false'' then False else True),
                kc_WaitForSynchronization =
                  (if k1_WaitForSynchronization kubeCfg = ''false'' \<and> k1_Queue kubeCfg \<noteq> [] then False else True),
                kc_KeepFullObjectsInMemory = keep\<rparr>)"

text \<open>The loops over the Kubernetes bindings: \<open>f n i\<close> converts the binding with index \<open>i\<close>.\<close>

fun convert_all ::
    "(nat \<Rightarrow> nat \<Rightarrow> 'r \<Rightarrow> config_error + 'k) \<Rightarrow> nat \<Rightarrow> nat \<Rightarrow> 'r list \<Rightarrow> config_error + nat \<times> 'k list" where
  "convert_all f n i [] = Inr (n, [])"
| "convert_all f n i (raw # raws) =
     (case f n i raw of
        Inl err \<Rightarrow> Inl err
      | Inr k \<Rightarrow> (case convert_all f (Suc n) (Suc i) raws of
          Inl err \<Rightarrow> Inl err
        | Inr (n', rest) \<Rightarrow> Inr (n', k # rest)))"

definition ConvertAndCheckV0 :: "config_env \<Rightarrow> nat \<Rightarrow> HookConfigV0 \<Rightarrow> HookConfig \<Rightarrow> config_error + nat \<times> HookConfig" where
  "ConvertAndCheckV0 env n v0 c =
     (case ConvertOnStartup (v0_OnStartup v0) of
        Inl err \<Rightarrow> Inl err
      | Inr onStartup \<Rightarrow>
          (case schedules_v0 env n 0 (v0_Schedule v0) of
             Inl err \<Rightarrow> Inl err
           | Inr (n, schedules) \<Rightarrow>
               (case convert_all (convert_kube_v0 env) n 0 (v0_OnKubernetesEvent v0) of
                  Inl err \<Rightarrow> Inl err
                | Inr (n, kubes) \<Rightarrow>
                    Inr (n, c\<lparr>cfg_OnStartup := onStartup, cfg_Schedules := schedules,
                             cfg_OnKubernetesEvents := kubes\<rparr>))))"

fun check_kube_includes ::
    "OnKubernetesEventConfig list \<Rightarrow> nat \<Rightarrow> OnKubernetesEventConfigV1 list \<Rightarrow> config_error option" where
  "check_kube_includes kubes i [] = None"
| "check_kube_includes kubes i (raw # raws) =
     (if length (k1_IncludeSnapshotsFrom raw) > 0 then
        (case CheckIncludeSnapshots kubes (k1_IncludeSnapshotsFrom raw) of
           Some err \<Rightarrow> Some (EIncludeSnapshots i err)
         | None \<Rightarrow> check_kube_includes kubes (Suc i) raws)
      else check_kube_includes kubes (Suc i) raws)"

text \<open>\<open>groupSnapshots\<close>: the names of the Kubernetes bindings of each group.\<close>

definition group_snapshots :: "OnKubernetesEventConfig list \<Rightarrow> (string, string list) gomap" where
  "group_snapshots kubes =
     foldl (\<lambda>m kubeCfg.
        if kc_Group kubeCfg = [] then m
        else
          let m = (if mget m (kc_Group kubeCfg) = None then mput (kc_Group kubeCfg) [] m else m)
          in mput (kc_Group kubeCfg)
               ((case mget m (kc_Group kubeCfg) of None \<Rightarrow> [] | Some xs \<Rightarrow> xs) @ [kc_BindingName kubeCfg]) m)
       [] kubes"

text \<open>\<open>MergeArrays\<close> with its map of flags; a missing flag reads as false.\<close>

fun merge_tail :: "(string, bool) gomap \<Rightarrow> string list \<Rightarrow> string list" where
  "merge_tail flags [] = []"
| "merge_tail flags (a # as) =
     (if mget flags a = Some True then a # merge_tail (mput a False flags) as else merge_tail flags as)"

definition MergeArrays :: "string list \<Rightarrow> string list \<Rightarrow> string list" where
  "MergeArrays a1 a2 =
     (let flags = foldl (\<lambda>u a. mput a True u) [] a2;
          flags = foldl (\<lambda>u a. mput a False u) flags a1
      in a1 @ merge_tail flags a2)"

definition ConvertAndCheckV1 :: "config_env \<Rightarrow> nat \<Rightarrow> HookConfigV1 \<Rightarrow> HookConfig \<Rightarrow> config_error + nat \<times> HookConfig" where
  "ConvertAndCheckV1 env n v1 c =
     (case ConvertOnStartup (v1_OnStartup v1) of
        Inl err \<Rightarrow> Inl err
      | Inr onStartup \<Rightarrow>
          (case convert_all (convert_kube_v1 env) n 0 (v1_OnKubernetesEvent v1) of
             Inl err \<Rightarrow> Inl err
           | Inr (n, kubes) \<Rightarrow>
               (case check_kube_includes kubes 0 (v1_OnKubernetesEvent v1) of
                  Some err \<Rightarrow> Inl err
                | None \<Rightarrow>
                    (case schedules_v1 env kubes n 0 (v1_Schedule v1) of
                       Inl err \<Rightarrow> Inl err
                     | Inr (n, schedules) \<Rightarrow>
                         (let groupSnapshots = group_snapshots kubes;
                              newKubeEvents = map (\<lambda>cfg. case mget groupSnapshots (kc_Group cfg) of
                                  Some snapshots \<Rightarrow> cfg\<lparr>kc_IncludeSnapshotsFrom :=
                                    MergeArrays (kc_IncludeSnapshotsFrom cfg) snapshots\<rparr>
                                | None \<Rightarrow> cfg) kubes;
                              newSchedules = map (\<lambda>cfg. case mget groupSnapshots (sc_Group cfg) of
                                  Some snapshots \<Rightarrow> cfg\<lparr>sc_IncludeSnapshotsFrom :=
                                    MergeArrays (sc_IncludeSnapshotsFrom cfg) snapshots\<rparr>
                                | None \<Rightarrow> cfg) schedules
                          in Inr (n, c\<lparr>cfg_OnStartup := onStartup, cfg_Schedules := newSchedules,
                                      cfg_OnKubernetesEvents := newKubeEvents\<rparr>))))))"

definition ConvertAndCheck :: "config_env \<Rightarrow> nat \<Rightarrow> string \<Rightarrow> HookConfig \<Rightarrow> config_error + nat \<times> HookConfig" where
  "ConvertAndCheck env n data c =
     (if cfg_Version c = ''v0'' then
        (case ce_UnmarshalV0 env data of
           Inl err \<Rightarrow> Inl (EUnmarshal (''unmarshal HookConfig version 0: '' @ err))
         | Inr v0 \<Rightarrow> ConvertAndCheckV0 env n v0 (c\<lparr>cfg_V0 := Some v0\<rparr>))
      else if cfg_Version c = ''v1'' then
        (case ce_UnmarshalV1 env data of
           Inl err \<Rightarrow> Inl (EUnmarshal (''unmarshal HookConfig v1: '' @ err))
         | Inr v1 \<Rightarrow> ConvertAndCheckV1 env n v1 (c\<lparr>cfg_V1 := Some v1\<rparr>))
      else Inl (EUnsupportedVersion (cfg_Version c)))"

definition LoadAndValidate :: "config_env \<Rightarrow> nat \<Rightarrow> string \<Rightarrow> HookConfig \<Rightarrow> config_error + nat \<times> HookConfig" where
  "LoadAndValidate env n data c =
     (case VersionedUntyped_Load env data of
        Inl err \<Rightarrow> Inl err
      | Inr (obj, ver) \<Rightarrow>
          if ValidateConfig env obj ver \<noteq> [] then Inl (EValidate (ValidateConfig env obj ver))
          else ConvertAndCheck env n data (c\<lparr>cfg_Version := ver\<rparr>))"

definition HasBinding :: "BindingType \<Rightarrow> HookConfig \<Rightarrow> bool" where
  "HasBinding binding c =
     (if binding = OnStartup then cfg_OnStartup c \<noteq> None
      else if binding = Schedule then length (cfg_Schedules c) > 0
      else if binding = OnKubernetesEvent then length (cfg_OnKubernetesEvents c) > 0
      else False)"

definition Bindings :: "HookConfig \<Rightarrow> BindingType list" where
  "Bindings c = filter (\<lambda>b. HasBinding b c) [OnStartup, Schedule, OnKubernetesEvent]"


section \<open>Merging\<close>

lemma flags_lookup:
  "mget (foldl (\<lambda>u a. mput a b u) m xs) k = (if k \<in> set xs then Some b else mget m k)"
  by (induction xs arbitrary: m) auto

lemma merge_tail_spec:
  "set (merge_tail flags as) = {a \<in> set as. mget flags a = Some True} \<and> distinct (merge_tail flags as)"
proof (induction as arbitrary: flags)
  case (Cons a as)
  show ?case
  proof (cases "mget flags a = Some True")
    case True
    with Cons.IH [of "mput a False flags"] show ?thesis by auto
  next
    case False
    with Cons.IH [of flags] show ?thesis by auto
  qed
qed simp

lemma MergeArrays_spec:
  "\<exists>tail. MergeArrays a1 a2 = a1 @ tail \<and> set tail = set a2 - set a1 \<and> distinct tail"
proof -
  define flags where "flags = foldl (\<lambda>u a. mput a False u) (foldl (\<lambda>u a. mput a True u) [] a2) a1"
  have look: "mget flags k = Some True \<longleftrightarrow> k \<in> set a2 \<and> k \<notin> set a1" for k
    by (simp add: flags_def flags_lookup)
  have "MergeArrays a1 a2 = a1 @ merge_tail flags a2"
    by (simp add: MergeArrays_def flags_def Let_def)
  moreover have "set (merge_tail flags a2) = set a2 - set a1" "distinct (merge_tail flags a2)"
    using merge_tail_spec [of flags a2] by (auto simp: look)
  ultimately show ?thesis by blast
qed

lemma set_MergeArrays: "set (MergeArrays a1 a2) = set a1 \<union> set a2"
proof -
  obtain tail where "MergeArrays a1 a2 = a1 @ tail" "set tail = set a2 - set a1"
    using MergeArrays_spec [of a1 a2] by blast
  then show ?thesis by simp
qed

definition group_step :: "(string, string list) gomap \<Rightarrow> OnKubernetesEventConfig \<Rightarrow> (string, string list) gomap" where
  "group_step m kubeCfg =
     (if kc_Group kubeCfg = [] then m
      else
        let m = (if mget m (kc_Group kubeCfg) = None then mput (kc_Group kubeCfg) [] m else m)
        in mput (kc_Group kubeCfg)
             ((case mget m (kc_Group kubeCfg) of None \<Rightarrow> [] | Some xs \<Rightarrow> xs) @ [kc_BindingName kubeCfg]) m)"

definition snoc_names :: "string list option \<Rightarrow> string list \<Rightarrow> string list option" where
  "snoc_names opt names = (if names = [] then opt else Some ((case opt of None \<Rightarrow> [] | Some xs \<Rightarrow> xs) @ names))"

lemma group_step_lookup:
  "mget (group_step m k) g =
     (if g = [] then mget m g else snoc_names (mget m g) (if kc_Group k = g then [kc_BindingName k] else []))"
  by (auto simp: group_step_def snoc_names_def Let_def split: option.splits)

lemma snoc_names_append: "snoc_names (snoc_names opt xs) ys = snoc_names opt (xs @ ys)"
  by (simp add: snoc_names_def)

lemma group_snapshots_fold:
  "g \<noteq> [] \<Longrightarrow> mget (foldl group_step m kubes) g =
     snoc_names (mget m g) (map kc_BindingName (filter (\<lambda>k. kc_Group k = g) kubes))"
proof (induction kubes arbitrary: m)
  case (Cons k kubes)
  then show ?case by (simp add: group_step_lookup snoc_names_append)
qed (simp add: snoc_names_def)

lemma group_snapshots_empty: "mget (foldl group_step m kubes) [] = mget m []"
  by (induction kubes arbitrary: m) (simp_all add: group_step_lookup)

lemma group_snapshots_lookup:
  "mget (group_snapshots kubes) g =
     (let names = map kc_BindingName (filter (\<lambda>k. kc_Group k = g) kubes)
      in if g = [] \<or> names = [] then None else Some names)"
proof -
  have "group_snapshots kubes = foldl group_step [] kubes"
    unfolding group_snapshots_def group_step_def [abs_def] ..
  then show ?thesis using group_snapshots_fold [of g "[]" kubes] group_snapshots_empty [of "[]" kubes]
    by (cases "g = []") (simp_all add: snoc_names_def Let_def)
qed

section \<open>Correctness of the conversion\<close>

lemma convert_all_index:
  "convert_all f n i raws = Inr (n', ks) \<Longrightarrow>
   n' = n + length raws \<and> length ks = length raws \<and>
   (\<forall>j < length raws. f (n + j) (i + j) (raws ! j) = Inr (ks ! j))"
proof (induction raws arbitrary: n i ks)
  case (Cons raw raws)
  then obtain k rest where k: "f n i raw = Inr k" "convert_all f (Suc n) (Suc i) raws = Inr (n', rest)"
    "ks = k # rest" by (auto split: sum.splits)
  from Cons.IH [OF k(2)] k show ?case by (auto simp: nth_Cons less_Suc_eq_0_disj split: nat.splits)
qed simp

lemma schedules_v1_index:
  "schedules_v1 env kubes n i raws = Inr (n', ss) \<Longrightarrow>
   n' = n + length raws \<and> length ss = length raws \<and>
   (\<forall>j < length raws. CheckScheduleV1 env kubes (raws ! j) = [] \<and> ss ! j = ConvertScheduleV1 env (n + j) (raws ! j))"
proof (induction raws arbitrary: n i ss)
  case (Cons raw raws)
  then obtain rest where k: "CheckScheduleV1 env kubes raw = []"
    "schedules_v1 env kubes (Suc n) (Suc i) raws = Inr (n', rest)" "ss = ConvertScheduleV1 env n raw # rest"
    by (auto split: sum.splits if_splits)
  from Cons.IH [OF k(2)] k show ?case by (auto simp: nth_Cons less_Suc_eq_0_disj split: nat.splits)
qed simp

lemma CheckIncludeSnapshots_None:
  "CheckIncludeSnapshots kubes names = None \<Longrightarrow> n \<in> set names \<Longrightarrow> n \<in> kc_BindingName ` set kubes"
proof (induction names)
  case (Cons m names)
  then have "filter (\<lambda>k. kc_BindingName k = m) kubes \<noteq> []" by (auto simp: Let_def split: if_splits)
  then have "m \<in> kc_BindingName ` set kubes" by (auto simp: filter_empty_conv)
  with Cons show ?case by (auto simp: Let_def split: if_splits)
qed simp

lemma check_kube_includes_None:
  "check_kube_includes kubes i raws = None \<Longrightarrow> raw \<in> set raws \<Longrightarrow> n \<in> set (k1_IncludeSnapshotsFrom raw) \<Longrightarrow>
   n \<in> kc_BindingName ` set kubes"
proof (induction raws arbitrary: i)
  case (Cons r raws)
  then show ?case
    by (auto split: if_splits option.splits dest: CheckIncludeSnapshots_None)
qed simp

lemma WithMode_frame [simp]:
  "mc_MonitorId (WithMode x c) = mc_MonitorId c" "mc_Kind (WithMode x c) = mc_Kind c" "mc_JqFilter (WithMode x c) = mc_JqFilter c"
  by (simp_all add: WithMode_def Let_def split: option.splits)

lemma WithNameSelector_frame [simp]:
  "mc_MonitorId (WithNameSelector x c) = mc_MonitorId c" "mc_Kind (WithNameSelector x c) = mc_Kind c" "mc_JqFilter (WithNameSelector x c) = mc_JqFilter c"
  by (simp_all add: WithNameSelector_def Let_def split: option.splits)

lemma WithFieldSelector_frame [simp]:
  "mc_MonitorId (WithFieldSelector x c) = mc_MonitorId c" "mc_Kind (WithFieldSelector x c) = mc_Kind c" "mc_JqFilter (WithFieldSelector x c) = mc_JqFilter c"
  by (simp_all add: WithFieldSelector_def Let_def split: option.splits)

lemma WithNamespaceSelector_frame [simp]:
  "mc_MonitorId (WithNamespaceSelector x c) = mc_MonitorId c" "mc_Kind (WithNamespaceSelector x c) = mc_Kind c" "mc_JqFilter (WithNamespaceSelector x c) = mc_JqFilter c"
  by (simp_all add: WithNamespaceSelector_def Let_def split: option.splits)

lemma WithLabelSelector_frame [simp]:
  "mc_MonitorId (WithLabelSelector x c) = mc_MonitorId c" "mc_Kind (WithLabelSelector x c) = mc_Kind c" "mc_JqFilter (WithLabelSelector x c) = mc_JqFilter c"
  by (simp_all add: WithLabelSelector_def Let_def split: option.splits)

lemma WithEventTypes_frame [simp]:
  "mc_MonitorId (WithEventTypes x c) = mc_MonitorId c" "mc_Kind (WithEventTypes x c) = mc_Kind c" "mc_JqFilter (WithEventTypes x c) = mc_JqFilter c"
  by (simp_all add: WithEventTypes_def Let_def split: option.splits)

lemma convert_kube_v1_fields:
  assumes "convert_kube_v1 env n i raw = Inr k"
  shows "CheckOnKubernetesEventV1 env raw = []" "kc_IncludeSnapshotsFrom k = k1_IncludeSnapshotsFrom raw"
    "kc_Group k = k1_Group raw" "kc_Queue k = (if k1_Queue raw = [] then ''main'' else k1_Queue raw)"
    "kc_BindingName k = (if k1_Name raw = [] then OnKubernetesEvent else k1_Name raw)"
    "mc_KeepFullObjectsInMemory (kc_Monitor k) = kc_KeepFullObjectsInMemory k"
    "kc_WaitForSynchronization k \<longleftrightarrow> \<not> (k1_WaitForSynchronization raw = ''false'' \<and> k1_Queue raw \<noteq> [])"
    "mc_MonitorId (kc_Monitor k) = ce_newid env n"
proof -
  have chk: "CheckOnKubernetesEventV1 env raw = []"
    using assms by (cases "CheckOnKubernetesEventV1 env raw = []") (simp_all add: convert_kube_v1_def)
  then show "CheckOnKubernetesEventV1 env raw = []" .
  note eq = assms [unfolded convert_kube_v1_def Let_def, simplified chk, simplified, symmetric]
  show "kc_IncludeSnapshotsFrom k = k1_IncludeSnapshotsFrom raw" "kc_Group k = k1_Group raw"
    "kc_Queue k = (if k1_Queue raw = [] then ''main'' else k1_Queue raw)"
    "kc_BindingName k = (if k1_Name raw = [] then OnKubernetesEvent else k1_Name raw)"
    "mc_KeepFullObjectsInMemory (kc_Monitor k) = kc_KeepFullObjectsInMemory k"
    "kc_WaitForSynchronization k \<longleftrightarrow> \<not> (k1_WaitForSynchronization raw = ''false'' \<and> k1_Queue raw \<noteq> [])"
    by (simp_all add: eq)
  show "mc_MonitorId (kc_Monitor k) = ce_newid env n"
    by (simp add: eq monitor_base_def split: option.splits)
qed


lemma merge_tail_subseq: "subseq (merge_tail flags as) as"
  by (induction as arbitrary: flags) auto

text \<open>The shape of a successful version 1 conversion.\<close>

definition with_group :: "OnKubernetesEventConfig list \<Rightarrow> string \<Rightarrow> string list \<Rightarrow> string list" where
  "with_group kubes g includes =
     (case mget (group_snapshots kubes) g of Some snapshots \<Rightarrow> MergeArrays includes snapshots | None \<Rightarrow> includes)"

lemma with_group_set:
  "set (with_group kubes g includes) =
     set includes \<union> (if g = [] then {} else kc_BindingName ` {k \<in> set kubes. kc_Group k = g})"
  by (auto simp: with_group_def group_snapshots_lookup Let_def set_MergeArrays filter_empty_conv)

lemma ConvertAndCheckV1_shape:
  assumes "ConvertAndCheckV1 env n v1 c = Inr (n', c')"
  obtains n1 kubes schedules where
    "convert_all (convert_kube_v1 env) n 0 (v1_OnKubernetesEvent v1) = Inr (n1, kubes)"
    "check_kube_includes kubes 0 (v1_OnKubernetesEvent v1) = None"
    "schedules_v1 env kubes n1 0 (v1_Schedule v1) = Inr (n', schedules)"
    "cfg_OnKubernetesEvents c' = map (\<lambda>k. k\<lparr>kc_IncludeSnapshotsFrom :=
       with_group kubes (kc_Group k) (kc_IncludeSnapshotsFrom k)\<rparr>) kubes"
    "cfg_Schedules c' = map (\<lambda>s. s\<lparr>sc_IncludeSnapshotsFrom :=
       with_group kubes (sc_Group s) (sc_IncludeSnapshotsFrom s)\<rparr>) schedules"
proof -
  obtain os where os: "ConvertOnStartup (v1_OnStartup v1) = Inr os"
    using assms by (cases "ConvertOnStartup (v1_OnStartup v1)") (simp_all add: ConvertAndCheckV1_def)
  obtain n1 kubes where k: "convert_all (convert_kube_v1 env) n 0 (v1_OnKubernetesEvent v1) = Inr (n1, kubes)"
    using assms os by (cases "convert_all (convert_kube_v1 env) n 0 (v1_OnKubernetesEvent v1)")
      (auto simp: ConvertAndCheckV1_def)
  have chk: "check_kube_includes kubes 0 (v1_OnKubernetesEvent v1) = None"
    using assms os k by (cases "check_kube_includes kubes 0 (v1_OnKubernetesEvent v1)")
      (auto simp: ConvertAndCheckV1_def)
  obtain n2 schedules where s: "schedules_v1 env kubes n1 0 (v1_Schedule v1) = Inr (n2, schedules)"
    using assms os k chk by (cases "schedules_v1 env kubes n1 0 (v1_Schedule v1)")
      (auto simp: ConvertAndCheckV1_def)
  have "n2 = n'" and ks: "cfg_OnKubernetesEvents c' = map (\<lambda>k. k\<lparr>kc_IncludeSnapshotsFrom :=
       with_group kubes (kc_Group k) (kc_IncludeSnapshotsFrom k)\<rparr>) kubes"
    and ss: "cfg_Schedules c' = map (\<lambda>s. s\<lparr>sc_IncludeSnapshotsFrom :=
       with_group kubes (sc_Group s) (sc_IncludeSnapshotsFrom s)\<rparr>) schedules"
    using assms os k chk s
    by (auto simp: ConvertAndCheckV1_def Let_def with_group_def split: option.splits)
  with that [OF k chk _ ks ss] s show ?thesis by simp
qed

lemma kubes_converted:
  assumes "convert_all (convert_kube_v1 env) n 0 raws = Inr (n', kubes)" "k \<in> set kubes"
  obtains i raw where "raw \<in> set raws" "convert_kube_v1 env (n + i) i raw = Inr k"
  using assms convert_all_index [OF assms(1)] by (metis add_0 in_set_conv_nth nth_mem)

text \<open>
  \<open>MergeArrays\<close> keeps the first list as it is and appends the elements of the second one that
  are not in it, once each and in their order.
\<close>

theorem MergeArrays_appends_new:
  "\<exists>tail. MergeArrays a1 a2 = a1 @ tail \<and> set tail = set a2 - set a1 \<and> distinct tail \<and> subseq tail a2"
proof -
  obtain tail where t: "MergeArrays a1 a2 = a1 @ tail" "set tail = set a2 - set a1" "distinct tail"
    using MergeArrays_spec [of a1 a2] by blast
  moreover have "\<exists>flags. MergeArrays a1 a2 = a1 @ merge_tail flags a2"
    by (simp add: MergeArrays_def Let_def) blast
  then have "subseq tail a2" using t(1) merge_tail_subseq by auto
  ultimately show ?thesis by blast
qed

text \<open>
  C23. A version 1 configuration that is accepted is closed: every snapshot that a Kubernetes or a
  schedule binding includes is the name of a Kubernetes binding of the hook, every binding of a
  group includes the snapshots of all Kubernetes bindings of that group, and every crontab can be
  parsed, so that none of them is silently ignored by the schedule manager.
\<close>

theorem ConvertAndCheckV1_closed:
  assumes "ConvertAndCheckV1 env n v1 c = Inr (n', c')"
  shows "(\<forall>k\<in>set (cfg_OnKubernetesEvents c'). set (kc_IncludeSnapshotsFrom k) \<subseteq>
        kc_BindingName ` set (cfg_OnKubernetesEvents c')) \<and>
    (\<forall>s\<in>set (cfg_Schedules c'). set (sc_IncludeSnapshotsFrom s) \<subseteq>
        kc_BindingName ` set (cfg_OnKubernetesEvents c') \<and>
        ce_cronParse env (se_Crontab (sc_ScheduleEntry s)) = None) \<and>
    (\<forall>k\<in>set (cfg_OnKubernetesEvents c'). kc_Group k \<noteq> [] \<longrightarrow>
        (\<forall>k'\<in>set (cfg_OnKubernetesEvents c'). kc_Group k' = kc_Group k \<longrightarrow>
           kc_BindingName k' \<in> set (kc_IncludeSnapshotsFrom k)) \<and>
        (\<forall>s\<in>set (cfg_Schedules c'). sc_Group s = kc_Group k \<longrightarrow>
           kc_BindingName k \<in> set (sc_IncludeSnapshotsFrom s)))"
proof -
  obtain n1 kubes schedules where
    kubes: "convert_all (convert_kube_v1 env) n 0 (v1_OnKubernetesEvent v1) = Inr (n1, kubes)"
    and incl: "check_kube_includes kubes 0 (v1_OnKubernetesEvent v1) = None"
    and scheds: "schedules_v1 env kubes n1 0 (v1_Schedule v1) = Inr (n', schedules)"
    and ks: "cfg_OnKubernetesEvents c' = map (\<lambda>k. k\<lparr>kc_IncludeSnapshotsFrom :=
       with_group kubes (kc_Group k) (kc_IncludeSnapshotsFrom k)\<rparr>) kubes"
    and ss: "cfg_Schedules c' = map (\<lambda>s. s\<lparr>sc_IncludeSnapshotsFrom :=
       with_group kubes (sc_Group s) (sc_IncludeSnapshotsFrom s)\<rparr>) schedules"
    using ConvertAndCheckV1_shape [OF assms] by blast
  have names: "kc_BindingName ` set (cfg_OnKubernetesEvents c') = kc_BindingName ` set kubes"
    by (simp add: ks image_image)
  have k_in: "set (kc_IncludeSnapshotsFrom k) \<subseteq> kc_BindingName ` set kubes" if k: "k \<in> set kubes" for k
  proof -
    obtain i raw where "raw \<in> set (v1_OnKubernetesEvent v1)" "convert_kube_v1 env (n + i) i raw = Inr k"
      using kubes_converted [OF kubes k] .
    with check_kube_includes_None [OF incl] convert_kube_v1_fields(2) show ?thesis by auto
  qed
  have s_in: "set (sc_IncludeSnapshotsFrom s) \<subseteq> kc_BindingName ` set kubes \<and>
      ce_cronParse env (se_Crontab (sc_ScheduleEntry s)) = None" if s: "s \<in> set schedules" for s
  proof -
    obtain j where j: "j < length (v1_Schedule v1)" "CheckScheduleV1 env kubes (v1_Schedule v1 ! j) = []"
      "s = ConvertScheduleV1 env (n1 + j) (v1_Schedule v1 ! j)"
      using s schedules_v1_index [OF scheds] by (metis in_set_conv_nth)
    have "CheckIncludeSnapshots kubes (s1_IncludeSnapshotsFrom (v1_Schedule v1 ! j)) = None"
      "ce_cronParse env (s1_Crontab (v1_Schedule v1 ! j)) = None"
      using j(2) by (auto simp: CheckScheduleV1_def Let_def split: option.splits if_splits)
    with CheckIncludeSnapshots_None j(3) show ?thesis by (auto simp: ConvertScheduleV1_def)
  qed
  have sub: "set (with_group kubes g xs) \<subseteq> kc_BindingName ` set kubes" if "set xs \<subseteq> kc_BindingName ` set kubes" for g xs
    using that by (auto simp: with_group_set)
  show ?thesis unfolding names
    using k_in s_in sub by (auto simp: ks ss with_group_set)
qed



text \<open>A concrete configuration for the witnesses: two grouped bindings and a schedule of the group.\<close>

definition demo_config_env :: config_env where
  "demo_config_env = \<lparr>ce_kube = demo_env, ce_cronParse = (\<lambda>tab. if tab = [] then Some ''empty'' else None),
     ce_ParseGroupVersion = (\<lambda>_. None), ce_newid = (\<lambda>n. replicate n (CHR ''i'')),
     ce_Unmarshal = (\<lambda>_. Inr []), ce_UnmarshalV0 = (\<lambda>_. Inl ''v0''), ce_UnmarshalV1 = (\<lambda>_. Inl ''v1''),
     ce_Validate = (\<lambda>_ _. (True, []))\<rparr>"

definition demo_k1 :: "string \<Rightarrow> OnKubernetesEventConfigV1" where
  "demo_k1 name = \<lparr>k1_Name = name, k1_WatchEventTypes = None, k1_ExecuteHookOnEvents = None,
     k1_ExecuteHookOnSynchronization = [], k1_WaitForSynchronization = [], k1_KeepFullObjectsInMemory = [],
     k1_Mode = [], k1_ApiVersion = [], k1_Kind = ''Pod'', k1_NameSelector = None, k1_LabelSelector = None,
     k1_FieldSelector = None, k1_Namespace = None, k1_JqFilter = [], k1_AllowFailure = False,
     k1_IncludeSnapshotsFrom = [], k1_Queue = [], k1_Group = ''g''\<rparr>"

definition demo_v1 :: HookConfigV1 where
  "demo_v1 = \<lparr>v1_ConfigVersion = ''v1'', v1_OnStartup = JNum 10,
     v1_Schedule = [\<lparr>s1_Name = [], s1_Crontab = ''* * * * *'', s1_AllowFailure = False,
       s1_IncludeSnapshotsFrom = [''a''], s1_Queue = [], s1_Group = ''g''\<rparr>],
     v1_OnKubernetesEvent = [demo_k1 ''a'', demo_k1 ''b'']\<rparr>"

lemma demo_v1_converts:
  "\<exists>n c. ConvertAndCheckV1 demo_config_env 0 demo_v1 empty_HookConfig = Inr (n, c) \<and>
     map kc_BindingName (cfg_OnKubernetesEvents c) = [''a'', ''b''] \<and>
     map kc_Group (cfg_OnKubernetesEvents c) = [''g'', ''g'']"
  by (simp add: ConvertAndCheckV1_def demo_v1_def demo_config_env_def demo_k1_def ConvertOnStartup_def
      ConvertFloatForBinding_def convert_kube_v1_def CheckOnKubernetesEventV1_def CheckScheduleV1_def Let_def
      split: option.splits)

theorem ConvertAndCheckV1_closed_witness:
  "\<exists>n c k. ConvertAndCheckV1 demo_config_env 0 demo_v1 empty_HookConfig = Inr (n, c) \<and>
     cfg_OnKubernetesEvents c \<noteq> [] \<and> k \<in> set (cfg_OnKubernetesEvents c) \<and>
     ''b'' \<in> set (kc_IncludeSnapshotsFrom k) \<and> kc_BindingName k = ''a''"
proof -
  obtain n c where run: "ConvertAndCheckV1 demo_config_env 0 demo_v1 empty_HookConfig = Inr (n, c)"
    and names: "map kc_BindingName (cfg_OnKubernetesEvents c) = [''a'', ''b'']"
    "map kc_Group (cfg_OnKubernetesEvents c) = [''g'', ''g'']" using demo_v1_converts by (elim exE conjE)
  obtain k1 k2 where ks: "cfg_OnKubernetesEvents c = [k1, k2]"
    using names(1) by (auto simp: map_eq_Cons_conv)
  with names have "kc_BindingName k1 = ''a''" "kc_BindingName k2 = ''b''" "kc_Group k1 = ''g''" "kc_Group k2 = ''g''"
    by simp_all
  with ConvertAndCheckV1_closed [OF run] run ks show ?thesis
    by (intro exI [of _ n] exI [of _ c] exI [of _ k1]) simp
qed


end
