(* ===== verification/Metric_Vault.thy ===== *)
theory Metric_Vault
  imports Labels
begin

text \<open>
  \<open>pkg/metric_storage/operation/operation.go\<close>, \<open>vault/collector.go\<close> and \<open>vault/vault.go\<close>: the metric
  operations that hooks write, the collectors of grouped metrics and the vault that holds them.
  A \<open>float64\<close> is a rational; the conversion \<open>uint64(value)\<close> of a value that is negative or too
  large is implementation specific in Go and is the argument \<open>conv\<close>. The Prometheus registry is a
  parameter: \<open>pr_Register\<close> returns an error or the registry with the collector in it. The JSON
  decoder is the stream of its results. Error texts are shortened where they print labels.
\<close>

section \<open>Metric operations\<close>

record MetricOperation =
  op_Name :: string
  op_Add :: "rat option"
  op_Set :: "rat option"
  op_Value :: "rat option"
  op_Labels :: labels
  op_Group :: string
  op_Action :: string

text \<open>The shortcut transforms of \<open>MetricOperationsFromReader\<close>.\<close>

definition shortcut_transforms :: "MetricOperation \<Rightarrow> MetricOperation" where
  "shortcut_transforms metricOperation =
     (let m = (if op_Set metricOperation \<noteq> None \<and> op_Add metricOperation = None
               then metricOperation\<lparr>op_Action := ''set'', op_Value := op_Set metricOperation\<rparr>
               else metricOperation)
      in if op_Add m \<noteq> None \<and> op_Set m = None
         then m\<lparr>op_Action := ''add'', op_Value := op_Add m\<rparr>
         else m)"

fun MetricOperationsFromReader :: "(string + MetricOperation) list \<Rightarrow> string + MetricOperation list" where
  "MetricOperationsFromReader [] = Inr []"
| "MetricOperationsFromReader (Inl err # rest) = Inl err"
| "MetricOperationsFromReader (Inr metricOperation # rest) =
     (case MetricOperationsFromReader rest of
        Inl err \<Rightarrow> Inl err
      | Inr operations \<Rightarrow> Inr (shortcut_transforms metricOperation # operations))"

definition MetricOperationsFromBytes ::
    "(string \<Rightarrow> (string + MetricOperation) list) \<Rightarrow> string \<Rightarrow> string + MetricOperation list" where
  "MetricOperationsFromBytes decode data = MetricOperationsFromReader (decode data)"

definition MetricOperationsFromFile ::
    "(string \<Rightarrow> (string + MetricOperation) list) \<Rightarrow> string \<Rightarrow> string + string \<Rightarrow> string + MetricOperation list" where
  "MetricOperationsFromFile decode filePath file =
     (case file of
        Inl err \<Rightarrow> Inl (''cannot read '' @ filePath @ '': '' @ err)
      | Inr data \<Rightarrow>
          if length data = 0 then Inr [] else MetricOperationsFromBytes decode data)"

datatype metric_error =
    EActionRequired MetricOperation
  | EUnsupportedAction MetricOperation
  | ENameRequired MetricOperation
  | ENameRequiredForAction MetricOperation
  | EValueRequiredForSet MetricOperation
  | EValueRequiredForAdd MetricOperation
  | ESetAndAdd MetricOperation
  | ENoOperation MetricOperation

definition ValidateMetricOperation :: "MetricOperation \<Rightarrow> metric_error list" where
  "ValidateMetricOperation op =
     (let opErrs = (if op_Action op = [] then [EActionRequired op] else []);
          opErrs = opErrs @
            (if op_Group op = [] then
               (if op_Action op \<noteq> ''set'' \<and> op_Action op \<noteq> ''add'' then [EUnsupportedAction op] else [])
             else
               (if op_Action op \<noteq> ''expire'' \<and> op_Action op \<noteq> ''set'' \<and> op_Action op \<noteq> ''add''
                then [EUnsupportedAction op] else []));
          opErrs = opErrs @ (if op_Name op = [] \<and> op_Group op = [] then [ENameRequired op] else []);
          opErrs = opErrs @
            (if op_Name op = [] \<and> op_Group op \<noteq> [] \<and> op_Action op \<noteq> ''expire''
             then [ENameRequiredForAction op] else []);
          opErrs = opErrs @
            (if op_Action op = ''set'' \<and> op_Value op = None then [EValueRequiredForSet op] else []);
          opErrs = opErrs @
            (if op_Action op = ''add'' \<and> op_Value op = None then [EValueRequiredForAdd op] else [])
      in opErrs @ (if op_Set op \<noteq> None \<and> op_Add op \<noteq> None then [ESetAndAdd op] else []))"

definition ValidateOperations :: "MetricOperation list \<Rightarrow> metric_error list" where
  "ValidateOperations ops = concat (map ValidateMetricOperation ops)"

section \<open>Hashing label values\<close>

text \<open>\<open>hash/fnv\<close>: the 64 bit FNV-1a hash; every write folds its bytes into the state.\<close>

definition fnv64a_offset :: "64 word" where "fnv64a_offset = 14695981039346656037"
definition fnv64a_prime :: "64 word" where "fnv64a_prime = 1099511628211"

definition fnv64a_write :: "64 word \<Rightarrow> string \<Rightarrow> 64 word" where
  "fnv64a_write s data = foldl (\<lambda>h c. (xor h (of_nat (of_char c))) * fnv64a_prime) s data"

definition labelsSeparator :: char where "labelsSeparator = char_of (255 :: nat)"

definition HashLabelValues :: "string list \<Rightarrow> 64 word" where
  "HashLabelValues labelValues =
     foldl (\<lambda>hasher labelValue. fnv64a_write (fnv64a_write hasher labelValue) [labelsSeparator])
       fnv64a_offset labelValues"

section \<open>Collectors\<close>

text \<open>
  The counter and the gauge collector have one layout; they differ in the type of their values,
  \<open>uint64\<close> and \<open>float64\<close>.
\<close>

record 'v grouped_metric =
  gm_Value :: 'v
  gm_LabelValues :: "string list"
  gm_Group :: string

record 'v const_collector =
  cc_name :: string
  cc_labelNames :: "string list"
  cc_collection :: "(64 word, 'v grouped_metric) gomap"

type_synonym GroupedCounterMetric = "64 word grouped_metric"
type_synonym GroupedGaugeMetric = "rat grouped_metric"
type_synonym ConstCounterCollector = "64 word const_collector"
type_synonym ConstGaugeCollector = "rat const_collector"

datatype ConstMetricCollector =
    CounterCollector ConstCounterCollector
  | GaugeCollector ConstGaugeCollector

definition NewConstCounterCollector :: "string \<Rightarrow> string list \<Rightarrow> ConstCounterCollector" where
  "NewConstCounterCollector name labelNames =
     \<lparr>cc_name = name, cc_labelNames = labelNames, cc_collection = []\<rparr>"

definition NewConstGaugeCollector :: "string \<Rightarrow> string list \<Rightarrow> ConstGaugeCollector" where
  "NewConstGaugeCollector name labelNames =
     \<lparr>cc_name = name, cc_labelNames = labelNames, cc_collection = []\<rparr>"

definition to_uint64 :: "(rat \<Rightarrow> 64 word) \<Rightarrow> rat \<Rightarrow> 64 word" where
  "to_uint64 conv value = (if 0 \<le> value \<and> value < 2 ^ 64 then of_int \<lfloor>value\<rfloor> else conv value)"

definition ConstCounterCollector_Add ::
    "(rat \<Rightarrow> 64 word) \<Rightarrow> string \<Rightarrow> rat \<Rightarrow> labels \<Rightarrow> ConstCounterCollector \<Rightarrow> ConstCounterCollector" where
  "ConstCounterCollector_Add conv grp value labels c =
     (let labelValues = LabelValues labels (cc_labelNames c);
          labelsHash = HashLabelValues labelValues;
          storedMetric = (case mget (cc_collection c) labelsHash of
              None \<Rightarrow> \<lparr>gm_Value = to_uint64 conv value, gm_LabelValues = labelValues, gm_Group = grp\<rparr>
            | Some storedMetric \<Rightarrow>
                storedMetric\<lparr>gm_Value := gm_Value storedMetric + to_uint64 conv value\<rparr>)
      in c\<lparr>cc_collection := mput labelsHash storedMetric (cc_collection c)\<rparr>)"

definition ConstGaugeCollector_Set ::
    "string \<Rightarrow> rat \<Rightarrow> labels \<Rightarrow> ConstGaugeCollector \<Rightarrow> ConstGaugeCollector" where
  "ConstGaugeCollector_Set grp value labels c =
     (let labelValues = LabelValues labels (cc_labelNames c);
          labelsHash = HashLabelValues labelValues;
          storedMetric = (case mget (cc_collection c) labelsHash of
              None \<Rightarrow> \<lparr>gm_Value = value, gm_LabelValues = labelValues, gm_Group = grp\<rparr>
            | Some storedMetric \<Rightarrow> storedMetric);
          storedMetric = storedMetric\<lparr>gm_Value := value\<rparr>
      in c\<lparr>cc_collection := mput labelsHash storedMetric (cc_collection c)\<rparr>)"

text \<open>
  \<open>ExpireGroupMetrics\<close>, the same loop in both collectors. Deleting the current key while ranging
  over a map is defined in Go and every remaining entry is still visited, so the loop removes
  exactly the entries of the group.
\<close>

definition collector_ExpireGroupMetrics :: "string \<Rightarrow> 'v const_collector \<Rightarrow> 'v const_collector" where
  "collector_ExpireGroupMetrics grp c =
     c\<lparr>cc_collection := filter (\<lambda>(hash, m). gm_Group m \<noteq> grp) (cc_collection c)\<rparr>"

text \<open>
  \<open>Collect\<close> sends one constant metric per entry; \<open>prometheus.MustNewConstMetric\<close> panics when the
  number of label values is not the number of label names. The result lists the samples.
\<close>

definition MustNewConstMetric :: "string list \<Rightarrow> 'v \<Rightarrow> string list \<Rightarrow> ('v \<times> string list) go" where
  "MustNewConstMetric labelNames value labelValues =
     (if length labelValues = length labelNames then Ret (value, labelValues) else Panic)"

definition Collect :: "64 word list \<Rightarrow> 'v const_collector \<Rightarrow> ('v \<times> string list) list go" where
  "Collect ks c =
     go_map (\<lambda>s. MustNewConstMetric (cc_labelNames c) (gm_Value s) (gm_LabelValues s))
       (List.map_filter (mget (cc_collection c)) ks)"

definition collector_Type :: "ConstMetricCollector \<Rightarrow> string" where
  "collector_Type c = (case c of CounterCollector _ \<Rightarrow> ''counter'' | GaugeCollector _ \<Rightarrow> ''gauge'')"

definition collector_LabelNames :: "ConstMetricCollector \<Rightarrow> string list" where
  "collector_LabelNames c =
     (case c of CounterCollector c \<Rightarrow> cc_labelNames c | GaugeCollector c \<Rightarrow> cc_labelNames c)"

section \<open>The vault\<close>

record 'r GroupedVault =
  gv_collectors :: "(string, ConstMetricCollector) gomap"
  gv_Registerer :: 'r

record 'r prom_registry =
  pr_Register :: "string \<Rightarrow> string list \<Rightarrow> 'r \<Rightarrow> string + 'r"

definition NewGroupedVault :: "'r \<Rightarrow> 'r GroupedVault" where
  "NewGroupedVault r = \<lparr>gv_collectors = [], gv_Registerer = r\<rparr>"

definition expire_collector :: "string \<Rightarrow> ConstMetricCollector \<Rightarrow> ConstMetricCollector" where
  "expire_collector grp collector =
     (case collector of
        CounterCollector c \<Rightarrow> CounterCollector (collector_ExpireGroupMetrics grp c)
      | GaugeCollector c \<Rightarrow> GaugeCollector (collector_ExpireGroupMetrics grp c))"

definition vault_ExpireGroupMetrics :: "string \<Rightarrow> 'r GroupedVault \<Rightarrow> 'r GroupedVault" where
  "vault_ExpireGroupMetrics grp v =
     v\<lparr>gv_collectors := map (\<lambda>(name, c). (name, expire_collector grp c)) (gv_collectors v)\<rparr>"

text \<open>The first half of the two \<open>GetOrCreate\<close> methods: look the collector up or register a new one.\<close>

definition get_or_create ::
    "('r, 'x) prom_registry_scheme \<Rightarrow> string \<Rightarrow> string list \<Rightarrow> ConstMetricCollector \<Rightarrow> 'r GroupedVault \<Rightarrow>
     'r GroupedVault \<times> (string + ConstMetricCollector)" where
  "get_or_create lib name labelNames new v =
     (case mget (gv_collectors v) name of
        Some collector \<Rightarrow> (v, Inr collector)
      | None \<Rightarrow>
          (case pr_Register lib name labelNames (gv_Registerer v) of
             Inl err \<Rightarrow> (v, Inl err)
           | Inr r \<Rightarrow> (v\<lparr>gv_Registerer := r, gv_collectors := mput name new (gv_collectors v)\<rparr>, Inr new)))"

definition GetOrCreateCounterCollector ::
    "('r, 'x) prom_registry_scheme \<Rightarrow> string \<Rightarrow> string list \<Rightarrow> 'r GroupedVault \<Rightarrow>
     'r GroupedVault \<times> (string + ConstCounterCollector)" where
  "GetOrCreateCounterCollector lib name labelNames v =
     (case get_or_create lib name labelNames (CounterCollector (NewConstCounterCollector name labelNames)) v of
        (v, Inl err) \<Rightarrow> (v, Inl (''counter registration: '' @ err))
      | (v, Inr (CounterCollector counter)) \<Rightarrow> (v, Inr counter)
      | (v, Inr collector) \<Rightarrow>
          (v, Inl (''counter collector requested, but '' @ collector_Type collector @ '' collector exists'')))"

definition GetOrCreateGaugeCollector ::
    "('r, 'x) prom_registry_scheme \<Rightarrow> string \<Rightarrow> string list \<Rightarrow> 'r GroupedVault \<Rightarrow>
     'r GroupedVault \<times> (string + ConstGaugeCollector)" where
  "GetOrCreateGaugeCollector lib name labelNames v =
     (case get_or_create lib name labelNames (GaugeCollector (NewConstGaugeCollector name labelNames)) v of
        (v, Inl err) \<Rightarrow> (v, Inl (''gauge registration: '' @ err))
      | (v, Inr (GaugeCollector gauge)) \<Rightarrow> (v, Inr gauge)
      | (v, Inr collector) \<Rightarrow>
          (v, Inl (''gauge collector requested, but '' @ collector_Type collector @ '' collector exists'')))"

text \<open>The collector is a pointer into the vault, so its change is written back under its name.\<close>

definition vault_CounterAdd ::
    "('r, 'x) prom_registry_scheme \<Rightarrow> (rat \<Rightarrow> 64 word) \<Rightarrow> string \<Rightarrow> string \<Rightarrow> rat \<Rightarrow> labels \<Rightarrow>
     'r GroupedVault \<Rightarrow> 'r GroupedVault" where
  "vault_CounterAdd lib conv grp name value labels v =
     (case GetOrCreateCounterCollector lib name (LabelNames labels (mkeys labels)) v of
        (v, Inl err) \<Rightarrow> v
      | (v, Inr c) \<Rightarrow>
          v\<lparr>gv_collectors := mput name
              (CounterCollector (ConstCounterCollector_Add conv grp value labels c)) (gv_collectors v)\<rparr>)"

definition vault_GaugeSet ::
    "('r, 'x) prom_registry_scheme \<Rightarrow> string \<Rightarrow> string \<Rightarrow> rat \<Rightarrow> labels \<Rightarrow>
     'r GroupedVault \<Rightarrow> 'r GroupedVault" where
  "vault_GaugeSet lib grp name value labels v =
     (case GetOrCreateGaugeCollector lib name (LabelNames labels (mkeys labels)) v of
        (v, Inl err) \<Rightarrow> v
      | (v, Inr c) \<Rightarrow>
          v\<lparr>gv_collectors := mput name
              (GaugeCollector (ConstGaugeCollector_Set grp value labels c)) (gv_collectors v)\<rparr>)"


section \<open>The contract of a collector\<close>

abbreviation cell_key :: "labels \<Rightarrow> 'v const_collector \<Rightarrow> 64 word" where
  "cell_key ls c \<equiv> HashLabelValues (LabelValues ls (cc_labelNames c))"

text \<open>\<open>collector_ok\<close>: every entry is stored under the hash of its label values, one per label name.\<close>

definition collector_ok :: "'v const_collector \<Rightarrow> bool" where
  "collector_ok c \<longleftrightarrow> wf_map (cc_collection c) \<and>
     (\<forall>h m. mget (cc_collection c) h = Some m \<longrightarrow>
        HashLabelValues (gm_LabelValues m) = h \<and> length (gm_LabelValues m) = length (cc_labelNames c))"

lemma mget_filter:
  "wf_map m \<Longrightarrow> mget (filter (\<lambda>(k, v). P v) m) k = (case mget m k of None \<Rightarrow> None | Some v \<Rightarrow> if P v then Some v else None)"
  by (induction m) (auto simp: wf_map_def map_of_eq_None_iff split: option.splits)

lemma wf_map_filter: "wf_map m \<Longrightarrow> wf_map (filter P m)"
  by (auto simp: wf_map_def distinct_map_filter)

lemma mget_expire:
  "wf_map (cc_collection c) \<Longrightarrow>
   mget (cc_collection (collector_ExpireGroupMetrics g c)) h =
     (case mget (cc_collection c) h of
        None \<Rightarrow> None | Some m \<Rightarrow> if gm_Group m \<noteq> g then Some m else None)"
  by (simp add: collector_ExpireGroupMetrics_def mget_filter)

lemma expire_frame [simp]:
  "cc_labelNames (collector_ExpireGroupMetrics g c) = cc_labelNames c"
  "cc_name (collector_ExpireGroupMetrics g c) = cc_name c"
  by (simp_all add: collector_ExpireGroupMetrics_def)

lemma wf_expire [simp]: "wf_map (cc_collection c) \<Longrightarrow> wf_map (cc_collection (collector_ExpireGroupMetrics g c))"
  by (simp add: collector_ExpireGroupMetrics_def wf_map_filter)

lemma collector_ok_expire: "collector_ok c \<Longrightarrow> collector_ok (collector_ExpireGroupMetrics g c)"
  by (auto simp: collector_ok_def mget_expire split: option.splits if_splits)

lemma length_LabelValues [simp]: "length (LabelValues ls names) = length names"
  by (simp add: LabelValues_def)

lemma Collect_returns:
  assumes "collector_ok c"
  shows "returns (Collect ks c)"
proof -
  have "length (gm_LabelValues m) = length (cc_labelNames c)"
    if "m \<in> set (List.map_filter (mget (cc_collection c)) ks)" for m
    using that assms by (auto simp: List.map_filter_def collector_ok_def)
  then show ?thesis by (simp add: Collect_def go_map_Ret_iff MustNewConstMetric_def)
qed

text \<open>
  What a group of operations does to one collector: it expires the group or updates an entry.
  \<open>accum\<close> combines updates of one entry, and \<open>cell_spec\<close> is the value and the group of an entry
  after a run: an entry that another group owns takes every update and keeps its group, any other
  entry has what the updates after the last expiration made of it.
\<close>

datatype act = Expire | Update rat labels

definition accum :: "(rat \<Rightarrow> 'v option \<Rightarrow> 'v) \<Rightarrow> 'v option \<Rightarrow> rat list \<Rightarrow> 'v option" where
  "accum comb init xs = foldl (\<lambda>acc x. Some (comb x acc)) init xs"

fun act_values :: "(labels \<Rightarrow> 'k) \<Rightarrow> 'k \<Rightarrow> act \<Rightarrow> rat list" where
  "act_values key h Expire = []"
| "act_values key h (Update x ls) = (if key ls = h then [x] else [])"

definition after_expire :: "act list \<Rightarrow> act list" where
  "after_expire acts = foldl (\<lambda>acc a. if a = Expire then [] else acc @ [a]) [] acts"

definition cell_spec ::
    "(rat \<Rightarrow> 'v option \<Rightarrow> 'v) \<Rightarrow> string \<Rightarrow> ('v \<times> string) option \<Rightarrow> rat list \<Rightarrow> rat list \<Rightarrow> ('v \<times> string) option" where
  "cell_spec comb g cell allxs recent =
     (case cell of
        Some (v, g') \<Rightarrow>
          if g' \<noteq> g then map_option (\<lambda>v. (v, g')) (accum comb (Some v) allxs)
          else map_option (\<lambda>v. (v, g)) (accum comb None recent)
      | None \<Rightarrow> map_option (\<lambda>v. (v, g)) (accum comb None recent))"

definition cell_view :: "64 word \<Rightarrow> 'v const_collector \<Rightarrow> ('v \<times> string) option" where
  "cell_view h c = map_option (\<lambda>m. (gm_Value m, gm_Group m)) (mget (cc_collection c) h)"

lemma accum_snoc [simp]: "accum comb init (xs @ [x]) = Some (comb x (accum comb init xs))"
  and accum_Nil [simp]: "accum comb init [] = init"
  by (simp_all add: accum_def)

lemma after_expire_snoc [simp]:
  "after_expire [] = []" "after_expire (acts @ [Expire]) = []"
  "after_expire (acts @ [Update x ls]) = after_expire acts @ [Update x ls]"
  by (simp_all add: after_expire_def)

lemma accum_Some: "\<exists>v'. accum comb (Some v) xs = Some v'"
  by (induction xs rule: rev_induct) simp_all

lemma cell_view_expire:
  "wf_map (cc_collection c) \<Longrightarrow>
   cell_view h (collector_ExpireGroupMetrics g c) =
     (case cell_view h c of None \<Rightarrow> None | Some (v, g') \<Rightarrow> if g' \<noteq> g then Some (v, g') else None)"
  by (auto simp: cell_view_def mget_expire split: option.splits)

lemma cell_spec_expire:
  "(case cell_spec comb g cell allxs recent of
      None \<Rightarrow> None | Some (v, g') \<Rightarrow> if g' \<noteq> g then Some (v, g') else None) =
   cell_spec comb g cell allxs []"
  using accum_Some [of comb "fst (the cell)" allxs]
  by (auto simp: cell_spec_def split: option.splits)

lemma cell_spec_snoc:
  "Some (case cell_spec comb g cell allxs recent of
      None \<Rightarrow> (comb x None, g) | Some (v, g') \<Rightarrow> (comb x (Some v), g')) =
   cell_spec comb g cell (allxs @ [x]) (recent @ [x])"
  using accum_Some [of comb "fst (the cell)" allxs]
  by (cases "accum comb None recent") (auto simp: cell_spec_def split: option.splits)

locale grouped_collector =
  fixes upd :: "string \<Rightarrow> rat \<Rightarrow> labels \<Rightarrow> 'v const_collector \<Rightarrow> 'v const_collector"
    and comb :: "rat \<Rightarrow> 'v option \<Rightarrow> 'v"
  assumes upd_lookup: "mget (cc_collection (upd g x ls c)) h =
      (if h = cell_key ls c then
         Some (case mget (cc_collection c) h of
             None \<Rightarrow> \<lparr>gm_Value = comb x None, gm_LabelValues = LabelValues ls (cc_labelNames c), gm_Group = g\<rparr>
           | Some m \<Rightarrow> m\<lparr>gm_Value := comb x (Some (gm_Value m))\<rparr>)
       else mget (cc_collection c) h)"
    and upd_names: "cc_labelNames (upd g x ls c) = cc_labelNames c"
    and upd_wf: "wf_map (cc_collection c) \<Longrightarrow> wf_map (cc_collection (upd g x ls c))"
begin

fun step :: "string \<Rightarrow> act \<Rightarrow> 'v const_collector \<Rightarrow> 'v const_collector" where
  "step g Expire c = collector_ExpireGroupMetrics g c"
| "step g (Update x ls) c = upd g x ls c"

lemma upd_ok: "collector_ok c \<Longrightarrow> collector_ok (upd g x ls c)"
  by (auto simp: collector_ok_def upd_lookup upd_names upd_wf split: option.splits if_splits)

lemma run_frame:
  "wf_map (cc_collection c) \<Longrightarrow>
   cc_labelNames (fold (step g) acts c) = cc_labelNames c \<and> wf_map (cc_collection (fold (step g) acts c))"
proof (induction acts arbitrary: c)
  case (Cons a acts)
  then show ?case by (cases a) (simp_all add: upd_names upd_wf)
qed simp

lemma run_ok: "collector_ok c \<Longrightarrow> collector_ok (fold (step g) acts c)"
proof (induction acts arbitrary: c)
  case (Cons a acts)
  then show ?case by (cases a) (simp_all add: upd_ok collector_ok_expire)
qed simp

lemma cell_view_upd:
  "cell_view h (upd g x ls c) =
     (if h = cell_key ls c then
        Some (case cell_view h c of None \<Rightarrow> (comb x None, g) | Some (v, g') \<Rightarrow> (comb x (Some v), g'))
      else cell_view h c)"
  by (auto simp: cell_view_def upd_lookup split: option.splits)

lemma run_cell:
  assumes wf: "wf_map (cc_collection c)"
  shows "cell_view h (fold (step g) acts (collector_ExpireGroupMetrics g c)) =
    cell_spec comb g (cell_view h c)
      (concat (map (act_values (\<lambda>ls. cell_key ls c) h) acts))
      (concat (map (act_values (\<lambda>ls. cell_key ls c) h) (after_expire acts)))"
proof (induction acts rule: rev_induct)
  case Nil
  show ?case using wf
    by (auto simp: cell_view_expire cell_spec_def split: option.splits)
next
  case (snoc a acts)
  let ?c = "fold (step g) acts (collector_ExpireGroupMetrics g c)"
  have c: "cc_labelNames ?c = cc_labelNames c" "wf_map (cc_collection ?c)"
    using run_frame [of "collector_ExpireGroupMetrics g c" g acts] wf by simp_all
  show ?case
    using snoc by (cases a) (auto simp: c cell_view_expire cell_view_upd cell_spec_expire cell_spec_snoc)
qed

end

definition counter_comb :: "(rat \<Rightarrow> 64 word) \<Rightarrow> rat \<Rightarrow> 64 word option \<Rightarrow> 64 word" where
  "counter_comb conv x acc =
     (case acc of None \<Rightarrow> to_uint64 conv x | Some v \<Rightarrow> v + to_uint64 conv x)"

interpretation counter: grouped_collector "ConstCounterCollector_Add conv" "counter_comb conv" for conv
  by unfold_locales (auto simp: ConstCounterCollector_Add_def counter_comb_def Let_def split: option.splits)

interpretation gauge: grouped_collector ConstGaugeCollector_Set "\<lambda>x _. x"
  by unfold_locales (auto simp: ConstGaugeCollector_Set_def Let_def split: option.splits)

lemma accum_counter_Some:
  "accum (counter_comb conv) (Some v) xs = Some (v + sum_list (map (to_uint64 conv) xs))"
  by (induction xs rule: rev_induct) (simp_all add: counter_comb_def)

lemma accum_counter:
  "accum (counter_comb conv) None xs =
     (if xs = [] then None else Some (sum_list (map (to_uint64 conv) xs)))"
  by (induction xs rule: rev_induct) (simp_all add: counter_comb_def)

lemma accum_gauge: "accum (\<lambda>x _. x) init xs = (if xs = [] then init else Some (last xs))"
  by (induction xs rule: rev_induct) simp_all

end
