(* ===== verification/Files.thy ===== *)
theory Files
  imports Prelude
begin

text \<open>
  \<open>pkg/utils/file/file.go\<close>: the search for executable hooks. A directory tree is what
  \<open>filepath.Walk\<close> visits, with the children in the lexical order in which it reads them; a node that
  cannot be read makes it call the function with an error. \<open>os.Stat\<close> of a path is an argument: its
  answer, that the path does not exist, or another error.
\<close>

section \<open>The file system\<close>

datatype stat = StatDir | StatFile | StatNotExist | StatError string

definition FileExists :: "stat \<Rightarrow> string + bool" where
  "FileExists st =
     (case st of StatNotExist \<Rightarrow> Inr False | StatError err \<Rightarrow> Inl err | _ \<Rightarrow> Inr True)"

text \<open>\<open>DirExists\<close> dereferences the nil file info of an error other than "not exist".\<close>

definition DirExists :: "stat \<Rightarrow> bool go" where
  "DirExists st =
     (case st of StatNotExist \<Rightarrow> Ret False | StatError err \<Rightarrow> Panic | StatDir \<Rightarrow> Ret True | StatFile \<Rightarrow> Ret False)"

datatype fnode = File string "32 word" | Dir string "fnode list" | Broken string string

fun node_name :: "fnode \<Rightarrow> string" where
  "node_name (File n _) = n"
| "node_name (Dir n _) = n"
| "node_name (Broken n _) = n"

definition IsFileExecutable :: "32 word \<Rightarrow> bool" where
  "IsFileExecutable mode \<longleftrightarrow> and mode 73 \<noteq> 0"

definition hidden :: "string \<Rightarrow> bool" where
  "hidden name \<longleftrightarrow> take 1 name = ''.''"

text \<open>
  The walk with the function of \<open>RecursiveGetExecutablePaths\<close>: it skips hidden directories, the
  initial one too, and appends visible executable files; the first error ends it.
\<close>

fun walk :: "string \<Rightarrow> fnode \<Rightarrow> string + string list"
  and walk_children :: "string \<Rightarrow> fnode list \<Rightarrow> string + string list" where
  "walk path (Broken n err) = Inl err"
| "walk path (Dir n children) = (if hidden n then Inr [] else walk_children path children)"
| "walk path (File n mode) =
     (if hidden n then Inr [] else if \<not> IsFileExecutable mode then Inr [] else Inr [path])"
| "walk_children path [] = Inr []"
| "walk_children path (c # cs) =
     (case walk (path @ ''/'' @ node_name c) c of
        Inl err \<Rightarrow> Inl err
      | Inr ps \<Rightarrow> (case walk_children path cs of Inl err \<Rightarrow> Inl err | Inr qs \<Rightarrow> Inr (ps @ qs)))"

definition RecursiveGetExecutablePaths :: "string \<Rightarrow> fnode \<Rightarrow> string + string list" where
  "RecursiveGetExecutablePaths dir tree = walk dir tree"

section \<open>What the search finds\<close>

text \<open>\<open>visible_exec p node q\<close>: below \<open>node\<close> at path \<open>p\<close> there is a visible executable file at \<open>q\<close>.\<close>

inductive visible_exec :: "string \<Rightarrow> fnode \<Rightarrow> string \<Rightarrow> bool" where
  here: "\<not> hidden n \<Longrightarrow> IsFileExecutable mode \<Longrightarrow> visible_exec p (File n mode) p"
| below: "\<not> hidden n \<Longrightarrow> c \<in> set children \<Longrightarrow> visible_exec (p @ ''/'' @ node_name c) c q \<Longrightarrow>
    visible_exec p (Dir n children) q"

inductive_cases visible_exec_FileE: "visible_exec p (File n mode) q"
inductive_cases visible_exec_DirE: "visible_exec p (Dir n children) q"
inductive_cases visible_exec_BrokenE: "visible_exec p (Broken n err) q"

lemma walk_finds:
  "walk p node = Inr qs \<Longrightarrow> q \<in> set qs \<longleftrightarrow> visible_exec p node q"
  "walk_children p cs = Inr qs \<Longrightarrow>
   q \<in> set qs \<longleftrightarrow> (\<exists>c\<in>set cs. visible_exec (p @ ''/'' @ node_name c) c q)"
proof (induction p node and p cs arbitrary: qs and qs rule: walk_walk_children.induct)
  case (2 p n children)
  then show ?case
    by (auto intro: visible_exec.below elim!: visible_exec_DirE split: if_splits)
next
  case (3 p n mode)
  then show ?case by (auto intro: visible_exec.here elim!: visible_exec_FileE split: if_splits)
qed (auto split: sum.splits)

text \<open>
  C31. When the search for hooks succeeds, it finds exactly the executable files that are not hidden
  and are in no hidden directory, at their paths below the initial directory; below an initial
  directory that is itself hidden it finds nothing, although only hidden directories inside the
  initial directory are meant to be skipped.
\<close>

theorem RecursiveGetExecutablePaths_finds:
  "(RecursiveGetExecutablePaths dir tree = Inr paths \<longrightarrow> set paths = {q. visible_exec dir tree q}) \<and>
   (hidden n \<longrightarrow> RecursiveGetExecutablePaths dir (Dir n children) = Inr [])"
  using walk_finds(1) by (auto simp: RecursiveGetExecutablePaths_def)

theorem RecursiveGetExecutablePaths_finds_witness:
  "RecursiveGetExecutablePaths ''/h''
     (Dir ''h'' [File ''a'' 493, Dir ''.git'' [File ''x'' 493], Dir ''m'' [File ''b'' 493, File ''c'' 420]]) =
     Inr [''/h/a'', ''/h/m/b''] \<and>
   {q. visible_exec ''/h''
     (Dir ''h'' [File ''a'' 493, Dir ''.git'' [File ''x'' 493], Dir ''m'' [File ''b'' 493, File ''c'' 420]]) q} =
     {''/h/a'', ''/h/m/b''} \<and>
   RecursiveGetExecutablePaths ''/.h'' (Dir ''.h'' [File ''a'' 493]) = Inr []"
proof -
  let ?t = "Dir ''h'' [File ''a'' 493, Dir ''.git'' [File ''x'' 493], Dir ''m'' [File ''b'' 493, File ''c'' 420]]"
  have "RecursiveGetExecutablePaths ''/h'' ?t = Inr [''/h/a'', ''/h/m/b'']"
    by (simp add: RecursiveGetExecutablePaths_def hidden_def IsFileExecutable_def)
  then show ?thesis
    using RecursiveGetExecutablePaths_finds [of "''/h''" ?t "[''/h/a'', ''/h/m/b'']" "''.h''" "[File ''a'' 493]"]
      RecursiveGetExecutablePaths_finds [of "''/.h''" ?t "[]" "''.h''" "[File ''a'' 493]"]
    by (simp add: hidden_def)
qed

end
