(* ===== verification/Hook_Manager.thy ===== *)
theory Hook_Manager
  imports Hook_Config Metric_Vault Files
begin

text \<open>
  \<open>pkg/hook/hook.go\<close> and \<open>pkg/hook/hook_manager.go\<close>: loading hooks, the indices of the manager,
  the dispatch of events to hooks and the execution of a hook. A hook is a pointer shared by the
  indices: the index by name holds the hook, the index by binding type holds its name and its
  configuration, which never change after loading. What the code takes from outside is in
  \<open>hook_env\<close>: \<open>filepath.Rel\<close>, the output of \<open>hook --config\<close>, \<open>sort.Slice\<close>, and for a run the JSON encoder
  and decoder, the errors of \<open>ioutil.WriteFile\<close>, UUIDs, the environment, and the program of the
  hook, which reads and changes files. Files are a map from paths to contents; the temporary
  directory is a clean path, so \<open>filepath.Join\<close> adds the separator.
\<close>

section \<open>Hooks\<close>

record Hook =
  h_Name :: string
  h_Path :: string
  h_Config :: HookConfig
  h_HookController :: hookController
  h_TmpDir :: string

type_synonym files = "(string, string) gomap"

record CmdUsage =
  cu_Sys :: rat
  cu_User :: rat
  cu_MaxRss :: int

record hook_env =
  he_config :: config_env
  he_Rel :: "string \<Rightarrow> string \<Rightarrow> string + string"
  he_ConfigOutput :: "string \<Rightarrow> string + string"
  he_sort :: "(string \<times> HookConfig \<Rightarrow> string \<times> HookConfig \<Rightarrow> bool) \<Rightarrow>
    (string \<times> HookConfig) list \<Rightarrow> (string \<times> HookConfig) list"
  he_Unmarshal :: "string \<Rightarrow> json option"
  he_Json :: "(string, iface) gomap list \<Rightarrow> string + string"
  he_WriteError :: "string \<Rightarrow> string option"
  he_SafeName :: "string \<Rightarrow> string"
  he_Environ :: "string list"
  he_Exec :: "string \<Rightarrow> string list \<Rightarrow> files \<Rightarrow> files \<times> CmdUsage option \<times> string option"
  he_Decode :: "string \<Rightarrow> (string + MetricOperation) list"
  he_KeepTmpFiles :: bool

definition NewHook :: "string \<Rightarrow> string \<Rightarrow> Hook" where
  "NewHook name path = \<lparr>h_Name = name, h_Path = path, h_Config = empty_HookConfig,
     h_HookController = NewHookController, h_TmpDir = []\<rparr>"

definition Hook_WithConfig ::
    "config_env \<Rightarrow> nat \<Rightarrow> string \<Rightarrow> Hook \<Rightarrow> config_error + nat \<times> Hook" where
  "Hook_WithConfig env n configOutput h =
     (case LoadAndValidate env n configOutput (h_Config h) of
        Inl err \<Rightarrow> Inl err
      | Inr (n, c) \<Rightarrow> Inr (n, h\<lparr>h_Config := c\<rparr>))"

definition WithTmpDir :: "string \<Rightarrow> Hook \<Rightarrow> Hook" where
  "WithTmpDir dir h = h\<lparr>h_TmpDir := dir\<rparr>"

definition WithHookController :: "hookController \<Rightarrow> Hook \<Rightarrow> Hook" where
  "WithHookController hookCtrl h = h\<lparr>h_HookController := hookCtrl\<rparr>"

text \<open>\<open>GetConfigDescription\<close>; the lists of crontabs and kinds come in the map orders \<open>ks\<close> and \<open>ks'\<close>.\<close>

definition GetConfigDescription :: "(rat \<Rightarrow> string) \<Rightarrow> string list \<Rightarrow> string list \<Rightarrow> Hook \<Rightarrow> string" where
  "GetConfigDescription show_order ks ks' h =
     (let quoted = (\<lambda>xs. [char_of (39 :: nat)] @ strings_Join xs ([char_of (39 :: nat)] @ '', '' @ [char_of (39 :: nat)]) @
                [char_of (39 :: nat)]);
          msgs = (case cfg_OnStartup (h_Config h) of
                    Some os \<Rightarrow> [''OnStartup:'' @ show_order (os_Order os)] | None \<Rightarrow> []);
          msgs = msgs @ (if length (cfg_Schedules (h_Config h)) > 0 then [''Schedules: '' @ quoted ks] else []);
          msgs = msgs @ (if length (cfg_OnKubernetesEvents (h_Config h)) > 0
                         then [''Watch k8s kinds: '' @ quoted ks'] else [])
      in strings_Join msgs '', '')"

section \<open>Running a hook\<close>

definition filepath_Join :: "string \<Rightarrow> string \<Rightarrow> string" where
  "filepath_Join dir name = dir @ ''/'' @ name"

definition prepareBindingContextJsonFile ::
    "hook_env \<Rightarrow> string \<Rightarrow> (string, iface) gomap list \<Rightarrow> Hook \<Rightarrow> files \<Rightarrow> files \<times> (string + string)" where
  "prepareBindingContextJsonFile env uid context h fs =
     (case he_Json env context of
        Inl err \<Rightarrow> (fs, Inl err)
      | Inr data \<Rightarrow>
          (let bindingContextPath = filepath_Join (h_TmpDir h)
                 (''hook-'' @ he_SafeName env (h_Name h) @ ''-binding-context-'' @ uid @ ''.json'')
           in case he_WriteError env bindingContextPath of
                Some err \<Rightarrow> (fs, Inl err)
              | None \<Rightarrow> (mput bindingContextPath data fs, Inr bindingContextPath)))"

definition prepareMetricsFile :: "hook_env \<Rightarrow> string \<Rightarrow> Hook \<Rightarrow> files \<Rightarrow> files \<times> (string + string)" where
  "prepareMetricsFile env uid h fs =
     (let metricsPath = filepath_Join (h_TmpDir h)
            (''hook-'' @ he_SafeName env (h_Name h) @ ''-metrics-'' @ uid @ ''.json'')
      in case he_WriteError env metricsPath of
           Some err \<Rightarrow> (fs, Inl err)
         | None \<Rightarrow> (mput metricsPath [] fs, Inr metricsPath))"

text \<open>The deferred removal of the temporary files.\<close>

definition remove_tmp :: "hook_env \<Rightarrow> string \<Rightarrow> string \<Rightarrow> files \<Rightarrow> files" where
  "remove_tmp env contextPath metricsPath fs =
     (if he_KeepTmpFiles env then fs else mdel metricsPath (mdel contextPath fs))"

text \<open>The result of \<open>Run\<close>: the files, the usage of the command, and an error or the metrics.\<close>

type_synonym run_result = "files \<times> CmdUsage option \<times> (string + MetricOperation list)"

definition run_command ::
    "hook_env \<Rightarrow> Hook \<Rightarrow> string \<Rightarrow> string \<Rightarrow> files \<Rightarrow> run_result" where
  "run_command env h contextPath metricsPath fs =
     (let envs = he_Environ env @
            (if contextPath \<noteq> [] then
               [''BINDING_CONTEXT_PATH='' @ contextPath, ''METRICS_PATH='' @ metricsPath] else []);
          (fs, usage, err) = he_Exec env (h_Path h) envs fs
      in case err of
           Some e \<Rightarrow> (remove_tmp env contextPath metricsPath fs, usage, Inl (h_Name h @ '' FAILED: '' @ e))
         | None \<Rightarrow>
             (let file = (case mget fs metricsPath of None \<Rightarrow> Inl ''no such file'' | Some data \<Rightarrow> Inr data)
              in case MetricOperationsFromFile (he_Decode env) metricsPath file of
                   Inl e \<Rightarrow> (remove_tmp env contextPath metricsPath fs, usage, Inl (''got bad metrics: '' @ e))
                 | Inr metrics \<Rightarrow> (remove_tmp env contextPath metricsPath fs, usage, Inr metrics)))"

definition Hook_Run ::
    "hook_env \<Rightarrow> orders \<Rightarrow> kubeEventsManager \<Rightarrow> string \<Rightarrow> string \<Rightarrow> BindingContext list \<Rightarrow> Hook \<Rightarrow> files \<Rightarrow>
     run_result go" where
  "Hook_Run env ord mgr uid1 uid2 context h fs =
     go_bind (UpdateSnapshots ord mgr context (h_HookController h)) (\<lambda>freshBindingContext.
     go_bind (ConvertBindingContextList (he_Unmarshal env) (cfg_Version (h_Config h)) freshBindingContext)
       (\<lambda>versionedContextList. Ret
         (case prepareBindingContextJsonFile env uid1 versionedContextList h fs of
            (fs, Inl err) \<Rightarrow> (fs, None, Inl err)
          | (fs, Inr contextPath) \<Rightarrow>
              (case prepareMetricsFile env uid2 h fs of
                 (fs, Inl err) \<Rightarrow> (fs, None, Inl err)
               | (fs, Inr metricsPath) \<Rightarrow> run_command env h contextPath metricsPath fs))))"

section \<open>The hook manager\<close>

record hookManager =
  hm_workingDir :: string
  hm_tempDir :: string
  hm_hookNamesInOrder :: "string list"
  hm_hooksByName :: "(string, Hook) gomap"
  hm_hooksInOrder :: "(BindingType, (string \<times> HookConfig) list) gomap"

definition NewHookManager :: hookManager where
  "NewHookManager = \<lparr>hm_workingDir = [], hm_tempDir = [], hm_hookNamesInOrder = [], hm_hooksByName = [],
     hm_hooksInOrder = []\<rparr>"

definition WithDirectories :: "string \<Rightarrow> string \<Rightarrow> hookManager \<Rightarrow> hookManager" where
  "WithDirectories workingDir tempDir hm = hm\<lparr>hm_workingDir := workingDir, hm_tempDir := tempDir\<rparr>"

datatype load_error = EPath string | EConfigOutput string string | EConfig string config_error

text \<open>The loop that adds hook information to the labels of the monitors.\<close>

definition label_monitor :: "string \<Rightarrow> OnKubernetesEventConfig \<Rightarrow> OnKubernetesEventConfig" where
  "label_monitor hookName kubeCfg =
     kubeCfg\<lparr>kc_Monitor := (kc_Monitor kubeCfg)
       \<lparr>mc_LogLabels := mput ''hook'' hookName (mc_LogLabels (kc_Monitor kubeCfg)),
        mc_MetricLabels := [(''hook'', hookName), (''binding'', kc_BindingName kubeCfg),
                            (''queue'', kc_Queue kubeCfg)]\<rparr>\<rparr>"

definition loadHook ::
    "hook_env \<Rightarrow> nat \<Rightarrow> string \<Rightarrow> hookManager \<Rightarrow> load_error + nat \<times> Hook" where
  "loadHook env n hookPath hm =
     (case he_Rel env (hm_workingDir hm) hookPath of
        Inl err \<Rightarrow> Inl (EPath err)
      | Inr hookName \<Rightarrow>
          (case he_ConfigOutput env hookPath of
             Inl err \<Rightarrow> Inl (EConfigOutput hookPath err)
           | Inr configOutput \<Rightarrow>
               (case Hook_WithConfig (he_config env) n configOutput (NewHook hookName hookPath) of
                  Inl err \<Rightarrow> Inl (EConfig hookName err)
                | Inr (n, hook) \<Rightarrow>
                    (let cfg = h_Config hook;
                         cfg = cfg\<lparr>cfg_OnKubernetesEvents :=
                                 map (label_monitor hookName) (cfg_OnKubernetesEvents cfg)\<rparr>;
                         hookCtrl = InitScheduleBindings (cfg_Schedules cfg)
                           (InitKubernetesBindings (cfg_OnKubernetesEvents cfg) NewHookController)
                     in Inr (n, WithTmpDir (hm_tempDir hm)
                              (WithHookController hookCtrl (hook\<lparr>h_Config := cfg\<rparr>)))))))"

text \<open>The registration of a hook in the indices.\<close>

definition register_hook :: "Hook \<Rightarrow> hookManager \<Rightarrow> hookManager" where
  "register_hook hook hm =
     (let inOrder = foldl (\<lambda>m binding. mput binding
              ((case mget m binding of None \<Rightarrow> [] | Some hs \<Rightarrow> hs) @ [(h_Name hook, h_Config hook)]) m)
            (hm_hooksInOrder hm) (Bindings (h_Config hook))
      in hm\<lparr>hm_hooksInOrder := inOrder,
            hm_hooksByName := mput (h_Name hook) hook (hm_hooksByName hm),
            hm_hookNamesInOrder := hm_hookNamesInOrder hm @ [h_Name hook]\<rparr>)"

fun load_hooks :: "hook_env \<Rightarrow> nat \<Rightarrow> string list \<Rightarrow> hookManager \<Rightarrow> load_error + nat \<times> hookManager" where
  "load_hooks env n [] hm = Inr (n, hm)"
| "load_hooks env n (hookPath # paths) hm =
     (case loadHook env n hookPath hm of
        Inl err \<Rightarrow> Inl err
      | Inr (n, hook) \<Rightarrow> load_hooks env n paths (register_hook hook hm))"

definition hookManager_Init ::
    "hook_env \<Rightarrow> nat \<Rightarrow> fnode \<Rightarrow> hookManager \<Rightarrow> load_error + nat \<times> hookManager" where
  "hookManager_Init env n tree hm =
     (let hm = hm\<lparr>hm_hooksInOrder := [], hm_hooksByName := []\<rparr> in
      case RecursiveGetExecutablePaths (hm_workingDir hm) tree of
        Inl err \<Rightarrow> Inl (EPath err)
      | Inr hooksRelativePaths \<Rightarrow> load_hooks env n (sort hooksRelativePaths) hm)"

definition GetHook :: "string \<Rightarrow> hookManager \<Rightarrow> Hook option" where
  "GetHook name hm = mget (hm_hooksByName hm) name"

definition GetHookNames :: "hookManager \<Rightarrow> string list" where
  "GetHookNames hm = hm_hookNamesInOrder hm"

definition startup_order :: "string \<times> HookConfig \<Rightarrow> string \<times> HookConfig \<Rightarrow> bool" where
  "startup_order h1 h2 =
     (case (cfg_OnStartup (snd h1), cfg_OnStartup (snd h2)) of
        (Some a, Some b) \<Rightarrow> os_Order a < os_Order b
      | _ \<Rightarrow> False)"

text \<open>
  \<open>GetHooksInOrder\<close>: \<open>sort.Slice\<close> sorts the slice of the index in place, so the new order stays.
  The code reads the orders only after it has checked that every hook has one.
\<close>

definition GetHooksInOrder ::
    "hook_env \<Rightarrow> BindingType \<Rightarrow> hookManager \<Rightarrow> hookManager \<times> (string + string list)" where
  "GetHooksInOrder env bindingType hm =
     (case mget (hm_hooksInOrder hm) bindingType of
        None \<Rightarrow> (hm, Inr [])
      | Some hooks \<Rightarrow>
          if bindingType = OnStartup then
            (case find (\<lambda>(_, cfg). \<not> HasBinding OnStartup cfg) hooks of
               Some (name, _) \<Rightarrow> (hm, Inl (''possible bug: no onStartup value: '' @ name))
             | None \<Rightarrow>
                 (let hooks = he_sort env startup_order hooks
                  in (hm\<lparr>hm_hooksInOrder := mput bindingType hooks (hm_hooksInOrder hm)\<rparr>,
                      Inr (map fst hooks))))
          else (hm, Inr (map fst hooks)))"

text \<open>
  The dispatch of events: the infos of every hook that can handle the event, with the name of the
  hook, in the order of the index. A name without a hook would panic.
\<close>

definition names_of :: "string + string list \<Rightarrow> string list" where
  "names_of r = (case r of Inl _ \<Rightarrow> [] | Inr names \<Rightarrow> names)"

fun dispatch :: "(Hook \<Rightarrow> BindingExecutionInfo list) \<Rightarrow> string list \<Rightarrow> hookManager \<Rightarrow>
    (string \<times> BindingExecutionInfo) list go" where
  "dispatch f [] hm = Ret []"
| "dispatch f (hookName # names) hm =
     (case GetHook hookName hm of
        None \<Rightarrow> Panic
      | Some h \<Rightarrow> go_bind (dispatch f names hm) (\<lambda>rest. Ret (map (Pair (h_Name h)) (f h) @ rest)))"

definition hm_HandleKubeEvent ::
    "hook_env \<Rightarrow> orders \<Rightarrow> kubeEventsManager \<Rightarrow> KubeEvent \<Rightarrow> hookManager \<Rightarrow>
     (string \<times> BindingExecutionInfo) list go" where
  "hm_HandleKubeEvent env ord mgr kubeEvent hm =
     dispatch (\<lambda>h. if CanHandleKubeEvent kubeEvent (h_HookController h)
                   then hc_HandleKubeEvent ord mgr kubeEvent (h_HookController h) else [])
       (names_of (snd (GetHooksInOrder env OnKubernetesEvent hm))) hm"

definition hm_HandleScheduleEvent ::
    "hook_env \<Rightarrow> orders \<Rightarrow> (Hook \<Rightarrow> string list) \<Rightarrow> kubeEventsManager \<Rightarrow> string \<Rightarrow> hookManager \<Rightarrow>
     (string \<times> BindingExecutionInfo) list go" where
  "hm_HandleScheduleEvent env ord links mgr crontab hm =
     dispatch (\<lambda>h. if CanHandleScheduleEvent crontab (h_HookController h)
                   then hc_HandleScheduleEvent ord mgr (links h) crontab (h_HookController h) else [])
       (names_of (snd (GetHooksInOrder env Schedule hm))) hm"


section \<open>The indices\<close>

definition hooks_of :: "BindingType \<Rightarrow> hookManager \<Rightarrow> (string \<times> HookConfig) list" where
  "hooks_of b hm = (case mget (hm_hooksInOrder hm) b of None \<Rightarrow> [] | Some hs \<Rightarrow> hs)"

definition config_of :: "hookManager \<Rightarrow> string \<Rightarrow> HookConfig" where
  "config_of hm n = (case GetHook n hm of None \<Rightarrow> empty_HookConfig | Some h \<Rightarrow> h_Config h)"

text \<open>
  \<open>index_ok\<close>: the names are distinct and are the keys of the index by name, and each binding type
  lists the hooks that have a binding of that type, in the order of the names.
\<close>

definition index_ok :: "hookManager \<Rightarrow> bool" where
  "index_ok hm \<longleftrightarrow>
     distinct (hm_hookNamesInOrder hm) \<and>
     set (hm_hookNamesInOrder hm) = set (mkeys (hm_hooksByName hm)) \<and>
     (\<forall>n h. GetHook n hm = Some h \<longrightarrow> h_Name h = n) \<and>
     (\<forall>b. hooks_of b hm =
        map (\<lambda>n. (n, config_of hm n)) (filter (\<lambda>n. HasBinding b (config_of hm n)) (hm_hookNamesInOrder hm)))"

lemma set_Bindings: "b \<in> set (Bindings c) \<longleftrightarrow> HasBinding b c"
  by (auto simp: Bindings_def HasBinding_def)

lemma distinct_Bindings: "distinct (Bindings c)"
  by (simp add: Bindings_def)

lemma mget_foldl_append:
  "distinct bs \<Longrightarrow>
   mget (foldl (\<lambda>m b. mput b ((case mget m b of None \<Rightarrow> [] | Some hs \<Rightarrow> hs) @ [x]) m) m bs) b =
     (if b \<in> set bs then Some ((case mget m b of None \<Rightarrow> [] | Some hs \<Rightarrow> hs) @ [x]) else mget m b)"
  by (induction bs arbitrary: m) auto

lemma hooks_of_register:
  "hooks_of b (register_hook hook hm) =
     (if HasBinding b (h_Config hook) then hooks_of b hm @ [(h_Name hook, h_Config hook)] else hooks_of b hm)"
  by (simp add: hooks_of_def register_hook_def Let_def mget_foldl_append distinct_Bindings set_Bindings)

lemma GetHook_register:
  "GetHook n (register_hook hook hm) = (if n = h_Name hook then Some hook else GetHook n hm)"
  by (simp add: GetHook_def register_hook_def Let_def)

lemma names_register [simp]:
  "hm_hookNamesInOrder (register_hook hook hm) = hm_hookNamesInOrder hm @ [h_Name hook]"
  "hm_workingDir (register_hook hook hm) = hm_workingDir hm"
  "hm_tempDir (register_hook hook hm) = hm_tempDir hm"
  "fst ` set (hm_hooksByName (register_hook hook hm)) = insert (h_Name hook) (fst ` set (hm_hooksByName hm))"
  by (simp_all add: register_hook_def Let_def)

lemma index_ok_register:
  assumes ok: "index_ok hm" and new: "h_Name hook \<notin> set (hm_hookNamesInOrder hm)"
  shows "index_ok (register_hook hook hm)"
proof -
  let ?hm = "register_hook hook hm"
  have old: "config_of ?hm n = config_of hm n" if "n \<in> set (hm_hookNamesInOrder hm)" for n
    using that new by (auto simp: config_of_def GetHook_register)
  have "filter (\<lambda>n. HasBinding b (config_of ?hm n)) (hm_hookNamesInOrder hm) =
      filter (\<lambda>n. HasBinding b (config_of hm n)) (hm_hookNamesInOrder hm)" for b
    by (rule filter_cong) (simp_all add: old)
  moreover have "config_of ?hm (h_Name hook) = h_Config hook"
    by (simp add: config_of_def GetHook_register)
  moreover have "map (\<lambda>n. (n, config_of ?hm n)) (filter P (hm_hookNamesInOrder hm)) =
      map (\<lambda>n. (n, config_of hm n)) (filter P (hm_hookNamesInOrder hm))" for P
    by (rule map_cong) (auto simp: old)
  ultimately show ?thesis
    using ok new unfolding index_ok_def
    by (auto simp: hooks_of_register GetHook_register split: if_splits)
qed

lemma loadHook_name:
  "loadHook env n p hm = Inr (n', hook) \<Longrightarrow> he_Rel env (hm_workingDir hm) p = Inr (h_Name hook)"
  by (auto simp: loadHook_def Hook_WithConfig_def NewHook_def Let_def WithTmpDir_def WithHookController_def
      split: sum.splits prod.splits)

lemma load_hooks_index:
  assumes "load_hooks env n paths hm = Inr (n', hm')" "index_ok hm" "distinct paths"
    and "inj_on (he_Rel env (hm_workingDir hm)) (set paths)"
    and "\<forall>p\<in>set paths. \<forall>a. he_Rel env (hm_workingDir hm) p = Inr a \<longrightarrow> a \<notin> set (hm_hookNamesInOrder hm)"
  shows "index_ok hm' \<and>
    map Inr (hm_hookNamesInOrder hm') =
      map Inr (hm_hookNamesInOrder hm) @ map (he_Rel env (hm_workingDir hm)) paths"
  using assms
proof (induction paths arbitrary: n hm)
  case (Cons p paths)
  then obtain n1 hook where h: "loadHook env n p hm = Inr (n1, hook)"
    and rest: "load_hooks env n1 paths (register_hook hook hm) = Inr (n', hm')"
    by (auto split: sum.splits)
  have name: "he_Rel env (hm_workingDir hm) p = Inr (h_Name hook)" using loadHook_name [OF h] .
  have new: "h_Name hook \<notin> set (hm_hookNamesInOrder hm)" using Cons.prems(5) name by simp
  have "he_Rel env (hm_workingDir hm) q \<noteq> Inr (h_Name hook)" if "q \<in> set paths" for q
    using Cons.prems(3,4) name that by (metis distinct.simps(2) inj_on_contraD list.set_intros)
  then have "\<forall>q\<in>set paths. \<forall>a. he_Rel env (hm_workingDir hm) q = Inr a \<longrightarrow>
      a \<notin> set (hm_hookNamesInOrder (register_hook hook hm))"
    using Cons.prems(5) by auto
  with Cons.IH [OF rest index_ok_register [OF Cons.prems(2) new]] Cons.prems(3,4) name
  show ?case by simp
qed simp

lemma dispatch_returns:
  "(\<forall>n\<in>set names. GetHook n hm \<noteq> None) \<Longrightarrow> returns (dispatch f names hm)"
  by (induction names) (auto simp: returns_iff split: option.splits)

lemma names_of_GetHooksInOrder:
  assumes "index_ok hm"
    and srt: "\<And>hs. mset (he_sort env startup_order hs) = mset hs"
  shows "mset (names_of (snd (GetHooksInOrder env b hm))) =
    mset (filter (\<lambda>n. HasBinding b (config_of hm n)) (hm_hookNamesInOrder hm))"
proof (cases "mget (hm_hooksInOrder hm) b")
  case None
  with assms(1) have "hooks_of b hm = []" by (simp add: hooks_of_def)
  with assms(1) None show ?thesis
    by (auto simp: GetHooksInOrder_def names_of_def index_ok_def)
next
  case (Some hooks)
  then have hooks: "hooks = map (\<lambda>n. (n, config_of hm n))
      (filter (\<lambda>n. HasBinding b (config_of hm n)) (hm_hookNamesInOrder hm))"
    using assms(1) by (auto simp: index_ok_def hooks_of_def dest: spec [of _ b])
  then have all: "list_all (\<lambda>(_, cfg). HasBinding b cfg) hooks" by (auto simp: list_all_iff)
  have fst: "map fst hooks = filter (\<lambda>n. HasBinding b (config_of hm n)) (hm_hookNamesInOrder hm)"
    by (simp add: hooks comp_def)
  have "find (\<lambda>(_, cfg). \<not> HasBinding b cfg) hooks = None"
    using all by (auto simp: find_None_iff list_all_iff)
  with Some fst srt [of hooks] show ?thesis
    by (auto simp: GetHooksInOrder_def names_of_def Let_def mset_map fst [symmetric])
qed

lemma Init_index_ok:
  assumes init: "hookManager_Init env n tree (WithDirectories wd tmp NewHookManager) = Inr (n', hm)"
    and paths: "RecursiveGetExecutablePaths wd tree = Inr paths" "distinct paths"
    and rel: "inj_on (he_Rel env wd) (set paths)"
  shows "index_ok hm" "map Inr (hm_hookNamesInOrder hm) = map (he_Rel env wd) (sort paths)"
proof -
  let ?hm = "WithDirectories wd tmp NewHookManager"
  have "index_ok (?hm\<lparr>hm_hooksInOrder := [], hm_hooksByName := []\<rparr>)"
    by (simp add: index_ok_def hooks_of_def GetHook_def WithDirectories_def NewHookManager_def)
  moreover have "load_hooks env n (sort paths) (?hm\<lparr>hm_hooksInOrder := [], hm_hooksByName := []\<rparr>) = Inr (n', hm)"
    using init paths(1) by (simp add: hookManager_Init_def WithDirectories_def Let_def)
  ultimately show "index_ok hm" "map Inr (hm_hookNamesInOrder hm) = map (he_Rel env wd) (sort paths)"
    using load_hooks_index [of env n "sort paths"] paths(2) rel
    by (auto simp: WithDirectories_def NewHookManager_def)
qed


section \<open>Properties\<close>

text \<open>
  C26. A successful initialisation loads every executable below the hooks directory in the order of
  the paths and indexes it: the names are distinct, each name leads to its hook, each binding type
  lists exactly the hooks that have a binding of that type, and no dispatch of an event to the
  listed hooks panics.
\<close>

theorem Init_indices:
  assumes init: "hookManager_Init env n tree (WithDirectories wd tmp NewHookManager) = Inr (n', hm)"
    and paths: "RecursiveGetExecutablePaths wd tree = Inr paths" "distinct paths"
    and rel: "inj_on (he_Rel env wd) (set paths)"
    and srt: "\<And>hs. mset (he_sort env startup_order hs) = mset hs"
  shows "index_ok hm \<and> map Inr (hm_hookNamesInOrder hm) = map (he_Rel env wd) (sort paths) \<and>
    returns (dispatch f (names_of (snd (GetHooksInOrder env b hm))) hm)"
proof -
  note ok = Init_index_ok [OF init paths rel]
  have "set (names_of (snd (GetHooksInOrder env b hm))) \<subseteq> set (hm_hookNamesInOrder hm)"
    using names_of_GetHooksInOrder [OF ok(1) srt, of b] by (metis filter_is_subset set_mset_mset)
  also have "\<dots> = {n. GetHook n hm \<noteq> None}"
    using ok(1) by (auto simp: index_ok_def GetHook_def mget_None_iff image_iff)
  finally have "returns (dispatch f (names_of (snd (GetHooksInOrder env b hm))) hm)"
    by (intro dispatch_returns) auto
  with ok show ?thesis by simp
qed

definition demo_hook_env :: hook_env where
  "demo_hook_env = \<lparr>he_config = demo_config_env\<lparr>ce_Unmarshal := \<lambda>_. Inr [(''configVersion'', JStr ''v1'')],
       ce_UnmarshalV1 := \<lambda>_. Inr demo_v1\<rparr>,
     he_Rel = \<lambda>wd p. Inr (drop (length wd + 1) p), he_ConfigOutput = \<lambda>_. Inr ''config'',
     he_sort = go_sort, he_Unmarshal = \<lambda>_. None, he_Json = \<lambda>_. Inr ''json'',
     he_WriteError = \<lambda>p. None, he_SafeName = \<lambda>n. n, he_Environ = [],
     he_Exec = \<lambda>_ _ fs. (fs, None, None), he_Decode = \<lambda>_. [], he_KeepTmpFiles = False\<rparr>"

definition demo_tree :: fnode where
  "demo_tree = Dir ''h'' [File ''b'' 493, File ''a'' 493]"

lemma demo_Init:
  "\<exists>n hm. hookManager_Init demo_hook_env 0 demo_tree (WithDirectories ''/h'' ''/t'' NewHookManager) = Inr (n, hm)"
proof -
  have "\<exists>n' c. ConvertAndCheckV1 (he_config demo_hook_env) n demo_v1 c0 = Inr (n', c)" for n c0
    by (simp add: ConvertAndCheckV1_def demo_hook_env_def demo_v1_def demo_config_env_def demo_k1_def
        ConvertOnStartup_def ConvertFloatForBinding_def convert_kube_v1_def CheckOnKubernetesEventV1_def
        CheckScheduleV1_def Let_def split: option.splits)
  then have "\<exists>n' c. LoadAndValidate (he_config demo_hook_env) n ''config'' c0 = Inr (n', c)" for n c0
    by (simp add: LoadAndValidate_def VersionedUntyped_Load_def demo_hook_env_def demo_config_env_def
        ValidateConfig_def ConvertAndCheck_def LoadConfigVersion_def GetString_def VersionKey_def
        VersionValidator_def Schemas_def)
  then have config: "\<exists>n' c. LoadAndValidate (he_config demo_hook_env) n ''config'' c0 = Inr (n', c)" for n c0
    by blast
  have load: "\<exists>n' hook. loadHook demo_hook_env n p hm = Inr (n', hook)" for n p hm
  proof -
    let ?name = "drop (length (hm_workingDir hm) + 1) p"
    obtain n' c where "LoadAndValidate (he_config demo_hook_env) n ''config'' (h_Config (NewHook ?name p)) = Inr (n', c)"
      using config by blast
    then show ?thesis by (simp add: loadHook_def Hook_WithConfig_def Let_def demo_hook_env_def)
  qed
  have "\<exists>n' hm'. load_hooks demo_hook_env n ps hm = Inr (n', hm')" for n ps hm
  proof (induction ps arbitrary: n hm)
    case (Cons p ps)
    obtain n1 hook where "loadHook demo_hook_env n p hm = Inr (n1, hook)" using load by blast
    with Cons show ?case by simp
  qed simp
  moreover have "RecursiveGetExecutablePaths ''/h'' demo_tree = Inr [''/h/b'', ''/h/a'']"
    by (simp add: demo_tree_def RecursiveGetExecutablePaths_def hidden_def IsFileExecutable_def)
  ultimately show ?thesis
    by (simp add: hookManager_Init_def WithDirectories_def Let_def del: load_hooks.simps)
qed

theorem Init_indices_witness:
  "\<exists>n hm. hookManager_Init demo_hook_env 0 demo_tree (WithDirectories ''/h'' ''/t'' NewHookManager) = Inr (n, hm) \<and>
     hm_hookNamesInOrder hm = [''a'', ''b''] \<and> index_ok hm"
proof -
  obtain n hm where init: "hookManager_Init demo_hook_env 0 demo_tree
      (WithDirectories ''/h'' ''/t'' NewHookManager) = Inr (n, hm)" using demo_Init by blast
  have paths: "RecursiveGetExecutablePaths ''/h'' demo_tree = Inr [''/h/b'', ''/h/a'']"
    by (simp add: demo_tree_def RecursiveGetExecutablePaths_def hidden_def IsFileExecutable_def)
  have "inj_on (he_Rel demo_hook_env ''/h'') (set [''/h/b'', ''/h/a''])"
    by (simp add: inj_on_def demo_hook_env_def)
  moreover have "mset (he_sort demo_hook_env startup_order hs) = mset hs" for hs
    by (simp add: demo_hook_env_def)
  moreover have "map (he_Rel demo_hook_env ''/h'') (sort [''/h/b'', ''/h/a'']) =
      (map Inr [''a'', ''b''] :: (string + string) list)"
    by (simp add: demo_hook_env_def less_list_code less_eq_list_code)
  ultimately have "index_ok hm \<and> map Inr (hm_hookNamesInOrder hm) = (map Inr [''a'', ''b''] :: (string + string) list)"
    using Init_indices [OF init paths, of "\<lambda>_. []" Schedule] by simp
  then have "index_ok hm \<and> hm_hookNamesInOrder hm = [''a'', ''b'']"
    by (metis (no_types, lifting) inj_map_eq_map inj_Inr)
  with init show ?thesis by blast
qed


text \<open>
  The startup hooks are exactly the hooks with an \<open>onStartup\<close> binding, and no hook comes before
  one with a smaller order value. Hooks with equal values come in any order, since \<open>sort.Slice\<close> is
  not stable.
\<close>

theorem GetHooksInOrder_startup:
  assumes ok: "index_ok hm" and srt: "sort_spec (he_sort env)"
  shows "\<exists>names. snd (GetHooksInOrder env OnStartup hm) = Inr names \<and>
    mset names = mset (filter (\<lambda>n. cfg_OnStartup (config_of hm n) \<noteq> None) (hm_hookNamesInOrder hm)) \<and>
    sorted_wrt (\<lambda>a b. \<not> startup_order (b, config_of hm b) (a, config_of hm a)) names"
proof (cases "mget (hm_hooksInOrder hm) OnStartup")
  case None
  with ok have "hooks_of OnStartup hm = []" by (simp add: hooks_of_def)
  with ok None show ?thesis by (auto simp: GetHooksInOrder_def index_ok_def HasBinding_def)
next
  case (Some hooks)
  let ?names = "filter (\<lambda>n. cfg_OnStartup (config_of hm n) \<noteq> None) (hm_hookNamesInOrder hm)"
  have hooks: "hooks = map (\<lambda>n. (n, config_of hm n)) ?names"
    using Some ok by (auto simp: index_ok_def hooks_of_def HasBinding_def dest: spec [of _ OnStartup])
  let ?sorted = "he_sort env startup_order hooks"
  have perm: "mset ?sorted = mset hooks" using srt by (simp add: sort_spec_def)
  then have elems: "set ?sorted = set hooks" by (metis set_mset_mset)
  have "weak_order startup_order (set hooks)"
    unfolding weak_order_def by (auto simp: hooks startup_order_def split: option.splits)
  then have "no_inversion startup_order ?sorted" using srt by (simp add: sort_spec_def)
  then have "sorted_wrt (\<lambda>a b. \<not> startup_order b a) ?sorted" by (simp add: no_inversion_def)
  then have "sorted_wrt (\<lambda>x y. \<not> startup_order (fst y, config_of hm (fst y)) (fst x, config_of hm (fst x))) ?sorted"
    by (rule sorted_wrt_mono_rel [rotated]) (use elems in \<open>auto simp: hooks\<close>)
  then have "sorted_wrt (\<lambda>a b. \<not> startup_order (b, config_of hm b) (a, config_of hm a)) (map fst ?sorted)"
    by (simp add: sorted_wrt_map)
  moreover have "find (\<lambda>(_, cfg). \<not> HasBinding OnStartup cfg) hooks = None"
    by (auto simp: find_None_iff hooks HasBinding_def)
  moreover have "mset (map fst ?sorted) = mset ?names"
    using arg_cong [OF perm, of "image_mset fst"] by (simp add: hooks mset_map [symmetric] comp_def del: mset_map)
  ultimately show ?thesis using Some by (simp add: GetHooksInOrder_def Let_def)
qed

definition demo_hook :: "string \<Rightarrow> rat \<Rightarrow> Hook" where
  "demo_hook name order = (NewHook name name)\<lparr>h_Config := empty_HookConfig\<lparr>cfg_OnStartup :=
     Some \<lparr>os_BindingName = OnStartup, os_AllowFailure = False, os_Order = order\<rparr>\<rparr>\<rparr>"

theorem GetHooksInOrder_startup_witness:
  "snd (GetHooksInOrder demo_hook_env OnStartup
     (register_hook (demo_hook ''b'' 1) (register_hook (demo_hook ''a'' 2) NewHookManager))) = Inr [''b'', ''a'']"
proof -
  let ?hm = "register_hook (demo_hook ''b'' 1) (register_hook (demo_hook ''a'' 2) NewHookManager)"
  have "index_ok NewHookManager"
    by (simp add: index_ok_def NewHookManager_def hooks_of_def GetHook_def)
  then have "index_ok ?hm"
    by (intro index_ok_register) (simp_all add: demo_hook_def NewHook_def NewHookManager_def)
  moreover have "sort_spec (he_sort demo_hook_env)"
    by (simp add: demo_hook_env_def sort_spec_go_sort)
  ultimately obtain names where names: "snd (GetHooksInOrder demo_hook_env OnStartup ?hm) = Inr names"
    "mset names = mset (filter (\<lambda>n. cfg_OnStartup (config_of ?hm n) \<noteq> None) (hm_hookNamesInOrder ?hm))"
    "sorted_wrt (\<lambda>a b. \<not> startup_order (b, config_of ?hm b) (a, config_of ?hm a)) names"
    using GetHooksInOrder_startup [of ?hm demo_hook_env] by blast
  have c: "config_of ?hm ''a'' = h_Config (demo_hook ''a'' 2)" "config_of ?hm ''b'' = h_Config (demo_hook ''b'' 1)"
    by (simp_all add: config_of_def GetHook_register demo_hook_def NewHook_def)
  have "hm_hookNamesInOrder ?hm = [''a'', ''b'']"
    by (simp add: demo_hook_def NewHook_def NewHookManager_def)
  moreover have "cfg_OnStartup (h_Config (demo_hook n x)) \<noteq> None" for n x by (simp add: demo_hook_def)
  ultimately have "mset names = {# ''a'', ''b'' #}" using names(2) by (simp add: c)
  then have "length names = 2" "set names = {''a'', ''b''}"
    using mset_eq_length [of names "[''a'', ''b'']"] mset_eq_setD [of names "[''a'', ''b'']"] by simp_all
  moreover from this(1) obtain x y where xy: "names = [x, y]"
    by (metis One_nat_def Suc_1 length_0_conv length_Suc_conv)
  ultimately have "x = ''a'' \<and> y = ''b'' \<or> x = ''b'' \<and> y = ''a''" by (simp add: doubleton_eq_iff)
  then have "names = [''a'', ''b''] \<or> names = [''b'', ''a'']" using xy by blast
  moreover have "startup_order (''b'', config_of ?hm ''b'') (''a'', config_of ?hm ''a'')"
    unfolding c by (simp add: startup_order_def demo_hook_def)
  ultimately have "names = [''b'', ''a'']" using names(3) by auto
  with names(1) show ?thesis by simp
qed

lemma run_command_files:
  "fst (run_command env h cp mp fs) = remove_tmp env cp mp (fst (he_Exec env (h_Path h)
     (he_Environ env @ (if cp \<noteq> [] then [''BINDING_CONTEXT_PATH='' @ cp, ''METRICS_PATH='' @ mp] else [])) fs))"
  by (simp add: run_command_def Let_def split_beta split: option.splits sum.splits)

text \<open>
  C27. The files of a run: when both temporary files can be written and the program changes nothing
  but them, no file is changed once the run is over, whether the hook fails or not. When the
  metrics file cannot be written, the program is not started, and the file with the binding
  contexts stays.
\<close>

theorem Hook_Run_files:
  assumes run: "Hook_Run env ord mgr uid1 uid2 bcs h fs = Ret (fs', usage, res)"
    and cp: "cp = filepath_Join (h_TmpDir h) (''hook-'' @ he_SafeName env (h_Name h) @ ''-binding-context-'' @ uid1 @ ''.json'')"
    and mp: "mp = filepath_Join (h_TmpDir h) (''hook-'' @ he_SafeName env (h_Name h) @ ''-metrics-'' @ uid2 @ ''.json'')"
    and tmp: "\<not> he_KeepTmpFiles env" "mget fs cp = None" "mget fs mp = None" "he_WriteError env cp = None"
    and json: "\<And>maps. \<exists>data. he_Json env maps = Inr data"
    and prog: "\<And>envs fs1 p. p \<noteq> cp \<Longrightarrow> p \<noteq> mp \<Longrightarrow> mget (fst (he_Exec env (h_Path h) envs fs1)) p = mget fs1 p"
  shows "(he_WriteError env mp = None \<longrightarrow> (\<forall>p. mget fs' p = mget fs p)) \<and>
    (he_WriteError env mp = Some err \<longrightarrow>
      usage = None \<and> res = Inl err \<and> mget fs' cp \<noteq> None \<and> (\<forall>p. p \<noteq> cp \<longrightarrow> mget fs' p = mget fs p))"
proof -
  obtain maps where r: "(fs', usage, res) =
      (case prepareBindingContextJsonFile env uid1 maps h fs of
         (fs, Inl err) \<Rightarrow> (fs, None, Inl err)
       | (fs, Inr contextPath) \<Rightarrow>
           (case prepareMetricsFile env uid2 h fs of
              (fs, Inl err) \<Rightarrow> (fs, None, Inl err)
            | (fs, Inr metricsPath) \<Rightarrow> run_command env h contextPath metricsPath fs))"
    using run unfolding Hook_Run_def go_bind_Ret_iff go.inject by (elim exE conjE) (drule sym, erule that)
  obtain data where "he_Json env maps = Inr data" using json by blast
  then have ctx: "prepareBindingContextJsonFile env uid1 maps h fs = (mput cp data fs, Inr cp)"
    using tmp(4) by (simp add: prepareBindingContextJsonFile_def cp Let_def)
  show ?thesis
  proof (cases "he_WriteError env mp")
    case None
    let ?fs = "mput mp [] (mput cp data fs)"
    have "prepareMetricsFile env uid2 h (mput cp data fs) = (?fs, Inr mp)"
      using None by (simp add: prepareMetricsFile_def mp Let_def)
    with r ctx have "(fs', usage, res) = run_command env h cp mp ?fs" by simp
    then have "fs' = fst (run_command env h cp mp ?fs)" by (metis fst_conv)
    then obtain envs where "fs' = mdel mp (mdel cp (fst (he_Exec env (h_Path h) envs ?fs)))"
      using tmp(1) by (simp add: run_command_files remove_tmp_def)
    then have "mget fs' p = mget fs p" for p
      using prog [of p envs ?fs] tmp(2,3) by auto
    with None show ?thesis by simp
  next
    case (Some e)
    then have "prepareMetricsFile env uid2 h (mput cp data fs) = (mput cp data fs, Inl e)"
      by (simp add: prepareMetricsFile_def mp Let_def)
    with r ctx Some show ?thesis by auto
  qed
qed

theorem Hook_Run_files_witness:
  "\<exists>fs' usage res. Hook_Run demo_hook_env key_orders \<lparr>kem_Monitors = [], kem_ctx = []\<rparr> ''1'' ''2'' []
     (NewHook ''a'' ''/h/a'') [(''x'', ''y'')] = Ret (fs', usage, res) \<and> (\<forall>p. mget fs' p = mget [(''x'', ''y'')] p)"
proof -
  let ?h = "NewHook ''a'' ''/h/a''"
  let ?run = "Hook_Run demo_hook_env key_orders \<lparr>kem_Monitors = [], kem_ctx = []\<rparr> ''1'' ''2'' [] ?h [(''x'', ''y'')]"
  have "returns ?run"
    by (simp add: Hook_Run_def UpdateSnapshots_def NewHook_def NewHookController_def ConvertBindingContextList_def)
  then obtain fs' usage res where run: "?run = Ret (fs', usage, res)" by (auto simp: returns_iff)
  have "he_WriteError demo_hook_env p = None" for p by (simp add: demo_hook_env_def)
  with Hook_Run_files [OF run refl refl] have "\<forall>p. mget fs' p = mget [(''x'', ''y'')] p"
    by (simp add: demo_hook_env_def NewHook_def filepath_Join_def)
  with run show ?thesis by blast
qed

end
