(* ===== verification/Metric_Storage.thy ===== *)
theory Metric_Storage
  imports Metric_Vault
begin

text \<open>
  \<open>pkg/metric_storage/metric_storage.go\<close> and the registrations of \<open>pkg/shell-operator/metrics.go\<close>:
  vectors of counters, gauges and histograms created on first use, and the batches of operations
  that hooks send. The Prometheus client is a parameter: \<open>pl_NewVec\<close> makes a vector or panics,
  \<open>pl_With\<close> is \<open>vec.With(labels)\<close> followed by \<open>Set\<close>, \<open>Add\<close> or \<open>Observe\<close>, which panics on labels that
  do not fit. The storage and its grouped vault share one registerer, which the vault holds. The
  receiver is a storage, not nil: the operator sets its storages before it uses them.
\<close>

section \<open>Vectors\<close>

datatype vec_kind = CounterVec | GaugeVec | HistogramVec
datatype vec_op = VSet | VAdd | VObserve

record ('r, 'v) prom_lib = "'r prom_registry" +
  pl_NewVec :: "vec_kind \<Rightarrow> string \<Rightarrow> string list \<Rightarrow> rat list \<Rightarrow> 'v go"
  pl_With :: "vec_op \<Rightarrow> rat \<Rightarrow> labels \<Rightarrow> 'v \<Rightarrow> 'v go"
  pl_uint64 :: "rat \<Rightarrow> 64 word"

record ('r, 'v) MetricStorage =
  ms_Prefix :: string
  ms_Counters :: "(string, 'v) gomap"
  ms_Gauges :: "(string, 'v) gomap"
  ms_Histograms :: "(string, 'v) gomap"
  ms_HistogramBuckets :: "(string, rat list) gomap"
  ms_GroupedVault :: "'r GroupedVault"

definition NewMetricStorage :: "'r \<Rightarrow> ('r, 'v) MetricStorage" where
  "NewMetricStorage r = \<lparr>ms_Prefix = [], ms_Counters = [], ms_Gauges = [], ms_Histograms = [],
     ms_HistogramBuckets = [], ms_GroupedVault = NewGroupedVault r\<rparr>"

definition WithPrefix :: "string \<Rightarrow> ('r, 'v) MetricStorage \<Rightarrow> ('r, 'v) MetricStorage" where
  "WithPrefix prfx m = m\<lparr>ms_Prefix := prfx\<rparr>"

definition WithNewRegistry :: "'r \<Rightarrow> ('r, 'v) MetricStorage \<Rightarrow> ('r, 'v) MetricStorage" where
  "WithNewRegistry registry m = m\<lparr>ms_GroupedVault := (ms_GroupedVault m)\<lparr>gv_Registerer := registry\<rparr>\<rparr>"

text \<open>\<open>strings.Contains\<close> and \<open>strings.Replace\<close> with a count of one.\<close>

fun strings_Contains :: "string \<Rightarrow> string \<Rightarrow> bool" where
  "strings_Contains [] sub = (sub = [])"
| "strings_Contains (c # cs) sub = (take (length sub) (c # cs) = sub \<or> strings_Contains cs sub)"

fun strings_Replace1 :: "string \<Rightarrow> string \<Rightarrow> string \<Rightarrow> string" where
  "strings_Replace1 [] old new = (if old = [] then new else [])"
| "strings_Replace1 (c # cs) old new =
     (if take (length old) (c # cs) = old then new @ drop (length old) (c # cs)
      else c # strings_Replace1 cs old new)"

definition PrefixTemplate :: string where "PrefixTemplate = ''{PREFIX}''"

definition ResolveMetricName :: "('r, 'v) MetricStorage \<Rightarrow> string \<Rightarrow> string" where
  "ResolveMetricName m name =
     (if strings_Contains name PrefixTemplate then strings_Replace1 name PrefixTemplate (ms_Prefix m)
      else name)"

text \<open>
  The creation of a vector: \<open>MustRegister\<close> panics when the registry refuses it. \<open>Register*\<close> recover
  from the panic and then return nil, on which \<open>With\<close> panics again; that panic is recovered by
  the setter, so a refused metric is only logged.
\<close>

definition create_vec ::
    "('r, 'v) prom_lib \<Rightarrow> vec_kind \<Rightarrow> string \<Rightarrow> labels \<Rightarrow> rat list \<Rightarrow> 'r \<Rightarrow> ('v \<times> 'r) go" where
  "create_vec lib kind metricName labels buckets r =
     (let names = LabelNames labels (mkeys labels) in
      go_bind (pl_NewVec lib kind metricName names buckets) (\<lambda>vec.
        case pr_Register lib metricName names r of Inl err \<Rightarrow> Panic | Inr r \<Rightarrow> Ret (vec, r)))"

abbreviation set_registerer :: "'r \<Rightarrow> ('r, 'v) MetricStorage \<Rightarrow> ('r, 'v) MetricStorage" where
  "set_registerer r m \<equiv> m\<lparr>ms_GroupedVault := (ms_GroupedVault m)\<lparr>gv_Registerer := r\<rparr>\<rparr>"

abbreviation ms_Registerer :: "('r, 'v) MetricStorage \<Rightarrow> 'r" where
  "ms_Registerer m \<equiv> gv_Registerer (ms_GroupedVault m)"

definition RegisterGauge ::
    "('r, 'v) prom_lib \<Rightarrow> string \<Rightarrow> labels \<Rightarrow> ('r, 'v) MetricStorage \<Rightarrow> ('r, 'v) MetricStorage \<times> 'v option" where
  "RegisterGauge lib metric labels m =
     (case mget (ms_Gauges m) metric of
        Some vec \<Rightarrow> (m, Some vec)
      | None \<Rightarrow>
          (case create_vec lib GaugeVec (ResolveMetricName m metric) labels [] (ms_Registerer m) of
             Panic \<Rightarrow> (m, None)
           | Ret (vec, r) \<Rightarrow>
               (set_registerer r m\<lparr>ms_Gauges := mput metric vec (ms_Gauges m)\<rparr>, Some vec)))"

definition Gauge ::
    "('r, 'v) prom_lib \<Rightarrow> string \<Rightarrow> labels \<Rightarrow> ('r, 'v) MetricStorage \<Rightarrow> ('r, 'v) MetricStorage \<times> 'v option" where
  "Gauge lib metric labels m =
     (case mget (ms_Gauges m) metric of
        Some vec \<Rightarrow> (m, Some vec)
      | None \<Rightarrow> RegisterGauge lib metric labels m)"

definition gauge_apply ::
    "('r, 'v) prom_lib \<Rightarrow> vec_op \<Rightarrow> string \<Rightarrow> rat \<Rightarrow> labels \<Rightarrow> ('r, 'v) MetricStorage \<Rightarrow> ('r, 'v) MetricStorage" where
  "gauge_apply lib act metric value labels m =
     (case Gauge lib metric labels m of
        (m, None) \<Rightarrow> m
      | (m, Some vec) \<Rightarrow>
          (case pl_With lib act value labels vec of
             Panic \<Rightarrow> m
           | Ret vec \<Rightarrow> m\<lparr>ms_Gauges := mput metric vec (ms_Gauges m)\<rparr>))"

definition GaugeSet ::
    "('r, 'v) prom_lib \<Rightarrow> string \<Rightarrow> rat \<Rightarrow> labels \<Rightarrow> ('r, 'v) MetricStorage \<Rightarrow> ('r, 'v) MetricStorage" where
  "GaugeSet lib metric value labels m = gauge_apply lib VSet metric value labels m"

definition GaugeAdd ::
    "('r, 'v) prom_lib \<Rightarrow> string \<Rightarrow> rat \<Rightarrow> labels \<Rightarrow> ('r, 'v) MetricStorage \<Rightarrow> ('r, 'v) MetricStorage" where
  "GaugeAdd lib metric value labels m = gauge_apply lib VAdd metric value labels m"

definition RegisterCounter ::
    "('r, 'v) prom_lib \<Rightarrow> string \<Rightarrow> labels \<Rightarrow> ('r, 'v) MetricStorage \<Rightarrow> ('r, 'v) MetricStorage \<times> 'v option" where
  "RegisterCounter lib metric labels m =
     (case mget (ms_Counters m) metric of
        Some vec \<Rightarrow> (m, Some vec)
      | None \<Rightarrow>
          (case create_vec lib CounterVec (ResolveMetricName m metric) labels [] (ms_Registerer m) of
             Panic \<Rightarrow> (m, None)
           | Ret (vec, r) \<Rightarrow>
               (set_registerer r m\<lparr>ms_Counters := mput metric vec (ms_Counters m)\<rparr>, Some vec)))"

definition Counter ::
    "('r, 'v) prom_lib \<Rightarrow> string \<Rightarrow> labels \<Rightarrow> ('r, 'v) MetricStorage \<Rightarrow> ('r, 'v) MetricStorage \<times> 'v option" where
  "Counter lib metric labels m =
     (case mget (ms_Counters m) metric of
        Some vec \<Rightarrow> (m, Some vec)
      | None \<Rightarrow> RegisterCounter lib metric labels m)"

definition CounterAdd ::
    "('r, 'v) prom_lib \<Rightarrow> string \<Rightarrow> rat \<Rightarrow> labels \<Rightarrow> ('r, 'v) MetricStorage \<Rightarrow> ('r, 'v) MetricStorage" where
  "CounterAdd lib metric value labels m =
     (case Counter lib metric labels m of
        (m, None) \<Rightarrow> m
      | (m, Some vec) \<Rightarrow>
          (case pl_With lib VAdd value labels vec of
             Panic \<Rightarrow> m
           | Ret vec \<Rightarrow> m\<lparr>ms_Counters := mput metric vec (ms_Counters m)\<rparr>))"

definition HistogramDefineBuckets ::
    "string \<Rightarrow> rat list \<Rightarrow> ('r, 'v) MetricStorage \<Rightarrow> ('r, 'v) MetricStorage" where
  "HistogramDefineBuckets metric buckets m =
     m\<lparr>ms_HistogramBuckets := mput metric buckets (ms_HistogramBuckets m)\<rparr>"

text \<open>\<open>prometheus.LinearBuckets(0, 2, 20)\<close>: twenty buckets of width two from zero.\<close>

definition default_buckets :: "rat list" where
  "default_buckets = map (\<lambda>i. 2 * of_nat i) [0..<20]"

definition RegisterHistogram ::
    "('r, 'v) prom_lib \<Rightarrow> string \<Rightarrow> labels \<Rightarrow> ('r, 'v) MetricStorage \<Rightarrow> ('r, 'v) MetricStorage \<times> 'v option" where
  "RegisterHistogram lib metric labels m =
     (case mget (ms_Histograms m) metric of
        Some vec \<Rightarrow> (m, Some vec)
      | None \<Rightarrow>
          (let buckets = (case mget (ms_HistogramBuckets m) metric of
                 None \<Rightarrow> default_buckets | Some b \<Rightarrow> b)
           in case create_vec lib HistogramVec (ResolveMetricName m metric) labels buckets (ms_Registerer m) of
                Panic \<Rightarrow> (m, None)
              | Ret (vec, r) \<Rightarrow>
                  (set_registerer r m\<lparr>ms_Histograms := mput metric vec (ms_Histograms m)\<rparr>, Some vec)))"

definition Histogram ::
    "('r, 'v) prom_lib \<Rightarrow> string \<Rightarrow> labels \<Rightarrow> ('r, 'v) MetricStorage \<Rightarrow> ('r, 'v) MetricStorage \<times> 'v option" where
  "Histogram lib metric labels m =
     (case mget (ms_Histograms m) metric of
        Some vec \<Rightarrow> (m, Some vec)
      | None \<Rightarrow> RegisterHistogram lib metric labels m)"

definition HistogramObserve ::
    "('r, 'v) prom_lib \<Rightarrow> string \<Rightarrow> rat \<Rightarrow> labels \<Rightarrow> ('r, 'v) MetricStorage \<Rightarrow> ('r, 'v) MetricStorage" where
  "HistogramObserve lib metric value labels m =
     (case Histogram lib metric labels m of
        (m, None) \<Rightarrow> m
      | (m, Some vec) \<Rightarrow>
          (case pl_With lib VObserve value labels vec of
             Panic \<Rightarrow> m
           | Ret vec \<Rightarrow> m\<lparr>ms_Histograms := mput metric vec (ms_Histograms m)\<rparr>))"

definition RegisterHistogramWithBuckets ::
    "('r, 'v) prom_lib \<Rightarrow> string \<Rightarrow> labels \<Rightarrow> rat list \<Rightarrow> ('r, 'v) MetricStorage \<Rightarrow>
     ('r, 'v) MetricStorage \<times> 'v option" where
  "RegisterHistogramWithBuckets lib metric labels buckets m =
     RegisterHistogram lib metric labels (HistogramDefineBuckets metric buckets m)"

section \<open>Batches of operations\<close>

fun SendBatchV0 ::
    "('r, 'v) prom_lib \<Rightarrow> MetricOperation list \<Rightarrow> labels \<Rightarrow> ('r, 'v) MetricStorage \<Rightarrow>
     ('r, 'v) MetricStorage \<times> metric_error list" where
  "SendBatchV0 lib [] labels m = (m, [])"
| "SendBatchV0 lib (metricOp # ops) labels m =
     (let opLabels = MergeLabels [op_Labels metricOp, labels] in
      case op_Add metricOp of
        Some x \<Rightarrow> SendBatchV0 lib ops labels (CounterAdd lib (op_Name metricOp) x opLabels m)
      | None \<Rightarrow>
          (case op_Set metricOp of
             Some x \<Rightarrow> SendBatchV0 lib ops labels (GaugeSet lib (op_Name metricOp) x opLabels m)
           | None \<Rightarrow> (m, [ENoOperation metricOp])))"

definition ApplyOperation ::
    "('r, 'v) prom_lib \<Rightarrow> MetricOperation \<Rightarrow> labels \<Rightarrow> ('r, 'v) MetricStorage \<Rightarrow> ('r, 'v) MetricStorage" where
  "ApplyOperation lib op commonLabels m =
     (let labels = MergeLabels [op_Labels op, commonLabels] in
      case op_Add op of
        Some x \<Rightarrow> CounterAdd lib (op_Name op) x labels m
      | None \<Rightarrow>
          (case op_Set op of Some x \<Rightarrow> GaugeSet lib (op_Name op) x labels m | None \<Rightarrow> m))"

text \<open>The body of the loop of \<open>ApplyGroupOperations\<close>, on the vault.\<close>

definition apply_group_operation ::
    "('r, 'v) prom_lib \<Rightarrow> string \<Rightarrow> labels \<Rightarrow> MetricOperation \<Rightarrow> 'r GroupedVault \<Rightarrow> 'r GroupedVault" where
  "apply_group_operation lib grp commonLabels op v =
     (if op_Action op = ''expire'' then vault_ExpireGroupMetrics grp v
      else
        let labels = MergeLabels [op_Labels op, commonLabels];
            v = (case op_Value op of
                   Some x \<Rightarrow> if op_Action op = ''add''
                     then vault_CounterAdd lib (pl_uint64 lib) grp (op_Name op) x labels v else v
                 | None \<Rightarrow> v)
        in case op_Value op of
             Some x \<Rightarrow> if op_Action op = ''set'' then vault_GaugeSet lib grp (op_Name op) x labels v else v
           | None \<Rightarrow> v)"

definition ApplyGroupOperations ::
    "('r, 'v) prom_lib \<Rightarrow> string \<Rightarrow> MetricOperation list \<Rightarrow> labels \<Rightarrow> ('r, 'v) MetricStorage \<Rightarrow>
     ('r, 'v) MetricStorage" where
  "ApplyGroupOperations lib grp ops commonLabels m =
     m\<lparr>ms_GroupedVault := fold (apply_group_operation lib grp commonLabels) ops
         (vault_ExpireGroupMetrics grp (ms_GroupedVault m))\<rparr>"

text \<open>\<open>SendBatch\<close>: the operations by group; \<open>order\<close> is the order of the range loop over the groups.\<close>

definition group_operations :: "MetricOperation list \<Rightarrow> (string, MetricOperation list) gomap" where
  "group_operations ops =
     foldl (\<lambda>groupedOps op.
        if op_Group op = [] then groupedOps
        else
          let groupedOps = (if mget groupedOps (op_Group op) = None
                            then mput (op_Group op) [] groupedOps else groupedOps)
          in mput (op_Group op)
               ((case mget groupedOps (op_Group op) of None \<Rightarrow> [] | Some xs \<Rightarrow> xs) @ [op]) groupedOps) [] ops"

definition SendBatch ::
    "('r, 'v) prom_lib \<Rightarrow> ((string, MetricOperation list) gomap \<Rightarrow> string list) \<Rightarrow>
     MetricOperation list \<Rightarrow> labels \<Rightarrow> ('r, 'v) MetricStorage \<Rightarrow> ('r, 'v) MetricStorage \<times> metric_error list" where
  "SendBatch lib order ops labels m =
     (if ValidateOperations ops \<noteq> [] then (m, ValidateOperations ops)
      else
        let groupedOps = group_operations ops;
            nonGroupedOps = filter (\<lambda>op. op_Group op = []) ops;
            m = fold (\<lambda>grp m. case mget groupedOps grp of
                     None \<Rightarrow> m | Some ops \<Rightarrow> ApplyGroupOperations lib grp ops labels m) (order groupedOps) m
        in SendBatchV0 lib nonGroupedOps labels m)"


section \<open>One collector under the operations of a group\<close>

definition op_act :: "string \<Rightarrow> string \<Rightarrow> labels \<Rightarrow> MetricOperation \<Rightarrow> act list" where
  "op_act action name commonLabels op =
     (if op_Action op = ''expire'' then [Expire]
      else case op_Value op of
          None \<Rightarrow> []
        | Some x \<Rightarrow> if op_Action op = action \<and> op_Name op = name
                    then [Update x (MergeLabels [op_Labels op, commonLabels])] else [])"

text \<open>
  The values that the operations of a batch give to one entry of the metric \<open>name\<close>, and the
  operations after the last \<open>expire\<close>.
\<close>

definition op_values ::
    "string \<Rightarrow> string \<Rightarrow> labels \<Rightarrow> string list \<Rightarrow> 64 word \<Rightarrow> MetricOperation list \<Rightarrow> rat list" where
  "op_values action name commonLabels labelNames h ops =
     concat (map (\<lambda>op. case op_Value op of
         None \<Rightarrow> []
       | Some x \<Rightarrow>
           if op_Action op = action \<and> op_Name op = name \<and>
              HashLabelValues (LabelValues (MergeLabels [op_Labels op, commonLabels]) labelNames) = h
           then [x] else []) ops)"

definition recent_ops :: "MetricOperation list \<Rightarrow> MetricOperation list" where
  "recent_ops ops = foldl (\<lambda>acc op. if op_Action op = ''expire'' then [] else acc @ [op]) [] ops"

lemma mget_map_snd: "mget (map (\<lambda>(k, c). (k, f c)) m) k = map_option f (mget m k)"
  by (induction m) auto

lemma mget_vault_Expire:
  "mget (gv_collectors (vault_ExpireGroupMetrics g v)) name =
     map_option (expire_collector g) (mget (gv_collectors v) name)"
  by (simp add: vault_ExpireGroupMetrics_def mget_map_snd)

lemma get_or_create_found:
  "mget (gv_collectors v) name = Some collector \<Longrightarrow> get_or_create lib name names new v = (v, Inr collector)"
  by (simp add: get_or_create_def)

lemma get_or_create_other:
  "n \<noteq> name \<Longrightarrow> get_or_create lib n names new v = (v', res) \<Longrightarrow>
   mget (gv_collectors v') name = mget (gv_collectors v) name"
  by (auto simp: get_or_create_def split: option.splits sum.splits)

lemma vault_CounterAdd_other:
  "n \<noteq> name \<Longrightarrow>
   mget (gv_collectors (vault_CounterAdd lib conv g n x ls v)) name = mget (gv_collectors v) name"
  by (auto simp: vault_CounterAdd_def GetOrCreateCounterCollector_def
      split: prod.splits sum.splits ConstMetricCollector.splits dest: get_or_create_other)

lemma vault_GaugeSet_other:
  "n \<noteq> name \<Longrightarrow>
   mget (gv_collectors (vault_GaugeSet lib g n x ls v)) name = mget (gv_collectors v) name"
  by (auto simp: vault_GaugeSet_def GetOrCreateGaugeCollector_def
      split: prod.splits sum.splits ConstMetricCollector.splits dest: get_or_create_other)

lemma vault_CounterAdd_found:
  "mget (gv_collectors v) name = Some (CounterCollector c) \<Longrightarrow>
   mget (gv_collectors (vault_CounterAdd lib conv g name x ls v)) name =
     Some (CounterCollector (ConstCounterCollector_Add conv g x ls c))"
  "mget (gv_collectors v) name = Some (GaugeCollector d) \<Longrightarrow>
   mget (gv_collectors (vault_CounterAdd lib conv g name x ls v)) name = Some (GaugeCollector d)"
  by (simp_all add: vault_CounterAdd_def GetOrCreateCounterCollector_def get_or_create_found)

lemma vault_GaugeSet_found:
  "mget (gv_collectors v) name = Some (GaugeCollector d) \<Longrightarrow>
   mget (gv_collectors (vault_GaugeSet lib g name x ls v)) name =
     Some (GaugeCollector (ConstGaugeCollector_Set g x ls d))"
  "mget (gv_collectors v) name = Some (CounterCollector c) \<Longrightarrow>
   mget (gv_collectors (vault_GaugeSet lib g name x ls v)) name = Some (CounterCollector c)"
  by (simp_all add: vault_GaugeSet_def GetOrCreateGaugeCollector_def get_or_create_found)

lemma apply_group_operation_counter:
  "mget (gv_collectors v) name = Some (CounterCollector c) \<Longrightarrow>
   mget (gv_collectors (apply_group_operation lib g common op v)) name =
     Some (CounterCollector (fold (counter.step (pl_uint64 lib) g) (op_act ''add'' name common op) c))"
  by (cases "op_Name op = name")
    (auto simp: apply_group_operation_def Let_def op_act_def mget_vault_Expire expire_collector_def
      vault_CounterAdd_other vault_GaugeSet_other vault_CounterAdd_found vault_GaugeSet_found
      split: option.splits)

lemma apply_group_operation_gauge:
  "mget (gv_collectors v) name = Some (GaugeCollector c) \<Longrightarrow>
   mget (gv_collectors (apply_group_operation lib g common op v)) name =
     Some (GaugeCollector (fold (gauge.step g) (op_act ''set'' name common op) c))"
  by (cases "op_Name op = name")
    (auto simp: apply_group_operation_def Let_def op_act_def mget_vault_Expire expire_collector_def
      vault_CounterAdd_other vault_GaugeSet_other vault_CounterAdd_found vault_GaugeSet_found
      split: option.splits)

lemma apply_operations_counter:
  "mget (gv_collectors v) name = Some (CounterCollector c) \<Longrightarrow>
   mget (gv_collectors (fold (apply_group_operation lib g common) ops v)) name =
     Some (CounterCollector
       (fold (counter.step (pl_uint64 lib) g) (concat (map (op_act ''add'' name common) ops)) c))"
  by (induction ops arbitrary: v c) (simp_all add: apply_group_operation_counter)

lemma apply_operations_gauge:
  "mget (gv_collectors v) name = Some (GaugeCollector c) \<Longrightarrow>
   mget (gv_collectors (fold (apply_group_operation lib g common) ops v)) name =
     Some (GaugeCollector (fold (gauge.step g) (concat (map (op_act ''set'' name common) ops)) c))"
  by (induction ops arbitrary: v c) (simp_all add: apply_group_operation_gauge)

lemma act_values_ops:
  "action \<noteq> ''expire'' \<Longrightarrow>
   concat (map (act_values (\<lambda>ls. HashLabelValues (LabelValues ls names)) h)
     (concat (map (op_act action name common) ops))) = op_values action name common names h ops"
  by (induction ops) (auto simp: op_act_def op_values_def split: option.splits)

lemma after_expire_append_updates:
  "Expire \<notin> set as \<Longrightarrow> after_expire (acts @ as) = after_expire acts @ as"
proof (induction as rule: rev_induct)
  case (snoc a as)
  then obtain x ls where "a = Update x ls" by (cases a) auto
  with snoc show ?case by (simp add: append_assoc [symmetric] del: append_assoc)
qed simp

lemma after_expire_ops:
  "after_expire (concat (map (op_act action name common) ops)) =
   concat (map (op_act action name common) (recent_ops ops))"
proof (induction ops rule: rev_induct)
  case (snoc op ops)
  show ?case
  proof (cases "op_Action op = ''expire''")
    case True
    then show ?thesis by (simp add: recent_ops_def op_act_def)
  next
    case False
    then have "Expire \<notin> set (op_act action name common op)"
      by (auto simp: op_act_def split: option.splits)
    with False snoc show ?thesis by (simp add: recent_ops_def after_expire_append_updates)
  qed
qed (simp add: recent_ops_def)

lemmas group_cell_simps = act_values_ops after_expire_ops cell_spec_def accum_counter accum_counter_Some
  accum_gauge


section \<open>The vault keeps its collectors well formed\<close>

fun any_collector_ok :: "ConstMetricCollector \<Rightarrow> bool" where
  "any_collector_ok (CounterCollector c) = collector_ok c"
| "any_collector_ok (GaugeCollector c) = collector_ok c"

definition vault_ok :: "'r GroupedVault \<Rightarrow> bool" where
  "vault_ok v \<longleftrightarrow> (\<forall>name c. mget (gv_collectors v) name = Some c \<longrightarrow> any_collector_ok c)"

lemma new_collector_ok:
  "any_collector_ok (CounterCollector (NewConstCounterCollector name names))"
  "any_collector_ok (GaugeCollector (NewConstGaugeCollector name names))"
  by (simp_all add: collector_ok_def NewConstCounterCollector_def NewConstGaugeCollector_def)

lemma vault_ok_put: "vault_ok v \<Longrightarrow> any_collector_ok c \<Longrightarrow> vault_ok (v\<lparr>gv_collectors := mput name c (gv_collectors v)\<rparr>)"
  by (simp add: vault_ok_def)

lemma expire_collector_ok: "any_collector_ok c \<Longrightarrow> any_collector_ok (expire_collector g c)"
  by (cases c) (simp_all add: expire_collector_def collector_ok_expire)

lemma vault_ok_Expire: "vault_ok v \<Longrightarrow> vault_ok (vault_ExpireGroupMetrics g v)"
  by (auto simp: vault_ok_def mget_vault_Expire expire_collector_ok)

lemma get_or_create_ok:
  "vault_ok v \<Longrightarrow> any_collector_ok new \<Longrightarrow> get_or_create lib name names new v = (v', res) \<Longrightarrow>
   vault_ok v' \<and> (\<forall>c. res = Inr c \<longrightarrow> any_collector_ok c)"
  by (auto simp: get_or_create_def vault_ok_def split: option.splits sum.splits if_splits)

lemma vault_ok_CounterAdd:
  assumes "vault_ok v"
  shows "vault_ok (vault_CounterAdd lib conv g name x ls v)"
proof -
  let ?names = "LabelNames ls (mkeys ls)"
  obtain v' res where r: "get_or_create lib name ?names
      (CounterCollector (NewConstCounterCollector name ?names)) v = (v', res)" by fastforce
  note ok = get_or_create_ok [OF assms new_collector_ok(1) r]
  show ?thesis using r ok counter.upd_ok
    by (auto simp: vault_CounterAdd_def GetOrCreateCounterCollector_def
        split: sum.splits ConstMetricCollector.splits intro!: vault_ok_put)
qed

lemma vault_ok_GaugeSet:
  assumes "vault_ok v"
  shows "vault_ok (vault_GaugeSet lib g name x ls v)"
proof -
  let ?names = "LabelNames ls (mkeys ls)"
  obtain v' res where r: "get_or_create lib name ?names
      (GaugeCollector (NewConstGaugeCollector name ?names)) v = (v', res)" by fastforce
  note ok = get_or_create_ok [OF assms new_collector_ok(2) r]
  show ?thesis using r ok gauge.upd_ok
    by (auto simp: vault_GaugeSet_def GetOrCreateGaugeCollector_def
        split: sum.splits ConstMetricCollector.splits intro!: vault_ok_put)
qed

lemma vault_ok_apply: "vault_ok v \<Longrightarrow> vault_ok (apply_group_operation lib g common op v)"
  by (auto simp: apply_group_operation_def Let_def vault_ok_Expire vault_ok_CounterAdd vault_ok_GaugeSet
      split: option.splits)

lemma vault_ok_ApplyGroup:
  "vault_ok (ms_GroupedVault m) \<Longrightarrow> vault_ok (ms_GroupedVault (ApplyGroupOperations lib g ops common m))"
proof -
  have "vault_ok v \<Longrightarrow> vault_ok (fold (apply_group_operation lib g common) ops v)" for v
    by (induction ops arbitrary: v) (simp_all add: vault_ok_apply)
  then show "vault_ok (ms_GroupedVault m) \<Longrightarrow> ?thesis"
    by (simp add: ApplyGroupOperations_def vault_ok_Expire)
qed

text \<open>Metrics outside of groups do not touch the collectors.\<close>

lemma CounterAdd_collectors [simp]:
  "gv_collectors (ms_GroupedVault (CounterAdd lib metric x ls m)) = gv_collectors (ms_GroupedVault m)"
  by (auto simp: CounterAdd_def Counter_def RegisterCounter_def split: option.splits go.splits prod.splits)

lemma GaugeSet_collectors [simp]:
  "gv_collectors (ms_GroupedVault (GaugeSet lib metric x ls m)) = gv_collectors (ms_GroupedVault m)"
  by (auto simp: GaugeSet_def gauge_apply_def Gauge_def RegisterGauge_def
      split: option.splits go.splits prod.splits)

lemma SendBatchV0_collectors [simp]:
  "gv_collectors (ms_GroupedVault (fst (SendBatchV0 lib ops ls m))) = gv_collectors (ms_GroupedVault m)"
  by (induction ops arbitrary: m) (simp_all add: Let_def split: option.splits)

lemma vault_ok_SendBatch:
  assumes "vault_ok (ms_GroupedVault m)"
  shows "vault_ok (ms_GroupedVault (fst (SendBatch lib order ops ls m)))"
proof -
  have "vault_ok (ms_GroupedVault (fold (\<lambda>grp m. case mget gs grp of
      None \<Rightarrow> m | Some ops \<Rightarrow> ApplyGroupOperations lib grp ops ls m) ks m))" for gs ks
    using assms by (induction ks arbitrary: m) (simp_all add: vault_ok_ApplyGroup split: option.splits)
  then show ?thesis using assms by (simp add: SendBatch_def Let_def vault_ok_def)
qed

section \<open>Properties\<close>



definition demo_prom :: "(unit, rat) prom_lib" where
  "demo_prom = \<lparr>pr_Register = \<lambda>_ _ r. Inr r, pl_NewVec = \<lambda>_ _ _ _. Ret 0,
     pl_With = \<lambda>act x _ v. Ret (case act of VSet \<Rightarrow> x | _ \<Rightarrow> v + x), pl_uint64 = \<lambda>_. 0\<rparr>"

abbreviation demo_op :: "string \<Rightarrow> rat \<Rightarrow> MetricOperation" where
  "demo_op action x \<equiv> \<lparr>op_Name = ''m'', op_Add = None, op_Set = None, op_Value = Some x, op_Labels = [],
     op_Group = ''g'', op_Action = action\<rparr>"

definition demo_storage :: "ConstMetricCollector \<Rightarrow> (unit, rat) MetricStorage" where
  "demo_storage c = (NewMetricStorage ())\<lparr>ms_GroupedVault := \<lparr>gv_collectors = [(''m'', c)], gv_Registerer = ()\<rparr>\<rparr>"

text \<open>The entries of a metric without labels are stored under the hash of no label value.\<close>

abbreviation demo_cell :: "string \<Rightarrow> 'v \<Rightarrow> 'v const_collector" where
  "demo_cell g v \<equiv> \<lparr>cc_name = ''m'', cc_labelNames = [],
     cc_collection = [(fnv64a_offset, \<lparr>gm_Value = v, gm_LabelValues = [], gm_Group = g\<rparr>)]\<rparr>"

lemmas demo_simps = demo_storage_def demo_prom_def NewMetricStorage_def cell_view_def op_values_def
  recent_ops_def HashLabelValues_def LabelValues_def to_uint64_def wf_map_def


text \<open>
  A batch for a group replaces the gauges of the group: an entry that no other group owns ends
  with the last value that the operations after the last \<open>expire\<close> set, and is gone when they set
  none. An entry of another group with the same label values is overwritten.
\<close>

theorem ApplyGroupOperations_gauge:
  assumes "mget (gv_collectors (ms_GroupedVault m)) name = Some (GaugeCollector c)"
    and "wf_map (cc_collection c)"
  shows "\<exists>c'. mget (gv_collectors (ms_GroupedVault (ApplyGroupOperations lib g ops common m))) name =
      Some (GaugeCollector c') \<and>
    cc_labelNames c' = cc_labelNames c \<and>
    (\<forall>h. cell_view h c' =
      (let sets = op_values ''set'' name common (cc_labelNames c) h;
           mine = (if sets (recent_ops ops) = [] then None else Some (last (sets (recent_ops ops)), g))
       in case cell_view h c of
            Some (v, g') \<Rightarrow>
              if g' \<noteq> g then Some (if sets ops = [] then v else last (sets ops), g') else mine
          | None \<Rightarrow> mine))"
proof -
  let ?c = "fold (gauge.step g) (concat (map (op_act ''set'' name common) ops))
    (collector_ExpireGroupMetrics g c)"
  have "mget (gv_collectors (ms_GroupedVault (ApplyGroupOperations lib g ops common m))) name =
      Some (GaugeCollector ?c)"
    using assms(1) by (simp add: ApplyGroupOperations_def mget_vault_Expire expire_collector_def
        apply_operations_gauge)
  moreover have "cc_labelNames ?c = cc_labelNames c"
    using gauge.run_frame [of "collector_ExpireGroupMetrics g c"] assms(2) by simp
  ultimately show ?thesis
    by (auto simp: gauge.run_cell [OF assms(2)] group_cell_simps Let_def split: option.splits)
qed

theorem ApplyGroupOperations_gauge_witness:
  "\<exists>c'. mget (gv_collectors (ms_GroupedVault (ApplyGroupOperations demo_prom ''g''
       [demo_op ''set'' 2, demo_op ''expire'' 0] [] (demo_storage (GaugeCollector (demo_cell ''g'' 7)))))) ''m'' =
       Some (GaugeCollector c') \<and> cell_view fnv64a_offset c' = None"
  using ApplyGroupOperations_gauge [of "demo_storage (GaugeCollector (demo_cell ''g'' 7))" "''m''"
      "demo_cell ''g'' 7" demo_prom "''g''" "[demo_op ''set'' 2, demo_op ''expire'' 0]" "[]"]
  by (fastforce simp: demo_simps)




lemma SendBatchV0_errors:
  "snd (SendBatchV0 lib ops ls m) = [] \<longleftrightarrow> (\<forall>op\<in>set ops. op_Add op = None \<longrightarrow> op_Set op \<noteq> None)"
  by (induction ops arbitrary: m) (auto simp: Let_def split: option.splits)

text \<open>
  C30. \<open>SendBatch\<close> succeeds exactly when every operation passes the validation and every operation
  without a group uses one of the shortcut fields \<open>add\<close> and \<open>set\<close>; a batch that fails the validation
  changes nothing.
\<close>

theorem SendBatch_error:
  "(snd (SendBatch lib order ops ls m) = [] \<longleftrightarrow>
      ValidateOperations ops = [] \<and>
      (\<forall>op\<in>set ops. op_Group op = [] \<longrightarrow> op_Add op = None \<longrightarrow> op_Set op \<noteq> None)) \<and>
   (ValidateOperations ops \<noteq> [] \<longrightarrow> fst (SendBatch lib order ops ls m) = m)"
  by (auto simp: SendBatch_def Let_def SendBatchV0_errors)

theorem SendBatch_error_witness:
  "ValidateOperations [(demo_op ''add'' 1)\<lparr>op_Group := []\<rparr>] = [] \<and>
   snd (SendBatch demo_prom mkeys [(demo_op ''add'' 1)\<lparr>op_Group := []\<rparr>] [] (NewMetricStorage ())) \<noteq> [] \<and>
   fst (SendBatch demo_prom mkeys [demo_op ''drop'' 1] [] (NewMetricStorage ())) = NewMetricStorage ()"
  using SendBatch_error [of demo_prom mkeys "[(demo_op ''add'' 1)\<lparr>op_Group := []\<rparr>]" "[]" "NewMetricStorage ()"]
    SendBatch_error [of demo_prom mkeys "[demo_op ''drop'' 1]" "[]" "NewMetricStorage ()"]
  by (auto simp: ValidateOperations_def ValidateMetricOperation_def)

text \<open>
  The fields \<open>add\<close> and \<open>set\<close> are shortcuts: after decoding, an operation that uses one of them is
  applied to a group exactly as the operation written with \<open>action\<close> and \<open>value\<close>, and the validation
  accepts one exactly when it accepts the other. Without a group the two forms differ: the long
  form, which is the documented one, is accepted by the validation and then refused by the batch.
\<close>

theorem shortcut_is_long_form:
  assumes "op_Add op = None" "op_Set op = None" "op_Value op = Some x" "op_Action op \<in> {''add'', ''set''}"
  shows "let short = shortcut_transforms (if op_Action op = ''add''
             then op\<lparr>op_Add := Some x, op_Value := None, op_Action := []\<rparr>
             else op\<lparr>op_Set := Some x, op_Value := None, op_Action := []\<rparr>)
    in apply_group_operation lib g ls short v = apply_group_operation lib g ls op v \<and>
       (ValidateMetricOperation short = [] \<longleftrightarrow> ValidateMetricOperation op = []) \<and>
       (op_Group op = [] \<and> op_Name op \<noteq> [] \<longrightarrow>
          ValidateMetricOperation op = [] \<and> SendBatchV0 lib [op] ls m = (m, [ENoOperation op]) \<and>
          snd (SendBatchV0 lib [short] ls m) = [])"
  using assms
  by (auto simp: shortcut_transforms_def apply_group_operation_def ValidateMetricOperation_def Let_def)

theorem shortcut_is_long_form_witness:
  "shortcut_transforms ((demo_op [] 0)\<lparr>op_Group := [], op_Add := Some 1, op_Value := None\<rparr>) =
     (demo_op ''add'' 1)\<lparr>op_Group := [], op_Add := Some 1\<rparr> \<and>
   SendBatchV0 demo_prom [(demo_op ''add'' 1)\<lparr>op_Group := []\<rparr>] [] (NewMetricStorage ()) =
     (NewMetricStorage (), [ENoOperation ((demo_op ''add'' 1)\<lparr>op_Group := []\<rparr>)])"
  using shortcut_is_long_form [of "(demo_op ''add'' 1)\<lparr>op_Group := []\<rparr>" 1 demo_prom "''g''" "[]"
      "ms_GroupedVault (NewMetricStorage ())" "NewMetricStorage ()"]
  by (simp add: shortcut_transforms_def Let_def)

end
