(* ===== verification/Operator_Metrics.thy ===== *)
theory Operator_Metrics
  imports Metric_Storage
begin

text \<open>
  \<open>pkg/shell-operator/metrics.go\<close>: the metrics that the operator registers at its start, in the
  order of the calls. A label map of the code names the labels with empty values.
\<close>

abbreviation hook_labels :: labels where
  "hook_labels \<equiv> [(''hook'', []), (''binding'', []), (''queue'', [])]"

definition RegisterCommonMetrics ::
    "('r, 'v) prom_lib \<Rightarrow> ('r, 'v) MetricStorage \<Rightarrow> ('r, 'v) MetricStorage" where
  "RegisterCommonMetrics lib m = fst (RegisterCounter lib ''{PREFIX}live_ticks'' [] m)"

definition RegisterTaskQueueMetrics ::
    "('r, 'v) prom_lib \<Rightarrow> ('r, 'v) MetricStorage \<Rightarrow> ('r, 'v) MetricStorage" where
  "RegisterTaskQueueMetrics lib m =
     (let m = fst (RegisterHistogramWithBuckets lib ''{PREFIX}tasks_queue_action_duration_seconds''
                [(''queue_name'', []), (''queue_action'', [])]
                [0, 1/1000000, 2/1000000, 5/1000000, 1/100000, 2/100000, 5/100000,
                 1/10000, 2/10000, 5/10000, 1/1000, 2/1000, 5/1000] m)
      in fst (RegisterGauge lib ''{PREFIX}tasks_queue_length'' [(''queue'', [])] m))"

abbreviation seconds_buckets :: "rat list" where
  "seconds_buckets \<equiv> [0, 1/1000, 2/1000, 5/1000, 1/100, 2/100, 5/100, 1/10, 2/10, 5/10, 1, 2, 5, 10]"

definition RegisterKubeEventsManagerMetrics ::
    "('r, 'v) prom_lib \<Rightarrow> labels \<Rightarrow> ('r, 'v) MetricStorage \<Rightarrow> ('r, 'v) MetricStorage" where
  "RegisterKubeEventsManagerMetrics lib labels m =
     (let m = fst (RegisterGauge lib ''{PREFIX}kube_snapshot_objects'' labels m);
          m = fst (RegisterGauge lib ''{PREFIX}kube_snapshot_bytes'' labels m);
          m = fst (RegisterHistogramWithBuckets lib ''{PREFIX}kube_jq_filter_duration_seconds'' labels
                seconds_buckets m)
      in fst (RegisterHistogramWithBuckets lib ''{PREFIX}kube_event_duration_seconds'' labels
                seconds_buckets m))"

definition RegisterHookMetrics ::
    "('r, 'v) prom_lib \<Rightarrow> ('r, 'v) MetricStorage \<Rightarrow> ('r, 'v) MetricStorage" where
  "RegisterHookMetrics lib m =
     (let m = fst (RegisterGauge lib ''{PREFIX}hook_enable_kubernetes_bindings_seconds'' [(''hook'', [])] m);
          m = fst (RegisterCounter lib ''{PREFIX}hook_enable_kubernetes_bindings_errors_total'' [(''hook'', [])] m);
          m = fst (RegisterGauge lib ''{PREFIX}hook_enable_kubernetes_bindings_success'' [(''hook'', [])] m);
          labels = hook_labels;
          m = fst (RegisterHistogramWithBuckets lib ''{PREFIX}hook_run_seconds'' labels seconds_buckets m);
          m = fst (RegisterHistogramWithBuckets lib ''{PREFIX}hook_run_user_cpu_seconds'' labels seconds_buckets m);
          m = fst (RegisterHistogramWithBuckets lib ''{PREFIX}hook_run_sys_cpu_seconds'' labels seconds_buckets m);
          m = fst (RegisterGauge lib ''{PREFIX}hook_run_max_rss_bytes'' labels m);
          m = fst (RegisterCounter lib ''{PREFIX}hook_run_errors_total'' labels m);
          m = fst (RegisterCounter lib ''{PREFIX}hook_run_allowed_errors_total'' labels m);
          m = fst (RegisterCounter lib ''{PREFIX}hook_run_success_total'' labels m)
      in fst (RegisterCounter lib ''{PREFIX}task_wait_in_queue_seconds_total'' labels m))"

definition RegisterShellOperatorMetrics ::
    "('r, 'v) prom_lib \<Rightarrow> ('r, 'v) MetricStorage \<Rightarrow> ('r, 'v) MetricStorage" where
  "RegisterShellOperatorMetrics lib m =
     (let m = RegisterCommonMetrics lib m;
          m = RegisterTaskQueueMetrics lib m;
          m = RegisterKubeEventsManagerMetrics lib hook_labels m
      in RegisterHookMetrics lib m)"

section \<open>What is registered\<close>

definition kind_map :: "vec_kind \<Rightarrow> ('r, 'v) MetricStorage \<Rightarrow> (string, 'v) gomap" where
  "kind_map kind m = (case kind of
     CounterVec \<Rightarrow> ms_Counters m | GaugeVec \<Rightarrow> ms_Gauges m | HistogramVec \<Rightarrow> ms_Histograms m)"

text \<open>\<open>registered kind m\<close>: the metrics of that kind with a vector.\<close>

definition registered :: "vec_kind \<Rightarrow> ('r, 'v) MetricStorage \<Rightarrow> string set" where
  "registered kind m = set (mkeys (kind_map kind m))"

text \<open>A client library that refuses nothing, as it is for distinct valid metric names.\<close>

definition accepts_all :: "('r, 'v) prom_lib \<Rightarrow> bool" where
  "accepts_all lib \<longleftrightarrow>
     (\<forall>name names r. \<exists>r'. pr_Register lib name names r = Inr r') \<and>
     (\<forall>kind name names buckets. returns (pl_NewVec lib kind name names buckets))"

lemma create_vec_accepted:
  assumes "accepts_all lib"
  obtains vec r' where "create_vec lib kind name ls buckets r = Ret (vec, r')"
proof -
  obtain vec where v: "pl_NewVec lib kind name (LabelNames ls (mkeys ls)) buckets = Ret vec"
    using assms unfolding accepts_all_def returns_iff by blast
  obtain r' where "pr_Register lib name (LabelNames ls (mkeys ls)) r = Inr r'"
    using assms unfolding accepts_all_def by blast
  with v have "create_vec lib kind name ls buckets r = Ret (vec, r')"
    by (simp add: create_vec_def Let_def)
  then show thesis by (rule that)
qed

lemma registered_simps:
  assumes "accepts_all lib"
  shows "registered kind (fst (RegisterCounter lib n ls m)) =
      (if kind = CounterVec then insert n (registered kind m) else registered kind m)"
    and "registered kind (fst (RegisterGauge lib n ls m)) =
      (if kind = GaugeVec then insert n (registered kind m) else registered kind m)"
    and "registered kind (fst (RegisterHistogramWithBuckets lib n ls bs m)) =
      (if kind = HistogramVec then insert n (registered kind m) else registered kind m)"
proof -
  obtain v1 r1 where 1: "create_vec lib CounterVec (ResolveMetricName m n) ls [] (ms_Registerer m) = Ret (v1, r1)"
    using create_vec_accepted [OF assms] by blast
  obtain v2 r2 where 2: "create_vec lib GaugeVec (ResolveMetricName m n) ls [] (ms_Registerer m) = Ret (v2, r2)"
    using create_vec_accepted [OF assms] by blast
  let ?m = "HistogramDefineBuckets n bs m"
  obtain v3 r3 where 3: "create_vec lib HistogramVec (ResolveMetricName ?m n) ls bs (ms_Registerer ?m) = Ret (v3, r3)"
    using create_vec_accepted [OF assms] by blast
  note defs = registered_def kind_map_def RegisterCounter_def RegisterGauge_def
    RegisterHistogramWithBuckets_def RegisterHistogram_def
  note key = mget_Some_key [of _ n]
  show "registered kind (fst (RegisterCounter lib n ls m)) =
      (if kind = CounterVec then insert n (registered kind m) else registered kind m)"
    using 1 key [of "ms_Counters m"] by (cases kind) (auto simp: defs split: option.splits)
  show "registered kind (fst (RegisterGauge lib n ls m)) =
      (if kind = GaugeVec then insert n (registered kind m) else registered kind m)"
    using 2 key [of "ms_Gauges m"] by (cases kind) (auto simp: defs split: option.splits)
  have "mget (ms_HistogramBuckets ?m) n = Some bs" "ms_Histograms ?m = ms_Histograms m"
    "ms_Counters ?m = ms_Counters m" "ms_Gauges ?m = ms_Gauges m"
    by (simp_all add: HistogramDefineBuckets_def)
  then show "registered kind (fst (RegisterHistogramWithBuckets lib n ls bs m)) =
      (if kind = HistogramVec then insert n (registered kind m) else registered kind m)"
    using 3 key [of "ms_Histograms m"] by (cases kind) (auto simp: defs Let_def split: option.splits)
qed

lemma registered_new [simp]: "registered kind (NewMetricStorage r) = {}"
  by (cases kind) (simp_all add: registered_def kind_map_def NewMetricStorage_def)

text \<open>
  With a client library that accepts them, the operator registers exactly its documented
  metrics, each under one kind. The histograms \<open>hook_run_sys_seconds\<close> and \<open>hook_run_user_seconds\<close>
  that the hook task observes are not among them: they are created on first use with the default
  buckets, while the documented \<open>hook_run_sys_cpu_seconds\<close> and \<open>hook_run_user_cpu_seconds\<close> stay empty.
\<close>

theorem RegisterShellOperatorMetrics_registers:
  assumes "accepts_all lib"
  shows "registered CounterVec (RegisterShellOperatorMetrics lib (NewMetricStorage r)) =
      {''{PREFIX}live_ticks'', ''{PREFIX}hook_enable_kubernetes_bindings_errors_total'',
       ''{PREFIX}hook_run_errors_total'', ''{PREFIX}hook_run_allowed_errors_total'',
       ''{PREFIX}hook_run_success_total'', ''{PREFIX}task_wait_in_queue_seconds_total''} \<and>
    registered GaugeVec (RegisterShellOperatorMetrics lib (NewMetricStorage r)) =
      {''{PREFIX}tasks_queue_length'', ''{PREFIX}kube_snapshot_objects'', ''{PREFIX}kube_snapshot_bytes'',
       ''{PREFIX}hook_enable_kubernetes_bindings_seconds'', ''{PREFIX}hook_enable_kubernetes_bindings_success'',
       ''{PREFIX}hook_run_max_rss_bytes''} \<and>
    registered HistogramVec (RegisterShellOperatorMetrics lib (NewMetricStorage r)) =
      {''{PREFIX}tasks_queue_action_duration_seconds'', ''{PREFIX}kube_jq_filter_duration_seconds'',
       ''{PREFIX}kube_event_duration_seconds'', ''{PREFIX}hook_run_seconds'',
       ''{PREFIX}hook_run_user_cpu_seconds'', ''{PREFIX}hook_run_sys_cpu_seconds''}"
  by (simp add: RegisterShellOperatorMetrics_def RegisterCommonMetrics_def RegisterTaskQueueMetrics_def
      RegisterKubeEventsManagerMetrics_def RegisterHookMetrics_def Let_def
      registered_simps [OF assms] insert_commute)

theorem RegisterShellOperatorMetrics_registers_witness:
  "''{PREFIX}hook_run_sys_seconds'' \<notin> registered HistogramVec (RegisterShellOperatorMetrics demo_prom (NewMetricStorage ())) \<and>
   ''{PREFIX}hook_run_sys_cpu_seconds'' \<in> registered HistogramVec (RegisterShellOperatorMetrics demo_prom (NewMetricStorage ()))"
  using RegisterShellOperatorMetrics_registers [of demo_prom "()"]
  by (simp add: accepts_all_def demo_prom_def)

end
