(* ===== verification/Operator.thy ===== *)
theory Operator
  imports Task_Queue_Loop Queue_Set Hook_Manager Operator_Metrics
begin

text \<open>
  \<open>pkg/shell-operator/operator.go\<close> and \<open>manager_events_handler.go\<close>: the operator, which turns
  events into tasks, puts them into queues and handles them. Its state is the heap of tasks, the
  queues, the hook manager with the controllers, the managers, the metric storages and the files.
  \<open>so_next\<close> is the supply of references and UUIDs. The hook metrics go to the operator's own
  storage unless a separate one is set (\<open>so_HookMetricStorage\<close>). \<open>op_env\<close> has the libraries, the map
  orders, the time of the call and the measured durations.
\<close>

section \<open>State\<close>

record ('c, 'r, 'v) operator =
  so_heap :: task_heap
  so_queues :: "task_ref TaskQueueSet"
  so_hm :: hookManager
  so_managers :: "'c managers"
  so_MetricStorage :: "('r, 'v) MetricStorage"
  so_HookMetricStorage :: "('r, 'v) MetricStorage option"
  so_files :: files
  so_next :: nat

record ('c, 'r, 'v) op_env =
  oe_libs :: "'c libs"
  oe_hook :: hook_env
  oe_prom :: "('r, 'v) prom_lib"
  oe_newid :: "nat \<Rightarrow> string"
  oe_groups :: "(string, MetricOperation list) gomap \<Rightarrow> string list"
  oe_links :: "Hook \<Rightarrow> string list"
  oe_monitors :: "Hook \<Rightarrow> string list"
  oe_metric_error :: "metric_error list \<Rightarrow> string"
  oe_now :: int
  oe_wait :: rat
  oe_duration :: rat

section \<open>Creating tasks\<close>

text \<open>\<open>task.NewTask(HookRun).WithMetadata(..).WithLogLabels(..).WithQueueName(..)\<close> for an info.\<close>

definition hook_run_task ::
    "BindingType \<Rightarrow> labels \<Rightarrow> string \<Rightarrow> string \<Rightarrow> BindingExecutionInfo \<Rightarrow> string \<Rightarrow> BaseTask" where
  "hook_run_task bindingType logLabels queueName hookName info taskId =
     WithQueueName queueName (WithLogLabels logLabels (WithMetadata
       (MetaHook \<lparr>hm_HookName = hookName, hm_Binding = bei_Binding info, hm_Group = bei_Group info,
                  hm_BindingType = bindingType, hm_BindingContext = bei_BindingContext info,
                  hm_AllowFailure = bei_AllowFailure info\<rparr>) (NewTask taskId HookRun)))"

definition alloc_task ::
    "('c, 'r, 'v) op_env \<Rightarrow> (string \<Rightarrow> BaseTask) \<Rightarrow> ('c, 'r, 'v) operator \<Rightarrow> task_ref \<times> ('c, 'r, 'v) operator" where
  "alloc_task env mk op =
     (so_next op, op\<lparr>so_heap := (so_heap op)(so_next op := mk (oe_newid env (so_next op))),
                     so_next := Suc (so_next op)\<rparr>)"

fun alloc_tasks ::
    "('c, 'r, 'v) op_env \<Rightarrow> (string \<Rightarrow> BaseTask) list \<Rightarrow> ('c, 'r, 'v) operator \<Rightarrow>
     task_ref list \<times> ('c, 'r, 'v) operator" where
  "alloc_tasks env [] op = ([], op)"
| "alloc_tasks env (mk # mks) op =
     (let (r, op) = alloc_task env mk op; (rs, op) = alloc_tasks env mks op in (r # rs, op))"

definition new_uuid :: "('c, 'r, 'v) op_env \<Rightarrow> ('c, 'r, 'v) operator \<Rightarrow> string \<times> ('c, 'r, 'v) operator" where
  "new_uuid env op = (oe_newid env (so_next op), op\<lparr>so_next := Suc (so_next op)\<rparr>)"

text \<open>
  The event handlers of \<open>InitHookManager\<close>. The argument of the debug message is evaluated whatever
  the log level is.
\<close>

definition kube_event_tasks ::
    "('c, 'r, 'v) op_env \<Rightarrow> KubeEvent \<Rightarrow> ('c, 'r, 'v) operator \<Rightarrow> (task_ref list \<times> ('c, 'r, 'v) operator) go" where
  "kube_event_tasks env kubeEvent op =
     (let (eventId, op) = new_uuid env op;
          logLabels = [(''event.id'', eventId), (''binding'', OnKubernetesEvent)]
      in go_bind (KubeEvent_String kubeEvent) (\<lambda>_.
         go_bind (hm_HandleKubeEvent (oe_hook env) (lib_ord (oe_libs env)) (w_kem (so_managers op)) kubeEvent (so_hm op))
           (\<lambda>infos. Ret (alloc_tasks env
              (map (\<lambda>(hookName, info). hook_run_task OnKubernetesEvent logLabels (bei_QueueName info) hookName info)
                infos) op))))"

definition schedule_event_tasks ::
    "('c, 'r, 'v) op_env \<Rightarrow> string \<Rightarrow> ('c, 'r, 'v) operator \<Rightarrow> (task_ref list \<times> ('c, 'r, 'v) operator) go" where
  "schedule_event_tasks env crontab op =
     (let (eventId, op) = new_uuid env op;
          logLabels = [(''event.id'', eventId), (''binding'', Schedule)]
      in go_bind (hm_HandleScheduleEvent (oe_hook env) (lib_ord (oe_libs env)) (oe_links env)
                   (w_kem (so_managers op)) crontab (so_hm op))
           (\<lambda>infos. Ret (alloc_tasks env
              (map (\<lambda>(hookName, info). hook_run_task Schedule logLabels (bei_QueueName info) hookName info)
                infos) op)))"

text \<open>One iteration of the loop of \<open>ManagerEventsHandler.Start\<close> on what the channels deliver.\<close>

datatype manager_event = CronEvent string | KubeEventArrived KubeEvent

definition handle_manager_event ::
    "('c, 'r, 'v) op_env \<Rightarrow> manager_event \<Rightarrow> ('c, 'r, 'v) operator \<Rightarrow> ('c, 'r, 'v) operator go" where
  "handle_manager_event env ev op =
     go_bind (case ev of CronEvent crontab \<Rightarrow> schedule_event_tasks env crontab op
                       | KubeEventArrived kubeEvent \<Rightarrow> kube_event_tasks env kubeEvent op)
       (\<lambda>(tailTasks, op).
          let (h, tqs) = enqueue_tasks (oe_now env) tailTasks (so_heap op, so_queues op)
          in Ret (op\<lparr>so_heap := h, so_queues := tqs\<rparr>))"

section \<open>Combining binding contexts\<close>

text \<open>The callback of \<open>Iterate\<close>: it collects tasks until \<open>stopIterate\<close> is set.\<close>

fun combine_scan ::
    "task_heap \<Rightarrow> task_ref \<Rightarrow> string \<Rightarrow> (task_ref \<Rightarrow> bool) option \<Rightarrow> task_ref option list \<Rightarrow> task_ref list go" where
  "combine_scan h t hookName stopFn [] = Ret []"
| "combine_scan h t hookName stopFn (None # items) = Panic"
| "combine_scan h t hookName stopFn (Some tsk # items) =
     (if ref_id h tsk = ref_id h t then combine_scan h t hookName stopFn items
      else case t_Metadata (h tsk) of
          MetaNil \<Rightarrow> Ret []
        | MetaOther \<Rightarrow> Panic
        | MetaHook hm \<Rightarrow>
            if hm_HookName hm = hookName \<and> t_Type (h t) = t_Type (h tsk) then
              (if (case stopFn of None \<Rightarrow> False | Some f \<Rightarrow> f tsk) then Ret []
               else go_bind (combine_scan h t hookName stopFn items) (\<lambda>others. Ret (tsk # others)))
            else Ret [])"

definition task_contexts :: "BaseTask \<Rightarrow> BindingContext list" where
  "task_contexts t = hm_BindingContext (HookMetadataAccessor t)"

text \<open>\<open>compactedContext\<close>: a context is skipped when the next one has the same group.\<close>

fun compact_contexts :: "BindingContext list \<Rightarrow> BindingContext list" where
  "compact_contexts [] = []"
| "compact_contexts [bc] = [bc]"
| "compact_contexts (bc # bc' # bcs) =
     (if bc_Group bc \<noteq> [] \<and> bc_Group bc' = bc_Group bc then compact_contexts (bc' # bcs)
      else bc # compact_contexts (bc' # bcs))"

definition keep_task :: "task_heap \<Rightarrow> (string, bool) gomap \<Rightarrow> task_ref option \<Rightarrow> bool go" where
  "keep_task h tasksFilter item =
     (case item of
        None \<Rightarrow> Panic
      | Some tsk \<Rightarrow> Ret (case mget tasksFilter (ref_id h tsk) of Some v \<Rightarrow> v | None \<Rightarrow> True))"

text \<open>
  \<open>CombineBindingContextForHook\<close>. The queue that is filtered is looked up again by the name of the
  task's queue. The result is nil (\<open>None\<close>) when there is nothing to combine.
\<close>

definition CombineBindingContextForHook ::
    "task_ref TaskQueue option \<Rightarrow> task_ref \<Rightarrow> (task_ref \<Rightarrow> bool) option \<Rightarrow> task_heap \<Rightarrow> task_ref TaskQueueSet \<Rightarrow>
     (BindingContext list option \<times> task_ref TaskQueueSet) go" where
  "CombineBindingContextForHook q t stopCombineFn h tqs =
     (case q of
        None \<Rightarrow> Ret (None, tqs)
      | Some q \<Rightarrow>
          (case t_Metadata (h t) of
             MetaNil \<Rightarrow> Ret (None, tqs)
           | MetaOther \<Rightarrow> Panic
           | MetaHook taskMeta \<Rightarrow>
               go_bind (combine_scan h t (hm_HookName taskMeta) stopCombineFn (q_Items q)) (\<lambda>otherTasks.
                 if length otherTasks = 0 then Ret (None, tqs)
                 else
                   let combinedContext = hm_BindingContext taskMeta @ concat (map (\<lambda>tsk. task_contexts (h tsk)) otherTasks);
                       tasksFilter = foldl (\<lambda>m tsk. mput (ref_id h tsk) False m) (mput (ref_id h t) True []) otherTasks
                   in case GetByName (t_QueueName (h t)) tqs of
                        None \<Rightarrow> Panic
                      | Some q' \<Rightarrow>
                          go_bind (TaskQueue_Filter (keep_task h tasksFilter) q') (\<lambda>q'.
                            Ret (Some (compact_contexts combinedContext),
                                 tqs\<lparr>tqs_Queues := mput (t_QueueName (h t)) q' (tqs_Queues tqs)\<rparr>)))))"

section \<open>Handling tasks\<close>

definition empty_result :: TaskResult where
  "empty_result = \<lparr>tr_Status = [], tr_HeadTasks = [], tr_TailTasks = [], tr_AfterTasks = [],
     tr_DelayBeforeNextTask = 0\<rparr>"

abbreviation with_metrics ::
    "(('r, 'v) MetricStorage \<Rightarrow> ('r, 'v) MetricStorage) \<Rightarrow> ('c, 'r, 'v) operator \<Rightarrow> ('c, 'r, 'v) operator" where
  "with_metrics f op \<equiv> op\<lparr>so_MetricStorage := f (so_MetricStorage op)\<rparr>"

abbreviation with_task :: "(BaseTask \<Rightarrow> BaseTask) \<Rightarrow> task_ref \<Rightarrow> ('c, 'r, 'v) operator \<Rightarrow> ('c, 'r, 'v) operator" where
  "with_task f t op \<equiv> op\<lparr>so_heap := heap_apply f t (so_heap op)\<rparr>"

abbreviation with_hook :: "string \<Rightarrow> Hook \<Rightarrow> ('c, 'r, 'v) operator \<Rightarrow> ('c, 'r, 'v) operator" where
  "with_hook name hook op \<equiv>
     op\<lparr>so_hm := (so_hm op)\<lparr>hm_hooksByName := mput name hook (hm_hooksByName (so_hm op))\<rparr>\<rparr>"

text \<open>The outcome of enabling: the status, the counts of successes and errors, and the new state.\<close>

definition enable_outcome ::
    "('c, 'r, 'v) op_env \<Rightarrow> task_ref \<Rightarrow> labels \<Rightarrow> Hook \<Rightarrow> string + BindingExecutionInfo list \<Rightarrow>
     ('c, 'r, 'v) operator \<Rightarrow> (TaskResult \<times> rat \<times> rat \<times> ('c, 'r, 'v) operator) go" where
  "enable_outcome env t hookLogLabels taskHook res op =
     (case res of
        Inl err \<Rightarrow>
          Ret (empty_result\<lparr>tr_Status := ''Fail''\<rparr>, 0, 1, with_task (UpdateFailureMessage err) t op)
      | Inr infos \<Rightarrow>
          (let (hookRunTasks, op) = alloc_tasks env
                 (map (hook_run_task OnKubernetesEvent hookLogLabels ''main'' (h_Name taskHook)) infos) op
           in go_bind (hc_StartMonitors (oe_libs env) (oe_monitors env taskHook) (h_HookController taskHook) (so_managers op))
                (\<lambda>w.
                   let op = op\<lparr>so_managers := w,
                               so_heap := fold (heap_apply (WithQueuedAt (oe_now env))) hookRunTasks (so_heap op)\<rparr>
                   in Ret (empty_result\<lparr>tr_Status := ''Success'', tr_HeadTasks := hookRunTasks\<rparr>, 1, 0, op))))"

definition TaskHandleEnableKubernetesBindings ::
    "('c, 'r, 'v) op_env \<Rightarrow> task_ref \<Rightarrow> ('c, 'r, 'v) operator \<Rightarrow> (TaskResult \<times> ('c, 'r, 'v) operator) go" where
  "TaskHandleEnableKubernetesBindings env t op =
     (let hookMeta = HookMetadataAccessor (so_heap op t);
          metricLabels = [(''hook'', hm_HookName hookMeta)];
          hookLogLabels = [(''hook'', hm_HookName hookMeta), (''binding'', []),
                           (''task'', ''EnableKubernetesBindings''), (''queue'', ''main'')]
      in case GetHook (hm_HookName hookMeta) (so_hm op) of
           None \<Rightarrow> Panic
         | Some taskHook \<Rightarrow>
             (case HandleEnableKubernetesBindings (oe_libs env) (h_HookController taskHook) (so_managers op) of
                (hc, w, res) \<Rightarrow>
                  (let taskHook = taskHook\<lparr>h_HookController := hc\<rparr>;
                       op = (with_hook (hm_HookName hookMeta) taskHook op)\<lparr>so_managers := w\<rparr>
                   in go_bind (enable_outcome env t hookLogLabels taskHook res op)
                     (\<lambda>(res, success, errors, op).
                        let op = with_metrics (CounterAdd (oe_prom env)
                                   ''{PREFIX}hook_enable_kubernetes_bindings_errors_total'' errors metricLabels) op;
                            op = with_metrics (GaugeAdd (oe_prom env)
                                   ''{PREFIX}hook_enable_kubernetes_bindings_success'' success metricLabels) op;
                            op = with_metrics (GaugeSet (oe_prom env)
                                   ''{PREFIX}hook_enable_kubernetes_bindings_seconds'' (oe_duration env) metricLabels) op
                        in Ret (res, op)))))"

text \<open>The two storages for the metrics of hooks, and the metrics of the usage of a command.\<close>

definition send_hook_metrics ::
    "('c, 'r, 'v) op_env \<Rightarrow> MetricOperation list \<Rightarrow> labels \<Rightarrow> ('c, 'r, 'v) operator \<Rightarrow>
     ('c, 'r, 'v) operator \<times> string option" where
  "send_hook_metrics env metrics labels op =
     (let storage = (case so_HookMetricStorage op of None \<Rightarrow> so_MetricStorage op | Some s \<Rightarrow> s);
          (storage, errs) = SendBatch (oe_prom env) (oe_groups env) metrics labels storage;
          op = (case so_HookMetricStorage op of
                  None \<Rightarrow> op\<lparr>so_MetricStorage := storage\<rparr>
                | Some _ \<Rightarrow> op\<lparr>so_HookMetricStorage := Some storage\<rparr>)
      in (op, if errs = [] then None else Some (oe_metric_error env errs)))"

definition usage_metrics ::
    "('c, 'r, 'v) op_env \<Rightarrow> CmdUsage option \<Rightarrow> labels \<Rightarrow> ('c, 'r, 'v) operator \<Rightarrow> ('c, 'r, 'v) operator" where
  "usage_metrics env usage metricLabels op =
     (case usage of
        None \<Rightarrow> op
      | Some u \<Rightarrow>
          (let op = with_metrics (HistogramObserve (oe_prom env) ''{PREFIX}hook_run_sys_seconds'' (cu_Sys u) metricLabels) op;
               op = with_metrics (HistogramObserve (oe_prom env) ''{PREFIX}hook_run_user_seconds'' (cu_User u) metricLabels) op
           in with_metrics (GaugeSet (oe_prom env) ''{PREFIX}hook_run_max_rss_bytes'' (of_int (cu_MaxRss u) * 1024) metricLabels) op))"

text \<open>The first half of \<open>TaskHandleHookRun\<close>: binding contexts of a v1 hook are combined.\<close>

definition combine_for_run ::
    "Hook \<Rightarrow> task_ref \<Rightarrow> HookMetadata \<Rightarrow> ('c, 'r, 'v) operator \<Rightarrow> (HookMetadata \<times> ('c, 'r, 'v) operator) go" where
  "combine_for_run taskHook t hookMeta op =
     (if cfg_Version (h_Config taskHook) = ''v1'' then
        go_bind (CombineBindingContextForHook (GetByName (t_QueueName (so_heap op t)) (so_queues op)) t None
                   (so_heap op) (so_queues op))
          (\<lambda>(bcs, tqs).
             let op = op\<lparr>so_queues := tqs\<rparr> in
             case bcs of
               None \<Rightarrow> Ret (hookMeta, op)
             | Some bcs \<Rightarrow>
                 (let hookMeta = hookMeta\<lparr>hm_BindingContext := bcs\<rparr>
                  in Ret (hookMeta, with_task (UpdateMetadata (MetaHook hookMeta)) t op)))
      else Ret (hookMeta, op))"

text \<open>The second half: the outcome of the run decides the status of the task.\<close>

definition run_status ::
    "('c, 'r, 'v) op_env \<Rightarrow> task_ref \<Rightarrow> bool \<Rightarrow> string option \<Rightarrow> ('c, 'r, 'v) operator \<Rightarrow>
     string \<times> rat \<times> rat \<times> rat \<times> ('c, 'r, 'v) operator" where
  "run_status env t allowFailure err op =
     (case err of
        None \<Rightarrow> (''Success'', 0, 0, 1, op)
      | Some e \<Rightarrow>
          if allowFailure then (''Success'', 1, 0, 0, op)
          else (''Fail'', 0, 1, 0, with_task (WithQueuedAt (oe_now env)) t (with_task (UpdateFailureMessage e) t op)))"

definition finish_hook_run ::
    "('c, 'r, 'v) op_env \<Rightarrow> task_ref \<Rightarrow> HookMetadata \<Rightarrow> labels \<Rightarrow> CmdUsage option \<Rightarrow>
     string + MetricOperation list \<Rightarrow> ('c, 'r, 'v) operator \<Rightarrow> TaskResult \<times> ('c, 'r, 'v) operator" where
  "finish_hook_run env t hookMeta metricLabels usage run op =
     (let op = usage_metrics env usage metricLabels op;
          (op, err) = (case run of
              Inl e \<Rightarrow> (op, Some e)
            | Inr metrics \<Rightarrow> send_hook_metrics env metrics [(''hook'', hm_HookName hookMeta)] op);
          (status, allowed, errors, success, op) = run_status env t (hm_AllowFailure hookMeta) err op;
          op = with_metrics (CounterAdd (oe_prom env) ''{PREFIX}hook_run_allowed_errors_total'' allowed metricLabels) op;
          op = with_metrics (CounterAdd (oe_prom env) ''{PREFIX}hook_run_errors_total'' errors metricLabels) op;
          op = with_metrics (CounterAdd (oe_prom env) ''{PREFIX}hook_run_success_total'' success metricLabels) op;
          op = with_metrics (HistogramObserve (oe_prom env) ''{PREFIX}hook_run_seconds'' (oe_duration env) metricLabels) op
      in (empty_result\<lparr>tr_Status := status\<rparr>, op))"

definition TaskHandleHookRun ::
    "('c, 'r, 'v) op_env \<Rightarrow> task_ref \<Rightarrow> ('c, 'r, 'v) operator \<Rightarrow> (TaskResult \<times> ('c, 'r, 'v) operator) go" where
  "TaskHandleHookRun env t op =
     (let hookMeta = HookMetadataAccessor (so_heap op t);
          metricLabels = [(''hook'', hm_HookName hookMeta), (''binding'', hm_Binding hookMeta),
                          (''queue'', t_QueueName (so_heap op t))];
          op = with_metrics (CounterAdd (oe_prom env) ''{PREFIX}task_wait_in_queue_seconds_total''
                 (oe_wait env) metricLabels) op
      in case GetHook (hm_HookName hookMeta) (so_hm op) of
           None \<Rightarrow> Panic
         | Some taskHook \<Rightarrow>
             go_bind (combine_for_run taskHook t hookMeta op) (\<lambda>(hookMeta, op).
               let (uid1, op) = new_uuid env op; (uid2, op) = new_uuid env op in
               go_bind (Hook_Run (oe_hook env) (lib_ord (oe_libs env)) (w_kem (so_managers op)) uid1 uid2
                          (hm_BindingContext hookMeta) taskHook (so_files op))
                 (\<lambda>(fs, usage, run). Ret (finish_hook_run env t hookMeta metricLabels usage run (op\<lparr>so_files := fs\<rparr>)))))"

definition TaskHandler ::
    "('c, 'r, 'v) op_env \<Rightarrow> task_ref \<Rightarrow> ('c, 'r, 'v) operator \<Rightarrow> (TaskResult \<times> ('c, 'r, 'v) operator) go" where
  "TaskHandler env t op =
     (let hookMeta = HookMetadataAccessor (so_heap op t); taskType = t_Type (so_heap op t) in
      if taskType = HookRun then TaskHandleHookRun env t op
      else if taskType = EnableKubernetesBindings then TaskHandleEnableKubernetesBindings env t op
      else if taskType = EnableScheduleBindings then
        (case GetHook (hm_HookName hookMeta) (so_hm op) of
           None \<Rightarrow> Panic
         | Some taskHook \<Rightarrow>
             (let (hc, w) = hc_EnableScheduleBindings (lib_cron (oe_libs env)) (h_HookController taskHook) (so_managers op);
                  op = (with_hook (hm_HookName hookMeta) (taskHook\<lparr>h_HookController := hc\<rparr>) op)\<lparr>so_managers := w\<rparr>
              in Ret (empty_result\<lparr>tr_Status := ''Success''\<rparr>, op)))
      else Ret (empty_result, op))"


section \<open>Start and shutdown\<close>

definition add_to_main ::
    "('c, 'r, 'v) op_env \<Rightarrow> (string \<Rightarrow> BaseTask) \<Rightarrow> ('c, 'r, 'v) operator \<Rightarrow> ('c, 'r, 'v) operator go" where
  "add_to_main env mk op =
     (let (r, op) = alloc_task env (\<lambda>i. WithQueuedAt (oe_now env) (mk i)) op in
      case GetMain (so_queues op) of
        None \<Rightarrow> Panic
      | Some mainQueue \<Rightarrow>
          Ret (op\<lparr>so_queues := (so_queues op)\<lparr>tqs_Queues :=
            mput (tqs_MainName (so_queues op)) (AddLast r mainQueue) (tqs_Queues (so_queues op))\<rparr>\<rparr>))"

definition onStartup_task :: "string \<Rightarrow> string \<Rightarrow> BaseTask" where
  "onStartup_task hookName taskId =
     (let bc = empty_bc\<lparr>bc_Binding := OnStartup, bc_BindingType := OnStartup\<rparr>
      in WithMetadata (MetaHook (empty_HookMetadata\<lparr>hm_HookName := hookName, hm_BindingType := OnStartup,
           hm_BindingContext := [bc]\<rparr>)) (NewTask taskId HookRun))"

definition enable_task :: "TaskType \<Rightarrow> string \<Rightarrow> string \<Rightarrow> BaseTask" where
  "enable_task taskType hookName taskId =
     WithMetadata (MetaHook (empty_HookMetadata\<lparr>hm_HookName := hookName, hm_Binding := taskType\<rparr>))
       (NewTask taskId taskType)"

definition add_enable_tasks ::
    "('c, 'r, 'v) op_env \<Rightarrow> string \<Rightarrow> ('c, 'r, 'v) operator \<Rightarrow> ('c, 'r, 'v) operator go" where
  "add_enable_tasks env hookName op =
     (case GetHook hookName (so_hm op) of
        None \<Rightarrow> Panic
      | Some h \<Rightarrow>
          go_bind (if HasBinding OnKubernetesEvent (h_Config h)
                   then add_to_main env (enable_task EnableKubernetesBindings hookName) op else Ret op) (\<lambda>op.
            if HasBinding Schedule (h_Config h)
            then add_to_main env (enable_task EnableScheduleBindings hookName) op else Ret op))"

definition PrepopulateMainQueue ::
    "('c, 'r, 'v) op_env \<Rightarrow> ('c, 'r, 'v) operator \<Rightarrow> ('c, 'r, 'v) operator go" where
  "PrepopulateMainQueue env op =
     (let op = op\<lparr>so_queues := NewNamedQueue ''main'' (WithMainName ''main'' (so_queues op))\<rparr>;
          (hm, onStartupHooks) = GetHooksInOrder (oe_hook env) OnStartup (so_hm op);
          op = op\<lparr>so_hm := hm\<rparr>
      in case onStartupHooks of
           Inl err \<Rightarrow> Ret op
         | Inr names \<Rightarrow>
             go_bind (go_fold (\<lambda>hookName. add_to_main env (onStartup_task hookName)) names op)
               (go_fold (add_enable_tasks env) (GetHookNames (so_hm op))))"

definition init_queue :: "string \<Rightarrow> ('c, 'r, 'v) operator \<Rightarrow> ('c, 'r, 'v) operator" where
  "init_queue name op =
     (case GetByName name (so_queues op) of
        Some q \<Rightarrow> op
      | None \<Rightarrow>
          (let tqs = NewNamedQueue name (so_queues op) in
           case GetByName name tqs of
             None \<Rightarrow> op\<lparr>so_queues := tqs\<rparr>
           | Some q \<Rightarrow> op\<lparr>so_queues := tqs\<lparr>tqs_Queues := mput name (start_queue q) (tqs_Queues tqs)\<rparr>\<rparr>))"

definition init_hook_queues ::
    "(HookConfig \<Rightarrow> string list) \<Rightarrow> string \<Rightarrow> ('c, 'r, 'v) operator \<Rightarrow> ('c, 'r, 'v) operator go" where
  "init_hook_queues queues hookName op =
     (case GetHook hookName (so_hm op) of
        None \<Rightarrow> Panic
      | Some h \<Rightarrow> Ret (fold init_queue (queues (h_Config h)) op))"

definition InitAndStartHookQueues ::
    "('c, 'r, 'v) op_env \<Rightarrow> ('c, 'r, 'v) operator \<Rightarrow> ('c, 'r, 'v) operator go" where
  "InitAndStartHookQueues env op =
     go_bind (go_fold (init_hook_queues (\<lambda>c. map sc_Queue (cfg_Schedules c)))
               (names_of (snd (GetHooksInOrder (oe_hook env) Schedule (so_hm op)))) op) (\<lambda>op.
       go_fold (init_hook_queues (\<lambda>c. map kc_Queue (cfg_OnKubernetesEvents c)))
         (names_of (snd (GetHooksInOrder (oe_hook env) OnKubernetesEvent (so_hm op)))) op)"

text \<open>
  \<open>Start\<close> without the goroutines it starts: the live metrics, the loop of the events handler, whose
  iterations are \<open>handle_manager_event\<close>, and the cron of the schedule manager.
\<close>

definition operator_Start ::
    "('c, 'r, 'v) op_env \<Rightarrow> ('c, 'r, 'v) operator \<Rightarrow> ('c, 'r, 'v) operator go" where
  "operator_Start env op =
     go_bind (PrepopulateMainQueue env op) (\<lambda>op.
     go_bind (StartMain (so_queues op)) (\<lambda>tqs.
       InitAndStartHookQueues env (op\<lparr>so_queues := tqs\<rparr>)))"

text \<open>
  The two goroutines of \<open>RunMetrics\<close>, one iteration each: a live tick, and the lengths of the queues
  in the order of \<open>Iterate\<close>.
\<close>

definition live_tick :: "('c, 'r, 'v) op_env \<Rightarrow> ('c, 'r, 'v) operator \<Rightarrow> ('c, 'r, 'v) operator" where
  "live_tick env op = with_metrics (CounterAdd (oe_prom env) ''{PREFIX}live_ticks'' 1 []) op"

definition queue_lengths :: "('c, 'r, 'v) op_env \<Rightarrow> string list \<Rightarrow> ('c, 'r, 'v) operator \<Rightarrow> ('c, 'r, 'v) operator" where
  "queue_lengths env ks op =
     TaskQueueSet_Iterate (\<lambda>queue op. with_metrics (GaugeSet (oe_prom env) ''{PREFIX}tasks_queue_length''
       (of_nat (Length queue)) [(''queue'', q_Name queue)]) op) ks (so_queues op) op"

definition InitMetricStorage ::
    "('r, 'v) prom_lib \<Rightarrow> 'r \<Rightarrow> string \<Rightarrow> ('r, 'v) MetricStorage option \<Rightarrow> ('r, 'v) MetricStorage" where
  "InitMetricStorage lib r prfx current =
     (case current of
        Some m \<Rightarrow> m
      | None \<Rightarrow> RegisterShellOperatorMetrics lib (WithPrefix prfx (NewMetricStorage r)))"

text \<open>
  \<open>SetupHookMetricStorageAndServer\<close> without the HTTP server: a separate storage only when another
  port is configured.
\<close>

definition SetupHookMetricStorage ::
    "string \<Rightarrow> string \<Rightarrow> 'r \<Rightarrow> string \<Rightarrow> ('c, 'r, 'v) operator \<Rightarrow> ('c, 'r, 'v) operator" where
  "SetupHookMetricStorage hookPort port r prfx op =
     (case so_HookMetricStorage op of
        Some _ \<Rightarrow> op
      | None \<Rightarrow>
          if hookPort = [] \<or> hookPort = port then op\<lparr>so_HookMetricStorage := None\<rparr>
          else op\<lparr>so_HookMetricStorage := Some (WithNewRegistry r (WithPrefix prfx (NewMetricStorage r)))\<rparr>)"

text \<open>
  \<open>Shutdown\<close>: it pauses the handling of Kubernetes events and stops the queues; waiting for them is
  \<open>WaitStopWithTimeout\<close>, and stopping cron only ends the delivery of crontabs.
\<close>

definition Shutdown :: "('c, 'r, 'v) operator \<Rightarrow> ('c, 'r, 'v) operator" where
  "Shutdown op =
     (let w = so_managers op; w = w\<lparr>w_kem := kem_PauseHandleEvents (w_kem w)\<rparr>
      in op\<lparr>so_managers := w, so_queues := TaskQueueSet_Stop (so_queues op)\<rparr>)"

end
