(* ===== verification/Operator_Combine.thy ===== *)
theory Operator_Combine
  imports Operator
begin

text \<open>
  What \<open>CombineBindingContextForHook\<close> does: the tasks it takes from the queue, the binding contexts
  it returns and the compaction of groups.
\<close>

section \<open>Compaction\<close>

lemma compact_subseq: "subseq (compact_contexts bcs) bcs"
  by (induction bcs rule: compact_contexts.induct) auto

lemma compact_ungrouped:
  "filter (\<lambda>bc. bc_Group bc = []) (compact_contexts bcs) = filter (\<lambda>bc. bc_Group bc = []) bcs"
  by (induction bcs rule: compact_contexts.induct) auto

lemma compact_Nil_iff [simp]: "compact_contexts bcs = [] \<longleftrightarrow> bcs = []"
  by (induction bcs rule: compact_contexts.induct) auto

lemma compact_last: "bcs \<noteq> [] \<Longrightarrow> last (compact_contexts bcs) = last bcs"
  by (induction bcs rule: compact_contexts.induct) auto

text \<open>The groups of the result are those of the input, with runs of one group merged.\<close>

fun merge_runs :: "string list \<Rightarrow> string list" where
  "merge_runs [] = []"
| "merge_runs [g] = [g]"
| "merge_runs (g # g' # gs) = (if g \<noteq> [] \<and> g' = g then merge_runs (g' # gs) else g # merge_runs (g' # gs))"

lemma compact_groups: "map bc_Group (compact_contexts bcs) = merge_runs (map bc_Group bcs)"
  by (induction bcs rule: compact_contexts.induct) auto

lemma merge_runs_hd: "gs \<noteq> [] \<Longrightarrow> \<exists>rest. merge_runs gs = hd gs # rest"
  by (induction gs rule: merge_runs.induct) auto

lemma merge_runs_adjacent: "successively (\<lambda>a b. a \<noteq> [] \<longrightarrow> a \<noteq> b) (merge_runs gs)"
proof (induction gs rule: merge_runs.induct)
  case (3 g g' gs)
  then show ?case using merge_runs_hd [of "g' # gs"] by (auto simp: successively_Cons)
qed simp_all

lemma set_merge_runs: "set (merge_runs gs) = set gs"
  by (induction gs rule: merge_runs.induct) auto

section \<open>The tasks that are combined\<close>

definition same_hook :: "task_heap \<Rightarrow> task_ref \<Rightarrow> task_ref \<Rightarrow> bool" where
  "same_hook h t r \<longleftrightarrow>
     t_Type (h r) = t_Type (h t) \<and>
     (case t_Metadata (h r) of MetaHook m \<Rightarrow> hm_HookName m = hm_HookName (HookMetadataAccessor (h t)) | _ \<Rightarrow> False)"

definition combined :: "task_heap \<Rightarrow> task_ref \<Rightarrow> task_ref list \<Rightarrow> task_ref list" where
  "combined h t rest = takeWhile (same_hook h t) rest"

definition hook_tasks :: "task_heap \<Rightarrow> task_ref list \<Rightarrow> bool" where
  "hook_tasks h rs \<longleftrightarrow> (\<forall>r\<in>set rs. t_Metadata (h r) \<noteq> MetaOther)"

lemma combine_scan_rest:
  assumes "t_Metadata (h t) = MetaHook m" "ref_id h t \<notin> ref_id h ` set rest"
  shows "combine_scan h t (hm_HookName m) None (map Some rest) = Ret others \<Longrightarrow> others = combined h t rest"
    and "hook_tasks h rest \<Longrightarrow> combine_scan h t (hm_HookName m) None (map Some rest) = Ret (combined h t rest)"
  using assms(2)
proof (induction rest arbitrary: others)
  case (Cons r rest)
  note acc = HookMetadataAccessor_def [of "h t"] assms(1)
  {
    case 1
    then show ?case using Cons.IH(1)
      by (auto simp: combined_def same_hook_def acc split: metadata.splits if_splits)
  next
    case 2
    then show ?case using Cons.IH(2)
      by (auto simp: combined_def same_hook_def acc hook_tasks_def split: metadata.splits)
  }
qed (auto simp: combined_def)

lemma combine_scan_head:
  "combine_scan h t hn stopFn (map Some (t # rest)) = combine_scan h t hn stopFn (map Some rest)"
  by simp

lemma tasksFilter_lookup:
  "mget (foldl (\<lambda>m tsk. mput (gid tsk) False m) m0 others) i =
     (if i \<in> gid ` set others then Some False else mget m0 i)"
  by (induction others arbitrary: m0) auto

lemma takeWhile_filter_dropWhile:
  "distinct (map f xs) \<Longrightarrow> filter (\<lambda>x. f x \<notin> f ` set (takeWhile P xs)) xs = dropWhile P xs"
proof -
  assume d: "distinct (map f xs)"
  have split: "xs = takeWhile P xs @ dropWhile P xs" by simp
  have "f x \<notin> f ` set (takeWhile P xs)" if "x \<in> set (dropWhile P xs)" for x
  proof -
    have "distinct (map f (takeWhile P xs) @ map f (dropWhile P xs))"
      using d by (metis map_append takeWhile_dropWhile_id)
    with that show ?thesis by auto
  qed
  then have "filter (\<lambda>x. f x \<notin> f ` set (takeWhile P xs)) (dropWhile P xs) = dropWhile P xs"
    by (intro filter_True) auto
  moreover have "filter (\<lambda>x. f x \<notin> f ` set (takeWhile P xs)) (takeWhile P xs) = []" by auto
  ultimately show ?thesis using filter_append [of "\<lambda>x. f x \<notin> f ` set (takeWhile P xs)" "takeWhile P xs" "dropWhile P xs"]
    by (simp only: append_Nil takeWhile_dropWhile_id)
qed

lemma filter_combined:
  assumes wf: "wf_queue q" "content q = t # rest" and ids: "distinct (map (ref_id h) (t # rest))"
  shows "\<exists>q'. TaskQueue_Filter (keep_task h (foldl (\<lambda>m tsk. mput (ref_id h tsk) False m)
      (mput (ref_id h t) True []) (combined h t rest))) q = Ret q' \<and> wf_queue q' \<and>
    content q' = t # dropWhile (same_hook h t) rest \<and> q_Cancelled q' = q_Cancelled q"
proof -
  let ?m = "foldl (\<lambda>m tsk. mput (ref_id h tsk) False m) (mput (ref_id h t) True []) (combined h t rest)"
  let ?keep = "\<lambda>r. case mget ?m (ref_id h r) of Some v \<Rightarrow> v | None \<Rightarrow> True"
  have sub: "set (combined h t rest) \<subseteq> set rest" by (auto simp: combined_def dest: set_takeWhileD)
  have keep: "?keep r \<longleftrightarrow> ref_id h r \<notin> ref_id h ` set (combined h t rest)" for r
    using sub ids by (auto simp: tasksFilter_lookup)
  have "ref_id h t \<notin> ref_id h ` set (combined h t rest)" using sub ids by auto
  moreover have "filter ?keep rest = dropWhile (same_hook h t) rest"
    using ids unfolding keep by (simp add: combined_def takeWhile_filter_dropWhile)
  ultimately have f: "filter ?keep (t # rest) = t # dropWhile (same_hook h t) rest"
    unfolding filter.simps keep by simp
  have "TaskQueue_Filter (keep_task h ?m) q = Ret (q\<lparr>q_Items := map Some (filter ?keep (content q))\<rparr>)"
    by (rule Filter_content [OF wf(1)]) (simp add: keep_task_def)
  then have "TaskQueue_Filter (keep_task h ?m) q = Ret (q\<lparr>q_Items := map Some (t # dropWhile (same_hook h t) rest)\<rparr>)"
    unfolding wf(2) f .
  then show ?thesis
    by (intro exI [of _ "q\<lparr>q_Items := map Some (t # dropWhile (same_hook h t) rest)\<rparr>"])
      (simp add: wf_queue_def content_def comp_def)
qed

text \<open>The whole function on a queue whose head is the task.\<close>

lemma Combine_cases:
  assumes q: "GetByName (t_QueueName (h t)) tqs = Some q" "wf_queue q" "content q = t # rest"
    and ids: "distinct (map (ref_id h) (t # rest))"
    and run: "CombineBindingContextForHook (Some q) t None h tqs = Ret (bcs, tqs')"
  shows "bcs = None \<and> tqs' = tqs \<or>
    (\<exists>q'. combined h t rest \<noteq> [] \<and>
       bcs = Some (compact_contexts (concat (map (\<lambda>r. task_contexts (h r)) (t # combined h t rest)))) \<and>
       tqs' = tqs\<lparr>tqs_Queues := mput (t_QueueName (h t)) q' (tqs_Queues tqs)\<rparr> \<and>
       wf_queue q' \<and> content q' = t # dropWhile (same_hook h t) rest \<and> q_Cancelled q' = q_Cancelled q)"
proof (cases "t_Metadata (h t)")
  case (MetaHook m)
  have id: "ref_id h t \<notin> ref_id h ` set rest" using ids by simp
  obtain others where scan: "combine_scan h t (hm_HookName m) None (q_Items q) = Ret others"
    using run MetaHook by (auto simp: CombineBindingContextForHook_def)
  then have others: "others = combined h t rest"
    using combine_scan_rest(1) [of h t m rest others] MetaHook id q by (simp add: wf_queue_items)
  obtain q' where q': "TaskQueue_Filter (keep_task h (foldl (\<lambda>m tsk. mput (ref_id h tsk) False m)
      (mput (ref_id h t) True []) (combined h t rest))) q = Ret q'" "wf_queue q'"
    "content q' = t # dropWhile (same_hook h t) rest" "q_Cancelled q' = q_Cancelled q"
    using filter_combined [OF q(2,3) ids] by blast
  have "task_contexts (h t) = hm_BindingContext m"
    using MetaHook by (simp add: task_contexts_def HookMetadataAccessor_def)
  with run scan others q' q(1) MetaHook show ?thesis
    by (auto simp: CombineBindingContextForHook_def Let_def split: if_splits)
qed (use run in \<open>simp_all add: CombineBindingContextForHook_def\<close>)

lemma Combine_returns:
  assumes q: "GetByName (t_QueueName (h t)) tqs = Some q" "wf_queue q" "content q = t # rest"
    and ids: "distinct (map (ref_id h) (t # rest))" and tasks: "hook_tasks h (t # rest)"
  shows "\<exists>bcs tqs'. CombineBindingContextForHook (Some q) t None h tqs = Ret (bcs, tqs') \<and>
    (combined h t rest \<noteq> [] \<longrightarrow> t_Metadata (h t) \<noteq> MetaNil \<longrightarrow> bcs \<noteq> None)"
proof (cases "t_Metadata (h t)")
  case (MetaHook m)
  have id: "ref_id h t \<notin> ref_id h ` set rest" using ids by simp
  have "hook_tasks h rest" using tasks by (simp add: hook_tasks_def)
  then have "combine_scan h t (hm_HookName m) None (q_Items q) = Ret (combined h t rest)"
    using combine_scan_rest(2) [of h t m rest] MetaHook id q by (simp add: wf_queue_items)
  moreover obtain q' where "TaskQueue_Filter (keep_task h (foldl (\<lambda>m tsk. mput (ref_id h tsk) False m)
      (mput (ref_id h t) True []) (combined h t rest))) q = Ret q'"
    using filter_combined [OF q(2,3) ids] by blast
  ultimately show ?thesis using MetaHook q(1)
    by (auto simp: CombineBindingContextForHook_def Let_def)
next
  case MetaOther
  then show ?thesis using tasks by (simp add: hook_tasks_def)
qed (simp add: CombineBindingContextForHook_def)

section \<open>Properties\<close>


abbreviation demo_bc :: "string \<Rightarrow> string \<Rightarrow> BindingContext" where
  "demo_bc name g \<equiv> empty_bc\<lparr>bc_Binding := name, bc_Group := g\<rparr>"


text \<open>
  C4. Combining takes from the queue exactly the run of tasks directly behind the current task that
  have its hook and its type; the current task and all other tasks stay in their order, other
  queues do not change, and the binding contexts of the removed tasks follow those of the current
  task, in queue order, before the compaction. Nothing happens when the run is empty.
\<close>

theorem CombineBindingContextForHook_merges:
  assumes q: "GetByName (t_QueueName (h t)) tqs = Some q" "queue_inv (h, q)" "content q = t # rest"
    and tasks: "hook_tasks h (t # rest)" "t_Metadata (h t) \<noteq> MetaNil"
  shows "\<exists>bcs tqs'. CombineBindingContextForHook (Some q) t None h tqs = Ret (bcs, tqs') \<and>
    (combined h t rest = [] \<longrightarrow> bcs = None \<and> tqs' = tqs) \<and>
    (combined h t rest \<noteq> [] \<longrightarrow>
      bcs = Some (compact_contexts (concat (map (\<lambda>r. task_contexts (h r)) (t # combined h t rest)))) \<and>
      (\<exists>q'. GetByName (t_QueueName (h t)) tqs' = Some q' \<and>
         content q' = t # dropWhile (same_hook h t) rest) \<and>
      (\<forall>name. name \<noteq> t_QueueName (h t) \<longrightarrow> GetByName name tqs' = GetByName name tqs))"
proof -
  have wf: "wf_queue q" "distinct (map (ref_id h) (t # rest))" using q by (auto simp: queue_inv_def)
  obtain bcs tqs' where r: "CombineBindingContextForHook (Some q) t None h tqs = Ret (bcs, tqs')"
    "combined h t rest \<noteq> [] \<longrightarrow> t_Metadata (h t) \<noteq> MetaNil \<longrightarrow> bcs \<noteq> None"
    using Combine_returns [OF q(1) wf(1) q(3) wf(2) tasks(1)] by blast
  from Combine_cases [OF q(1) wf(1) q(3) wf(2) r(1)] r tasks(2) show ?thesis
    by (intro exI [of _ bcs] exI [of _ tqs']) (auto simp: GetByName_def)
qed

definition demo_task :: "string \<Rightarrow> string \<Rightarrow> BaseTask" where
  "demo_task tid hook = (NewTask tid HookRun)\<lparr>t_QueueName := ''main'',
     t_Metadata := MetaHook (empty_HookMetadata\<lparr>hm_HookName := hook, hm_BindingContext := [demo_bc tid []]\<rparr>)\<rparr>"

definition demo_heap :: task_heap where
  "demo_heap r = (if r = 0 then demo_task ''0'' ''a'' else if r = 1 then demo_task ''1'' ''a''
     else if r = 2 then demo_task ''2'' ''b'' else demo_task ''3'' ''a'')"

definition demo_queue :: "task_ref TaskQueue" where
  "demo_queue = fold AddLast [0, 1, 2, 3] NewTasksQueue"

lemma demo_queue_inv: "queue_inv (demo_heap, demo_queue)"
proof -
  have "content demo_queue = [0, 1, 2, 3]"
    by (simp add: demo_queue_def content_AddLast content_NewTasksQueue)
  moreover have "wf_queue demo_queue" by (simp add: demo_queue_def wf_AddLast wf_NewTasksQueue)
  moreover have "distinct (map (ref_id demo_heap) [0, 1, 2, 3])"
    by (simp add: demo_heap_def demo_task_def NewTask_def)
  ultimately show ?thesis by (simp add: queue_inv_def)
qed

theorem CombineBindingContextForHook_merges_witness:
  "\<exists>tqs'. CombineBindingContextForHook (Some demo_queue) 0 None demo_heap
      \<lparr>tqs_Queues = [(''main'', demo_queue)], tqs_MainName = ''main'', tqs_Cancelled = False\<rparr> =
        Ret (Some [demo_bc ''0'' [], demo_bc ''1'' []], tqs') \<and>
     (\<exists>q'. GetByName ''main'' tqs' = Some q' \<and> content q' = [0, 2, 3])"
proof -
  let ?tqs = "\<lparr>tqs_Queues = [(''main'', demo_queue)], tqs_MainName = ''main'', tqs_Cancelled = False\<rparr>"
  have c: "content demo_queue = [0, 1, 2, 3]"
    by (simp add: demo_queue_def content_AddLast content_NewTasksQueue)
  have h: "hook_tasks demo_heap [0, 1, 2, 3]" "t_QueueName (demo_heap 0) = ''main''" "t_Metadata (demo_heap 0) \<noteq> MetaNil"
    by (simp_all add: hook_tasks_def demo_heap_def demo_task_def)
  have s: "combined demo_heap 0 [1, 2, 3] = [1]" "dropWhile (same_hook demo_heap 0) [1, 2, 3] = [2, 3]"
    by (simp_all add: combined_def same_hook_def demo_heap_def demo_task_def HookMetadataAccessor_def NewTask_def)
  have b: "concat (map (\<lambda>r. task_contexts (demo_heap r)) [0, 1]) = [demo_bc ''0'' [], demo_bc ''1'' []]"
    by (simp add: task_contexts_def demo_heap_def demo_task_def HookMetadataAccessor_def)
  show ?thesis
    using CombineBindingContextForHook_merges [of demo_heap 0 ?tqs demo_queue "[1, 2, 3]"] demo_queue_inv c h s b
    by (auto simp: GetByName_def)
qed

end
