(* ===== verification/Operator_Handler.thy ===== *)
theory Operator_Handler
  imports Operator_Combine
begin

text \<open>
  The contract of the operator's \<open>TaskHandler\<close>: what it may do to the tasks and to the queues. It
  discharges the interface \<open>task_handler\<close> of the queue loop, so that the guarantees of the loop hold
  for the queues of the operator.
\<close>

section \<open>Allocation\<close>

lemma t_Id_hook_run_task [simp]: "t_Id (hook_run_task b ls q n info i) = i"
  by (simp add: hook_run_task_def)

lemma alloc_tasks_spec:
  "alloc_tasks env mks op = (rs, op') \<Longrightarrow>
   rs = [so_next op..<so_next op + length mks] \<and> so_next op' = so_next op + length mks \<and>
   (\<forall>r < so_next op. so_heap op' r = so_heap op r) \<and>
   (\<forall>i < length mks. so_heap op' (so_next op + i) = (mks ! i) (oe_newid env (so_next op + i))) \<and>
   so_queues op' = so_queues op \<and> so_hm op' = so_hm op \<and> so_managers op' = so_managers op"
proof (induction mks arbitrary: op rs op')
  case (Cons mk mks)
  let ?op = "snd (alloc_task env mk op)"
  obtain rs1 op1 where a: "alloc_tasks env mks ?op = (rs1, op1)" by fastforce
  with Cons.prems have r: "rs = so_next op # rs1" "op' = op1"
    by (auto simp: alloc_task_def Let_def)
  note ih = Cons.IH [OF a]
  have "so_heap op1 (so_next op + i) = ((mk # mks) ! i) (oe_newid env (so_next op + i))"
    if "i < length (mk # mks)" for i
    using ih that by (cases i) (auto simp: alloc_task_def)
  moreover have "\<forall>r < so_next op. so_heap op1 r = so_heap op r"
    using ih by (auto simp: alloc_task_def)
  ultimately show ?case using ih r by (simp add: alloc_task_def upt_rec)
qed simp

lemma fold_WithQueuedAt_ids: "ref_id (fold (heap_apply (WithQueuedAt now)) rs h) = ref_id h"
  by (induction rs arbitrary: h) (simp_all add: heap_apply_ids)

section \<open>Frames\<close>

lemma usage_metrics_frame [simp]:
  "so_heap (usage_metrics env u ls op) = so_heap op" "so_queues (usage_metrics env u ls op) = so_queues op"
  "so_next (usage_metrics env u ls op) = so_next op" "so_hm (usage_metrics env u ls op) = so_hm op"
  by (simp_all add: usage_metrics_def Let_def split: option.splits)

lemma send_hook_metrics_frame:
  "send_hook_metrics env ms ls op = (op', err) \<Longrightarrow>
   so_heap op' = so_heap op \<and> so_queues op' = so_queues op \<and> so_next op' = so_next op \<and> so_hm op' = so_hm op"
  by (auto simp: send_hook_metrics_def Let_def split: option.splits prod.splits)

lemma new_uuid_frame [simp]:
  "new_uuid env op = (u, op') \<Longrightarrow> so_heap op' = so_heap op"
  "new_uuid env op = (u, op') \<Longrightarrow> so_queues op' = so_queues op"
  "new_uuid env op = (u, op') \<Longrightarrow> so_next op' = Suc (so_next op)"
  "new_uuid env op = (u, op') \<Longrightarrow> so_hm op' = so_hm op"
  by (auto simp: new_uuid_def)

text \<open>A task that is run: after the combination, only the task itself and the metrics change.\<close>

lemma combine_for_run_frame:
  assumes "combine_for_run hook t meta op = Ret (meta', op')"
  shows "ref_id (so_heap op') = ref_id (so_heap op) \<and> so_next op' = so_next op \<and> so_hm op' = so_hm op \<and>
    (so_queues op' = so_queues op \<or>
     (\<exists>bcs. CombineBindingContextForHook (GetByName (t_QueueName (so_heap op t)) (so_queues op)) t None
        (so_heap op) (so_queues op) = Ret (bcs, so_queues op')))"
  using assms by (auto simp: combine_for_run_def Let_def heap_apply_ids split: if_splits option.splits)

lemma run_status_frame:
  "run_status env t af err op = (status, a, b, c, op') \<Longrightarrow>
   so_queues op' = so_queues op \<and> ref_id (so_heap op') = ref_id (so_heap op) \<and> so_next op' = so_next op \<and>
   so_hm op' = so_hm op"
  by (auto simp: run_status_def heap_apply_ids split: option.splits if_splits)

lemma finish_hook_run_frame:
  assumes "finish_hook_run env t meta ls usage run op = (res, op')"
  shows "so_queues op' = so_queues op \<and> ref_id (so_heap op') = ref_id (so_heap op) \<and> so_next op' = so_next op \<and>
    so_hm op' = so_hm op \<and> result_tasks res = [] \<and> tr_DelayBeforeNextTask res = 0"
proof -
  let ?op = "usage_metrics env usage ls op"
  obtain op1 err where 1: "(case run of Inl e \<Rightarrow> (?op, Some e)
      | Inr metrics \<Rightarrow> send_hook_metrics env metrics [(''hook'', hm_HookName meta)] ?op) = (op1, err)" by fastforce
  obtain status a b c op2 where 2: "run_status env t (hm_AllowFailure meta) err op1 = (status, a, b, c, op2)"
    using prod_cases5 by blast
  have "so_queues op1 = so_queues op \<and> so_heap op1 = so_heap op \<and> so_next op1 = so_next op \<and> so_hm op1 = so_hm op"
    using 1 by (auto split: sum.splits dest!: send_hook_metrics_frame)
  with run_status_frame [OF 2] 1 2 assms show ?thesis
    by (auto simp: finish_hook_run_def Let_def result_tasks_def empty_result_def)
qed

lemma HookRun_cases:
  assumes "TaskHandleHookRun env t op = Ret (res, op')"
  obtains hook m meta op1 u1 op2 u2 op3 fs usage run where
    "GetHook (hm_HookName (HookMetadataAccessor (so_heap op t))) (so_hm op) = Some hook"
    "combine_for_run hook t (HookMetadataAccessor (so_heap op t)) (op\<lparr>so_MetricStorage := m\<rparr>) = Ret (meta, op1)"
    "new_uuid env op1 = (u1, op2)" "new_uuid env op2 = (u2, op3)"
    "Hook_Run (oe_hook env) (lib_ord (oe_libs env)) (w_kem (so_managers op3)) u1 u2 (hm_BindingContext meta) hook
       (so_files op3) = Ret (fs, usage, run)"
    "finish_hook_run env t meta [(''hook'', hm_HookName (HookMetadataAccessor (so_heap op t))),
        (''binding'', hm_Binding (HookMetadataAccessor (so_heap op t))), (''queue'', t_QueueName (so_heap op t))]
       usage run (op3\<lparr>so_files := fs\<rparr>) = (res, op')"
proof -
  let ?meta = "HookMetadataAccessor (so_heap op t)"
  let ?ls = "[(''hook'', hm_HookName ?meta), (''binding'', hm_Binding ?meta), (''queue'', t_QueueName (so_heap op t))]"
  obtain m where m: "m = CounterAdd (oe_prom env) ''{PREFIX}task_wait_in_queue_seconds_total'' (oe_wait env) ?ls
      (so_MetricStorage op)" by simp
  obtain hook where hook: "GetHook (hm_HookName ?meta) (so_hm op) = Some hook"
    using assms by (auto simp: TaskHandleHookRun_def Let_def split: option.splits)
  obtain meta op1 where c: "combine_for_run hook t ?meta (op\<lparr>so_MetricStorage := m\<rparr>) = Ret (meta, op1)"
    using assms hook m by (auto simp: TaskHandleHookRun_def Let_def)
  obtain u1 op2 u2 op3 where u: "new_uuid env op1 = (u1, op2)" "new_uuid env op2 = (u2, op3)"
    using prod.exhaust by metis
  have "go_bind (Hook_Run (oe_hook env) (lib_ord (oe_libs env)) (w_kem (so_managers op3)) u1 u2
      (hm_BindingContext meta) hook (so_files op3))
      (\<lambda>(fs, usage, run). Ret (finish_hook_run env t meta ?ls usage run (op3\<lparr>so_files := fs\<rparr>))) = Ret (res, op')"
    using assms hook m c u by (simp add: TaskHandleHookRun_def Let_def)
  then obtain fs usage run where "Hook_Run (oe_hook env) (lib_ord (oe_libs env)) (w_kem (so_managers op3)) u1 u2
      (hm_BindingContext meta) hook (so_files op3) = Ret (fs, usage, run)"
    "finish_hook_run env t meta ?ls usage run (op3\<lparr>so_files := fs\<rparr>) = (res, op')" by auto
  with hook c u show thesis by (intro that)
qed

lemma HookRun_frame:
  assumes "TaskHandleHookRun env t op = Ret (res, op')"
  obtains hook meta m op1 where
    "combine_for_run hook t (HookMetadataAccessor (so_heap op t)) (op\<lparr>so_MetricStorage := m\<rparr>) = Ret (meta, op1)"
    "so_queues op' = so_queues op1" "ref_id (so_heap op') = ref_id (so_heap op1)" "so_hm op' = so_hm op1"
    "so_next op1 \<le> so_next op'" "result_tasks res = []" "tr_DelayBeforeNextTask res = 0"
  using assms
proof (rule HookRun_cases)
  fix hook m meta op1 u1 op2 u2 op3 fs usage run
  assume c: "combine_for_run hook t (HookMetadataAccessor (so_heap op t)) (op\<lparr>so_MetricStorage := m\<rparr>) = Ret (meta, op1)"
    and u: "new_uuid env op1 = (u1, op2)" "new_uuid env op2 = (u2, op3)"
    and f: "finish_hook_run env t meta [(''hook'', hm_HookName (HookMetadataAccessor (so_heap op t))),
        (''binding'', hm_Binding (HookMetadataAccessor (so_heap op t))), (''queue'', t_QueueName (so_heap op t))]
       usage run (op3\<lparr>so_files := fs\<rparr>) = (res, op')"
  from finish_hook_run_frame [OF f] u show thesis by (intro that [OF c]) auto
qed


text \<open>
  \<open>new_tasks env op op' rs\<close>: from \<open>op\<close> to \<open>op'\<close> the tasks \<open>rs\<close> were made, with new references and new
  identifiers, and no identifier of an old task changed.
\<close>

definition new_tasks ::
    "('c, 'r, 'v) op_env \<Rightarrow> ('c, 'r, 'v) operator \<Rightarrow> ('c, 'r, 'v) operator \<Rightarrow> task_ref list \<Rightarrow> bool" where
  "new_tasks env op op' rs \<longleftrightarrow>
     so_next op \<le> so_next op' \<and> distinct rs \<and>
     (\<forall>r < so_next op. ref_id (so_heap op') r = ref_id (so_heap op) r) \<and>
     (\<forall>r\<in>set rs. so_next op \<le> r \<and> r < so_next op' \<and> ref_id (so_heap op') r = oe_newid env r)"

lemma new_tasks_none: "so_next op \<le> so_next op' \<Longrightarrow> ref_id (so_heap op') = ref_id (so_heap op) \<Longrightarrow> new_tasks env op op' []"
  by (simp add: new_tasks_def fun_eq_iff)

lemma new_tasks_alloc:
  assumes "alloc_tasks env (map (hook_run_task b ls q n) infos) op = (rs, op1)"
    and "ref_id (so_heap op') = ref_id (so_heap op1)" "so_next op1 \<le> so_next op'"
  shows "new_tasks env op op' rs"
proof -
  let ?mks = "map (hook_run_task b ls q n) infos"
  note a = alloc_tasks_spec [OF assms(1)]
  have "ref_id (so_heap op1) r = oe_newid env r" if "so_next op \<le> r" "r < so_next op + length ?mks" for r
  proof -
    from that obtain i where "r = so_next op + i" "i < length ?mks" by (metis le_Suc_ex nat_add_left_cancel_less)
    then show ?thesis using a by simp
  qed
  with a assms(2,3) show ?thesis by (auto simp: new_tasks_def fun_eq_iff)
qed

lemma enable_outcome_frame:
  assumes "enable_outcome env t ls hook res op = Ret (r, success, errors, op')"
  shows "so_queues op' = so_queues op \<and> new_tasks env op op' (tr_HeadTasks r) \<and>
    tr_TailTasks r = [] \<and> tr_AfterTasks r = [] \<and> tr_DelayBeforeNextTask r = 0"
proof (cases res)
  case (Inl err)
  have "ref_id (heap_apply (UpdateFailureMessage err) t (so_heap op)) = ref_id (so_heap op)"
    by (simp add: heap_apply_ids)
  then have "new_tasks env op (with_task (UpdateFailureMessage err) t op) []"
    by (intro new_tasks_none) simp_all
  with Inl assms show ?thesis by (auto simp: enable_outcome_def empty_result_def)
next
  case (Inr infos)
  obtain rs op1 where a: "alloc_tasks env
      (map (hook_run_task OnKubernetesEvent ls ''main'' (h_Name hook)) infos) op = (rs, op1)" by fastforce
  from assms Inr a obtain w where op': "op' = op1\<lparr>so_managers := w,
      so_heap := fold (heap_apply (WithQueuedAt (oe_now env))) rs (so_heap op1)\<rparr>"
    and r: "r = empty_result\<lparr>tr_Status := ''Success'', tr_HeadTasks := rs\<rparr>"
    by (auto simp: enable_outcome_def Let_def)
  from new_tasks_alloc [OF a, of op'] alloc_tasks_spec [OF a] op' r show ?thesis
    by (simp add: fold_WithQueuedAt_ids empty_result_def)
qed

lemma Enable_frame:
  assumes "TaskHandleEnableKubernetesBindings env t op = Ret (res, op')"
  shows "so_queues op' = so_queues op \<and> new_tasks env op op' (tr_HeadTasks res) \<and>
    tr_TailTasks res = [] \<and> tr_AfterTasks res = [] \<and> tr_DelayBeforeNextTask res = 0"
proof -
  let ?meta = "HookMetadataAccessor (so_heap op t)"
  obtain hook where hook: "GetHook (hm_HookName ?meta) (so_hm op) = Some hook"
    using assms by (auto simp: TaskHandleEnableKubernetesBindings_def Let_def split: option.splits)
  obtain hc w r where e: "HandleEnableKubernetesBindings (oe_libs env) (h_HookController hook) (so_managers op) = (hc, w, r)"
    using prod_cases3 by blast
  let ?op = "(with_hook (hm_HookName ?meta) (hook\<lparr>h_HookController := hc\<rparr>) op)\<lparr>so_managers := w\<rparr>"
  let ?ls = "[(''hook'', hm_HookName ?meta), (''binding'', []), (''task'', ''EnableKubernetesBindings''), (''queue'', ''main'')]"
  obtain success errors op1 where o: "enable_outcome env t ?ls (hook\<lparr>h_HookController := hc\<rparr>) r ?op = Ret (res, success, errors, op1)"
    and op': "so_queues op' = so_queues op1" "so_heap op' = so_heap op1" "so_next op' = so_next op1"
    using assms hook e by (auto simp: TaskHandleEnableKubernetesBindings_def Let_def)
  from enable_outcome_frame [OF o] op' show ?thesis by (simp add: new_tasks_def)
qed


section \<open>The contract\<close>

text \<open>
  \<open>ids_ok\<close>: the queued tasks have references and identifiers that were taken from the supply.
\<close>

definition ids_ok :: "('c, 'r, 'v) op_env \<Rightarrow> ('c, 'r, 'v) operator \<Rightarrow> bool" where
  "ids_ok env op \<longleftrightarrow> inj (oe_newid env) \<and>
     (\<forall>name q. GetByName name (so_queues op) = Some q \<longrightarrow>
        (\<forall>r\<in>set (content q). r < so_next op \<and> (\<exists>k < so_next op. ref_id (so_heap op) r = oe_newid env k)))"

text \<open>The handler of the queue \<open>name\<close>, in any operator state in which that queue has the given content.\<close>

definition operator_handler :: "('c, 'r, 'v) op_env set \<Rightarrow> string \<Rightarrow> handler" where
  "operator_handler envs name t s res s' \<longleftrightarrow>
     (\<exists>env op op'. env \<in> envs \<and> ids_ok env op \<and> so_heap op = fst s \<and>
        GetByName name (so_queues op) = Some (snd s) \<and>
        TaskHandler env t op = Ret (res, op') \<and>
        so_heap op' = fst s' \<and> GetByName name (so_queues op') = Some (snd s'))"

lemma subseq_dropWhile: "subseq (dropWhile P xs) xs"
  by (induction xs) auto

lemma Combine_queue:
  assumes q: "GetByName name tqs = Some q" "queue_inv (h, q)" "content q = t # rest"
    and run: "CombineBindingContextForHook (GetByName (t_QueueName (h t)) tqs) t None h tqs = Ret (bcs, tqs')"
    and q': "GetByName name tqs' = Some q'"
  shows "wf_queue q' \<and> q_Cancelled q' = q_Cancelled q \<and>
    (\<exists>rest'. content q' = t # rest' \<and> subseq rest' rest)"
proof (cases "t_QueueName (h t) = name")
  case True
  have wf: "wf_queue q" "distinct (map (ref_id h) (t # rest))" using q by (auto simp: queue_inv_def)
  have "CombineBindingContextForHook (Some q) t None h tqs = Ret (bcs, tqs')" using run q True by simp
  from Combine_cases [OF _ wf(1) q(3) wf(2) this] q q' True wf show ?thesis
    by (auto simp: GetByName_def subseq_dropWhile)
next
  case False
  then have "q' = q"
    using run q q' by (auto simp: CombineBindingContextForHook_def GetByName_def Let_def
        split: option.splits metadata.splits if_splits)
  with q show ?thesis by (simp add: queue_inv_def)
qed


lemma TaskHandler_frame:
  assumes run: "TaskHandler env t op = Ret (res, op')"
    and q: "GetByName name (so_queues op) = Some q" "queue_inv (so_heap op, q)" "content q = t # rest"
    and q': "GetByName name (so_queues op') = Some q'"
  shows "new_tasks env op op' (tr_HeadTasks res) \<and> tr_TailTasks res = [] \<and> tr_AfterTasks res = [] \<and>
    tr_DelayBeforeNextTask res = 0 \<and> wf_queue q' \<and> q_Cancelled q' = q_Cancelled q \<and>
    (\<exists>rest'. content q' = t # rest' \<and> subseq rest' rest)"
proof -
  have same: "wf_queue q' \<and> q_Cancelled q' = q_Cancelled q \<and> (\<exists>rest'. content q' = t # rest' \<and> subseq rest' rest)"
    if "so_queues op' = so_queues op"
    using that q q' by (auto simp: queue_inv_def)
  consider (run) "t_Type (so_heap op t) = HookRun"
    | (kube) "t_Type (so_heap op t) = EnableKubernetesBindings"
    | (other) "t_Type (so_heap op t) \<noteq> HookRun" "t_Type (so_heap op t) \<noteq> EnableKubernetesBindings" by blast
  then show ?thesis
  proof cases
    case run
    with assms(1) have "TaskHandleHookRun env t op = Ret (res, op')" by (simp add: TaskHandler_def Let_def)
    then show ?thesis
    proof (rule HookRun_frame)
      fix hook meta m op1
      assume c: "combine_for_run hook t (HookMetadataAccessor (so_heap op t)) (op\<lparr>so_MetricStorage := m\<rparr>) = Ret (meta, op1)"
        and f: "so_queues op' = so_queues op1" "ref_id (so_heap op') = ref_id (so_heap op1)" "so_next op1 \<le> so_next op'"
        "result_tasks res = []" "tr_DelayBeforeNextTask res = 0"
      note cf = combine_for_run_frame [OF c]
      have "wf_queue q' \<and> q_Cancelled q' = q_Cancelled q \<and> (\<exists>rest'. content q' = t # rest' \<and> subseq rest' rest)"
        using cf f(1) same Combine_queue [OF q, of _ "so_queues op'" q'] q' by auto
      moreover have "new_tasks env op op' []" using cf f by (intro new_tasks_none) (auto simp: fun_eq_iff)
      ultimately show ?thesis using f by (simp add: result_tasks_def)
    qed
  next
    case kube
    with assms(1) have "TaskHandleEnableKubernetesBindings env t op = Ret (res, op')"
      by (simp add: TaskHandler_def Let_def)
    from Enable_frame [OF this] same show ?thesis by simp
  next
    case other
    with assms(1) have f: "so_queues op' = so_queues op" "so_heap op' = so_heap op" "so_next op' = so_next op"
      "tr_HeadTasks res = []" "tr_TailTasks res = []" "tr_AfterTasks res = []" "tr_DelayBeforeNextTask res = 0"
      by (auto simp: TaskHandler_def Let_def empty_result_def split: if_splits option.splits prod.splits)
    then have "new_tasks env op op' []" by (intro new_tasks_none) simp_all
    with f same show ?thesis by simp
  qed
qed

lemma operator_handler_ok:
  fixes envs :: "('c, 'r, 'v) op_env set"
  assumes inv: "queue_inv s" "content (snd s) = t # rest" and f: "operator_handler envs name t s res s'"
  shows "handler_ok t s res s'"
proof -
  obtain env :: "('c, 'r, 'v) op_env" and op op' where h: "ids_ok env op" "so_heap op = fst s" "GetByName name (so_queues op) = Some (snd s)"
    "TaskHandler env t op = Ret (res, op')" "so_heap op' = fst s'" "GetByName name (so_queues op') = Some (snd s')"
    using f unfolding operator_handler_def by blast
  have "queue_inv (so_heap op, snd s)" using inv(1) h(2) by (simp add: queue_inv_def)
  from TaskHandler_frame [OF h(4) h(3) this inv(2) h(6)] obtain rest' where
    fr: "new_tasks env op op' (tr_HeadTasks res)" "tr_TailTasks res = []" "tr_AfterTasks res = []"
      "tr_DelayBeforeNextTask res = 0" "wf_queue (snd s')" "q_Cancelled (snd s') = q_Cancelled (snd s)"
      "content (snd s') = t # rest'" "subseq rest' rest" by blast
  have old: "r < so_next op \<and> (\<exists>k < so_next op. ref_id (fst s) r = oe_newid env k) \<and> ref_id (fst s') r = ref_id (fst s) r"
    if "r \<in> set (content (snd s))" for r
  proof -
    have "r < so_next op" "\<exists>k < so_next op. ref_id (fst s) r = oe_newid env k"
      using that h(1,2,3) by (auto simp: ids_ok_def)
    with fr(1) h(2,5) show ?thesis by (auto simp: new_tasks_def)
  qed
  have inj: "inj (oe_newid env)" using h(1) by (simp add: ids_ok_def)
  have new: "so_next op \<le> r \<and> ref_id (fst s') r = oe_newid env r" if "r \<in> set (tr_HeadTasks res)" for r
    using that fr(1) h(5) by (auto simp: new_tasks_def)
  have sub: "set (content (snd s')) \<subseteq> set (content (snd s))"
    using fr(7,8) inv(2) subseq_set_subset [of rest' rest] by auto
  have "distinct (map (ref_id (fst s')) (tr_HeadTasks res))"
    using fr(1) new inj by (auto simp: distinct_map new_tasks_def inj_on_def dest: injD)
  then have dist: "distinct (map (ref_id (fst s')) (result_tasks res))" using fr by (simp add: result_tasks_def rev_map [symmetric])
  have "ref_id (fst s') r \<noteq> ref_id (fst s') r'" if r: "r \<in> set (tr_HeadTasks res)" "r' \<in> set (content (snd s'))" for r r'
  proof -
    obtain k where "k < so_next op" "ref_id (fst s') r' = oe_newid env k" using old [of r'] r(2) sub by (metis subsetD)
    with new [OF r(1)] inj show ?thesis by (auto dest: injD)
  qed
  then have disj: "ref_id (fst s') ` set (result_tasks res) \<inter> ref_id (fst s') ` set (content (snd s')) = {}"
    using fr by (fastforce simp: result_tasks_def)
  have "\<exists>rest'. content (snd s') = t # rest' \<and> subseq rest' (tl (content (snd s)))" using fr(7,8) inv(2) by simp
  moreover have "\<forall>r\<in>set (content (snd s)). ref_id (fst s') r = ref_id (fst s) r" using old by blast
  ultimately show ?thesis using fr(4,5,6) dist disj unfolding handler_ok_def by simp
qed

interpretation op_loop: task_handler "operator_handler envs name" for envs name
  by unfold_locales (rule operator_handler_ok)


section \<open>The status of a hook run\<close>

text \<open>\<open>run_ok\<close>: the hook succeeded and its metric operations are accepted.\<close>

definition run_ok :: "string + MetricOperation list \<Rightarrow> bool" where
  "run_ok run = (case run of
     Inl _ \<Rightarrow> False
   | Inr ms \<Rightarrow> ValidateOperations ms = [] \<and> list_all (\<lambda>op. op_Group op \<noteq> [] \<or> op_Add op \<noteq> None \<or> op_Set op \<noteq> None) ms)"

lemma SendBatch_no_error:
  "snd (SendBatch lib order ms ls m) = [] \<longleftrightarrow> run_ok (Inr ms)"
  by (auto simp: run_ok_def SendBatch_def Let_def SendBatchV0_errors list_all_iff)

lemma send_hook_metrics_error: "snd (send_hook_metrics env ms ls op) = None \<longleftrightarrow> run_ok (Inr ms)"
  by (simp add: send_hook_metrics_def Let_def case_prod_beta SendBatch_no_error)

lemma finish_hook_run_status:
  assumes "finish_hook_run env t meta ls usage run op = (res, op')"
  shows "tr_Status res = (if run_ok run \<or> hm_AllowFailure meta then ''Success'' else ''Fail'')"
    and "\<not> run_ok run \<Longrightarrow> \<not> hm_AllowFailure meta \<Longrightarrow> t_QueuedAt (so_heap op' t) = oe_now env"
proof -
  let ?op = "usage_metrics env usage ls op"
  obtain op1 err where 1: "(case run of Inl e \<Rightarrow> (?op, Some e)
      | Inr metrics \<Rightarrow> send_hook_metrics env metrics [(''hook'', hm_HookName meta)] ?op) = (op1, err)" by fastforce
  have err: "err = None \<longleftrightarrow> run_ok run"
  proof (cases run)
    case (Inl e)
    with 1 show ?thesis by (auto simp: run_ok_def)
  next
    case (Inr ms)
    with 1 show ?thesis using send_hook_metrics_error [of env ms "[(''hook'', hm_HookName meta)]" ?op] by simp
  qed
  obtain status a b c op2 where 2: "run_status env t (hm_AllowFailure meta) err op1 = (status, a, b, c, op2)"
    using prod_cases5 by blast
  have r: "tr_Status res = status" "so_heap op' = so_heap op2"
    using assms 1 2 by (auto simp: finish_hook_run_def Let_def)
  show "tr_Status res = (if run_ok run \<or> hm_AllowFailure meta then ''Success'' else ''Fail'')"
    using r 2 err by (auto simp: run_status_def split: option.splits if_splits)
  show "t_QueuedAt (so_heap op' t) = oe_now env"
    if "\<not> run_ok run" "\<not> hm_AllowFailure meta"
    using that r 2 err by (auto simp: run_status_def WithQueuedAt_def split: option.splits if_splits)
qed


section \<open>Properties\<close>

text \<open>
  C5. The status of a hook task: the hook is run once, on its own binding contexts followed by those
  that were combined into them, and the task succeeds exactly when the hook succeeds with
  acceptable metric operations or is allowed to fail. Otherwise it fails, its queueing time is
  reset and it creates no tasks.
\<close>

theorem TaskHandleHookRun_status:
  assumes run: "TaskHandleHookRun env t op = Ret (res, op')"
    and meta: "meta = HookMetadataAccessor (so_heap op t)"
  shows "\<exists>hook mgr u1 u2 bcs fs fs' usage out.
    GetHook (hm_HookName meta) (so_hm op) = Some hook \<and>
    Hook_Run (oe_hook env) (lib_ord (oe_libs env)) mgr u1 u2 bcs hook fs = Ret (fs', usage, out) \<and>
    (cfg_Version (h_Config hook) \<noteq> ''v1'' \<longrightarrow> bcs = hm_BindingContext meta) \<and>
    tr_Status res = (if run_ok out \<or> hm_AllowFailure meta then ''Success'' else ''Fail'') \<and>
    (tr_Status res = ''Fail'' \<longrightarrow> t_QueuedAt (so_heap op' t) = oe_now env) \<and>
    result_tasks res = []"
  using run
proof (rule HookRun_cases)
  fix hook m meta' op1 u1 op2 u2 op3 fs usage out
  assume g: "GetHook (hm_HookName (HookMetadataAccessor (so_heap op t))) (so_hm op) = Some hook"
    and c: "combine_for_run hook t (HookMetadataAccessor (so_heap op t)) (op\<lparr>so_MetricStorage := m\<rparr>) = Ret (meta', op1)"
    and r: "Hook_Run (oe_hook env) (lib_ord (oe_libs env)) (w_kem (so_managers op3)) u1 u2 (hm_BindingContext meta') hook
       (so_files op3) = Ret (fs, usage, out)"
    and f: "finish_hook_run env t meta' [(''hook'', hm_HookName (HookMetadataAccessor (so_heap op t))),
        (''binding'', hm_Binding (HookMetadataAccessor (so_heap op t))), (''queue'', t_QueueName (so_heap op t))]
       usage out (op3\<lparr>so_files := fs\<rparr>) = (res, op')"
  have m: "hm_AllowFailure meta' = hm_AllowFailure meta"
    "cfg_Version (h_Config hook) \<noteq> ''v1'' \<longrightarrow> hm_BindingContext meta' = hm_BindingContext meta"
    using c meta by (auto simp: combine_for_run_def Let_def split: if_splits option.splits)
  note st = finish_hook_run_status [OF f] finish_hook_run_frame [OF f]
  show ?thesis
    using g r m st meta by (intro exI conjI) (auto split: if_splits)
qed


text \<open>A small operator: one hook, whose program ends with the given error, and one task for it.\<close>

definition demo_op_env :: "string option \<Rightarrow> ((int \<times> string) list, unit, rat) op_env" where
  "demo_op_env err = \<lparr>oe_libs = demo_libs, oe_hook = demo_hook_env\<lparr>he_Exec := \<lambda>_ _ fs. (fs, None, err)\<rparr>,
     oe_prom = demo_prom, oe_newid = \<lambda>n. replicate n (CHR ''i''), oe_groups = map fst,
     oe_links = \<lambda>_. [], oe_monitors = \<lambda>_. [], oe_metric_error = \<lambda>_. ''metrics'', oe_now = 7, oe_wait = 0,
     oe_duration = 0\<rparr>"

definition demo_v0_hook :: Hook where
  "demo_v0_hook = (NewHook ''a'' ''/h/a'')\<lparr>h_Config := empty_HookConfig\<lparr>cfg_Version := ''v0''\<rparr>\<rparr>"

definition demo_operator :: "((int \<times> string) list, unit, rat) operator" where
  "demo_operator = \<lparr>so_heap = \<lambda>_. demo_task [] ''a'',
     so_queues = \<lparr>tqs_Queues = [(''main'', AddLast 0 NewTasksQueue)], tqs_MainName = ''main'', tqs_Cancelled = False\<rparr>,
     so_hm = register_hook demo_v0_hook NewHookManager, so_managers = demo_managers,
     so_MetricStorage = NewMetricStorage (), so_HookMetricStorage = None, so_files = [], so_next = 1\<rparr>"

lemma demo_GetHook: "GetHook ''a'' (so_hm demo_operator) = Some demo_v0_hook"
  by (simp add: demo_operator_def GetHook_register NewHook_def demo_v0_hook_def)

lemma demo_Hook_Run:
  "returns (Hook_Run (oe_hook (demo_op_env err)) ord mgr u1 u2 [demo_bc b []] demo_v0_hook fs)"
  by (simp add: Hook_Run_def UpdateSnapshots_def NewHook_def NewHookController_def ConvertBindingContextList_def
     demo_v0_hook_def BindingContext_Map_def BindingContext_MapV0_def empty_bc_def)

lemma demo_Hook_Run_error:
  "Hook_Run (oe_hook (demo_op_env (Some e))) ord mgr u1 u2 bcs demo_v0_hook fs = Ret (fs', usage, out) \<Longrightarrow> \<not> run_ok out"
  by (auto simp: Hook_Run_def run_command_def run_ok_def demo_op_env_def demo_hook_env_def Let_def 
     prepareMetricsFile_def prepareBindingContextJsonFile_def)

lemma returns_bind: "returns m \<Longrightarrow> (\<And>x. m = Ret x \<Longrightarrow> returns (f x)) \<Longrightarrow> returns (go_bind m f)"
  by (cases m) simp_all

lemma HookRun_returns:
  assumes hook: "GetHook (hm_HookName (HookMetadataAccessor (so_heap op t))) (so_hm op) = Some hook"
    and v0: "cfg_Version (h_Config hook) \<noteq> ''v1''"
    and run: "\<And>mgr u1 u2 fs. returns (Hook_Run (oe_hook env) (lib_ord (oe_libs env)) mgr u1 u2
        (hm_BindingContext (HookMetadataAccessor (so_heap op t))) hook fs)"
  shows "returns (TaskHandleHookRun env t op)"
proof -
  have c: "combine_for_run hook t meta op1 = Ret (meta, op1)" for meta and op1 :: "('a, 'b, 'c) operator"
    using v0 by (simp add: combine_for_run_def)
  have "returns (go_bind (Hook_Run (oe_hook env) (lib_ord (oe_libs env)) mgr u1 u2
        (hm_BindingContext (HookMetadataAccessor (so_heap op t))) hook fs)
      (\<lambda>(fs, usage, run). Ret (f fs usage run)))" for mgr u1 u2 fs f
    using run by (rule returns_bind) (simp add: split_beta)
  moreover have "so_hm (with_metrics m op) = so_hm op" for m by simp
  ultimately show ?thesis
    unfolding TaskHandleHookRun_def new_uuid_def Let_def
    by (simp only: hook c option.case go_bind.simps prod.case)
qed

lemma demo_meta:
  "hm_HookName (HookMetadataAccessor (so_heap demo_operator 0)) = ''a''"
  "hm_BindingContext (HookMetadataAccessor (so_heap demo_operator 0)) = [demo_bc [] []]"
  "hm_AllowFailure (HookMetadataAccessor (so_heap demo_operator 0)) = False"
  by (simp_all add: demo_operator_def demo_task_def HookMetadataAccessor_def empty_HookMetadata_def)

lemma demo_TaskHandler: "\<exists>res op'. TaskHandleHookRun (demo_op_env err) 0 demo_operator = Ret (res, op')"
proof -
  have "cfg_Version (h_Config demo_v0_hook) \<noteq> ''v1''" by (simp add: demo_v0_hook_def)
  then have "returns (TaskHandleHookRun (demo_op_env err) 0 demo_operator)"
    using demo_GetHook demo_Hook_Run by (intro HookRun_returns [where hook = demo_v0_hook]) (simp_all only: demo_meta not_False_eq_True)
  then show ?thesis unfolding returns_iff by force
qed

theorem TaskHandleHookRun_status_witness:
  "\<exists>res op'. TaskHandleHookRun (demo_op_env (Some ''exit status 1'')) 0 demo_operator = Ret (res, op') \<and>
     tr_Status res = ''Fail'' \<and> t_QueuedAt (so_heap op' 0) = 7"
proof -
  let ?env = "demo_op_env (Some ''exit status 1'')"
  obtain res op' where run: "TaskHandleHookRun ?env 0 demo_operator = Ret (res, op')"
    using demo_TaskHandler by blast
  from TaskHandleHookRun_status [OF run refl] obtain mgr u1 u2 bcs fs fs' usage out where
    r: "Hook_Run (oe_hook ?env) (lib_ord (oe_libs ?env)) mgr u1 u2 bcs demo_v0_hook fs = Ret (fs', usage, out)"
    "tr_Status res = (if run_ok out \<or> False then ''Success'' else ''Fail'')"
    "tr_Status res = ''Fail'' \<longrightarrow> t_QueuedAt (so_heap op' 0) = oe_now ?env"
    unfolding demo_meta demo_GetHook option.inject by blast
  have "\<not> run_ok out" using demo_Hook_Run_error [OF r(1)] .
  moreover have "oe_now ?env = 7" by (simp add: demo_op_env_def)
  ultimately show ?thesis using r(2,3) run by (intro exI [of _ res] exI [of _ op']) simp
qed

end
