(* ===== verification/Operator_Loop.thy ===== *)
theory Operator_Loop
  imports Operator_Handler
begin

text \<open>
  The goroutines of the operator's queues: what the loop of \<open>Task_Queue_Loop\<close> guarantees when its
  handler is the operator's \<open>TaskHandler\<close>. The runs are those in which every call of the handler
  returns; a call that panics ends the program.
\<close>

section \<open>Progress\<close>

abbreviation awake :: "loop \<Rightarrow> bool" where
  "awake l \<equiv> l_pc l = Entering \<or> (\<exists>d st. l_pc l = AtTop d st \<or> l_pc l = Asleep d st)"

text \<open>\<open>quiet l l'\<close>: the loop gets from \<open>l\<close> to \<open>l'\<close> with steps of its own.\<close>

definition quiet :: "handler option \<Rightarrow> loop \<Rightarrow> loop \<Rightarrow> bool" where
  "quiet hnd l l' \<longleftrightarrow> (\<exists>es. loop_run hnd l es l' \<and> set es \<subseteq> {LTau})"

lemma quiet_refl: "quiet hnd l l"
  using run_nil unfolding quiet_def by fastforce

lemma quiet_step: "quiet hnd l l' \<Longrightarrow> loop_step hnd l' LTau l'' \<Longrightarrow> quiet hnd l l''"
proof -
  assume "quiet hnd l l'" and st: "loop_step hnd l' LTau l''"
  then obtain es where es: "loop_run hnd l es l'" "set es \<subseteq> {LTau}" by (auto simp: quiet_def)
  have "loop_run hnd l (es @ [LTau]) l''" using es(1) st by (rule run_step)
  with es(2) show ?thesis unfolding quiet_def by (intro exI [of _ "es @ [LTau]"]) simp
qed

lemma quiet_sleep:
  assumes "quiet hnd l (l\<lparr>l_pc := AtTop d st\<rparr>)" "0 \<le> d"
  shows "quiet hnd l (l\<lparr>l_pc := AtTop 0 st\<rparr>)"
proof (cases "d = 0")
  case False
  have "loop_step hnd (l\<lparr>l_pc := AtTop d st\<rparr>) LTau (l\<lparr>l_pc := AtTop d st, l_pc := Asleep d st\<rparr>)"
    using assms(2) False by (intro top_sleep) simp_all
  then have "quiet hnd l (l\<lparr>l_pc := Asleep d st\<rparr>)" using quiet_step [OF assms(1)] by simp
  moreover have "loop_step hnd (l\<lparr>l_pc := Asleep d st\<rparr>) LTau (l\<lparr>l_pc := Asleep d st, l_pc := AtTop 0 st\<rparr>)"
    by (intro delay_tick) simp
  ultimately show ?thesis using quiet_step by fastforce
qed (use assms in simp)

text \<open>The steps on the way to the next task.\<close>

lemma top_takes:
  assumes "l_pc l = AtTop 0 st" "queue_inv (l_heap l, l_queue l)" "content (l_queue l) = t # rest"
  shows "\<exists>l'. loop_step (Some f) l (LTake t) l' \<and> l_pc l' = Running t \<and> content (l_queue l') = t # rest"
proof -
  have "wf_queue (l_queue l)" using assms(2) by (simp add: queue_inv_def)
  then have "\<not> isEmpty (l_queue l)" "GetFirst (l_queue l) = Some t" "returns (dump_queue (l_heap l, l_queue l))"
    using assms(3) by (auto simp: queue_simps wf_queue_dump)
  then have "loop_step (Some f) l (LTake t) (set_status StatusRunFirstTask l\<lparr>l_pc := Running t\<rparr>)"
    using assms(1) by (intro top_take) simp_all
  moreover have "content (l_queue (set_status StatusRunFirstTask l\<lparr>l_pc := Running t\<rparr>)) = t # rest"
    using assms(3) by (simp add: content_def)
  ultimately show ?thesis by (intro exI [of _ "set_status StatusRunFirstTask l\<lparr>l_pc := Running t\<rparr>"]) simp
qed

text \<open>A loop that waits or sleeps takes the head of its queue after at most three steps of its own.\<close>

lemma awake_top:
  assumes inv: "loop_inv l" and l: "awake l" "\<not> q_Cancelled (l_queue l)"
  shows "\<exists>st. quiet hnd l (l\<lparr>l_pc := AtTop 0 st\<rparr>)"
proof -
  consider (enter) "l_pc l = Entering" | (top) d st where "l_pc l = AtTop d st" | (asleep) d st where "l_pc l = Asleep d st"
    using l(1) by blast
  then show ?thesis
  proof cases
    case enter
    then have "loop_step hnd l LTau (l\<lparr>l_pc := AtTop (l_sleepDelay l) (q_Status (l_queue l))\<rparr>)"
      using l(2) by (rule enter_wait)
    moreover have "0 \<le> l_sleepDelay l" using inv by (simp add: loop_inv_def)
    ultimately show ?thesis using quiet_sleep [OF quiet_step [OF quiet_refl]] by blast
  next
    case top
    then have "l\<lparr>l_pc := AtTop d st\<rparr> = l" by simp
    then have "quiet hnd l (l\<lparr>l_pc := AtTop d st\<rparr>)" using quiet_refl by metis
    moreover have "0 \<le> d" using inv top by (auto simp: loop_inv_def)
    ultimately show ?thesis using quiet_sleep by blast
  next
    case asleep
    then have "loop_step hnd l LTau (l\<lparr>l_pc := AtTop 0 st\<rparr>)" by (rule delay_tick)
    then show ?thesis by (meson quiet_step quiet_refl)
  qed
qed

lemma queued_task_is_taken:
  assumes inv: "loop_inv l" and l: "awake l" "\<not> q_Cancelled (l_queue l)" "content (l_queue l) = t # rest"
  shows "\<exists>es l'. loop_run (Some f) l (es @ [LTake t]) l' \<and> set es \<subseteq> {LTau} \<and> l_pc l' = Running t \<and>
    content (l_queue l') = t # rest"
proof -
  obtain st where st: "quiet (Some f) l (l\<lparr>l_pc := AtTop 0 st\<rparr>)" using awake_top [OF inv l(1,2)] by blast
  have "queue_inv (l_heap l, l_queue l)" using inv by (simp add: loop_inv_def)
  then obtain l' where "loop_step (Some f) (l\<lparr>l_pc := AtTop 0 st\<rparr>) (LTake t) l'" "l_pc l' = Running t"
    "content (l_queue l') = t # rest"
    using top_takes [of "l\<lparr>l_pc := AtTop 0 st\<rparr>" st t rest f] l(3) by auto
  with st show ?thesis unfolding quiet_def by (meson run_step)
qed

section \<open>Example runs\<close>

lemma demo_inj: "inj (oe_newid (demo_op_env err))"
  by (auto simp: demo_op_env_def inj_def)

lemma demo_fails:
  "\<exists>res op'. TaskHandler (demo_op_env (Some e)) 0 demo_operator = Ret (res, op') \<and> tr_Status res = ''Fail'' \<and>
     so_queues op' = so_queues demo_operator"
proof -
  let ?env = "demo_op_env (Some e)"
  obtain res op' where run: "TaskHandleHookRun ?env 0 demo_operator = Ret (res, op')"
    using demo_TaskHandler by blast
  have ty: "t_Type (so_heap demo_operator 0) = HookRun" by (simp add: demo_operator_def demo_task_def NewTask_def)
  have v: "cfg_Version (h_Config demo_v0_hook) \<noteq> ''v1''" by (simp add: demo_v0_hook_def)
  have "tr_Status res = ''Fail'' \<and> so_queues op' = so_queues demo_operator"
    using run
  proof (rule HookRun_cases)
    fix hook m meta op1 u1 op2 u2 op3 fs usage out ls
    assume h: "GetHook (hm_HookName (HookMetadataAccessor (so_heap demo_operator 0))) (so_hm demo_operator) = Some hook"
      and u: "new_uuid ?env op1 = (u1, op2)" "new_uuid ?env op2 = (u2, op3)"
      and c: "combine_for_run hook 0 (HookMetadataAccessor (so_heap demo_operator 0)) (demo_operator\<lparr>so_MetricStorage := m\<rparr>)
        = Ret (meta, op1)"
      and r: "Hook_Run (oe_hook ?env) (lib_ord (oe_libs ?env)) (w_kem (so_managers op3)) u1 u2 (hm_BindingContext meta)
        hook (so_files op3) = Ret (fs, usage, out)"
      and f: "finish_hook_run ?env 0 meta ls usage out (op3\<lparr>so_files := fs\<rparr>) = (res, op')"
    have hook: "hook = demo_v0_hook" using h unfolding demo_meta demo_GetHook by simp
    then have m: "meta = HookMetadataAccessor (so_heap demo_operator 0)" "so_queues op1 = so_queues demo_operator"
      using c v by (auto simp: combine_for_run_def)
    then have "\<not> hm_AllowFailure meta" using demo_meta(3) by simp
    moreover have "so_queues op' = so_queues demo_operator"
      using finish_hook_run_frame [OF f] new_uuid_frame(2) u m(2) by fastforce
    ultimately show ?thesis using finish_hook_run_status(1) [OF f] demo_Hook_Run_error [OF r [unfolded hook]] by simp
  qed
  with run ty show ?thesis by (simp add: TaskHandler_def Let_def)
qed

lemma loop_run_trans: "loop_run hnd l' es' l'' \<Longrightarrow> loop_run hnd l es l' \<Longrightarrow> loop_run hnd l (es @ es') l''"
proof (induction rule: loop_run.induct)
  case (run_step l' es' m e m')
  then have "loop_run hnd l (es @ es') m" by blast
  with run_step.hyps(2) show ?case using loop_run.run_step [of hnd l "es @ es'" m e m'] by simp
qed simp

lemma demo_handler_fails:
  "\<exists>res s. operator_handler {demo_op_env (Some e)} ''main'' 0 (so_heap demo_operator, AddLast 0 NewTasksQueue) res s \<and>
     tr_Status res = ''Fail'' \<and> \<not> q_Cancelled (snd s)"
proof -
  obtain res op' where r: "TaskHandler (demo_op_env (Some e)) 0 demo_operator = Ret (res, op')" "tr_Status res = ''Fail''"
    and q: "so_queues op' = so_queues demo_operator"
    using demo_fails by blast
  have g: "GetByName ''main'' (so_queues demo_operator) = Some (AddLast 0 NewTasksQueue)"
    and only: "GetByName name (so_queues demo_operator) = Some q' \<Longrightarrow> q' = AddLast 0 NewTasksQueue" for name q'
    by (auto simp: demo_operator_def GetByName_def split: if_splits)
  have "ref_id (so_heap demo_operator) 0 = oe_newid (demo_op_env (Some e)) 0" "so_next demo_operator = 1"
    by (simp_all add: demo_operator_def demo_task_def NewTask_def demo_op_env_def)
  then have "ids_ok (demo_op_env (Some e)) demo_operator"
    using only demo_inj unfolding ids_ok_def by (fastforce simp: content_AddLast content_NewTasksQueue)
  then have "operator_handler {demo_op_env (Some e)} ''main'' 0 (so_heap demo_operator, AddLast 0 NewTasksQueue) res
      (so_heap op', AddLast 0 NewTasksQueue)"
    using r g q unfolding operator_handler_def by (intro exI [of _ "demo_op_env (Some e)"] exI [of _ demo_operator] exI [of _ op']) simp
  moreover have "\<not> q_Cancelled (AddLast 0 NewTasksQueue)" by (simp add: AddLast_def NewTasksQueue_def Let_def)
  ultimately show ?thesis using r(2) by (intro exI conjI) auto
qed

lemma fail_keeps_running:
  assumes "after_handler rnd t res s = Ret (s', d)" "tr_Status res = ''Fail''"
  shows "q_Cancelled (snd s') = q_Cancelled (snd s)"
  using assms by (cases s) (auto simp: after_handler_def handle_result_def Let_def split: if_splits)

section \<open>Properties\<close>

text \<open>
  C3. Whatever the handled tasks do and whatever other goroutines queue, the goroutine of a queue
  does not crash on its queue: there is never a nil item, no two queued tasks have the same
  identifier, and the running task is the first one of the queue.
\<close>

theorem operator_queue_safe:
  assumes "loop_run (Some (operator_handler envs name)) l es l'"
    and "l_queue l = NewTasksQueue" "l_sleepDelay l = 0" "l_pc l = NotStarted"
  shows "l_pc l' \<noteq> Crashed \<and> wf_queue (l_queue l') \<and>
    distinct (map (ref_id (l_heap l')) (content (l_queue l'))) \<and>
    (\<forall>t. l_pc l' = Running t \<longrightarrow> (\<exists>rest. content (l_queue l') = t # rest))"
proof -
  have "loop_inv l"
    using assms by (simp add: loop_inv_def queue_inv_def content_NewTasksQueue wf_NewTasksQueue)
  from op_loop.run_inv [OF assms(1) this] show ?thesis by (simp add: loop_inv_def queue_inv_def)
qed

text \<open>A loop that has not been started, over the tasks of the example.\<close>

definition demo_loop :: loop where
  "demo_loop = \<lparr>l_heap = so_heap demo_operator, l_queue = NewTasksQueue, l_sleepDelay = 0, l_pc = NotStarted\<rparr>"

theorem operator_queue_safe_witness:
  "\<exists>es l'. loop_run (Some (operator_handler {demo_op_env None} ''main'')) demo_loop es l' \<and>
     l_pc l' = Running 0 \<and> wf_queue (l_queue l')"
proof -
  let ?f = "Some (operator_handler {demo_op_env None} ''main'')"
  let ?l1 = "TaskQueue_Start demo_loop"
  let ?t = "so_heap demo_operator 0"
  let ?l2 = "?l1\<lparr>l_heap := (l_heap ?l1)(0 := ?t), l_queue := AddLast 0 (l_queue ?l1)\<rparr>"
  have "\<not> q_Started NewTasksQueue" by (simp add: NewTasksQueue_def)
  then have l1: "loop_step ?f demo_loop LTau ?l1" by (intro start) (simp_all add: demo_loop_def)
  have c1: "content (l_queue ?l1) = []" "l_pc ?l1 = Entering" "\<not> q_Cancelled (l_queue ?l1)"
    by (simp_all add: TaskQueue_Start_def demo_loop_def NewTasksQueue_def content_def)
  then have "loop_step ?f ?l1 (LAdd 0) ?l2" by (intro add) (simp add: fresh_task_def)
  from run_step [OF run_step [OF run_nil l1] this]
  have run: "loop_run ?f demo_loop [LTau, LAdd 0] ?l2" by simp
  have "loop_inv demo_loop"
    by (simp add: demo_loop_def loop_inv_def queue_inv_def content_NewTasksQueue wf_NewTasksQueue)
  then have inv: "loop_inv ?l2" using op_loop.run_inv [OF run] by blast
  have "content (l_queue ?l2) = [0]" using c1 by (simp add: content_AddLast)
  with queued_task_is_taken [OF inv, of 0 "[]"] c1 obtain es l' where
    more: "loop_run ?f ?l2 (es @ [LTake 0]) l'" "l_pc l' = Running 0" by fastforce
  have "loop_run ?f demo_loop ([LTau, LAdd 0] @ es @ [LTake 0]) l'" using more(1) run by (rule loop_run_trans)
  moreover have "wf_queue (l_queue l')"
    using operator_queue_safe [OF calculation] by (simp add: demo_loop_def)
  ultimately show ?thesis using more(2) by blast
qed

text \<open>
  C2. A task that did not succeed is tried again before any other task of its queue: it is still the
  first one of the queue, the next task that is taken is this one, and the loop can take it with
  steps of its own as long as the queue is not stopped.
\<close>

theorem operator_retries_first:
  assumes inv: "loop_inv l0" and pre: "loop_run (Some (operator_handler envs name)) l0 es l1"
    and hnd: "loop_step (Some (operator_handler envs name)) l1 (LHandled t st) l2" and st: "st \<noteq> ''Success''"
  shows "(\<forall>ms l3 t' l4. loop_run (Some (operator_handler envs name)) l2 ms l3 \<and>
      (\<forall>e\<in>set ms. \<not> is_take e \<and> \<not> is_handled e) \<and>
      loop_step (Some (operator_handler envs name)) l3 (LTake t') l4 \<longrightarrow> t' = t) \<and>
    (l_pc l2 = Entering \<and> \<not> q_Cancelled (l_queue l2) \<longrightarrow>
      (\<exists>ms l3. loop_run (Some (operator_handler envs name)) l2 (ms @ [LTake t]) l3 \<and> set ms \<subseteq> {LTau}))"
proof -
  have inv1: "loop_inv l1" using op_loop.run_inv [OF pre inv] .
  then have inv2: "loop_inv l2" using op_loop.step_inv [OF hnd] by blast
  have "\<exists>ms l3. loop_run (Some (operator_handler envs name)) l2 (ms @ [LTake t]) l3 \<and> set ms \<subseteq> {LTau}"
    if l2: "l_pc l2 = Entering" "\<not> q_Cancelled (l_queue l2)"
  proof -
    obtain rest where "content (l_queue l2) = t # rest"
      using op_loop.handled_unfinished_head [OF hnd inv1 st] l2(1) by auto
    from queued_task_is_taken [OF inv2 _ l2(2) this] l2(1) show ?thesis by blast
  qed
  with op_loop.retry_before_next [OF inv pre hnd _ _ st] show ?thesis by blast
qed

theorem operator_retries_first_witness:
  "\<exists>l1 l2 ms l3. loop_step (Some (operator_handler {demo_op_env (Some ''exit status 1'')} ''main'')) l1 (LHandled 0 ''Fail'') l2 \<and>
     loop_run (Some (operator_handler {demo_op_env (Some ''exit status 1'')} ''main'')) l2 (ms @ [LTake 0]) l3"
proof -
  let ?f = "operator_handler {demo_op_env (Some ''exit status 1'')} ''main''"
  let ?l1 = "\<lparr>l_heap = so_heap demo_operator, l_queue = AddLast 0 NewTasksQueue, l_sleepDelay = 0, l_pc = Running 0\<rparr>"
  have inv: "loop_inv ?l1"
    by (simp add: loop_inv_def queue_inv_def content_AddLast content_NewTasksQueue wf_AddLast wf_NewTasksQueue)
  obtain res s where h: "?f 0 (l_heap ?l1, l_queue ?l1) res s" "tr_Status res = ''Fail''" "\<not> q_Cancelled (snd s)"
    using demo_handler_fails [of "''exit status 1''"] unfolding loop.simps by blast
  obtain s'' d where a: "after_handler 0 0 res s = Ret (s'', d)" "\<not> q_Cancelled (snd s'')"
    using op_loop.step_after_handler [OF inv _ h(1), of 0] fail_keeps_running h by (auto simp: ExponentialDelayRandomMs_def)
  let ?l2 = "?l1\<lparr>l_heap := fst s'', l_queue := snd s'', l_sleepDelay := d, l_pc := Entering\<rparr>"
  have "loop_step (Some ?f) ?l1 (LHandled 0 (tr_Status res)) ?l2"
    by (rule handled [where f = ?f and s = s and rnd = 0])
      (use h a(1) in \<open>simp_all add: ExponentialDelayRandomMs_def\<close>)
  then have st: "loop_step (Some ?f) ?l1 (LHandled 0 ''Fail'') ?l2" using h(2) by simp
  from operator_retries_first [OF inv run_nil st] a(2) obtain ms l3 where
    "loop_run (Some ?f) ?l2 (ms @ [LTake 0]) l3" by auto
  with st show ?thesis by blast
qed

text \<open>
  C8. After a queue is stopped, at most one more task is taken from it, and the goroutine handles no
  task after that one.
\<close>

theorem operator_queue_stops:
  assumes "loop_run (Some (operator_handler envs name)) l es l'" "loop_inv l" "q_Cancelled (l_queue l)"
  shows "length (filter is_take es) \<le> 1 \<and>
    (length (filter is_take es) = 1 \<longrightarrow> l_pc l' = Stopped \<or> (\<exists>t. l_pc l' = Running t))"
  using op_loop.takes_after_cancel [OF assms] by auto

theorem operator_queue_stops_witness:
  "\<exists>es l'. loop_run (Some (operator_handler {demo_op_env None} ''main''))
       \<lparr>l_heap = so_heap demo_operator, l_queue = TaskQueue_Stop (AddLast 0 NewTasksQueue), l_sleepDelay = 0,
        l_pc = AtTop 0 StatusEmpty\<rparr> es l' \<and>
     length (filter is_take es) = 1 \<and> (l_pc l' = Stopped \<or> (\<exists>t. l_pc l' = Running t))"
proof -
  let ?f = "operator_handler {demo_op_env None} ''main''"
  let ?q = "TaskQueue_Stop (AddLast (0 :: task_ref) NewTasksQueue)"
  let ?l = "\<lparr>l_heap = so_heap demo_operator, l_queue = ?q, l_sleepDelay = 0, l_pc = AtTop 0 StatusEmpty\<rparr>"
  have q: "content ?q = [0]" "wf_queue ?q" "q_Cancelled ?q"
    by (simp_all add: TaskQueue_Stop_def AddLast_def NewTasksQueue_def content_def wf_queue_def Let_def)
  then have "queue_inv (so_heap demo_operator, ?q)" by (simp add: queue_inv_def)
  then have inv: "loop_inv ?l" by (simp add: loop_inv_def)
  obtain l' where "loop_step (Some ?f) ?l (LTake 0) l'"
    using top_takes [of ?l StatusEmpty 0 "[]" ?f] q by (auto simp: queue_inv_def)
  from run_step [OF run_nil this] have run: "loop_run (Some ?f) ?l [LTake 0] l'" by simp
  with operator_queue_stops [OF run inv] q(3) show ?thesis by (intro exI [of _ "[LTake 0]"] exI [of _ l']) simp
qed

end
