(* ===== verification/Operator_Start.thy ===== *)
theory Operator_Start
  imports Operator_Loop
begin

text \<open>
  What the operator has when it starts: the content of the main queue after
  \<open>PrepopulateMainQueue\<close>, and the queues that \<open>Start\<close> makes for the bindings of the hooks.
\<close>

section \<open>The main queue\<close>

text \<open>What a queued task is for: its type and its hook.\<close>

definition task_key :: "task_heap \<Rightarrow> task_ref \<Rightarrow> TaskType \<times> string" where
  "task_key h r = (t_Type (h r), hm_HookName (HookMetadataAccessor (h r)))"

text \<open>\<open>main_ok env op ts\<close>: the main queue exists, its tasks are the \<open>ts\<close>, made from the supply.\<close>

definition main_ok :: "('c, 'r, 'v) op_env \<Rightarrow> ('c, 'r, 'v) operator \<Rightarrow> (TaskType \<times> string) list \<Rightarrow> bool" where
  "main_ok env op ts \<longleftrightarrow> (\<exists>q. tqs_MainName (so_queues op) = ''main'' \<and> GetByName ''main'' (so_queues op) = Some q \<and>
     wf_queue q \<and> distinct (content q) \<and> map (task_key (so_heap op)) (content q) = ts \<and>
     (\<forall>r\<in>set (content q). r < so_next op \<and> ref_id (so_heap op) r = oe_newid env r))"

lemma add_to_main_ok:
  assumes ok: "main_ok env op ts"
    and mk: "\<And>i. t_Type (mk i) = ty" "\<And>i. hm_HookName (HookMetadataAccessor (mk i)) = n" "\<And>i. t_Id (mk i) = i"
  shows "\<exists>op'. add_to_main env mk op = Ret op' \<and> main_ok env op' (ts @ [(ty, n)]) \<and> so_hm op' = so_hm op \<and>
    (\<forall>name. name \<noteq> ''main'' \<longrightarrow> GetByName name (so_queues op') = GetByName name (so_queues op))"
proof -
  let ?r = "so_next op"
  let ?t = "WithQueuedAt (oe_now env) (mk (oe_newid env ?r))"
  obtain q where q: "tqs_MainName (so_queues op) = ''main''" "GetByName ''main'' (so_queues op) = Some q" "wf_queue q"
    "distinct (content q)" "map (task_key (so_heap op)) (content q) = ts"
    and old: "\<forall>r\<in>set (content q). r < ?r \<and> ref_id (so_heap op) r = oe_newid env r"
    using ok by (auto simp: main_ok_def)
  let ?op = "op\<lparr>so_heap := (so_heap op)(?r := ?t), so_next := Suc ?r, so_queues := (so_queues op)\<lparr>tqs_Queues :=
      mput ''main'' (AddLast ?r q) (tqs_Queues (so_queues op))\<rparr>\<rparr>"
  have run: "add_to_main env mk op = Ret ?op"
    using q(1,2) by (simp add: add_to_main_def alloc_task_def GetMain_def)
  have keep: "task_key ((so_heap op)(?r := ?t)) r = task_key (so_heap op) r" if "r \<in> set (content q)" for r
    using old that by (auto simp: task_key_def)
  have "task_key ((so_heap op)(?r := ?t)) ?r = (ty, n)"
    using mk by (simp add: task_key_def WithQueuedAt_def HookMetadataAccessor_def)
  with keep q(5) have "map (task_key (so_heap ?op)) (content q @ [?r]) = ts @ [(ty, n)]"
    by (auto simp del: fun_upd_apply)
  moreover have "t_Id ?t = oe_newid env ?r" using mk(3) by (simp add: WithQueuedAt_def)
  moreover have "distinct (content q @ [?r])" using q(4) old by auto
  ultimately have "main_ok env ?op (ts @ [(ty, n)])"
    unfolding main_ok_def using q(1,3) old
    by (intro exI [of _ "AddLast ?r q"]) (auto simp: GetByName_def content_AddLast wf_AddLast)
  with run show ?thesis by (auto simp: GetByName_def)
qed

lemma onStartup_task_key:
  "t_Type (onStartup_task n i) = HookRun" "hm_HookName (HookMetadataAccessor (onStartup_task n i)) = n"
  "t_Id (onStartup_task n i) = i"
  by (simp_all add: onStartup_task_def Let_def task_updates NewTask_def HookMetadataAccessor_def)

lemma enable_task_key:
  "t_Type (enable_task ty n i) = ty" "hm_HookName (HookMetadataAccessor (enable_task ty n i)) = n"
  "t_Id (enable_task ty n i) = i"
  by (simp_all add: enable_task_def task_updates NewTask_def HookMetadataAccessor_def)

text \<open>The tasks that enable the bindings of a hook.\<close>

definition enable_keys :: "hookManager \<Rightarrow> string \<Rightarrow> (TaskType \<times> string) list" where
  "enable_keys hm n =
     (if HasBinding OnKubernetesEvent (config_of hm n) then [(EnableKubernetesBindings, n)] else []) @
     (if HasBinding Schedule (config_of hm n) then [(EnableScheduleBindings, n)] else [])"

text \<open>A step of the start that appends to the main queue and changes neither hooks nor other queues.\<close>

definition appends :: "('c, 'r, 'v) op_env \<Rightarrow> hookManager \<Rightarrow>
    (('c, 'r, 'v) operator \<Rightarrow> ('c, 'r, 'v) operator go) \<Rightarrow> (TaskType \<times> string) list \<Rightarrow> bool" where
  "appends env hm f ks \<longleftrightarrow> (\<forall>op ts. main_ok env op ts \<and> so_hm op = hm \<longrightarrow>
     (\<exists>op'. f op = Ret op' \<and> main_ok env op' (ts @ ks) \<and> so_hm op' = hm \<and>
       (\<forall>name. name \<noteq> ''main'' \<longrightarrow> GetByName name (so_queues op') = GetByName name (so_queues op))))"

lemma appends_none: "appends env hm Ret []"
  by (simp add: appends_def)

lemma appends_bind:
  assumes f: "appends env hm f ks" and g: "appends env hm g ls"
  shows "appends env hm (\<lambda>op. go_bind (f op) g) (ks @ ls)"
  unfolding appends_def
proof (intro allI impI)
  fix op ts assume "main_ok env op ts \<and> so_hm op = hm"
  with f obtain op1 where 1: "f op = Ret op1" "main_ok env op1 (ts @ ks)" "so_hm op1 = hm"
    "\<forall>name. name \<noteq> ''main'' \<longrightarrow> GetByName name (so_queues op1) = GetByName name (so_queues op)"
    unfolding appends_def by blast
  with g obtain op2 where 2: "g op1 = Ret op2" "main_ok env op2 ((ts @ ks) @ ls)" "so_hm op2 = hm"
    "\<forall>name. name \<noteq> ''main'' \<longrightarrow> GetByName name (so_queues op2) = GetByName name (so_queues op1)"
    unfolding appends_def by blast
  with 1 show "\<exists>op'. go_bind (f op) g = Ret op' \<and> main_ok env op' (ts @ ks @ ls) \<and> so_hm op' = hm \<and>
      (\<forall>name. name \<noteq> ''main'' \<longrightarrow> GetByName name (so_queues op') = GetByName name (so_queues op))"
    by (intro exI [of _ op2]) simp
qed

lemma appends_fold:
  "(\<And>x. x \<in> set xs \<Longrightarrow> appends env hm (f x) (k x)) \<Longrightarrow> appends env hm (go_fold f xs) (concat (map k xs))"
proof (induction xs)
  case Nil
  have "go_fold f [] = Ret" by (rule ext) simp
  then show ?case using appends_none by simp
next
  case (Cons x xs)
  then have "appends env hm (\<lambda>op. go_bind (f x op) (go_fold f xs)) (k x @ concat (map k xs))"
    by (intro appends_bind) simp_all
  moreover have "go_fold f (x # xs) = (\<lambda>op. go_bind (f x op) (go_fold f xs))" by (rule ext) simp
  ultimately show ?case by simp
qed

lemma appends_task:
  assumes "\<And>i. t_Type (mk i) = ty" "\<And>i. hm_HookName (HookMetadataAccessor (mk i)) = n" "\<And>i. t_Id (mk i) = i"
  shows "appends env hm (add_to_main env mk) [(ty, n)]"
  using add_to_main_ok [of env _ _ mk ty n] assms unfolding appends_def by blast

lemma appends_enable:
  assumes "GetHook n hm = Some h"
  shows "appends env hm (add_enable_tasks env n) (enable_keys hm n)"
proof -
  let ?kube = "HasBinding OnKubernetesEvent (h_Config h)" and ?sched = "HasBinding Schedule (h_Config h)"
  let ?f = "\<lambda>op. if ?kube then add_to_main env (enable_task EnableKubernetesBindings n) op else Ret op"
  let ?g = "\<lambda>op. if ?sched then add_to_main env (enable_task EnableScheduleBindings n) op else Ret op"
  have "appends env hm ?f (if ?kube then [(EnableKubernetesBindings, n)] else [])"
    using appends_task [OF enable_task_key] appends_none by (cases ?kube) auto
  moreover have "appends env hm ?g (if ?sched then [(EnableScheduleBindings, n)] else [])"
    using appends_task [OF enable_task_key] appends_none by (cases ?sched) auto
  ultimately have "appends env hm (\<lambda>op. go_bind (?f op) ?g) (enable_keys hm n)"
    using appends_bind assms by (fastforce simp: enable_keys_def config_of_def)
  moreover have "so_hm op = hm \<Longrightarrow> add_enable_tasks env n op = go_bind (?f op) ?g" for op :: "('a, 'b, 'c) operator"
    using assms by (simp add: add_enable_tasks_def)
  ultimately show ?thesis unfolding appends_def by simp
qed


text \<open>The order of the startup hooks is the only thing that reading them may change.\<close>

lemma GetHooksInOrder_frame:
  "so = GetHooksInOrder env b hm \<Longrightarrow> hm_hooksByName (fst so) = hm_hooksByName hm \<and>
   hm_hookNamesInOrder (fst so) = hm_hookNamesInOrder hm \<and>
   (\<forall>b'. b' \<noteq> OnStartup \<longrightarrow> mget (hm_hooksInOrder (fst so)) b' = mget (hm_hooksInOrder hm) b')"
  by (auto simp: GetHooksInOrder_def Let_def split: option.splits)

lemma GetHooksInOrder_Inr:
  assumes "index_ok hm"
  shows "\<exists>names. snd (GetHooksInOrder env b hm) = Inr names"
proof (cases "mget (hm_hooksInOrder hm) b")
  case (Some hooks)
  then have "hooks = map (\<lambda>n. (n, config_of hm n)) (filter (\<lambda>n. HasBinding b (config_of hm n)) (hm_hookNamesInOrder hm))"
    using assms by (auto simp: index_ok_def hooks_of_def dest: spec [of _ b])
  then have "find (\<lambda>(_, cfg). \<not> HasBinding b cfg) hooks = None" by (auto simp: find_None_iff)
  with Some show ?thesis by (auto simp: GetHooksInOrder_def Let_def)
qed (simp add: GetHooksInOrder_def)

lemma config_of_frame: "hm_hooksByName hm' = hm_hooksByName hm \<Longrightarrow> config_of hm' = config_of hm"
  by (simp add: config_of_def GetHook_def fun_eq_iff)

lemma index_ok_GetHook: "index_ok hm \<Longrightarrow> n \<in> set (hm_hookNamesInOrder hm) \<Longrightarrow> \<exists>h. GetHook n hm = Some h"
  using map_of_eq_None_iff [of "hm_hooksByName hm" n] by (auto simp: index_ok_def GetHook_def)

lemma Prepopulate_ok:
  assumes ok: "index_ok (so_hm op)" and ord: "GetHooksInOrder (oe_hook env) OnStartup (so_hm op) = (hm', Inr names)"
  shows "\<exists>op'. PrepopulateMainQueue env op = Ret op' \<and> so_hm op' = hm' \<and>
    main_ok env op' (map (Pair HookRun) names @ concat (map (enable_keys (so_hm op)) (hm_hookNamesInOrder (so_hm op)))) \<and>
    (\<forall>name. name \<noteq> ''main'' \<longrightarrow> GetByName name (so_queues op') = GetByName name (so_queues op))"
proof -
  let ?op = "op\<lparr>so_queues := NewNamedQueue ''main'' (WithMainName ''main'' (so_queues op)), so_hm := hm'\<rparr>"
  have fr: "hm_hooksByName hm' = hm_hooksByName (so_hm op)" "hm_hookNamesInOrder hm' = hm_hookNamesInOrder (so_hm op)"
    using GetHooksInOrder_frame [OF ord [symmetric]] by simp_all
  have "appends env hm' (go_fold (\<lambda>n. add_to_main env (onStartup_task n)) names)
      (concat (map (\<lambda>n. [(HookRun, n)]) names))"
    by (intro appends_fold appends_task) (simp_all add: onStartup_task_key)
  moreover have "appends env hm' (go_fold (add_enable_tasks env) (hm_hookNamesInOrder hm'))
      (concat (map (enable_keys hm') (hm_hookNamesInOrder hm')))"
  proof (intro appends_fold)
    fix n assume "n \<in> set (hm_hookNamesInOrder hm')"
    then obtain h where "GetHook n (so_hm op) = Some h" using index_ok_GetHook [OF ok] fr by auto
    then have "GetHook n hm' = Some h" using fr by (simp add: GetHook_def)
    then show "appends env hm' (add_enable_tasks env n) (enable_keys hm' n)" by (rule appends_enable)
  qed
  moreover have "enable_keys hm' = enable_keys (so_hm op)"
    using config_of_frame [OF fr(1)] by (simp add: enable_keys_def fun_eq_iff)
  ultimately have app: "appends env hm' (\<lambda>op. go_bind (go_fold (\<lambda>n. add_to_main env (onStartup_task n)) names op)
      (go_fold (add_enable_tasks env) (hm_hookNamesInOrder hm')))
      (map (Pair HookRun) names @ concat (map (enable_keys (so_hm op)) (hm_hookNamesInOrder (so_hm op))))"
    using appends_bind fr(2) by (fastforce simp: concat_map_singleton)
  have "main_ok env ?op []"
    by (simp add: main_ok_def WithMainName_def NewNamedQueue_def Let_def GetByName_def TaskQueue_WithName_def
        NewTasksQueue_def wf_queue_def content_def)
  with app obtain op' where r: "go_bind (go_fold (\<lambda>n. add_to_main env (onStartup_task n)) names ?op)
      (go_fold (add_enable_tasks env) (hm_hookNamesInOrder hm')) = Ret op'" "so_hm op' = hm'"
    "main_ok env op' (map (Pair HookRun) names @ concat (map (enable_keys (so_hm op)) (hm_hookNamesInOrder (so_hm op))))"
    "\<forall>name. name \<noteq> ''main'' \<longrightarrow> GetByName name (so_queues op') = GetByName name (so_queues ?op)"
    unfolding appends_def by force
  have "PrepopulateMainQueue env op = Ret op'"
    using r(1) ord by (simp add: PrepopulateMainQueue_def Let_def GetHookNames_def)
  moreover have "GetByName name (so_queues ?op) = GetByName name (so_queues op)" if "name \<noteq> ''main''" for name
    using that by (simp add: WithMainName_def) (simp add: GetByName_def)
  ultimately show ?thesis using r by auto
qed


section \<open>The queues of the bindings\<close>

definition started :: "string \<Rightarrow> 't TaskQueueSet \<Rightarrow> bool" where
  "started name tqs \<longleftrightarrow> (\<exists>q. GetByName name tqs = Some q \<and> q_Started q)"

definition all_started :: "'t TaskQueueSet \<Rightarrow> bool" where
  "all_started tqs \<longleftrightarrow> (\<forall>name q. GetByName name tqs = Some q \<longrightarrow> q_Started q)"

lemma start_queue_started [simp]: "q_Started (start_queue q)"
  by (simp add: start_queue_def)

lemma init_queue_started:
  assumes "all_started (so_queues op)"
  shows "all_started (so_queues (init_queue name op)) \<and> so_hm (init_queue name op) = so_hm op \<and>
    (\<forall>n. started n (so_queues (init_queue name op)) \<longleftrightarrow> n = name \<or> started n (so_queues op))"
proof (cases "GetByName name (so_queues op)")
  case (Some q)
  then show ?thesis using assms by (auto simp: init_queue_def started_def all_started_def)
next
  case None
  then show ?thesis using assms
    by (auto simp: init_queue_def started_def all_started_def NewNamedQueue_def GetByName_def Let_def)
qed

lemma init_queues_started:
  "all_started (so_queues op) \<Longrightarrow>
   all_started (so_queues (fold init_queue names op)) \<and> so_hm (fold init_queue names op) = so_hm op \<and>
   (\<forall>n. started n (so_queues (fold init_queue names op)) \<longleftrightarrow> n \<in> set names \<or> started n (so_queues op))"
proof (induction names arbitrary: op)
  case (Cons name names)
  from Cons.IH [of "init_queue name op"] init_queue_started [OF Cons.prems, of name] show ?case by auto
qed simp

lemma init_hook_queues_started:
  assumes "all_started (so_queues op)" "\<forall>n\<in>set names. GetHook n (so_hm op) \<noteq> None"
  shows "\<exists>op'. go_fold (init_hook_queues queues) names op = Ret op' \<and> all_started (so_queues op') \<and>
    so_hm op' = so_hm op \<and>
    (\<forall>q. started q (so_queues op') \<longleftrightarrow>
       (\<exists>n\<in>set names. q \<in> set (queues (config_of (so_hm op) n))) \<or> started q (so_queues op))"
  using assms
proof (induction names arbitrary: op)
  case (Cons n names)
  then obtain h where h: "GetHook n (so_hm op) = Some h" by auto
  let ?op = "fold init_queue (queues (h_Config h)) op"
  have 1: "init_hook_queues queues n op = Ret ?op" using h by (simp add: init_hook_queues_def)
  note 2 = init_queues_started [OF Cons.prems(1), of "queues (h_Config h)"]
  have c: "config_of (so_hm op) n = h_Config h" using h by (simp add: config_of_def)
  from Cons.IH [of ?op] 2 Cons.prems(2) obtain op' where "go_fold (init_hook_queues queues) names ?op = Ret op'"
    "all_started (so_queues op')" "so_hm op' = so_hm op"
    "\<forall>q. started q (so_queues op') \<longleftrightarrow>
       (\<exists>n\<in>set names. q \<in> set (queues (config_of (so_hm op) n))) \<or> started q (so_queues ?op)" by auto
  with 1 2 c show ?case by auto
qed auto


text \<open>The names of the hooks with bindings of a type other than \<open>onStartup\<close>, after the startup hooks were read.\<close>

lemma names_after_startup:
  assumes ok: "index_ok hm" and srt: "\<And>hs. mset (he_sort env startup_order hs) = mset hs"
    and ord: "GetHooksInOrder env OnStartup hm = (hm', r)" and b: "b \<noteq> OnStartup"
  shows "set (names_of (snd (GetHooksInOrder env b hm'))) = {n \<in> set (hm_hookNamesInOrder hm). HasBinding b (config_of hm n)}"
proof -
  have "mget (hm_hooksInOrder hm') b = mget (hm_hooksInOrder hm) b"
    using GetHooksInOrder_frame [OF ord [symmetric]] b by simp
  then have "snd (GetHooksInOrder env b hm') = snd (GetHooksInOrder env b hm)"
    using b by (simp add: GetHooksInOrder_def split: option.splits)
  with mset_eq_setD [OF names_of_GetHooksInOrder [OF ok srt, of b]] show ?thesis by simp
qed

lemma InitAndStart_ok:
  assumes hooks: "\<And>b. b \<noteq> OnStartup \<Longrightarrow>
      set (names_of (snd (GetHooksInOrder (oe_hook env) b (so_hm op)))) = {n \<in> N. HasBinding b (config_of (so_hm op) n)}"
    and known: "\<And>n. n \<in> N \<Longrightarrow> GetHook n (so_hm op) \<noteq> None" and st: "all_started (so_queues op)"
  shows "\<exists>op'. InitAndStartHookQueues env op = Ret op' \<and> all_started (so_queues op') \<and> so_hm op' = so_hm op \<and>
    (\<forall>q. started q (so_queues op) \<longrightarrow> started q (so_queues op')) \<and>
    (\<forall>n\<in>N. (\<forall>s\<in>set (cfg_Schedules (config_of (so_hm op) n)). started (sc_Queue s) (so_queues op')) \<and>
      (\<forall>k\<in>set (cfg_OnKubernetesEvents (config_of (so_hm op) n)). started (kc_Queue k) (so_queues op')))"
proof -
  let ?ns = "\<lambda>b. names_of (snd (GetHooksInOrder (oe_hook env) b (so_hm op)))"
  have ns: "set (?ns Schedule) = {n \<in> N. HasBinding Schedule (config_of (so_hm op) n)}"
    "set (?ns OnKubernetesEvent) = {n \<in> N. HasBinding OnKubernetesEvent (config_of (so_hm op) n)}"
    by (intro hooks; simp)+
  obtain op1 where 1: "go_fold (init_hook_queues (\<lambda>c. map sc_Queue (cfg_Schedules c))) (?ns Schedule) op = Ret op1"
    "all_started (so_queues op1)" "so_hm op1 = so_hm op"
    "\<forall>q. started q (so_queues op1) \<longleftrightarrow> (\<exists>n\<in>set (?ns Schedule).
        q \<in> set (map sc_Queue (cfg_Schedules (config_of (so_hm op) n)))) \<or> started q (so_queues op)"
    using init_hook_queues_started [OF st, of "?ns Schedule" "\<lambda>c. map sc_Queue (cfg_Schedules c)"] ns known by auto
  obtain op2 where 2: "go_fold (init_hook_queues (\<lambda>c. map kc_Queue (cfg_OnKubernetesEvents c))) (?ns OnKubernetesEvent) op1 = Ret op2"
    "all_started (so_queues op2)" "so_hm op2 = so_hm op"
    "\<forall>q. started q (so_queues op2) \<longleftrightarrow> (\<exists>n\<in>set (?ns OnKubernetesEvent).
        q \<in> set (map kc_Queue (cfg_OnKubernetesEvents (config_of (so_hm op) n)))) \<or> started q (so_queues op1)"
    using init_hook_queues_started [OF 1(2), of "?ns OnKubernetesEvent" "\<lambda>c. map kc_Queue (cfg_OnKubernetesEvents c)"]
      ns known 1(3) by auto
  have run: "InitAndStartHookQueues env op = Ret op2"
    using 1(1,3) 2(1) by (simp only: InitAndStartHookQueues_def go_bind.simps)
  have has: "x \<in> set (cfg_Schedules c) \<Longrightarrow> HasBinding Schedule c" "y \<in> set (cfg_OnKubernetesEvents c) \<Longrightarrow> HasBinding OnKubernetesEvent c"
    for x y c by (auto simp: HasBinding_def)
  have "started (sc_Queue s) (so_queues op2)" if "n \<in> N" "s \<in> set (cfg_Schedules (config_of (so_hm op) n))" for n s
  proof -
    have "n \<in> set (?ns Schedule)" using that ns(1) has(1) by auto
    then have "started (sc_Queue s) (so_queues op1)" using 1(4) that(2) by auto
    then show ?thesis using 2(4) by blast
  qed
  moreover have "started (kc_Queue k) (so_queues op2)"
    if "n \<in> N" "k \<in> set (cfg_OnKubernetesEvents (config_of (so_hm op) n))" for n k
  proof -
    have "n \<in> set (?ns OnKubernetesEvent)" using that ns(2) has(2) by auto
    then show ?thesis using 2(4) that(2) by auto
  qed
  moreover have "started q (so_queues op2)" if "started q (so_queues op)" for q using that 1(4) 2(4) by blast
  ultimately show ?thesis using run 2(2,3) by blast
qed

lemma Start_ok:
  assumes ok: "index_ok (so_hm op)" and srt: "\<And>hs. mset (he_sort (oe_hook env) startup_order hs) = mset hs"
    and st: "all_started (so_queues op)"
  shows "\<exists>op'. operator_Start env op = Ret op' \<and> started ''main'' (so_queues op') \<and>
    hm_hooksByName (so_hm op') = hm_hooksByName (so_hm op) \<and>
    (\<forall>n h. GetHook n (so_hm op) = Some h \<longrightarrow>
      (\<forall>s\<in>set (cfg_Schedules (h_Config h)). started (sc_Queue s) (so_queues op')) \<and>
      (\<forall>k\<in>set (cfg_OnKubernetesEvents (h_Config h)). started (kc_Queue k) (so_queues op')))"
proof -
  obtain hm' names where ord: "GetHooksInOrder (oe_hook env) OnStartup (so_hm op) = (hm', Inr names)"
    using GetHooksInOrder_Inr [OF ok, of "oe_hook env" OnStartup] by (metis prod.collapse)
  have fr: "hm_hooksByName hm' = hm_hooksByName (so_hm op)" using GetHooksInOrder_frame [OF ord [symmetric]] by simp
  obtain op1 ts where 1: "PrepopulateMainQueue env op = Ret op1" "so_hm op1 = hm'" "main_ok env op1 ts"
    "\<forall>name. name \<noteq> ''main'' \<longrightarrow> GetByName name (so_queues op1) = GetByName name (so_queues op)"
    using Prepopulate_ok [OF ok ord] by blast
  obtain q where q: "tqs_MainName (so_queues op1) = ''main''" "GetByName ''main'' (so_queues op1) = Some q"
    using 1(3) by (auto simp: main_ok_def)
  define tqs where "tqs = (so_queues op1)\<lparr>tqs_Queues := mput ''main'' (start_queue q) (tqs_Queues (so_queues op1))\<rparr>"
  have main: "StartMain (so_queues op1) = Ret tqs" using q by (simp add: StartMain_def tqs_def)
  let ?op = "op1\<lparr>so_queues := tqs\<rparr>"
  have g: "GetByName n tqs = (if n = ''main'' then Some (start_queue q) else GetByName n (so_queues op1))" for n
    by (simp add: tqs_def GetByName_def)
  then have st1: "all_started (so_queues ?op)" "started ''main'' (so_queues ?op)"
    using st 1(4) by (auto simp: all_started_def started_def)
  have hooks: "set (names_of (snd (GetHooksInOrder (oe_hook env) b (so_hm ?op)))) =
      {n \<in> set (hm_hookNamesInOrder (so_hm op)). HasBinding b (config_of (so_hm ?op) n)}" if "b \<noteq> OnStartup" for b
    using names_after_startup [OF ok srt ord that] 1(2) config_of_frame [OF fr] by simp
  have known: "GetHook n (so_hm ?op) \<noteq> None" if "n \<in> set (hm_hookNamesInOrder (so_hm op))" for n
    using index_ok_GetHook [OF ok that] 1(2) fr by (auto simp: GetHook_def)
  from InitAndStart_ok [OF hooks known st1(1)] obtain op2 where 2: "InitAndStartHookQueues env ?op = Ret op2"
    "so_hm op2 = hm'" "\<forall>q. started q (so_queues ?op) \<longrightarrow> started q (so_queues op2)"
    "\<forall>n\<in>set (hm_hookNamesInOrder (so_hm op)).
      (\<forall>s\<in>set (cfg_Schedules (config_of (so_hm op) n)). started (sc_Queue s) (so_queues op2)) \<and>
      (\<forall>k\<in>set (cfg_OnKubernetesEvents (config_of (so_hm op) n)). started (kc_Queue k) (so_queues op2))"
    using 1(2) config_of_frame [OF fr] by auto
  have "operator_Start env op = Ret op2" using 1(1) main 2(1) by (simp add: operator_Start_def)
  moreover have "n \<in> set (hm_hookNamesInOrder (so_hm op)) \<and> config_of (so_hm op) n = h_Config h"
    if "GetHook n (so_hm op) = Some h" for n h
    using that ok mget_Some_key [of "hm_hooksByName (so_hm op)"] by (auto simp: index_ok_def GetHook_def config_of_def)
  ultimately show ?thesis using 2(2,3,4) st1(2) fr by (intro exI [of _ op2] conjI allI impI) metis+
qed


section \<open>Properties\<close>


text \<open>A hook with an \<open>onStartup\<close> binding and a schedule that has its own queue.\<close>

definition demo_schedule :: ScheduleConfig where
  "demo_schedule = \<lparr>sc_BindingName = ''s'', sc_AllowFailure = False, sc_ScheduleEntry = \<lparr>se_Crontab = ''* * * * *'', se_Id = ''1''\<rparr>,
     sc_IncludeSnapshotsFrom = [], sc_Queue = ''other'', sc_Group = []\<rparr>"

definition demo_scheduled :: Hook where
  "demo_scheduled = (demo_hook ''a'' 1)\<lparr>h_Config := (h_Config (demo_hook ''a'' 1))\<lparr>cfg_Schedules := [demo_schedule]\<rparr>\<rparr>"

definition demo_unstarted :: "((int \<times> string) list, unit, rat) operator" where
  "demo_unstarted = demo_operator\<lparr>so_queues := NewTaskQueueSet, so_hm := register_hook demo_scheduled NewHookManager\<rparr>"

lemma demo_index: "index_ok (register_hook demo_scheduled NewHookManager)"
proof -
  have "index_ok NewHookManager"
    by (simp add: index_ok_def NewHookManager_def GetHook_def hooks_of_def)
  then show ?thesis by (rule index_ok_register) (simp add: NewHookManager_def)
qed

lemma demo_sort: "mset (he_sort (oe_hook (demo_op_env err)) startup_order hs) = mset hs"
  by (simp add: demo_op_env_def demo_hook_env_def)

lemma demo_newid_inj: "inj (oe_newid (demo_op_env err))"
  by (auto simp: demo_op_env_def inj_def)

lemma demo_scheduled_facts:
  "GetHook ''a'' (so_hm demo_unstarted) = Some demo_scheduled" "hm_hookNamesInOrder (so_hm demo_unstarted) = [''a'']"
  "config_of (so_hm demo_unstarted) ''a'' = h_Config demo_scheduled"
  "HasBinding OnStartup (h_Config demo_scheduled)" "HasBinding Schedule (h_Config demo_scheduled)"
  "\<not> HasBinding OnKubernetesEvent (h_Config demo_scheduled)"
  by (simp_all add: demo_unstarted_def GetHook_register config_of_def demo_scheduled_def demo_hook_def NewHook_def
      NewHookManager_def HasBinding_def empty_HookConfig_def)


text \<open>
  When the operator starts with new queues, the main queue and every queue that is named by a
  binding of a hook exists and is started.
\<close>

theorem operator_Start_queues:
  assumes "index_ok (so_hm op)" "\<And>hs. mset (he_sort (oe_hook env) startup_order hs) = mset hs"
    and "so_queues op = NewTaskQueueSet"
  shows "\<exists>op'. operator_Start env op = Ret op' \<and> started ''main'' (so_queues op') \<and>
    (\<forall>n h. GetHook n (so_hm op) = Some h \<longrightarrow>
      (\<forall>s\<in>set (cfg_Schedules (h_Config h)). started (sc_Queue s) (so_queues op')) \<and>
      (\<forall>k\<in>set (cfg_OnKubernetesEvents (h_Config h)). started (kc_Queue k) (so_queues op')))"
proof -
  have "all_started (so_queues op)"
    using assms(3) by (simp add: all_started_def NewTaskQueueSet_def GetByName_def)
  from Start_ok [OF assms(1,2) this] show ?thesis by blast
qed

theorem operator_Start_queues_witness:
  "\<exists>op'. operator_Start (demo_op_env None) demo_unstarted = Ret op' \<and> started ''main'' (so_queues op') \<and>
     started ''other'' (so_queues op')"
proof -
  have ok: "index_ok (so_hm demo_unstarted)" "so_queues demo_unstarted = NewTaskQueueSet"
    using demo_index by (simp_all add: demo_unstarted_def)
  have "demo_schedule \<in> set (cfg_Schedules (h_Config demo_scheduled))" "sc_Queue demo_schedule = ''other''"
    by (simp_all add: demo_scheduled_def demo_schedule_def)
  with operator_Start_queues [OF ok(1) demo_sort ok(2)] demo_scheduled_facts(1) show ?thesis by metis
qed

end
