(* ===== verification/Operator_Events.thy ===== *)
theory Operator_Events
  imports Operator_Start
begin

text \<open>
  The way of an event into a queue. After the start every queue that a binding names exists, tasks
  and events never remove a queue, and the links of the controllers carry the queues of their
  bindings, so that the task for an event always finds its queue.
\<close>

section \<open>The links of the controllers\<close>

text \<open>\<open>ctrl_ok\<close>: the bindings and links of a controller have the queues of the configuration.\<close>

abbreviation kube_queues :: "HookConfig \<Rightarrow> string set" where
  "kube_queues cfg \<equiv> kc_Queue ` set (cfg_OnKubernetesEvents cfg)"

abbreviation schedule_queues :: "HookConfig \<Rightarrow> string set" where
  "schedule_queues cfg \<equiv> sc_Queue ` set (cfg_Schedules cfg)"

definition kube_ok :: "HookConfig \<Rightarrow> kubernetesBindingsController \<Rightarrow> bool" where
  "kube_ok cfg c \<longleftrightarrow> kc_Queue ` set (kbc_KubernetesBindings c) \<subseteq> kube_queues cfg \<and>
     (\<forall>k l. mget (kbc_BindingMonitorLinks c) k = Some l \<longrightarrow> kl_QueueName l \<in> kube_queues cfg)"

definition schedule_ok :: "HookConfig \<Rightarrow> scheduleBindingsController \<Rightarrow> bool" where
  "schedule_ok cfg c \<longleftrightarrow> sc_Queue ` set (sbc_ScheduleBindings c) \<subseteq> schedule_queues cfg \<and>
     (\<forall>k l. mget (sbc_ScheduleLinks c) k = Some l \<longrightarrow> sl_QueueName l \<in> schedule_queues cfg)"

definition ctrl_ok :: "HookConfig \<Rightarrow> hookController \<Rightarrow> bool" where
  "ctrl_ok cfg hc \<longleftrightarrow>
     (\<forall>c. hc_KubernetesController hc = Some c \<longrightarrow> kube_ok cfg c) \<and>
     (\<forall>c. hc_ScheduleController hc = Some c \<longrightarrow> schedule_ok cfg c)"

lemma loadHook_ctrl_ok: "loadHook env n p hm = Inr (n', h) \<Longrightarrow> ctrl_ok (h_Config h) (h_HookController h)"
  by (auto simp: loadHook_def Let_def WithTmpDir_def WithHookController_def ctrl_ok_def kube_ok_def schedule_ok_def
      InitKubernetesBindings_def InitScheduleBindings_def NewHookController_def split: sum.splits prod.splits if_splits)

lemma enable_bindings_kube_ok:
  "enable_bindings lib configs c w res = (c', w', r) \<Longrightarrow> kube_ok cfg c \<Longrightarrow> kc_Queue ` set configs \<subseteq> kube_queues cfg \<Longrightarrow>
   kube_ok cfg c'"
proof (induction configs arbitrary: c w res)
  case (Cons k configs)
  let ?c = "c\<lparr>kbc_BindingMonitorLinks := mput (mc_MonitorId (kc_Monitor k)) (binding_link k) (kbc_BindingMonitorLinks c)\<rparr>"
  have ok: "kube_ok cfg ?c" using Cons.prems(2,3) by (auto simp: kube_ok_def binding_link_def)
  have sub: "kc_Queue ` set configs \<subseteq> kube_queues cfg" using Cons.prems(3) by simp
  obtain st mgr ev where add: "AddMonitor (lib_kube lib) (lib_ord lib) (kc_Monitor k) (w_kem w) (w_store w) = (st, mgr, ev)"
    using prod_cases3 by blast
  show ?case
  proof (cases ev)
    case (Inl err)
    then show ?thesis using Cons.prems(1,2) add by simp
  next
    case (Inr e)
    then obtain w1 res1 where "enable_bindings lib configs ?c w1 res1 = (c', w', r)"
      using Cons.prems(1) add by (auto simp: Let_def split: option.splits if_splits)
    from Cons.IH [OF this ok sub] show ?thesis .
  qed
qed simp

lemma HandleEnable_ok:
  assumes "HandleEnableKubernetesBindings lib hc w = (hc', w', r)" "ctrl_ok cfg hc"
  shows "ctrl_ok cfg hc'"
proof (cases "hc_KubernetesController hc")
  case None
  then show ?thesis using assms by (simp add: HandleEnableKubernetesBindings_def)
next
  case (Some c)
  obtain c1 w1 r1 where e: "kbc_EnableKubernetesBindings lib c w = (c1, w1, r1)" using prod_cases3 by blast
  have "kube_ok cfg c" using assms(2) Some by (simp add: ctrl_ok_def)
  then have "kube_ok cfg c1"
    using enable_bindings_kube_ok [of lib "kbc_KubernetesBindings c"] e
    by (auto simp: kbc_EnableKubernetesBindings_def kube_ok_def)
  with assms Some e show ?thesis by (auto simp: HandleEnableKubernetesBindings_def ctrl_ok_def)
qed

lemma schedule_fold_ok:
  assumes "sc_Queue ` set configs \<subseteq> schedule_queues cfg" "schedule_ok cfg c"
  shows "schedule_ok cfg (fst (fold (\<lambda>config (c, sm).
        (c\<lparr>sbc_ScheduleLinks := mput (se_Id (sc_ScheduleEntry config)) (schedule_link config) (sbc_ScheduleLinks c)\<rparr>,
         scheduleManager_Add lib (sc_ScheduleEntry config) sm)) configs (c, sm)))"
  using assms
proof (induction configs arbitrary: c sm)
  case (Cons k configs)
  have "schedule_ok cfg (c\<lparr>sbc_ScheduleLinks := mput (se_Id (sc_ScheduleEntry k)) (schedule_link k) (sbc_ScheduleLinks c)\<rparr>)"
    using Cons.prems by (auto simp: schedule_ok_def schedule_link_def)
  with Cons show ?case by simp
qed simp

lemma EnableSchedule_ok:
  assumes "hc_EnableScheduleBindings lib hc w = (hc', w')" "ctrl_ok cfg hc"
  shows "ctrl_ok cfg hc'"
proof (cases "hc_ScheduleController hc")
  case None
  then show ?thesis using assms by (simp add: hc_EnableScheduleBindings_def)
next
  case (Some c)
  obtain c1 sm1 where e: "sbc_EnableScheduleBindings lib c (w_sm w) = (c1, sm1)" by fastforce
  have "schedule_ok cfg c" using assms(2) Some by (simp add: ctrl_ok_def)
  then have "schedule_ok cfg c1"
    using schedule_fold_ok [of "sbc_ScheduleBindings c" cfg c lib "w_sm w"] e
    by (auto simp: sbc_EnableScheduleBindings_def schedule_ok_def)
  with assms Some e show ?thesis by (auto simp: hc_EnableScheduleBindings_def ctrl_ok_def)
qed

text \<open>The infos of an event name queues of the configuration.\<close>

lemma HandleKubeEvent_queue:
  assumes "ctrl_ok cfg hc" "CanHandleKubeEvent ev hc" "info \<in> set (hc_HandleKubeEvent ord mgr ev hc)"
  shows "bei_QueueName info \<in> kube_queues cfg"
proof -
  obtain c where c: "hc_KubernetesController hc = Some c" "ke_MonitorId ev \<in> set (mkeys (kbc_BindingMonitorLinks c))"
    using assms(2) by (auto simp: CanHandleKubeEvent_def kbc_CanHandleEvent_def list_ex_iff split: option.splits)
  then obtain l where l: "mget (kbc_BindingMonitorLinks c) (ke_MonitorId ev) = Some l"
    using mget_None_iff [of "kbc_BindingMonitorLinks c" "ke_MonitorId ev"] by auto
  then have "kl_QueueName l \<in> kube_queues cfg" using assms(1) c(1) unfolding ctrl_ok_def kube_ok_def by blast
  moreover have "bei_QueueName info = kl_QueueName l"
    using assms(3) c(1) l by (auto simp: hc_HandleKubeEvent_def kbc_HandleEvent_def Let_def split: list.splits if_splits)
  ultimately show ?thesis by simp
qed

lemma sbc_HandleEvent_infos:
  "set (sbc_HandleEvent ks crontab c) \<subseteq> {schedule_info l |l. \<exists>k. mget (sbc_ScheduleLinks c) k = Some l}"
proof -
  have "set (foldl (\<lambda>res k. case mget (sbc_ScheduleLinks c) k of None \<Rightarrow> res
       | Some link \<Rightarrow> if sl_Crontab link = crontab then res @ [schedule_info link] else res) acc ks)
      \<subseteq> set acc \<union> {schedule_info l |l. \<exists>k. mget (sbc_ScheduleLinks c) k = Some l}" for acc
  proof (induction ks arbitrary: acc)
    case (Cons k ks)
    let ?acc = "case mget (sbc_ScheduleLinks c) k of None \<Rightarrow> acc
       | Some link \<Rightarrow> if sl_Crontab link = crontab then acc @ [schedule_info link] else acc"
    have "set ?acc \<subseteq> set acc \<union> {schedule_info l |l. \<exists>k. mget (sbc_ScheduleLinks c) k = Some l}"
      by (auto split: option.splits)
    with Cons [of ?acc] show ?case by (simp only: foldl_Cons) blast
  qed simp
  from this [of "[]"] show ?thesis by (simp add: sbc_HandleEvent_def)
qed

lemma HandleScheduleEvent_queue:
  assumes "ctrl_ok cfg hc" "info \<in> set (hc_HandleScheduleEvent ord mgr ks crontab hc)"
  shows "bei_QueueName info \<in> schedule_queues cfg"
proof -
  obtain s where s: "hc_ScheduleController hc = Some s"
    using assms(2) by (cases "hc_ScheduleController hc") (simp_all add: hc_HandleScheduleEvent_def)
  have "bei_QueueName ` set (hc_HandleScheduleEvent ord mgr ks crontab hc) = bei_QueueName ` set (sbc_HandleEvent ks crontab s)"
    unfolding hc_HandleScheduleEvent_def s option.case set_map image_image
    by (intro image_cong) (auto split: option.splits list.splits)
  with imageI [OF assms(2), of bei_QueueName] have "bei_QueueName info \<in> bei_QueueName ` set (sbc_HandleEvent ks crontab s)"
    by simp
  then obtain i where i: "i \<in> set (sbc_HandleEvent ks crontab s)" "bei_QueueName info = bei_QueueName i" by auto
  then obtain l k where "mget (sbc_ScheduleLinks s) k = Some l" "i = schedule_info l"
    using sbc_HandleEvent_infos by blast
  moreover have "bei_QueueName (schedule_info l) = sl_QueueName l" by (simp add: schedule_info_def Let_def)
  moreover have "schedule_ok cfg s" using assms(1) s by (simp add: ctrl_ok_def)
  ultimately show ?thesis using i(2) by (simp add: schedule_ok_def)
qed


section \<open>Routes\<close>

text \<open>
  \<open>routed\<close>: the controllers are in order, and the queues of all bindings exist. A transition that
  removes no queue and changes hooks only by new controllers that are in order keeps it.
\<close>

definition routed :: "('c, 'r, 'v) operator \<Rightarrow> bool" where
  "routed op \<longleftrightarrow> (\<forall>n h. GetHook n (so_hm op) = Some h \<longrightarrow>
     ctrl_ok (h_Config h) (h_HookController h) \<and>
     (\<forall>q \<in> kube_queues (h_Config h) \<union> schedule_queues (h_Config h). GetByName q (so_queues op) \<noteq> None))"

definition keeps_queues :: "'t TaskQueueSet \<Rightarrow> 't TaskQueueSet \<Rightarrow> bool" where
  "keeps_queues tqs tqs' \<longleftrightarrow> (\<forall>n. GetByName n tqs \<noteq> None \<longrightarrow> GetByName n tqs' \<noteq> None)"

lemma keeps_queues_refl [simp]: "keeps_queues tqs tqs"
  by (simp add: keeps_queues_def)

lemma keeps_queues_put [simp]: "keeps_queues tqs (tqs\<lparr>tqs_Queues := mput n q (tqs_Queues tqs)\<rparr>)"
  by (simp add: keeps_queues_def GetByName_def)

lemma routed_keep:
  assumes "routed op" "keeps_queues (so_queues op) (so_queues op')" "so_hm op' = so_hm op"
  shows "routed op'"
  using assms unfolding routed_def keeps_queues_def by metis

lemma routed_with_hook:
  assumes "routed op" "GetHook n (so_hm op) = Some h" "ctrl_ok (h_Config h) hc"
    "so_queues op' = so_queues op" "so_hm op' = so_hm (with_hook n (h\<lparr>h_HookController := hc\<rparr>) op)"
  shows "routed op'"
proof -
  have g: "GetHook m (so_hm op') = (if m = n then Some (h\<lparr>h_HookController := hc\<rparr>) else GetHook m (so_hm op))" for m
    using assms(5) by (simp add: GetHook_def)
  show ?thesis
    unfolding routed_def
  proof (intro allI impI)
    fix m h' assume "GetHook m (so_hm op') = Some h'"
    then show "ctrl_ok (h_Config h') (h_HookController h') \<and>
        (\<forall>q\<in>kube_queues (h_Config h') \<union> schedule_queues (h_Config h'). GetByName q (so_queues op') \<noteq> None)"
      using assms(1,2,3,4) unfolding g routed_def by (cases "m = n") auto
  qed
qed

lemma Combine_keeps:
  "CombineBindingContextForHook q t stopFn h tqs = Ret (bcs, tqs') \<Longrightarrow> keeps_queues tqs tqs'"
  by (auto simp: CombineBindingContextForHook_def Let_def split: option.splits metadata.splits if_splits)

lemma HookRun_routed:
  assumes "TaskHandleHookRun env t op = Ret (res, op')" "routed op"
  shows "routed op'"
  using assms(1)
proof (rule HookRun_frame)
  fix hook meta m op1
  assume c: "combine_for_run hook t (HookMetadataAccessor (so_heap op t)) (op\<lparr>so_MetricStorage := m\<rparr>) = Ret (meta, op1)"
    and f: "so_queues op' = so_queues op1" "so_hm op' = so_hm op1"
  note cf = combine_for_run_frame [OF c]
  have "keeps_queues (so_queues op) (so_queues op1)" using cf Combine_keeps by auto
  with cf f assms(2) show ?thesis by (intro routed_keep [of op op']) simp_all
qed

lemma enable_outcome_hm:
  assumes "enable_outcome env t ls hook res op = Ret (r, success, errors, op')"
  shows "so_hm op' = so_hm op"
proof (cases res)
  case (Inr infos)
  obtain rs op1 where a: "alloc_tasks env
      (map (hook_run_task OnKubernetesEvent ls ''main'' (h_Name hook)) infos) op = (rs, op1)" by fastforce
  from alloc_tasks_spec [OF a] assms Inr a show ?thesis by (auto simp: enable_outcome_def Let_def)
qed (use assms in \<open>auto simp: enable_outcome_def\<close>)

lemma Enable_routed:
  assumes "TaskHandleEnableKubernetesBindings env t op = Ret (res, op')" "routed op"
  shows "routed op'"
proof -
  let ?n = "hm_HookName (HookMetadataAccessor (so_heap op t))"
  obtain h where h: "GetHook ?n (so_hm op) = Some h"
    using assms by (auto simp: TaskHandleEnableKubernetesBindings_def Let_def split: option.splits)
  obtain hc w r where e: "HandleEnableKubernetesBindings (oe_libs env) (h_HookController h) (so_managers op) = (hc, w, r)"
    using prod_cases3 by blast
  let ?op = "(with_hook ?n (h\<lparr>h_HookController := hc\<rparr>) op)\<lparr>so_managers := w\<rparr>"
  let ?ls = "[(''hook'', ?n), (''binding'', []), (''task'', ''EnableKubernetesBindings''), (''queue'', ''main'')]"
  obtain success errors op1 where o: "enable_outcome env t ?ls (h\<lparr>h_HookController := hc\<rparr>) r ?op = Ret (res, success, errors, op1)"
    and op': "so_hm op' = so_hm op1"
    using assms h e by (auto simp: TaskHandleEnableKubernetesBindings_def Let_def)
  have "ctrl_ok (h_Config h) hc" using HandleEnable_ok [OF e] assms(2) h unfolding routed_def by blast
  moreover have "so_hm op' = so_hm (with_hook ?n (h\<lparr>h_HookController := hc\<rparr>) op)"
    using enable_outcome_hm [OF o] op' by simp
  ultimately show ?thesis using routed_with_hook [OF assms(2) h] Enable_frame [OF assms(1)] by blast
qed

lemma TaskHandler_routed:
  assumes run: "TaskHandler env t op = Ret (res, op')" and ok: "routed op"
  shows "routed op'"
proof -
  let ?n = "hm_HookName (HookMetadataAccessor (so_heap op t))"
  consider (run) "t_Type (so_heap op t) = HookRun"
    | (kube) "t_Type (so_heap op t) = EnableKubernetesBindings"
    | (sched) "t_Type (so_heap op t) = EnableScheduleBindings"
    | (other) "t_Type (so_heap op t) \<notin> {HookRun, EnableKubernetesBindings, EnableScheduleBindings}" by blast
  then show ?thesis
  proof cases
    case sched
    then obtain h where h: "GetHook ?n (so_hm op) = Some h"
      using run by (auto simp: TaskHandler_def Let_def split: option.splits)
    obtain hc w where e: "hc_EnableScheduleBindings (lib_cron (oe_libs env)) (h_HookController h) (so_managers op) = (hc, w)"
      by fastforce
    have "op' = (with_hook ?n (h\<lparr>h_HookController := hc\<rparr>) op)\<lparr>so_managers := w\<rparr>"
      using run sched h e by (simp add: TaskHandler_def Let_def)
    moreover have "ctrl_ok (h_Config h) hc" using EnableSchedule_ok [OF e] ok h unfolding routed_def by blast
    ultimately show ?thesis by (intro routed_with_hook [OF ok h]) simp_all
  next
    case other
    then have "op' = op" using assms(1) by (simp add: TaskHandler_def Let_def)
    with ok show ?thesis by simp
  qed (use assms HookRun_routed Enable_routed in \<open>auto simp: TaskHandler_def Let_def\<close>)
qed


section \<open>Runs of the operator\<close>

text \<open>
  The transitions after the start, interleaved in any order: an event arrives, a task of some queue
  is handled, and the result of a handled task is applied to its queue.
\<close>

inductive operator_run :: "('c, 'r, 'v) op_env set \<Rightarrow> ('c, 'r, 'v) operator \<Rightarrow> ('c, 'r, 'v) operator \<Rightarrow> bool" for envs where
  op_refl: "operator_run envs op op"
| op_event: "operator_run envs op op1 \<Longrightarrow> env \<in> envs \<Longrightarrow> handle_manager_event env ev op1 = Ret op2 \<Longrightarrow>
    operator_run envs op op2"
| op_task: "operator_run envs op op1 \<Longrightarrow> env \<in> envs \<Longrightarrow> TaskHandler env t op1 = Ret (res, op2) \<Longrightarrow>
    operator_run envs op op2"
| op_result: "operator_run envs op op1 \<Longrightarrow> GetByName name (so_queues op1) = Some q \<Longrightarrow>
    after_handler rnd t res (so_heap op1, q) = Ret ((h', q'), d) \<Longrightarrow>
    operator_run envs op (op1\<lparr>so_heap := h',
      so_queues := (so_queues op1)\<lparr>tqs_Queues := mput name q' (tqs_Queues (so_queues op1))\<rparr>\<rparr>)"

lemma enqueue_keeps: "keeps_queues tqs (snd (enqueue_tasks now rs (h, tqs)))"
  by (simp add: keeps_queues_def GetByName_def enqueue_tasks_routes)

lemma enqueue_tasks_names: "t_QueueName (fst (enqueue_tasks now rs s) r) = t_QueueName (fst s r)"
proof (induction rs arbitrary: s)
  case (Cons r' rs)
  then show ?case using enqueue_task_QueueName [of now r' "fst s" "snd s" r] by (simp add: enqueue_tasks_def)
qed (simp add: enqueue_tasks_def)

text \<open>The infos of an event, as the hook manager gives them.\<close>

definition event_infos ::
    "('c, 'r, 'v) op_env \<Rightarrow> manager_event \<Rightarrow> ('c, 'r, 'v) operator \<Rightarrow> (string \<times> BindingExecutionInfo) list go" where
  "event_infos env ev op =
     (case ev of
        CronEvent crontab \<Rightarrow> hm_HandleScheduleEvent (oe_hook env) (lib_ord (oe_libs env)) (oe_links env)
          (w_kem (so_managers op)) crontab (so_hm op)
      | KubeEventArrived e \<Rightarrow> hm_HandleKubeEvent (oe_hook env) (lib_ord (oe_libs env)) (w_kem (so_managers op)) e (so_hm op))"

abbreviation event_mks :: "('c, 'r, 'v) op_env \<Rightarrow> BindingType \<Rightarrow> ('c, 'r, 'v) operator \<Rightarrow>
    (string \<times> BindingExecutionInfo) list \<Rightarrow> (string \<Rightarrow> BaseTask) list" where
  "event_mks env b op \<equiv> map (\<lambda>(n, info). hook_run_task b
     [(''event.id'', oe_newid env (so_next op)), (''binding'', b)] (bei_QueueName info) n info)"

lemma schedule_event_tasks_eq:
  "schedule_event_tasks env crontab op = go_bind (event_infos env (CronEvent crontab) op)
     (\<lambda>infos. Ret (alloc_tasks env (event_mks env Schedule op infos) (op\<lparr>so_next := Suc (so_next op)\<rparr>)))"
  unfolding schedule_event_tasks_def new_uuid_def event_infos_def Let_def prod.case manager_event.case by simp

lemma kube_event_tasks_eq:
  "kube_event_tasks env e op = go_bind (KubeEvent_String e) (\<lambda>_. go_bind (event_infos env (KubeEventArrived e) op)
     (\<lambda>infos. Ret (alloc_tasks env (event_mks env OnKubernetesEvent op infos) (op\<lparr>so_next := Suc (so_next op)\<rparr>))))"
  unfolding kube_event_tasks_def new_uuid_def event_infos_def Let_def prod.case manager_event.case by simp

lemma event_tasks:
  assumes "handle_manager_event env ev op = Ret op'"
  obtains infos rs op1 b ls where "event_infos env ev op = Ret infos"
    "alloc_tasks env (map (\<lambda>(n, info). hook_run_task b ls (bei_QueueName info) n info) infos)
      (op\<lparr>so_next := Suc (so_next op)\<rparr>) = (rs, op1)"
    "op' = op1\<lparr>so_heap := fst (enqueue_tasks (oe_now env) rs (so_heap op1, so_queues op1)),
      so_queues := snd (enqueue_tasks (oe_now env) rs (so_heap op1, so_queues op1))\<rparr>"
proof -
  let ?op = "op\<lparr>so_next := Suc (so_next op)\<rparr>"
  let ?b = "case ev of CronEvent _ \<Rightarrow> Schedule | _ \<Rightarrow> OnKubernetesEvent"
  let ?mks = "event_mks env ?b op"
  let ?tasks = "case ev of CronEvent crontab \<Rightarrow> schedule_event_tasks env crontab op
                       | KubeEventArrived kubeEvent \<Rightarrow> kube_event_tasks env kubeEvent op"
  obtain rs op1 where t: "?tasks = Ret (rs, op1)"
    using assms unfolding handle_manager_event_def go_bind_Ret_iff by auto
  have "\<exists>infos. event_infos env ev op = Ret infos \<and> alloc_tasks env (?mks infos) ?op = (rs, op1)"
  proof (cases ev)
    case (CronEvent crontab)
    then show ?thesis using t by (simp only: manager_event.case schedule_event_tasks_eq go_bind_Ret_iff go.inject)
  next
    case (KubeEventArrived e)
    then show ?thesis using t by (simp only: manager_event.case kube_event_tasks_eq go_bind_Ret_iff go.inject) blast
  qed
  then obtain infos where "event_infos env ev op = Ret infos" "alloc_tasks env (?mks infos) ?op = (rs, op1)" by blast
  moreover have "op' = op1\<lparr>so_heap := fst (enqueue_tasks (oe_now env) rs (so_heap op1, so_queues op1)),
      so_queues := snd (enqueue_tasks (oe_now env) rs (so_heap op1, so_queues op1))\<rparr>"
    using assms t by (simp add: handle_manager_event_def split_beta)
  ultimately show thesis by (rule that)
qed


lemma dispatch_mem:
  "dispatch f names hm = Ret infos \<Longrightarrow> (m, x) \<in> set infos \<Longrightarrow> \<exists>k h. GetHook k hm = Some h \<and> x \<in> set (f h)"
  by (induction names arbitrary: infos) (fastforce split: option.splits)+

lemma infos_routed:
  assumes inf: "event_infos env ev op = Ret infos" and ok: "routed op" and i: "(n, info) \<in> set infos"
  shows "GetByName (bei_QueueName info) (so_queues op) \<noteq> None"
proof -
  obtain k h where h: "GetHook k (so_hm op) = Some h"
    and q: "bei_QueueName info \<in> kube_queues (h_Config h) \<union> schedule_queues (h_Config h)"
  proof (cases ev)
    case (CronEvent crontab)
    note d = dispatch_mem [OF inf [unfolded event_infos_def CronEvent manager_event.case hm_HandleScheduleEvent_def] i]
    then obtain k h where h: "GetHook k (so_hm op) = Some h"
      "info \<in> set (hc_HandleScheduleEvent (lib_ord (oe_libs env)) (w_kem (so_managers op)) (oe_links env h) crontab (h_HookController h))"
      by (auto split: if_splits)
    have "ctrl_ok (h_Config h) (h_HookController h)" using ok h(1) unfolding routed_def by blast
    from HandleScheduleEvent_queue [OF this h(2)] that [OF h(1)] show thesis by blast
  next
    case (KubeEventArrived e)
    note d = dispatch_mem [OF inf [unfolded event_infos_def KubeEventArrived manager_event.case hm_HandleKubeEvent_def] i]
    then obtain k h where h: "GetHook k (so_hm op) = Some h" "CanHandleKubeEvent e (h_HookController h)"
      "info \<in> set (hc_HandleKubeEvent (lib_ord (oe_libs env)) (w_kem (so_managers op)) e (h_HookController h))"
      by (auto split: if_splits)
    have "ctrl_ok (h_Config h) (h_HookController h)" using ok h(1) unfolding routed_def by blast
    from HandleKubeEvent_queue [OF this h(2,3)] that [OF h(1)] show thesis by blast
  qed
  with ok show ?thesis unfolding routed_def by blast
qed

lemma content_fold_AddLast: "content (fold AddLast xs q) = content q @ xs"
  by (induction xs arbitrary: q) (simp_all add: content_AddLast)

lemma event_queued:
  assumes run: "handle_manager_event env ev op = Ret op'" and ok: "routed op"
  shows "\<exists>infos. event_infos env ev op = Ret infos \<and> so_next op' = Suc (so_next op) + length infos \<and> routed op' \<and>
    (\<forall>i < length infos. \<exists>q. GetByName (bei_QueueName (snd (infos ! i))) (so_queues op') = Some q \<and>
       Suc (so_next op) + i \<in> set (content q))"
  using run
proof (rule event_tasks)
  fix infos rs op1 b ls
  let ?mks = "map (\<lambda>(n, info). hook_run_task b ls (bei_QueueName info) n info) infos"
  assume inf: "event_infos env ev op = Ret infos"
    and al: "alloc_tasks env ?mks (op\<lparr>so_next := Suc (so_next op)\<rparr>) = (rs, op1)"
    and op': "op' = op1\<lparr>so_heap := fst (enqueue_tasks (oe_now env) rs (so_heap op1, so_queues op1)),
      so_queues := snd (enqueue_tasks (oe_now env) rs (so_heap op1, so_queues op1))\<rparr>"
  note a = alloc_tasks_spec [OF al]
  have "routed op'"
    using a op' enqueue_keeps ok by (intro routed_keep [OF ok]) simp_all
  moreover have "\<exists>q. GetByName (bei_QueueName (snd (infos ! i))) (so_queues op') = Some q \<and>
      Suc (so_next op) + i \<in> set (content q)" if i: "i < length infos" for i
  proof -
    let ?r = "Suc (so_next op) + i" and ?n = "bei_QueueName (snd (infos ! i))"
    have r: "?r \<in> set rs" using a i by (simp del: upt_Suc)
    have name: "t_QueueName (so_heap op1 ?r) = ?n"
      using a i by (auto simp: hook_run_task_def task_updates split_beta)
    obtain q where q: "GetByName ?n (so_queues op1) = Some q"
      using infos_routed [OF inf ok, of "fst (infos ! i)" "snd (infos ! i)"] i a by fastforce
    then have "GetByName ?n (so_queues op') = Some (fold AddLast (filter (\<lambda>r. t_QueueName (so_heap op1 r) = ?n) rs) q)"
      using op' enqueue_tasks_routes [of "oe_now env" rs "so_heap op1" "so_queues op1" ?n] by (simp add: GetByName_def)
    with r name show ?thesis by (simp add: content_fold_AddLast)
  qed
  ultimately show ?thesis using inf a op' by (intro exI [of _ infos]) simp
qed

lemma run_routed: "operator_run envs op op' \<Longrightarrow> routed op \<Longrightarrow> routed op'"
proof (induction rule: operator_run.induct)
  case (op_event op op1 env ev op2)
  then show ?case using event_queued by blast
next
  case (op_result op op1 name q rnd t res h' q' d)
  then have "routed op1" by blast
  then show ?case by (rule routed_keep) simp_all
qed (auto intro: TaskHandler_routed)


section \<open>From the loaded hooks to the queues\<close>

lemma load_hooks_ctrl_ok:
  "load_hooks env n paths hm = Inr (n', hm') \<Longrightarrow>
   (\<And>k h. GetHook k hm = Some h \<Longrightarrow> ctrl_ok (h_Config h) (h_HookController h)) \<Longrightarrow>
   GetHook k hm' = Some h \<Longrightarrow> ctrl_ok (h_Config h) (h_HookController h)"
proof (induction paths arbitrary: n hm)
  case (Cons p paths)
  then obtain n1 hook where l: "loadHook env n p hm = Inr (n1, hook)"
    and rest: "load_hooks env n1 paths (register_hook hook hm) = Inr (n', hm')"
    by (auto split: sum.splits)
  have "ctrl_ok (h_Config g) (h_HookController g)" if "GetHook k (register_hook hook hm) = Some g" for k g
    using that Cons.prems(2) loadHook_ctrl_ok [OF l] by (auto simp: GetHook_register split: if_splits)
  from Cons.IH [OF rest this Cons.prems(3)] show ?case .
qed simp

lemma Init_ctrl_ok:
  assumes "hookManager_Init env n tree hm = Inr (n', hm')" "GetHook k hm' = Some h"
  shows "ctrl_ok (h_Config h) (h_HookController h)"
proof -
  obtain paths where "load_hooks env n paths (hm\<lparr>hm_hooksInOrder := [], hm_hooksByName := []\<rparr>) = Inr (n', hm')"
    using assms(1) by (auto simp: hookManager_Init_def Let_def split: sum.splits)
  from load_hooks_ctrl_ok [OF this _ assms(2)] show ?thesis by (auto simp: GetHook_def)
qed

lemma Start_routed:
  assumes ok: "index_ok (so_hm op)" and srt: "\<And>hs. mset (he_sort (oe_hook env) startup_order hs) = mset hs"
    and st: "all_started (so_queues op)" and start: "operator_Start env op = Ret op'"
    and ctrl: "\<And>n h. GetHook n (so_hm op) = Some h \<Longrightarrow> ctrl_ok (h_Config h) (h_HookController h)"
  shows "routed op'"
proof -
  have s: "hm_hooksByName (so_hm op') = hm_hooksByName (so_hm op)"
    "\<forall>n h. GetHook n (so_hm op) = Some h \<longrightarrow>
      (\<forall>s\<in>set (cfg_Schedules (h_Config h)). started (sc_Queue s) (so_queues op')) \<and>
      (\<forall>k\<in>set (cfg_OnKubernetesEvents (h_Config h)). started (kc_Queue k) (so_queues op'))"
    using Start_ok [OF ok srt st] start by auto
  have "GetByName q (so_queues op') \<noteq> None"
    if "GetHook n (so_hm op) = Some h" "q \<in> kube_queues (h_Config h) \<union> schedule_queues (h_Config h)" for n h q
    using that s(2) unfolding started_def by fastforce
  moreover have "GetHook n (so_hm op') = GetHook n (so_hm op)" for n using s(1) by (simp add: GetHook_def)
  ultimately show ?thesis using ctrl unfolding routed_def by auto
qed

section \<open>Properties\<close>

text \<open>
  No event is lost. Once the operator has started with the hooks as they were loaded, and
  whatever events and tasks it has handled since, every binding that the next event triggers gets a
  new task, and this task is in the queue of its binding: the branch for a queue that is not created
  yet is never taken.
\<close>

theorem no_event_is_lost:
  assumes hooks: "index_ok (so_hm op0)"
      "\<And>n h. GetHook n (so_hm op0) = Some h \<Longrightarrow> ctrl_ok (h_Config h) (h_HookController h)"
    and srt: "\<And>hs. mset (he_sort (oe_hook env0) startup_order hs) = mset hs"
    and start: "so_queues op0 = NewTaskQueueSet" "operator_Start env0 op0 = Ret op1"
    and run: "operator_run envs op1 op" and event: "handle_manager_event env ev op = Ret op'"
  shows "\<exists>infos. event_infos env ev op = Ret infos \<and> so_next op' = Suc (so_next op) + length infos \<and>
    (\<forall>i < length infos. \<exists>q. GetByName (bei_QueueName (snd (infos ! i))) (so_queues op') = Some q \<and>
       Suc (so_next op) + i \<in> set (content q))"
proof -
  have "all_started (so_queues op0)"
    using start(1) by (simp add: all_started_def NewTaskQueueSet_def GetByName_def)
  from Start_routed [OF hooks(1) srt this start(2)] hooks(2) have "routed op1" by blast
  with run have "routed op" by (rule run_routed)
  from event_queued [OF event this] show ?thesis by blast
qed

text \<open>An operator with one scheduled hook, whose schedule is enabled before the crontab fires.\<close>

definition demo_loaded :: Hook where
  "demo_loaded = demo_scheduled\<lparr>h_HookController := InitScheduleBindings [demo_schedule] NewHookController\<rparr>"

definition demo_loaded_operator :: "((int \<times> string) list, unit, rat) operator" where
  "demo_loaded_operator =
     demo_operator\<lparr>so_queues := NewTaskQueueSet, so_hm := register_hook demo_loaded NewHookManager\<rparr>"

definition demo_links_env :: "((int \<times> string) list, unit, rat) op_env" where
  "demo_links_env = (demo_op_env None)\<lparr>oe_links := \<lambda>_. [''1'']\<rparr>"

definition demo_trace :: "((int \<times> string) list, unit, rat) operator go" where
  "demo_trace = go_bind (operator_Start demo_links_env demo_loaded_operator) (\<lambda>op1.
     go_bind (TaskHandler demo_links_env 2 op1) (\<lambda>(res, op2).
       handle_manager_event demo_links_env (CronEvent ''* * * * *'') op2))"

lemma demo_trace_result:
  "(case demo_trace of Panic \<Rightarrow> None | Ret op3 \<Rightarrow> Some (so_next op3, map_option content (GetByName ''other'' (so_queues op3)))) =
     Some (5, Some [4])"
  by code_simp

theorem no_event_is_lost_witness:
  "\<exists>op2 op3 infos. handle_manager_event demo_links_env (CronEvent ''* * * * *'') op2 = Ret op3 \<and>
     event_infos demo_links_env (CronEvent ''* * * * *'') op2 = Ret infos \<and>
     so_next op3 = Suc (so_next op2) + length infos \<and> so_next op3 = 5 \<and>
     map_option content (GetByName ''other'' (so_queues op3)) = Some [4]"
proof -
  obtain op3 where r: "demo_trace = Ret op3" "so_next op3 = 5" "map_option content (GetByName ''other'' (so_queues op3)) = Some [4]"
    using demo_trace_result by (auto split: go.splits)
  then obtain op1 res op2 where t: "operator_Start demo_links_env demo_loaded_operator = Ret op1"
    "TaskHandler demo_links_env 2 op1 = Ret (res, op2)"
    "handle_manager_event demo_links_env (CronEvent ''* * * * *'') op2 = Ret op3"
    unfolding demo_trace_def go_bind_Ret_iff by force
  have "index_ok NewHookManager"
    by (simp add: index_ok_def NewHookManager_def GetHook_def hooks_of_def)
  then have ok: "index_ok (so_hm demo_loaded_operator)"
    unfolding demo_loaded_operator_def by simp (rule index_ok_register; simp add: NewHookManager_def)
  have ctrl: "ctrl_ok (h_Config h) (h_HookController h)" if "GetHook n (so_hm demo_loaded_operator) = Some h" for n h
  proof -
    have "GetHook n NewHookManager = None" by (simp add: GetHook_def NewHookManager_def)
    then have "h = demo_loaded" using that by (simp add: demo_loaded_operator_def GetHook_register split: if_splits)
    then show ?thesis
      by (auto simp: demo_loaded_def demo_scheduled_def ctrl_ok_def schedule_ok_def InitScheduleBindings_def NewHookController_def)
  qed
  have srt: "mset (he_sort (oe_hook demo_links_env) startup_order hs) = mset hs" for hs
    using demo_sort by (simp add: demo_links_env_def)
  have new: "so_queues demo_loaded_operator = NewTaskQueueSet" by (simp add: demo_loaded_operator_def)
  have "operator_run {demo_links_env} op1 op2" using t(2) by (intro op_task [OF op_refl]) simp_all
  from no_event_is_lost [OF ok _ srt new t(1) this t(3)] ctrl obtain infos where
    "event_infos demo_links_env (CronEvent ''* * * * *'') op2 = Ret infos" "so_next op3 = Suc (so_next op2) + length infos"
    by blast
  with r(2,3) t(3) show ?thesis by (intro exI [of _ op2] exI [of _ op3] exI [of _ infos]) simp
qed

end
