(* ===== verification/Kube_Client.thy ===== *)
theory Kube_Client
  imports Metric_Storage
begin

text \<open>
  \<open>pkg/kube/client.go\<close> and \<open>pkg/kube/metrics.go\<close>: how the client finds the resource for a kind, which
  the informers watch, and the metrics of its requests. The discovery API of the cluster and the
  parser of group versions are parameters (\<open>discovery\<close>). Building a client from configuration files
  is left out. Kinds and names of Kubernetes are ASCII, for which \<open>ToLower\<close> is written out.
\<close>

section \<open>Data\<close>

record APIResource =
  ar_Name :: string
  ar_Kind :: string
  ar_ShortNames :: "string list"
  ar_Verbs :: "string list"
  ar_Group :: string
  ar_Version :: string
  ar_Namespaced :: bool

record APIResourceList =
  arl_GroupVersion :: string
  arl_APIResources :: "APIResource list"

record discovery =
  d_ServerPreferredResources :: "APIResourceList list \<times> string option"
  d_ServerResourcesForGroupVersion :: "string \<Rightarrow> string + APIResourceList"
  d_ParseGroupVersion :: "string \<Rightarrow> (string \<times> string) option"
  d_GroupVersionString :: "string \<times> string \<Rightarrow> string"

section \<open>Operations\<close>

definition char_lower :: "char \<Rightarrow> char" where
  "char_lower c = (let n = of_char c :: nat in if 65 \<le> n \<and> n \<le> 90 then char_of (n + 32) else c)"

definition ToLower :: "string \<Rightarrow> string" where
  "ToLower s = map char_lower s"

definition equalLowerCasedToOneOf :: "string \<Rightarrow> string list \<Rightarrow> bool" where
  "equalLowerCasedToOneOf term choices =
     (if length choices = 0 then False
      else let lTerm = ToLower term in list_ex (\<lambda>choice. lTerm = ToLower choice) choices)"

text \<open>The lists and the error are both results: the preferred resources may be incomplete.\<close>

definition client_APIResourceList :: "discovery \<Rightarrow> string \<Rightarrow> APIResourceList list \<times> string option" where
  "client_APIResourceList d apiVersion =
     (if apiVersion = [] then d_ServerPreferredResources d
      else case d_ParseGroupVersion d apiVersion of
          None \<Rightarrow> ([], Some (''apiVersion '' @ apiVersion @ '' is invalid''))
        | Some gv \<Rightarrow>
            (case d_ServerResourcesForGroupVersion d (d_GroupVersionString d gv) of
               Inl err \<Rightarrow> ([], Some (''apiVersion '' @ apiVersion @ '' has no supported resources in cluster: '' @ err))
             | Inr rl \<Rightarrow> ([rl], None)))"

text \<open>The two loops of \<open>APIResource\<close>; an error of the parser leaves group and version empty.\<close>

fun find_in_list :: "string \<Rightarrow> APIResource list \<Rightarrow> APIResource option" where
  "find_in_list kind [] = None"
| "find_in_list kind (resource # rs) =
     (if length (ar_Verbs resource) = 0 then find_in_list kind rs
      else if equalLowerCasedToOneOf kind (ar_ShortNames resource @ [ar_Kind resource, ar_Name resource])
      then Some resource
      else find_in_list kind rs)"

fun find_resource :: "discovery \<Rightarrow> string \<Rightarrow> APIResourceList list \<Rightarrow> APIResource option" where
  "find_resource d kind [] = None"
| "find_resource d kind (rl # rls) =
     (case find_in_list kind (arl_APIResources rl) of
        Some resource \<Rightarrow>
          (let gv = (case d_ParseGroupVersion d (arl_GroupVersion rl) of None \<Rightarrow> ([], []) | Some gv \<Rightarrow> gv)
           in Some (resource\<lparr>ar_Group := fst gv, ar_Version := snd gv\<rparr>))
      | None \<Rightarrow> find_resource d kind rls)"

definition client_APIResource :: "discovery \<Rightarrow> string \<Rightarrow> string \<Rightarrow> string + APIResource" where
  "client_APIResource d apiVersion kind =
     (case client_APIResourceList d apiVersion of
        (rls, err) \<Rightarrow>
          (case (err, rls) of
             (Some e, []) \<Rightarrow> Inl e
           | _ \<Rightarrow>
               (case find_resource d kind rls of
                  Some resource \<Rightarrow> Inr resource
                | None \<Rightarrow>
                    (let additionalErr = (case err of None \<Rightarrow> [] | Some e \<Rightarrow> '', additional error: '' @ e)
                     in Inl (''apiVersion '' @ apiVersion @ '', kind '' @ kind @ '' is not supported by cluster'' @ additionalErr)))))"

definition GroupVersionResource :: "discovery \<Rightarrow> string \<Rightarrow> string \<Rightarrow> string + string \<times> string \<times> string" where
  "GroupVersionResource d apiVersion kind =
     (case client_APIResource d apiVersion kind of
        Inl err \<Rightarrow> Inl err
      | Inr apiRes \<Rightarrow> Inr (ar_Group apiRes, ar_Version apiRes, ar_Name apiRes))"

section \<open>Metrics\<close>

definition client_buckets :: "rat list" where
  "client_buckets = [0, 1 / 1000, 2 / 1000, 5 / 1000, 1 / 100, 2 / 100, 5 / 100, 1 / 10, 2 / 10, 5 / 10, 1, 2, 5, 10]"

definition RegisterKubernetesClientMetrics ::
    "('r, 'v) prom_lib \<Rightarrow> ('r, 'v) MetricStorage \<Rightarrow> ('r, 'v) MetricStorage" where
  "RegisterKubernetesClientMetrics lib m =
     (let m = fst (RegisterHistogramWithBuckets lib ''{PREFIX}kubernetes_client_request_latency_seconds''
                [(''verb'', []), (''url'', [])] client_buckets m)
      in fst (RegisterCounter lib ''{PREFIX}kubernetes_client_request_result_total''
                [(''code'', []), (''method'', []), (''host'', [])] m))"

definition LatencyMetric_Observe ::
    "('r, 'v) prom_lib \<Rightarrow> string \<Rightarrow> string \<Rightarrow> rat \<Rightarrow> ('r, 'v) MetricStorage \<Rightarrow> ('r, 'v) MetricStorage" where
  "LatencyMetric_Observe lib verb url seconds m =
     HistogramObserve lib ''{PREFIX}kubernetes_client_request_latency_seconds'' seconds
       [(''verb'', verb), (''url'', url)] m"

definition ResultMetric_Increment ::
    "('r, 'v) prom_lib \<Rightarrow> string \<Rightarrow> string \<Rightarrow> string \<Rightarrow> ('r, 'v) MetricStorage \<Rightarrow> ('r, 'v) MetricStorage" where
  "ResultMetric_Increment lib code meth host m =
     CounterAdd lib ''{PREFIX}kubernetes_client_request_result_total'' 1
       [(''code'', code), (''method'', meth), (''host'', host)] m"

section \<open>Lookup\<close>

text \<open>A resource answers to its kind, its name and its short names, in any case, if it has verbs.\<close>

definition answers :: "string \<Rightarrow> APIResource \<Rightarrow> bool" where
  "answers kind r \<longleftrightarrow> ar_Verbs r \<noteq> [] \<and>
     ToLower kind \<in> ToLower ` (set (ar_ShortNames r) \<union> {ar_Kind r, ar_Name r})"

lemma equalLowerCased_iff:
  "equalLowerCasedToOneOf kind xs \<longleftrightarrow> ToLower kind \<in> ToLower ` set xs"
  by (auto simp: equalLowerCasedToOneOf_def Let_def list_ex_iff)

lemma find_in_list_find: "find_in_list kind rs = find (answers kind) rs"
  by (induction rs) (auto simp: answers_def equalLowerCased_iff)

lemma find_resource_find:
  "find_resource d kind rls =
     map_option (\<lambda>(l, r). let gv = (case d_ParseGroupVersion d (arl_GroupVersion l) of None \<Rightarrow> ([], []) | Some gv \<Rightarrow> gv)
         in r\<lparr>ar_Group := fst gv, ar_Version := snd gv\<rparr>)
       (find (\<lambda>(l, r). answers kind r) (concat (map (\<lambda>l. map (Pair l) (arl_APIResources l)) rls)))"
proof (induction rls)
  case (Cons l rls)
  have "find (\<lambda>(l, r). answers kind r) (map (Pair l) rs @ ys) =
      (case find (answers kind) rs of None \<Rightarrow> find (\<lambda>(l, r). answers kind r) ys | Some r \<Rightarrow> Some (l, r))" for rs ys
    by (induction rs) auto
  with Cons show ?case by (simp add: find_in_list_find split: option.splits)
qed simp

lemma find_first_split: "find P xs = Some x \<Longrightarrow> \<exists>pre post. xs = pre @ x # post \<and> P x \<and> (\<forall>y\<in>set pre. \<not> P y)"
proof (induction xs)
  case (Cons y ys)
  show ?case
  proof (cases "P y")
    case True
    with Cons.prems show ?thesis by (intro exI [of _ "[]"] exI [of _ ys]) simp
  next
    case False
    then obtain pre post where "ys = pre @ x # post" "P x" "\<forall>z\<in>set pre. \<not> P z" using Cons by auto
    with False show ?thesis by (intro exI [of _ "y # pre"] exI [of _ post]) simp
  qed
qed simp

section \<open>Properties\<close>

text \<open>
  The client finds a resource exactly when the cluster reports one with verbs that answers to
  the kind, in any case of letters: the first one of the reported lists, under the group and version
  of its list, whatever other lists could not be fetched. It fails otherwise.
\<close>

theorem GroupVersionResource_finds:
  assumes lists: "client_APIResourceList d apiVersion = (rls, err)"
  shows "case GroupVersionResource d apiVersion kind of
      Inr (g, v, name) \<Rightarrow>
        (\<exists>pre l post r. concat (map (\<lambda>l. map (Pair l) (arl_APIResources l)) rls) = pre @ (l, r) # post \<and>
           answers kind r \<and> (\<forall>(l', r')\<in>set pre. \<not> answers kind r') \<and> name = ar_Name r \<and>
           (g, v) = (case d_ParseGroupVersion d (arl_GroupVersion l) of None \<Rightarrow> ([], []) | Some gv \<Rightarrow> gv))
    | Inl _ \<Rightarrow> (\<forall>l\<in>set rls. \<forall>r\<in>set (arl_APIResources l). \<not> answers kind r)"
proof -
  let ?rs = "concat (map (\<lambda>l. map (Pair l) (arl_APIResources l)) rls)"
  show ?thesis
  proof (cases "find (\<lambda>(l, r). answers kind r) ?rs")
    case None
    then have "find_resource d kind rls = None" by (simp add: find_resource_find)
    then have "\<exists>e. GroupVersionResource d apiVersion kind = Inl e"
      using lists by (cases rls; cases err) (auto simp: GroupVersionResource_def client_APIResource_def Let_def)
    moreover have "\<forall>l\<in>set rls. \<forall>r\<in>set (arl_APIResources l). \<not> answers kind r"
      using None by (auto simp: find_None_iff)
    ultimately show ?thesis by auto
  next
    case (Some lr)
    obtain l r where lr: "lr = (l, r)" by fastforce
    let ?gv = "case d_ParseGroupVersion d (arl_GroupVersion l) of None \<Rightarrow> ([], []) | Some gv \<Rightarrow> gv"
    have f: "find_resource d kind rls = Some (r\<lparr>ar_Group := fst ?gv, ar_Version := snd ?gv\<rparr>)"
      using Some lr by (simp add: find_resource_find Let_def)
    then have "rls \<noteq> []" by auto
    with f lists have res: "GroupVersionResource d apiVersion kind = Inr (fst ?gv, snd ?gv, ar_Name r)"
      by (cases rls; cases err) (auto simp: GroupVersionResource_def client_APIResource_def)
    from find_first_split [OF Some] lr obtain pre post where
      "?rs = pre @ (l, r) # post" "answers kind r" "\<forall>(l', r')\<in>set pre. \<not> answers kind r'" by auto
    with res show ?thesis by (simp del: map_map) blast
  qed
qed

definition demo_discovery :: discovery where
  "demo_discovery = \<lparr>d_ServerPreferredResources =
       ([\<lparr>arl_GroupVersion = ''v1'', arl_APIResources =
           [\<lparr>ar_Name = ''pods/log'', ar_Kind = ''Pod'', ar_ShortNames = [], ar_Verbs = [], ar_Group = [], ar_Version = [], ar_Namespaced = True\<rparr>,
            \<lparr>ar_Name = ''pods'', ar_Kind = ''Pod'', ar_ShortNames = [''po''], ar_Verbs = [''list''], ar_Group = [], ar_Version = [], ar_Namespaced = True\<rparr>]\<rparr>],
        Some ''metrics API is not available''),
     d_ServerResourcesForGroupVersion = \<lambda>_. Inl ''none'', d_ParseGroupVersion = \<lambda>s. Some ([], s), d_GroupVersionString = snd\<rparr>"

theorem GroupVersionResource_finds_witness:
  "GroupVersionResource demo_discovery [] ''PO'' = Inr ([], ''v1'', ''pods'') \<and>
   (\<exists>l\<in>set (fst (client_APIResourceList demo_discovery [])). \<exists>r\<in>set (arl_APIResources l). answers ''PO'' r \<and> ar_Name r = ''pods'')"
proof -
  let ?ls = "fst (client_APIResourceList demo_discovery [])"
  have gvr: "GroupVersionResource demo_discovery [] ''PO'' = Inr ([], ''v1'', ''pods'')" by code_simp
  from GroupVersionResource_finds [of demo_discovery "[]" ?ls "snd (client_APIResourceList demo_discovery [])" "''PO''"] gvr
  obtain pre l post r where
    c: "concat (map (\<lambda>l. map (Pair l) (arl_APIResources l)) ?ls) = pre @ (l, r) # post" "answers ''PO'' r" "''pods'' = ar_Name r"
    by auto
  have "(l, r) \<in> set (concat (map (\<lambda>l. map (Pair l) (arl_APIResources l)) ?ls))" unfolding c(1) by simp
  then have "l \<in> set ?ls" "r \<in> set (arl_APIResources l)" by auto
  with gvr c(2,3) show ?thesis by auto
qed

end
