(* ===== verification/Client_Config.thy ===== *)
theory Client_Config
  imports Kube_Client Files
begin

text \<open>
  The construction of the Kubernetes client (\<open>Init\<close> of \<open>pkg/kube/client.go\<close>): which configuration is used.
  Loading a kubeconfig, the configuration inside a cluster and the constructors of the clients belong
  to client-go and are the record \<open>client_lib\<close>; a configuration has further fields, \<open>'x\<close>.
\<close>

section \<open>Types\<close>

record 'x rest_Config =
  rc_Host :: string
  rc_QPS :: rat
  rc_Burst :: int
  rc_rest :: 'x

text \<open>What \<open>getClientConfig\<close> asks of the loader: the context override and the explicit path.\<close>

record ClientConfig =
  cc_CurrentContext :: string
  cc_ExplicitPath :: string

record ('x, 'i, 'd) client_lib =
  cl_Namespace :: "ClientConfig \<Rightarrow> string + string"
  cl_ClientConfig :: "ClientConfig \<Rightarrow> string + 'x rest_Config"
  cl_InClusterConfig :: "string + 'x rest_Config"
  cl_Stat :: "string \<Rightarrow> stat"
  cl_ReadFile :: "string \<Rightarrow> string + string"
  cl_NewConfig :: 'x
  cl_SetKubernetesDefaults :: "'x rest_Config \<Rightarrow> 'x rest_Config"
  cl_NewForConfig :: "'x rest_Config \<Rightarrow> string + 'i"
  cl_NewDynamic :: "'x rest_Config \<Rightarrow> string + 'd"

record ('i, 'd, 'r, 'v) kubernetesClient =
  kcl_Interface :: "'i option"
  kcl_contextName :: string
  kcl_configPath :: string
  kcl_defaultNamespace :: string
  kcl_dynamicClient :: "'d option"
  kcl_qps :: rat
  kcl_burst :: int
  kcl_server :: string
  kcl_metricStorage :: "('r, 'v) MetricStorage option"

definition NewKubernetesClient :: "('i, 'd, 'r, 'v) kubernetesClient" where
  "NewKubernetesClient = \<lparr>kcl_Interface = None, kcl_contextName = [], kcl_configPath = [], kcl_defaultNamespace = [],
     kcl_dynamicClient = None, kcl_qps = 0, kcl_burst = 0, kcl_server = [], kcl_metricStorage = None\<rparr>"

definition NewFakeKubernetesClient :: "'i \<Rightarrow> 'd \<Rightarrow> ('i, 'd, 'r, 'v) kubernetesClient" where
  "NewFakeKubernetesClient i d =
     NewKubernetesClient\<lparr>kcl_Interface := Some i, kcl_defaultNamespace := ''default'', kcl_dynamicClient := Some d\<rparr>"

definition WithServer :: "string \<Rightarrow> ('i, 'd, 'r, 'v) kubernetesClient \<Rightarrow> ('i, 'd, 'r, 'v) kubernetesClient" where
  "WithServer server c = c\<lparr>kcl_server := server\<rparr>"

definition WithContextName :: "string \<Rightarrow> ('i, 'd, 'r, 'v) kubernetesClient \<Rightarrow> ('i, 'd, 'r, 'v) kubernetesClient" where
  "WithContextName name c = c\<lparr>kcl_contextName := name\<rparr>"

definition WithConfigPath :: "string \<Rightarrow> ('i, 'd, 'r, 'v) kubernetesClient \<Rightarrow> ('i, 'd, 'r, 'v) kubernetesClient" where
  "WithConfigPath path c = c\<lparr>kcl_configPath := path\<rparr>"

definition WithRateLimiterSettings :: "rat \<Rightarrow> int \<Rightarrow> ('i, 'd, 'r, 'v) kubernetesClient \<Rightarrow> ('i, 'd, 'r, 'v) kubernetesClient" where
  "WithRateLimiterSettings qps burst c = c\<lparr>kcl_qps := qps, kcl_burst := burst\<rparr>"

definition client_WithMetricStorage ::
    "('r, 'v) MetricStorage \<Rightarrow> ('i, 'd, 'r, 'v) kubernetesClient \<Rightarrow> ('i, 'd, 'r, 'v) kubernetesClient" where
  "client_WithMetricStorage metricStorage c = c\<lparr>kcl_metricStorage := Some metricStorage\<rparr>"

section \<open>Configurations\<close>

definition kubeTokenFilePath :: string where
  "kubeTokenFilePath = ''/var/run/secrets/kubernetes.io/serviceaccount/token''"

definition kubeNamespaceFilePath :: string where
  "kubeNamespaceFilePath = ''/var/run/secrets/kubernetes.io/serviceaccount/namespace''"

definition makeOutOfClusterClientConfigError :: "string \<Rightarrow> string \<Rightarrow> string \<Rightarrow> string" where
  "makeOutOfClusterClientConfigError kubeConfig kubeContext err =
     ''out-of-cluster configuration problem'' @
     (if kubeConfig \<noteq> [] then '', custom kube config path is '' @ [CHR 0x27] @ kubeConfig @ [CHR 0x27] else []) @
     (if kubeContext \<noteq> [] then '', custom kube context is '' @ [CHR 0x27] @ kubeContext @ [CHR 0x27] else []) @ '': '' @ err"

definition getClientConfig :: "string \<Rightarrow> string \<Rightarrow> ClientConfig" where
  "getClientConfig context kubeconfig =
     (let overrides = (if context \<noteq> [] then context else []);
          explicit = (if kubeconfig \<noteq> [] then kubeconfig else [])
      in \<lparr>cc_CurrentContext = overrides, cc_ExplicitPath = explicit\<rparr>)"

definition exists_ok :: "string + bool \<Rightarrow> bool" where
  "exists_ok r = (case r of Inl _ \<Rightarrow> False | Inr b \<Rightarrow> b)"

definition hasInClusterConfig :: "('x, 'i, 'd) client_lib \<Rightarrow> bool" where
  "hasInClusterConfig lib \<longleftrightarrow>
     exists_ok (FileExists (cl_Stat lib kubeTokenFilePath)) \<and> exists_ok (FileExists (cl_Stat lib kubeNamespaceFilePath))"

definition getOutOfClusterConfig ::
    "('x, 'i, 'd) client_lib \<Rightarrow> string \<Rightarrow> string \<Rightarrow> string + ('x rest_Config \<times> string)" where
  "getOutOfClusterConfig lib contextName configPath =
     (let clientConfig = getClientConfig contextName configPath in
      case cl_Namespace lib clientConfig of
        Inl err \<Rightarrow> Inl (''cannot determine default kubernetes namespace: '' @ err)
      | Inr defaultNs \<Rightarrow>
          (case cl_ClientConfig lib clientConfig of
             Inl err \<Rightarrow> Inl (makeOutOfClusterClientConfigError configPath contextName err)
           | Inr config \<Rightarrow> Inr (config, defaultNs)))"

definition getInClusterConfig :: "('x, 'i, 'd) client_lib \<Rightarrow> string + ('x rest_Config \<times> string)" where
  "getInClusterConfig lib =
     (case cl_InClusterConfig lib of
        Inl err \<Rightarrow> Inl (''in-cluster configuration problem: '' @ err)
      | Inr config \<Rightarrow>
          (case cl_ReadFile lib kubeNamespaceFilePath of
             Inl err \<Rightarrow> Inl (''in-cluster configuration problem: cannot determine default kubernetes namespace: error reading ''
                @ kubeNamespaceFilePath @ '': '' @ err)
           | Inr data \<Rightarrow> Inr (config, data)))"

text \<open>
  The first part of \<open>Init\<close>: the configuration and the default namespace. A loader that gives no error
  gives a configuration, so that the branches for a missing configuration without an error are dead.
\<close>

definition choose_config ::
    "('x, 'i, 'd) client_lib \<Rightarrow> ('i, 'd, 'r, 'v) kubernetesClient \<Rightarrow> string + ('x rest_Config \<times> string)" where
  "choose_config lib c =
     (if kcl_server c = [] then
        (case getOutOfClusterConfig lib (kcl_contextName c) (kcl_configPath c) of
           Inr (config, defaultNs) \<Rightarrow> Inr (config, defaultNs)
         | Inl outOfClusterErr \<Rightarrow>
             if hasInClusterConfig lib then
               (case getInClusterConfig lib of
                  Inr (config, defaultNs) \<Rightarrow> Inr (config, defaultNs)
                | Inl err \<Rightarrow>
                    if kcl_configPath c \<noteq> [] \<or> kcl_contextName c \<noteq> []
                    then Inl (''out-of-cluster config error: '' @ outOfClusterErr @ '', in-cluster config error: '' @ err)
                    else Inl err)
             else Inl outOfClusterErr)
      else Inr (cl_SetKubernetesDefaults lib \<lparr>rc_Host = kcl_server c, rc_QPS = 0, rc_Burst = 0, rc_rest = cl_NewConfig lib\<rparr>,
             ''default''))"

definition client_Init ::
    "('x, 'i, 'd) client_lib \<Rightarrow> ('r, 'v) prom_lib \<Rightarrow> ('i, 'd, 'r, 'v) kubernetesClient \<Rightarrow>
     ('i, 'd, 'r, 'v) kubernetesClient \<times> string option" where
  "client_Init lib plib c =
     (case choose_config lib c of
        Inl err \<Rightarrow> (c, Some err)
      | Inr (config, defaultNs) \<Rightarrow>
          (let c = c\<lparr>kcl_defaultNamespace := defaultNs\<rparr>;
               config = config\<lparr>rc_QPS := kcl_qps c, rc_Burst := kcl_burst c\<rparr>
           in case cl_NewForConfig lib config of
                Inl err \<Rightarrow> (c\<lparr>kcl_Interface := None\<rparr>, Some err)
              | Inr i \<Rightarrow>
                  (let c = c\<lparr>kcl_Interface := Some i\<rparr> in
                   case cl_NewDynamic lib config of
                     Inl err \<Rightarrow> (c\<lparr>kcl_dynamicClient := None\<rparr>, Some err)
                   | Inr d \<Rightarrow>
                       (let c = c\<lparr>kcl_dynamicClient := Some d\<rparr> in
                        (c\<lparr>kcl_metricStorage := map_option (RegisterKubernetesClientMetrics plib) (kcl_metricStorage c)\<rparr>, None)))))"

section \<open>Properties\<close>

text \<open>
  \<open>candidates\<close>: the configurations that are tried, in order: the given server; else the kubeconfig and,
  when the files of a service account exist, the configuration inside the cluster.
\<close>

definition candidates ::
    "('x, 'i, 'd) client_lib \<Rightarrow> ('i, 'd, 'r, 'v) kubernetesClient \<Rightarrow> (string + 'x rest_Config \<times> string) list" where
  "candidates lib c =
     (if kcl_server c \<noteq> [] then
        [Inr (cl_SetKubernetesDefaults lib \<lparr>rc_Host = kcl_server c, rc_QPS = 0, rc_Burst = 0, rc_rest = cl_NewConfig lib\<rparr>, ''default'')]
      else getOutOfClusterConfig lib (kcl_contextName c) (kcl_configPath c) #
        (if hasInClusterConfig lib then [getInClusterConfig lib] else []))"

lemma choose_config_first:
  "case choose_config lib c of
     Inr r \<Rightarrow> find (\<lambda>x. \<not> isl x) (candidates lib c) = Some (Inr r)
   | Inl _ \<Rightarrow> \<forall>x\<in>set (candidates lib c). isl x"
  by (auto simp: choose_config_def candidates_def split: sum.splits prod.splits)

text \<open>
  The client takes the first configuration that loads: the given server, else the kubeconfig, else
  the configuration inside the cluster. It fails to choose only when none of them loads and then
  does not change. A chosen configuration gets the rate limits of the client before both clients are
  made from it; a successful \<open>Init\<close> sets both clients and the default namespace of the configuration.
\<close>

theorem client_Init_chooses:
  "case find (\<lambda>x. \<not> isl x) (candidates lib c) of
     Some (Inr (config, ns)) \<Rightarrow>
       (let cfg = config\<lparr>rc_QPS := kcl_qps c, rc_Burst := kcl_burst c\<rparr>; c' = fst (client_Init lib plib c) in
        kcl_defaultNamespace c' = ns \<and>
        (snd (client_Init lib plib c) = None \<longleftrightarrow> \<not> isl (cl_NewForConfig lib cfg) \<and> \<not> isl (cl_NewDynamic lib cfg)) \<and>
        (snd (client_Init lib plib c) = None \<longrightarrow>
           cl_NewForConfig lib cfg = Inr (the (kcl_Interface c')) \<and> cl_NewDynamic lib cfg = Inr (the (kcl_dynamicClient c'))))
   | _ \<Rightarrow> fst (client_Init lib plib c) = c \<and> snd (client_Init lib plib c) \<noteq> None"
proof (cases "choose_config lib c")
  case (Inl err)
  then have "find (\<lambda>x. \<not> isl x) (candidates lib c) = None"
    using choose_config_first [of lib c] by (simp add: find_None_iff)
  then show ?thesis using Inl by (simp add: client_Init_def)
next
  case (Inr r)
  then have "find (\<lambda>x. \<not> isl x) (candidates lib c) = Some (Inr r)" using choose_config_first [of lib c] by simp
  moreover obtain config ns where "r = (config, ns)" by (cases r)
  ultimately show ?thesis using Inr by (simp add: client_Init_def Let_def split: sum.splits)
qed

abbreviation demo_lib :: "(unit, string, string) client_lib" where
  "demo_lib \<equiv> \<lparr>cl_Namespace = \<lambda>cc. if cc_ExplicitPath cc = [] then Inr ''kube'' else Inl ''no file'',
     cl_ClientConfig = \<lambda>cc. Inl ''no config'', cl_InClusterConfig = Inr \<lparr>rc_Host = ''api'', rc_QPS = 0, rc_Burst = 0, rc_rest = ()\<rparr>,
     cl_Stat = \<lambda>_. StatFile, cl_ReadFile = \<lambda>_. Inr ''prod'', cl_NewConfig = (), cl_SetKubernetesDefaults = id,
     cl_NewForConfig = \<lambda>c. Inr (rc_Host c), cl_NewDynamic = \<lambda>c. Inr (rc_Host c)\<rparr>"

theorem client_Init_chooses_witness:
  "\<forall>plib. kcl_defaultNamespace (fst (client_Init demo_lib plib (WithConfigPath ''my'' NewKubernetesClient))) = ''prod''"
proof
  fix plib
  show "kcl_defaultNamespace (fst (client_Init demo_lib plib (WithConfigPath ''my'' NewKubernetesClient))) = ''prod''"
    using client_Init_chooses [where lib = demo_lib and c = "WithConfigPath ''my'' NewKubernetesClient" and plib = plib]
    by (simp add: candidates_def WithConfigPath_def NewKubernetesClient_def getOutOfClusterConfig_def getClientConfig_def
      hasInClusterConfig_def exists_ok_def FileExists_def getInClusterConfig_def Let_def)
qed

end
