(* ===== verification/Operator_Init.thy ===== *)
theory Operator_Init
  imports Operator_Events Client_Config
begin

text \<open>
  From the command line to the running operator: \<open>InitAndStart\<close> and what it calls in
  \<open>pkg/shell-operator/operator.go\<close>, the socket of \<open>pkg/debug/server.go\<close>, and the variables of \<open>pkg/app\<close>.
  Before \<open>Init\<close> most fields of the operator are nil; this is the record \<open>boot\<close>, from which \<open>assemble\<close>
  makes the operator of the theories above. \<open>sys_env\<close> has the answers of the operating system. The
  HTTP handlers only write texts that other theories define (the dump of the queues, the metrics) or
  constants, and are left out.
\<close>

section \<open>Flags\<close>

record app_flags =
  af_HooksDir :: string
  af_TempDir :: string
  af_ListenAddress :: string
  af_ListenPort :: string
  af_HookMetricsListenPort :: string
  af_PrometheusMetricsPrefix :: string
  af_DebugUnixSocket :: string
  af_KubeContext :: string
  af_KubeConfig :: string
  af_KubeServer :: string
  af_KubeClientQps :: rat
  af_KubeClientBurst :: int

text \<open>The values without flags and environment variables.\<close>

definition start_flags :: app_flags where
  "start_flags = \<lparr>af_HooksDir = [], af_TempDir = ''/tmp/shell-operator'', af_ListenAddress = ''0.0.0.0'',
     af_ListenPort = ''9115'', af_HookMetricsListenPort = [], af_PrometheusMetricsPrefix = ''shell_operator_'',
     af_DebugUnixSocket = ''/var/run/shell-operator/debug.socket'', af_KubeContext = [], af_KubeConfig = [],
     af_KubeServer = [], af_KubeClientQps = 5, af_KubeClientBurst = 10\<rparr>"

text \<open>Answers of the operating system; \<open>None\<close> is success.\<close>

record sys_env =
  se_Abs :: "string \<Rightarrow> string + string"
  se_Stat :: "string \<Rightarrow> stat"
  se_Mkdir :: "string \<Rightarrow> string option"
  se_MkdirAllDir :: "string \<Rightarrow> string option"
  se_Remove :: "string \<Rightarrow> string option"
  se_Listen :: "string \<Rightarrow> string \<Rightarrow> string option"

section \<open>The debug server\<close>

record Server =
  sv_SocketPath :: string
  sv_Prefix :: string

definition NewServer :: Server where
  "NewServer = \<lparr>sv_SocketPath = [], sv_Prefix = []\<rparr>"

definition WithSocketPath :: "string \<Rightarrow> Server \<Rightarrow> Server" where
  "WithSocketPath path s = s\<lparr>sv_SocketPath := path\<rparr>"

definition server_WithPrefix :: "string \<Rightarrow> Server \<Rightarrow> Server" where
  "server_WithPrefix prfx s = s\<lparr>sv_Prefix := prfx\<rparr>"

text \<open>\<open>Init\<close> uses the flag and not the path of the server; an old socket is removed.\<close>

definition Server_Init :: "sys_env \<Rightarrow> app_flags \<Rightarrow> Server \<Rightarrow> string option" where
  "Server_Init sys flags s =
     (let address = af_DebugUnixSocket flags in
      case se_MkdirAllDir sys address of
        Some err \<Rightarrow> Some err
      | None \<Rightarrow>
          (case FileExists (se_Stat sys address) of
             Inl err \<Rightarrow> Some err
           | Inr exists \<Rightarrow>
               (case (if exists then se_Remove sys address else None) of
                  Some err \<Rightarrow> Some err
                | None \<Rightarrow> se_Listen sys ''unix'' address)))"

section \<open>The operator before it runs\<close>

text \<open>Where the metrics of hooks go: nowhere yet, to the operator's storage, or to one of their own.\<close>

datatype ('r, 'v) hook_storage = HookStorageNil | HookStorageShared | HookStorageOwn "('r, 'v) MetricStorage"

record ('c, 'r, 'v, 'i, 'd) boot =
  bo_store :: ctx_store
  bo_ctx :: "ctx option"
  bo_HooksDir :: string
  bo_TempDir :: string
  bo_MetricStorage :: "('r, 'v) MetricStorage option"
  bo_metrics_ctx :: "ctx list"
  bo_HookMetricStorage :: "('r, 'v) hook_storage"
  bo_KubeClient :: "('i, 'd, 'r, 'v) kubernetesClient option"
  bo_TaskQueues :: "(task_ref TaskQueueSet \<times> ctx) option"
  bo_ScheduleManager :: "('c scheduleManager \<times> ctx) option"
  bo_KubeEventsManager :: "kubeEventsManager option"
  bo_ManagerEventsHandler :: "ctx option"
  bo_HookManager :: "hookManager option"
  bo_DebugServer :: "Server option"

definition NewShellOperator :: "ctx_store \<Rightarrow> ('c, 'r, 'v, 'i, 'd) boot" where
  "NewShellOperator st = \<lparr>bo_store = st, bo_ctx = None, bo_HooksDir = [], bo_TempDir = [], bo_MetricStorage = None,
     bo_metrics_ctx = [], bo_HookMetricStorage = HookStorageNil, bo_KubeClient = None, bo_TaskQueues = None,
     bo_ScheduleManager = None, bo_KubeEventsManager = None, bo_ManagerEventsHandler = None, bo_HookManager = None,
     bo_DebugServer = None\<rparr>"

definition WithHooksDir :: "string \<Rightarrow> ('c, 'r, 'v, 'i, 'd) boot \<Rightarrow> ('c, 'r, 'v, 'i, 'd) boot" where
  "WithHooksDir dir op = op\<lparr>bo_HooksDir := dir\<rparr>"

definition WithTempDir :: "string \<Rightarrow> ('c, 'r, 'v, 'i, 'd) boot \<Rightarrow> ('c, 'r, 'v, 'i, 'd) boot" where
  "WithTempDir dir op = op\<lparr>bo_TempDir := dir\<rparr>"

definition operator_WithContext :: "ctx \<Rightarrow> ('c, 'r, 'v, 'i, 'd) boot \<Rightarrow> ('c, 'r, 'v, 'i, 'd) boot" where
  "operator_WithContext parent op =
     (let (c, st) = WithCancel parent (bo_store op) in op\<lparr>bo_ctx := Some c, bo_store := st\<rparr>)"

definition operator_Stop :: "('c, 'r, 'v, 'i, 'd) boot \<Rightarrow> ('c, 'r, 'v, 'i, 'd) boot" where
  "operator_Stop op =
     (case bo_ctx op of None \<Rightarrow> op | Some c \<Rightarrow> op\<lparr>bo_store := cancel_ctx c (bo_store op)\<rparr>)"

definition WithKubernetesClient ::
    "('i, 'd, 'r, 'v) kubernetesClient \<Rightarrow> ('c, 'r, 'v, 'i, 'd) boot \<Rightarrow> ('c, 'r, 'v, 'i, 'd) boot" where
  "WithKubernetesClient klient op = op\<lparr>bo_KubeClient := Some klient\<rparr>"

definition operator_WithMetricStorage ::
    "('r, 'v) MetricStorage \<Rightarrow> ('c, 'r, 'v, 'i, 'd) boot \<Rightarrow> ('c, 'r, 'v, 'i, 'd) boot" where
  "operator_WithMetricStorage metricStorage op = op\<lparr>bo_MetricStorage := Some metricStorage\<rparr>"

text \<open>A context below that of the operator; \<open>context.WithCancel(nil)\<close> panics.\<close>

definition child_ctx :: "('c, 'r, 'v, 'i, 'd) boot \<Rightarrow> (ctx \<times> ('c, 'r, 'v, 'i, 'd) boot) go" where
  "child_ctx op =
     (case bo_ctx op of
        None \<Rightarrow> Panic
      | Some parent \<Rightarrow> (case WithCancel parent (bo_store op) of (c, st) \<Rightarrow> Ret (c, op\<lparr>bo_store := st\<rparr>)))"

definition operator_InitMetricStorage ::
    "('r, 'v) prom_lib \<Rightarrow> 'r \<Rightarrow> app_flags \<Rightarrow> ('c, 'r, 'v, 'i, 'd) boot \<Rightarrow> ('c, 'r, 'v, 'i, 'd) boot go" where
  "operator_InitMetricStorage lib r flags op =
     (case bo_MetricStorage op of
        Some _ \<Rightarrow> Ret op
      | None \<Rightarrow> go_bind (child_ctx op) (\<lambda>(c, op). Ret
          (op\<lparr>bo_MetricStorage := Some (InitMetricStorage lib r (af_PrometheusMetricsPrefix flags) None),
              bo_metrics_ctx := c # bo_metrics_ctx op\<rparr>)))"

definition InitHookMetricStorage ::
    "'r \<Rightarrow> 'r \<Rightarrow> app_flags \<Rightarrow> ('c, 'r, 'v, 'i, 'd) boot \<Rightarrow> ('c, 'r, 'v, 'i, 'd) boot go" where
  "InitHookMetricStorage r registry flags op =
     (if bo_HookMetricStorage op \<noteq> HookStorageNil then Ret op
      else go_bind (child_ctx op) (\<lambda>(c, op). Ret
        (op\<lparr>bo_HookMetricStorage := HookStorageOwn
               (WithNewRegistry registry (WithPrefix (af_PrometheusMetricsPrefix flags) (NewMetricStorage r))),
            bo_metrics_ctx := c # bo_metrics_ctx op\<rparr>)))"

definition StartHttpServer :: "sys_env \<Rightarrow> string \<Rightarrow> string \<Rightarrow> string option" where
  "StartHttpServer sys ip port = se_Listen sys ''tcp'' (ip @ '':'' @ port)"

definition SetupHookMetricStorageAndServer ::
    "sys_env \<Rightarrow> 'r \<Rightarrow> 'r \<Rightarrow> app_flags \<Rightarrow> ('c, 'r, 'v, 'i, 'd) boot \<Rightarrow> (('c, 'r, 'v, 'i, 'd) boot \<times> string option) go" where
  "SetupHookMetricStorageAndServer sys r registry flags op =
     (if bo_HookMetricStorage op \<noteq> HookStorageNil then Ret (op, None)
      else if af_HookMetricsListenPort flags = [] \<or> af_HookMetricsListenPort flags = af_ListenPort flags
      then Ret (op\<lparr>bo_HookMetricStorage := HookStorageShared\<rparr>, None)
      else go_bind (InitHookMetricStorage r registry flags op) (\<lambda>op. Ret
        (op, StartHttpServer sys (af_ListenAddress flags) (af_HookMetricsListenPort flags))))"

section \<open>Init\<close>

type_synonym ('c, 'r, 'v, 'i, 'd) init_step = "('c, 'r, 'v, 'i, 'd) boot \<Rightarrow> (('c, 'r, 'v, 'i, 'd) boot \<times> string option) go"

text \<open>The next part of \<open>Init\<close>, unless the one before returned an error.\<close>

definition and_then :: "('c, 'r, 'v, 'i, 'd) init_step \<Rightarrow> ('c, 'r, 'v, 'i, 'd) init_step \<Rightarrow> ('c, 'r, 'v, 'i, 'd) init_step" where
  "and_then f g op = go_bind (f op) (\<lambda>(op, err). case err of Some e \<Rightarrow> Ret (op, Some e) | None \<Rightarrow> g op)"

definition init_hooks_dir :: "sys_env \<Rightarrow> app_flags \<Rightarrow> ('c, 'r, 'v, 'i, 'd) init_step" where
  "init_hooks_dir sys flags op =
     (if bo_HooksDir op \<noteq> [] then Ret (op, None)
      else case se_Abs sys (af_HooksDir flags) of
          Inl err \<Rightarrow> Ret (op, Some err)
        | Inr dir \<Rightarrow>
            go_bind (DirExists (se_Stat sys dir)) (\<lambda>exists. Ret
              (op\<lparr>bo_HooksDir := dir\<rparr>, if exists then None else Some ''no working dir'')))"

definition init_temp_dir :: "sys_env \<Rightarrow> app_flags \<Rightarrow> ('c, 'r, 'v, 'i, 'd) init_step" where
  "init_temp_dir sys flags op =
     (if bo_TempDir op \<noteq> [] then Ret (op, None)
      else
        (let op = op\<lparr>bo_TempDir := af_TempDir flags\<rparr> in
         go_bind (DirExists (se_Stat sys (bo_TempDir op))) (\<lambda>exists. Ret
           (op, if exists then None else se_Mkdir sys (bo_TempDir op)))))"

definition init_debug_server :: "sys_env \<Rightarrow> app_flags \<Rightarrow> ('c, 'r, 'v, 'i, 'd) init_step" where
  "init_debug_server sys flags op =
     (let s = WithSocketPath (af_DebugUnixSocket flags) (server_WithPrefix ''/debug'' NewServer)
      in Ret (op\<lparr>bo_DebugServer := Some s\<rparr>, Server_Init sys flags s))"

text \<open>The client gets the storage of the operator itself, so that the operator sees the metrics it registers.\<close>

definition init_client ::
    "('x, 'i, 'd) client_lib \<Rightarrow> ('r, 'v) prom_lib \<Rightarrow> app_flags \<Rightarrow> ('c, 'r, 'v, 'i, 'd) init_step" where
  "init_client clib lib flags op =
     (case bo_KubeClient op of
        Some _ \<Rightarrow> Ret (op, None)
      | None \<Rightarrow>
          (let c = WithRateLimiterSettings (af_KubeClientQps flags) (af_KubeClientBurst flags)
                 (WithConfigPath (af_KubeConfig flags) (WithContextName (af_KubeContext flags) NewKubernetesClient));
               (c, err) = client_Init clib lib (c\<lparr>kcl_metricStorage := bo_MetricStorage op\<rparr>)
           in Ret (op\<lparr>bo_KubeClient := Some c, bo_MetricStorage := kcl_metricStorage c\<rparr>, err)))"

definition init_managers :: "'c \<Rightarrow> ('c, 'r, 'v, 'i, 'd) init_step" where
  "init_managers cron op =
     go_bind (child_ctx op) (\<lambda>(c, op).
     go_bind (child_ctx (op\<lparr>bo_TaskQueues := Some (NewTaskQueueSet, c)\<rparr>)) (\<lambda>(c, op).
     go_bind (child_ctx (op\<lparr>bo_ScheduleManager := Some (NewScheduleManager cron, c)\<rparr>)) (\<lambda>(c, op).
     go_bind (child_ctx (op\<lparr>bo_KubeEventsManager := Some \<lparr>kem_Monitors = [], kem_ctx = c\<rparr>\<rparr>)) (\<lambda>(c, op).
       Ret (op\<lparr>bo_ManagerEventsHandler := Some c\<rparr>, None)))))"

definition operator_Init ::
    "sys_env \<Rightarrow> ('x, 'i, 'd) client_lib \<Rightarrow> ('r, 'v) prom_lib \<Rightarrow> 'c \<Rightarrow> app_flags \<Rightarrow> ('c, 'r, 'v, 'i, 'd) init_step" where
  "operator_Init sys clib lib cron flags =
     and_then (init_hooks_dir sys flags) (and_then (init_temp_dir sys flags) (and_then (init_debug_server sys flags)
       (and_then (init_client clib lib flags) (init_managers cron))))"

section \<open>InitAndStart\<close>

datatype start_error = EInitStep string | ELoadHooks load_error

definition InitHookManager ::
    "hook_env \<Rightarrow> nat \<Rightarrow> fnode \<Rightarrow> ('c, 'r, 'v, 'i, 'd) boot \<Rightarrow> load_error + nat \<times> ('c, 'r, 'v, 'i, 'd) boot" where
  "InitHookManager env n tree op =
     (case hookManager_Init env n tree (WithDirectories (bo_HooksDir op) (bo_TempDir op) NewHookManager) of
        Inl err \<Rightarrow> Inl err
      | Inr (n, hm) \<Rightarrow> Inr (n, op\<lparr>bo_HookManager := Some hm\<rparr>))"

text \<open>The running operator; \<open>Start\<close> dereferences all its parts.\<close>

definition assemble ::
    "task_heap \<Rightarrow> files \<Rightarrow> nat \<Rightarrow> ('c, 'r, 'v, 'i, 'd) boot \<Rightarrow> ('c, 'r, 'v) operator go" where
  "assemble h fs n op =
     (case (bo_TaskQueues op, bo_ScheduleManager op, bo_KubeEventsManager op, bo_HookManager op, bo_MetricStorage op) of
        (Some (tqs, _), Some (sm, _), Some kem, Some hm, Some m) \<Rightarrow> Ret
          \<lparr>so_heap = h, so_queues = tqs, so_hm = hm, so_managers = \<lparr>w_store = bo_store op, w_kem = kem, w_sm = sm\<rparr>,
           so_MetricStorage = m,
           so_HookMetricStorage = (case bo_HookMetricStorage op of HookStorageOwn m \<Rightarrow> Some m | _ \<Rightarrow> None),
           so_files = fs, so_next = n\<rparr>
      | _ \<Rightarrow> Panic)"

text \<open>What is there when the process starts: free memory, files, the hooks, the registries and cron.\<close>

record ('c, 'r, 'v, 'x, 'i, 'd) start_env =
  ste_sys :: sys_env
  ste_client :: "('x, 'i, 'd) client_lib"
  ste_op :: "('c, 'r, 'v) op_env"
  ste_cron :: 'c
  ste_registry :: 'r
  ste_hook_registry :: 'r
  ste_heap :: task_heap
  ste_files :: files
  ste_hooks :: "string \<Rightarrow> fnode"
  ste_next :: nat

definition DefaultOperator :: "ctx_store \<Rightarrow> ('c, 'r, 'v, 'i, 'd) boot" where
  "DefaultOperator st = operator_WithContext [] (NewShellOperator st)"

definition InitAndStart ::
    "('c, 'r, 'v, 'x, 'i, 'd) start_env \<Rightarrow> app_flags \<Rightarrow> ('c, 'r, 'v, 'i, 'd) boot \<Rightarrow>
     (start_error + ('c, 'r, 'v, 'i, 'd) boot \<times> ('c, 'r, 'v) operator) go" where
  "InitAndStart env flags op =
     (let sys = ste_sys env; lib = oe_prom (ste_op env); r = ste_registry env in
      case StartHttpServer sys (af_ListenAddress flags) (af_ListenPort flags) of
        Some err \<Rightarrow> Ret (Inl (EInitStep err))
      | None \<Rightarrow>
          go_bind (operator_InitMetricStorage lib r flags op) (\<lambda>op.
          go_bind (and_then (SetupHookMetricStorageAndServer sys r (ste_hook_registry env) flags)
                    (operator_Init sys (ste_client env) lib (ste_cron env) flags) op) (\<lambda>(op, err).
            case err of
              Some e \<Rightarrow> Ret (Inl (EInitStep e))
            | None \<Rightarrow>
                (case InitHookManager (oe_hook (ste_op env)) (ste_next env) (ste_hooks env (bo_HooksDir op)) op of
                   Inl e \<Rightarrow> Ret (Inl (ELoadHooks e))
                 | Inr (n, op) \<Rightarrow>
                     go_bind (assemble (ste_heap env) (ste_files env) n op) (\<lambda>so.
                     go_bind (operator_Start (ste_op env) so) (\<lambda>so. Ret (Inr (op, so))))))))"

section \<open>What Init leaves\<close>

text \<open>
  \<open>below c op\<close>: the context of the operator is \<open>c\<close>, and all contexts given to its parts descend from it.
\<close>

definition below :: "ctx \<Rightarrow> ('c, 'r, 'v, 'i, 'd) boot \<Rightarrow> bool" where
  "below c op \<longleftrightarrow> bo_ctx op = Some c \<and>
     (\<forall>d. d \<in> set (bo_metrics_ctx op) \<or> (\<exists>x. bo_TaskQueues op = Some (x, d)) \<or> (\<exists>x. bo_ScheduleManager op = Some (x, d)) \<or>
        (\<exists>k. bo_KubeEventsManager op = Some k \<and> kem_ctx k = d) \<or> bo_ManagerEventsHandler op = Some d \<longrightarrow>
        (\<exists>n. d = n # c))"

lemma child_ctx_below:
  "child_ctx op = Ret (d, op') \<Longrightarrow> below c op \<Longrightarrow> below c op' \<and> (\<exists>n. d = n # c) \<and> (\<exists>st. op' = op\<lparr>bo_store := st\<rparr>)"
  by (auto simp: child_ctx_def below_def WithCancel_def split: option.splits)

lemma below_updates [simp]:
  "below c (op\<lparr>bo_HooksDir := a\<rparr>) = below c op" "below c (op\<lparr>bo_TempDir := b\<rparr>) = below c op"
  "below c (op\<lparr>bo_DebugServer := s\<rparr>) = below c op" "below c (op\<lparr>bo_KubeClient := k\<rparr>) = below c op"
  "below c (op\<lparr>bo_MetricStorage := m\<rparr>) = below c op" "below c (op\<lparr>bo_HookMetricStorage := h\<rparr>) = below c op"
  "below c (op\<lparr>bo_HookManager := hm\<rparr>) = below c op"
  by (simp_all add: below_def)

lemma and_then_None:
  "and_then f g op = Ret (op', None) \<longleftrightarrow> (\<exists>op1. f op = Ret (op1, None) \<and> g op1 = Ret (op', None))"
  by (auto simp: and_then_def go_bind_Ret_iff split: option.splits)

lemma init_steps_below:
  "init_hooks_dir sys flags op = Ret (op', e) \<Longrightarrow> below c op \<Longrightarrow> below c op'"
  "init_temp_dir sys flags op = Ret (op', e) \<Longrightarrow> below c op \<Longrightarrow> below c op'"
  "init_debug_server sys flags op = Ret (op', e) \<Longrightarrow> below c op \<Longrightarrow> below c op'"
  "init_client clib lib flags op = Ret (op', e) \<Longrightarrow> below c op \<Longrightarrow> below c op'"
  by (auto simp: init_hooks_dir_def init_temp_dir_def init_debug_server_def init_client_def Let_def
      split: if_splits sum.splits option.splits prod.splits)

lemma init_managers_below:
  assumes run: "init_managers cron op = Ret (op', e)" and b: "below c op"
  shows "below c op' \<and> e = None \<and> (\<exists>d. bo_TaskQueues op' = Some (NewTaskQueueSet, d)) \<and>
    bo_ScheduleManager op' \<noteq> None \<and> bo_KubeEventsManager op' \<noteq> None \<and> bo_ManagerEventsHandler op' \<noteq> None \<and>
    bo_MetricStorage op' = bo_MetricStorage op \<and> bo_HooksDir op' = bo_HooksDir op"
proof -
  have c: "bo_ctx op = Some c" using b by (simp add: below_def)
  then show ?thesis
    using run b by (auto simp: init_managers_def child_ctx_def WithCancel_def below_def)
qed

lemma operator_Init_ok:
  assumes run: "operator_Init sys clib lib cron flags op = Ret (op', None)" and b: "below c op"
  shows "below c op' \<and> (\<exists>d. bo_TaskQueues op' = Some (NewTaskQueueSet, d)) \<and> bo_ScheduleManager op' \<noteq> None \<and>
    bo_KubeEventsManager op' \<noteq> None \<and> bo_ManagerEventsHandler op' \<noteq> None"
proof -
  obtain op1 op2 op3 op4 where s: "init_hooks_dir sys flags op = Ret (op1, None)" "init_temp_dir sys flags op1 = Ret (op2, None)"
    "init_debug_server sys flags op2 = Ret (op3, None)" "init_client clib lib flags op3 = Ret (op4, None)"
    "init_managers cron op4 = Ret (op', None)"
    using run unfolding operator_Init_def and_then_None by blast
  note b [THEN init_steps_below(1) [OF s(1)]]
  from this [THEN init_steps_below(2) [OF s(2)], THEN init_steps_below(3) [OF s(3)], THEN init_steps_below(4) [OF s(4)]]
  have "below c op4" .
  from init_managers_below [OF s(5) this] show ?thesis by blast
qed

lemma metrics_steps_below:
  assumes "below c op"
  shows "operator_InitMetricStorage lib r flags op = Ret op' \<Longrightarrow> below c op'"
    "SetupHookMetricStorageAndServer sys r registry flags op = Ret (op', e) \<Longrightarrow> below c op'"
proof -
  have "bo_ctx op = Some c" using assms by (simp add: below_def)
  then show "operator_InitMetricStorage lib r flags op = Ret op' \<Longrightarrow> below c op'"
    "SetupHookMetricStorageAndServer sys r registry flags op = Ret (op', e) \<Longrightarrow> below c op'"
    using assms
    by (auto simp: operator_InitMetricStorage_def SetupHookMetricStorageAndServer_def InitHookMetricStorage_def
        child_ctx_def WithCancel_def below_def split: option.splits if_splits)
qed

lemma InitAndStart_parts:
  assumes run: "InitAndStart env flags op = Ret (Inr (bo, so))" and b: "below c op"
  obtains n hm so0 d where "below c bo" "bo_TaskQueues bo = Some (NewTaskQueueSet, d)" "bo_ScheduleManager bo \<noteq> None"
    "bo_KubeEventsManager bo \<noteq> None" "bo_ManagerEventsHandler bo \<noteq> None"
    "hookManager_Init (oe_hook (ste_op env)) (ste_next env) (ste_hooks env (bo_HooksDir bo))
       (WithDirectories (bo_HooksDir bo) (bo_TempDir bo) NewHookManager) = Inr (n, hm)"
    "so_hm so0 = hm" "so_queues so0 = NewTaskQueueSet" "operator_Start (ste_op env) so0 = Ret so"
proof -
  obtain op1 op2 op3 n so0 where
    m: "operator_InitMetricStorage (oe_prom (ste_op env)) (ste_registry env) flags op = Ret op1"
      "SetupHookMetricStorageAndServer (ste_sys env) (ste_registry env) (ste_hook_registry env) flags op1 = Ret (op2, None)"
      "operator_Init (ste_sys env) (ste_client env) (oe_prom (ste_op env)) (ste_cron env) flags op2 = Ret (op3, None)"
    and hm: "InitHookManager (oe_hook (ste_op env)) (ste_next env) (ste_hooks env (bo_HooksDir op3)) op3 = Inr (n, bo)"
    and so: "assemble (ste_heap env) (ste_files env) n bo = Ret so0" "operator_Start (ste_op env) so0 = Ret so"
    using run by (auto simp: InitAndStart_def Let_def and_then_None split: option.splits sum.splits prod.splits)
  from m(1,2) b have "below c op2" by (blast intro: metrics_steps_below)
  note i = operator_Init_ok [OF m(3) this]
  obtain hm' where h: "hookManager_Init (oe_hook (ste_op env)) (ste_next env) (ste_hooks env (bo_HooksDir op3))
      (WithDirectories (bo_HooksDir op3) (bo_TempDir op3) NewHookManager) = Inr (n, hm')" "bo = op3\<lparr>bo_HookManager := Some hm'\<rparr>"
    using hm by (auto simp: InitHookManager_def split: sum.splits)
  from i obtain d where d: "bo_TaskQueues bo = Some (NewTaskQueueSet, d)" using h(2) by auto
  with so(1) h(2) have "so_hm so0 = hm'" "so_queues so0 = NewTaskQueueSet"
    by (auto simp: assemble_def split: option.splits)
  with that d i h so(2) show thesis by simp
qed

lemma DefaultOperator_below: "below [cs_next st] (DefaultOperator st)"
  by (simp add: DefaultOperator_def operator_WithContext_def NewShellOperator_def WithCancel_def below_def)

lemma server_flag_ignored:
  fixes flags :: app_flags and server :: string
  defines "flags' \<equiv> flags\<lparr>af_KubeServer := server\<rparr>"
  shows "init_hooks_dir sys flags' = init_hooks_dir sys flags" "init_temp_dir sys flags' = init_temp_dir sys flags"
    "init_debug_server sys flags' = init_debug_server sys flags" "init_client clib lib flags' = init_client clib lib flags"
    "SetupHookMetricStorageAndServer sys r registry flags' = SetupHookMetricStorageAndServer sys r registry flags"
    "operator_InitMetricStorage lib r flags' = operator_InitMetricStorage lib r flags"
  unfolding flags'_def
  by (rule ext, simp add: init_hooks_dir_def init_temp_dir_def init_debug_server_def Server_Init_def init_client_def
      SetupHookMetricStorageAndServer_def InitHookMetricStorage_def operator_InitMetricStorage_def Let_def
      split: option.split)+

section \<open>Properties\<close>

text \<open>
  C1. From the command line to the queues. When \<open>InitAndStart\<close> succeeds on a new operator, and
  whatever events and tasks the operator has handled since, every binding that the next event
  triggers gets a new task, and this task is in the queue of its binding. Assumed is that the paths
  of the hooks, made relative to the hooks directory, are distinct and that sorting permutes a list.
\<close>

theorem InitAndStart_no_event_is_lost:
  assumes start: "InitAndStart env0 flags (DefaultOperator st) = Ret (Inr (bo, op1))"
    and paths: "RecursiveGetExecutablePaths (bo_HooksDir bo) (ste_hooks env0 (bo_HooksDir bo)) = Inr paths"
      "distinct (map (he_Rel (oe_hook (ste_op env0)) (bo_HooksDir bo)) paths)"
    and srt: "\<And>hs. mset (he_sort (oe_hook (ste_op env0)) startup_order hs) = mset hs"
    and run: "operator_run envs op1 op" and event: "handle_manager_event env ev op = Ret op'"
  shows "\<exists>infos. event_infos env ev op = Ret infos \<and> so_next op' = Suc (so_next op) + length infos \<and>
    (\<forall>i < length infos. \<exists>q. GetByName (bei_QueueName (snd (infos ! i))) (so_queues op') = Some q \<and>
       Suc (so_next op) + i \<in> set (content q))"
proof -
  from InitAndStart_parts [OF start DefaultOperator_below] obtain n hm so0 where
    hm: "hookManager_Init (oe_hook (ste_op env0)) (ste_next env0) (ste_hooks env0 (bo_HooksDir bo))
       (WithDirectories (bo_HooksDir bo) (bo_TempDir bo) NewHookManager) = Inr (n, hm)"
    and so: "so_hm so0 = hm" "so_queues so0 = NewTaskQueueSet" "operator_Start (ste_op env0) so0 = Ret op1" .
  have "all_started (so_queues so0)"
    using so(2) by (simp add: all_started_def NewTaskQueueSet_def GetByName_def)
  moreover have "index_ok hm" using Init_index_ok [OF hm paths(1)] paths(2) by (simp add: distinct_map)
  ultimately have "routed op1" using Start_routed [OF _ srt _ so(3)] Init_ctrl_ok [OF hm] so(1) by blast
  with run have "routed op" by (rule run_routed)
  from event_queued [OF event this] show ?thesis by blast
qed

text \<open>
  C10. Stopping the operator reaches all its parts. After \<open>InitAndStart\<close>, the metric storages, the
  queues, the schedule manager, the manager of events and the events handler have contexts below that
  of the operator, so that \<open>Stop\<close> makes all of them done, whatever contexts were made in between.
\<close>

theorem Stop_reaches_all:
  assumes start: "InitAndStart env flags (DefaultOperator st) = Ret (Inr (bo, so))"
  shows "\<exists>tqs q sm s kem h. bo_TaskQueues bo = Some (tqs, q) \<and> bo_ScheduleManager bo = Some (sm, s) \<and>
    bo_KubeEventsManager bo = Some kem \<and> bo_ManagerEventsHandler bo = Some h \<and>
    (\<forall>c\<in>set (q # s # kem_ctx kem # h # bo_metrics_ctx bo).
       ctx_done (bo_store (operator_Stop (bo\<lparr>bo_store := st'\<rparr>))) c)"
proof -
  from InitAndStart_parts [OF start DefaultOperator_below] obtain d where
    b: "below [cs_next st] bo" "bo_TaskQueues bo = Some (NewTaskQueueSet, d)" "bo_ScheduleManager bo \<noteq> None"
    "bo_KubeEventsManager bo \<noteq> None" "bo_ManagerEventsHandler bo \<noteq> None" .
  then obtain sm s kem h where r: "bo_ScheduleManager bo = Some (sm, s)" "bo_KubeEventsManager bo = Some kem"
    "bo_ManagerEventsHandler bo = Some h" by force
  have "\<exists>n. c = n # [cs_next st]" if "c \<in> set (d # s # kem_ctx kem # h # bo_metrics_ctx bo)" for c
    using that b(1,2) r unfolding below_def by auto
  moreover have "bo_store (operator_Stop (bo\<lparr>bo_store := st'\<rparr>)) = cancel_ctx [cs_next st] st'"
    using b(1) by (simp add: operator_Stop_def below_def)
  ultimately show ?thesis using b(2) r by (fastforce simp: ctx_done_cancel)
qed

text \<open>
  The flag \<open>--kube-server\<close> has no effect: starting the operator does not depend on it, as no call
  gives it to the client.
\<close>

theorem InitAndStart_ignores_server:
  "InitAndStart env (flags\<lparr>af_KubeServer := server\<rparr>) op = InitAndStart env flags op"
  unfolding InitAndStart_def operator_Init_def server_flag_ignored by simp

section \<open>Witnesses\<close>

text \<open>Two hooks, each with a binding to a schedule.\<close>

definition demo_scheduled_v1 :: HookConfigV1 where
  "demo_scheduled_v1 = demo_v1\<lparr>v1_Schedule := [\<lparr>s1_Name = ''s'', s1_Crontab = ''* * * * *'', s1_AllowFailure = False,
     s1_IncludeSnapshotsFrom = [], s1_Queue = ''other'', s1_Group = []\<rparr>], v1_OnKubernetesEvent := []\<rparr>"

definition demo_start_op :: "((int \<times> string) list, unit, rat) op_env" where
  "demo_start_op = demo_links_env\<lparr>oe_hook := (oe_hook demo_links_env)\<lparr>he_config :=
     (he_config demo_hook_env)\<lparr>ce_UnmarshalV1 := \<lambda>_. Inr demo_scheduled_v1\<rparr>\<rparr>, oe_links := \<lambda>_. [[], ''i'', ''ii'']\<rparr>"

definition demo_start_env :: "((int \<times> string) list, unit, rat, unit, string, string) start_env" where
  "demo_start_env = \<lparr>ste_sys = \<lparr>se_Abs = Inr, se_Stat = \<lambda>_. StatDir, se_Mkdir = \<lambda>_. None, se_MkdirAllDir = \<lambda>_. None,
       se_Remove = \<lambda>_. None, se_Listen = \<lambda>_ _. None\<rparr>,
     ste_client = demo_lib, ste_op = demo_start_op, ste_cron = [], ste_registry = (), ste_hook_registry = (),
     ste_heap = \<lambda>_. demo_task [] ''a'', ste_files = [], ste_hooks = \<lambda>_. demo_tree, ste_next = 0\<rparr>"

definition demo_started ::
    "(start_error + ((int \<times> string) list, unit, rat, string, string) boot \<times> ((int \<times> string) list, unit, rat) operator) go" where
  "demo_started = InitAndStart demo_start_env (start_flags\<lparr>af_HooksDir := ''/h''\<rparr>) (DefaultOperator \<lparr>cs_next = 0, cs_cancelled = []\<rparr>)"

definition demo_run :: "(((int \<times> string) list, unit, rat, string, string) boot \<times> ((int \<times> string) list, unit, rat) operator) go" where
  "demo_run = go_bind demo_started (\<lambda>r. case r of Inl e \<Rightarrow> Panic | Inr (bo, op1) \<Rightarrow>
     go_bind (TaskHandler demo_start_op (so_next op1 - 1) op1) (\<lambda>(res, op2).
       go_bind (handle_manager_event demo_start_op (CronEvent ''* * * * *'') op2) (\<lambda>op3. Ret (bo, op3))))"

lemma demo_run_result:
  "(case demo_run of Panic \<Rightarrow> None | Ret (bo, op) \<Rightarrow>
      Some (bo_HooksDir bo, so_next op, map_option content (GetByName ''other'' (so_queues op)))) = Some (''/h'', 8, Some [7])"
  by code_simp

lemma demo_run_parts:
  obtains bo op1 res op2 op3 where
    "InitAndStart demo_start_env (start_flags\<lparr>af_HooksDir := ''/h''\<rparr>) (DefaultOperator \<lparr>cs_next = 0, cs_cancelled = []\<rparr>) =
       Ret (Inr (bo, op1))"
    "TaskHandler demo_start_op (so_next op1 - 1) op1 = Ret (res, op2)"
    "handle_manager_event demo_start_op (CronEvent ''* * * * *'') op2 = Ret op3"
    "bo_HooksDir bo = ''/h''" "so_next op3 = 8" "map_option content (GetByName ''other'' (so_queues op3)) = Some [7]"
proof -
  obtain bo op3 where r: "demo_run = Ret (bo, op3)" "bo_HooksDir bo = ''/h''" "so_next op3 = 8"
    "map_option content (GetByName ''other'' (so_queues op3)) = Some [7]"
    using demo_run_result by (auto split: go.splits prod.splits)
  from r(1) obtain x where x: "demo_started = Ret x" "(case x of Inl e \<Rightarrow> Panic | Inr (bo, op1) \<Rightarrow>
     go_bind (TaskHandler demo_start_op (so_next op1 - 1) op1) (\<lambda>(res, op2).
       go_bind (handle_manager_event demo_start_op (CronEvent ''* * * * *'') op2) (\<lambda>op3. Ret (bo, op3)))) = Ret (bo, op3)"
    unfolding demo_run_def go_bind_Ret_iff by blast
  then obtain bo' op1 where b: "x = Inr (bo', op1)" by (cases x) auto
  with x(2) obtain res op2 where "TaskHandler demo_start_op (so_next op1 - 1) op1 = Ret (res, op2)"
    "handle_manager_event demo_start_op (CronEvent ''* * * * *'') op2 = Ret op3" "bo' = bo" by auto
  with that x(1) b r(2-4) show thesis unfolding demo_started_def by blast
qed

theorem InitAndStart_no_event_is_lost_witness:
  "\<exists>op2 op3 infos. handle_manager_event demo_start_op (CronEvent ''* * * * *'') op2 = Ret op3 \<and>
     event_infos demo_start_op (CronEvent ''* * * * *'') op2 = Ret infos \<and>
     so_next op3 = Suc (so_next op2) + length infos \<and> so_next op3 = 8 \<and>
     map_option content (GetByName ''other'' (so_queues op3)) = Some [7]"
proof -
  obtain bo op1 res op2 op3 where s: "InitAndStart demo_start_env (start_flags\<lparr>af_HooksDir := ''/h''\<rparr>)
      (DefaultOperator \<lparr>cs_next = 0, cs_cancelled = []\<rparr>) = Ret (Inr (bo, op1))"
    "TaskHandler demo_start_op (so_next op1 - 1) op1 = Ret (res, op2)"
    "handle_manager_event demo_start_op (CronEvent ''* * * * *'') op2 = Ret op3"
    and r: "bo_HooksDir bo = ''/h''" "so_next op3 = 8" "map_option content (GetByName ''other'' (so_queues op3)) = Some [7]"
    by (rule demo_run_parts)
  have paths: "RecursiveGetExecutablePaths (bo_HooksDir bo) (ste_hooks demo_start_env (bo_HooksDir bo)) = Inr [''/h/b'', ''/h/a'']"
    by (simp add: r(1) demo_start_env_def demo_tree_def RecursiveGetExecutablePaths_def hidden_def IsFileExecutable_def)
  have rel: "distinct (map (he_Rel (oe_hook (ste_op demo_start_env)) (bo_HooksDir bo)) [''/h/b'', ''/h/a''])"
    by (simp add: r(1) demo_start_env_def demo_start_op_def demo_links_env_def demo_op_env_def demo_hook_env_def)
  have srt: "mset (he_sort (oe_hook (ste_op demo_start_env)) startup_order hs) = mset hs" for hs
    using demo_sort by (simp add: demo_start_env_def demo_start_op_def demo_links_env_def)
  have "operator_run {demo_start_op} op1 op2" using s(2) by (intro op_task [OF op_refl]) simp_all
  from InitAndStart_no_event_is_lost [OF s(1) paths rel srt this s(3)] obtain infos where
    "event_infos demo_start_op (CronEvent ''* * * * *'') op2 = Ret infos" "so_next op3 = Suc (so_next op2) + length infos"
    by blast
  with r(2,3) s(3) show ?thesis by (intro exI [of _ op2] exI [of _ op3] exI [of _ infos]) simp
qed

theorem Stop_reaches_all_witness:
  "\<exists>bo so kem. InitAndStart demo_start_env (start_flags\<lparr>af_HooksDir := ''/h''\<rparr>) (DefaultOperator \<lparr>cs_next = 0, cs_cancelled = []\<rparr>) =
       Ret (Inr (bo, so)) \<and> bo_KubeEventsManager bo = Some kem \<and>
     ctx_done (bo_store (operator_Stop (bo\<lparr>bo_store := w_store (so_managers so)\<rparr>))) (kem_ctx kem)"
proof -
  obtain bo so where s: "InitAndStart demo_start_env (start_flags\<lparr>af_HooksDir := ''/h''\<rparr>)
      (DefaultOperator \<lparr>cs_next = 0, cs_cancelled = []\<rparr>) = Ret (Inr (bo, so))"
    using demo_run_parts by metis
  from Stop_reaches_all [OF s, of "w_store (so_managers so)"] s show ?thesis by auto
qed

end
