(* ===== verification/Process.thy ===== *)
theory Process
  imports Operator_Init
begin

text \<open>
  The process: \<open>cmd/shell-operator/main.go\<close>, the wait for signals of \<open>pkg/utils/signal/signal.go\<close> and the
  set up of the log of \<open>pkg/app/log.go\<close>. The goroutine that waits takes signals from a channel which
  holds one signal; a signal that arrives while the channel is full is dropped. The callback runs in
  that goroutine.
\<close>

section \<open>Waiting for signals\<close>

datatype wait_phase = Waiting | InCallback | Exited int

record waiter =
  wt_channel :: "int option"
  wt_allowedCount :: int
  wt_phase :: wait_phase

definition NewWaiter :: waiter where
  "NewWaiter = \<lparr>wt_channel = None, wt_allowedCount = 1, wt_phase = Waiting\<rparr>"

definition forcedExit :: "int \<Rightarrow> wait_phase" where
  "forcedExit signum = Exited (128 + signum)"

text \<open>The body of the loop for the signal \<open>sig\<close>; \<open>cb\<close> says whether there is a callback.\<close>

definition handle_signal :: "bool \<Rightarrow> int \<Rightarrow> waiter \<Rightarrow> waiter" where
  "handle_signal cb sig w =
     (let n = wt_allowedCount w - 1; w = w\<lparr>wt_channel := None, wt_allowedCount := n\<rparr> in
      if n = 0 then w\<lparr>wt_phase := (if cb then InCallback else forcedExit sig)\<rparr>
      else if n = -1 then w\<lparr>wt_phase := forcedExit sig\<rparr>
      else w)"

definition SIGINT :: int where "SIGINT = 2"
definition SIGTERM :: int where "SIGTERM = 15"

datatype wait_event = Arrives int | Takes int | CallbackExits int | CallbackReturns

text \<open>\<open>exits\<close>: what the callback may do at its end, exit with a code or return.\<close>

inductive WaitForProcessInterruption :: "bool \<Rightarrow> (int option \<Rightarrow> bool) \<Rightarrow> waiter \<Rightarrow> wait_event \<Rightarrow> waiter \<Rightarrow> bool"
  for cb :: bool and exits :: "int option \<Rightarrow> bool" where
  arrives: "\<lbrakk>sig \<in> {SIGINT, SIGTERM}; \<forall>c. wt_phase w \<noteq> Exited c\<rbrakk> \<Longrightarrow>
    WaitForProcessInterruption cb exits w (Arrives sig)
      (w\<lparr>wt_channel := (case wt_channel w of None \<Rightarrow> Some sig | Some s \<Rightarrow> Some s)\<rparr>)"
| takes: "\<lbrakk>wt_phase w = Waiting; wt_channel w = Some sig\<rbrakk> \<Longrightarrow>
    WaitForProcessInterruption cb exits w (Takes sig) (handle_signal cb sig w)"
| callback_exits: "\<lbrakk>wt_phase w = InCallback; exits (Some c)\<rbrakk> \<Longrightarrow>
    WaitForProcessInterruption cb exits w (CallbackExits c) (w\<lparr>wt_phase := Exited c\<rparr>)"
| callback_returns: "\<lbrakk>wt_phase w = InCallback; exits None\<rbrakk> \<Longrightarrow>
    WaitForProcessInterruption cb exits w CallbackReturns (w\<lparr>wt_phase := Waiting\<rparr>)"

inductive_cases wait_takes: "WaitForProcessInterruption cb exits w (Takes sig) w'"

inductive wait_run :: "bool \<Rightarrow> (int option \<Rightarrow> bool) \<Rightarrow> waiter \<Rightarrow> wait_event list \<Rightarrow> waiter \<Rightarrow> bool"
  for cb :: bool and exits :: "int option \<Rightarrow> bool" where
  wait_refl: "wait_run cb exits w [] w"
| wait_more: "\<lbrakk>wait_run cb exits w es w1; WaitForProcessInterruption cb exits w1 e w2\<rbrakk> \<Longrightarrow>
    wait_run cb exits w (es @ [e]) w2"

text \<open>The signals that were taken, in order.\<close>

definition taken :: "wait_event list \<Rightarrow> int list" where
  "taken es = concat (map (\<lambda>e. case e of Takes s \<Rightarrow> [s] | _ \<Rightarrow> []) es)"

lemma taken_append [simp]: "taken (es @ fs) = taken es @ taken fs"
  by (simp add: taken_def)

lemma taken_event [simp]:
  "taken [Arrives s] = []" "taken [Takes s] = [s]" "taken [CallbackExits c] = []" "taken [CallbackReturns] = []"
  by (simp_all add: taken_def)

text \<open>What has happened until each phase.\<close>

definition wait_inv :: "bool \<Rightarrow> wait_event list \<Rightarrow> waiter \<Rightarrow> bool" where
  "wait_inv cb es w \<longleftrightarrow> wt_allowedCount w = 1 - int (length (taken es)) \<and>
     (case wt_phase w of
        Waiting \<Rightarrow> taken es = [] \<or> (length (taken es) = 1 \<and> cb \<and> CallbackReturns \<in> set es)
      | InCallback \<Rightarrow> length (taken es) = 1 \<and> cb
      | Exited c \<Rightarrow> (cb \<and> length (taken es) = 1 \<and> CallbackExits c \<in> set es) \<or>
          (\<not> cb \<and> (\<exists>s. taken es = [s] \<and> c = 128 + s)) \<or>
          (cb \<and> (\<exists>s1 s2. taken es = [s1, s2] \<and> c = 128 + s2) \<and> CallbackReturns \<in> set es))"

lemma wait_inv_step:
  assumes "WaitForProcessInterruption cb exits w e w'" "wait_inv cb es w"
  shows "wait_inv cb (es @ [e]) w'"
  using assms
proof cases
  case (takes sig)
  then have "taken es = [] \<or> (\<exists>s. taken es = [s])" using assms(2) by (auto simp: wait_inv_def length_Suc_conv)
  then show ?thesis using assms(2) takes
    by (auto simp: wait_inv_def handle_signal_def forcedExit_def Let_def)
qed (auto simp: wait_inv_def split: wait_phase.splits)

lemma wait_run_inv: "wait_run cb exits NewWaiter es w \<Longrightarrow> wait_inv cb es w"
proof (induction "NewWaiter" es w rule: wait_run.induct)
  case wait_refl
  then show ?case by (simp add: wait_inv_def NewWaiter_def taken_def)
next
  case (wait_more es w1 e w2)
  then show ?case using wait_inv_step by blast
qed

lemma callback_events:
  "wait_run cb exits w es w' \<Longrightarrow> (CallbackReturns \<in> set es \<longrightarrow> exits None) \<and> (\<forall>c. CallbackExits c \<in> set es \<longrightarrow> exits (Some c))"
  by (induction rule: wait_run.induct) (auto elim: WaitForProcessInterruption.cases)

section \<open>main\<close>

text \<open>The callback of the start command: \<open>Shutdown\<close> and then \<open>os.Exit(1)\<close>; it never returns.\<close>

definition main_callback :: "int option \<Rightarrow> bool" where
  "main_callback r \<longleftrightarrow> r = Some 1"

datatype process = Crashed | ProcessExit int | Serving waiter

definition start_action ::
    "('c, 'r, 'v, 'x, 'i, 'd) start_env \<Rightarrow> app_flags \<Rightarrow> ctx_store \<Rightarrow> process" where
  "start_action env flags st =
     (case InitAndStart env flags (DefaultOperator st :: ('c, 'r, 'v, 'i, 'd) boot) of
        Panic \<Rightarrow> Crashed
      | Ret (Inl err) \<Rightarrow> ProcessExit 1
      | Ret (Inr _) \<Rightarrow> Serving NewWaiter)"

section \<open>Logging\<close>

record log_formatter =
  lf_json :: bool
  lf_DisableTimestamp :: bool
  lf_DisableColors :: bool
  lf_ForceColors :: bool

datatype log_level = DebugLevel | InfoLevel | ErrorLevel

definition SetupLogging :: "string \<Rightarrow> string \<Rightarrow> bool \<Rightarrow> log_formatter \<times> log_level" where
  "SetupLogging LogType LogLevel LogNoTime =
     ((if LogType = ''json'' then \<lparr>lf_json = True, lf_DisableTimestamp = LogNoTime, lf_DisableColors = False, lf_ForceColors = False\<rparr>
       else if LogType = ''text'' then \<lparr>lf_json = False, lf_DisableTimestamp = LogNoTime, lf_DisableColors = True, lf_ForceColors = False\<rparr>
       else if LogType = ''color'' then \<lparr>lf_json = False, lf_DisableTimestamp = LogNoTime, lf_DisableColors = False, lf_ForceColors = True\<rparr>
       else \<lparr>lf_json = True, lf_DisableTimestamp = LogNoTime, lf_DisableColors = False, lf_ForceColors = False\<rparr>),
      (if ToLower LogLevel = ''debug'' then DebugLevel
       else if ToLower LogLevel = ''error'' then ErrorLevel
       else InfoLevel))"

section \<open>Properties\<close>

text \<open>
  How a process that waits for signals ends. The first signal starts the callback, or ends the
  process with 128 plus its number when there is none. Later signals count only after the callback has
  returned: then the next one ends the process with 128 plus its number. While the callback runs no
  signal is taken.
\<close>

theorem WaitForProcessInterruption_exit:
  assumes "wait_run cb exits NewWaiter es w"
  shows "case wt_phase w of
      Waiting \<Rightarrow> taken es = [] \<or> (length (taken es) = 1 \<and> cb \<and> CallbackReturns \<in> set es)
    | InCallback \<Rightarrow> length (taken es) = 1 \<and> cb \<and> (\<nexists>sig w'. WaitForProcessInterruption cb exits w (Takes sig) w')
    | Exited c \<Rightarrow> (cb \<and> length (taken es) = 1 \<and> CallbackExits c \<in> set es) \<or>
        (\<not> cb \<and> (\<exists>s. taken es = [s] \<and> c = 128 + s)) \<or>
        (cb \<and> (\<exists>s1 s2. taken es = [s1, s2] \<and> c = 128 + s2) \<and> CallbackReturns \<in> set es)"
  using wait_run_inv [OF assms] by (auto simp: wait_inv_def elim: wait_takes split: wait_phase.splits)

text \<open>
  C13. The started operator ends with code 1 and no other, whatever signals arrive and how often: the
  second signal of \<open>WaitForProcessInterruption\<close> has no effect, as the callback of \<open>main\<close> does not return,
  and a graceful stop is reported as a failure.
\<close>

theorem main_exits_with_1:
  assumes "start_action env flags st = Serving w0" "wait_run True main_callback w0 es w" "wt_phase w = Exited c"
  shows "c = 1 \<and> length (taken es) = 1"
proof -
  have "w0 = NewWaiter" using assms(1) by (auto simp: start_action_def split: go.splits sum.splits)
  then have "wait_inv True es w" using wait_run_inv assms(2) by blast
  with assms(2,3) callback_events show ?thesis by (fastforce simp: wait_inv_def main_callback_def)
qed

definition demo_waiter :: waiter where
  "demo_waiter = \<lparr>wt_channel = Some SIGINT, wt_allowedCount = 0, wt_phase = Exited 1\<rparr>"

lemma demo_wait: "wait_run True main_callback NewWaiter [Arrives SIGTERM, Takes SIGTERM, Arrives SIGINT, CallbackExits 1] demo_waiter"
proof -
  let ?w1 = "\<lparr>wt_channel = Some SIGTERM, wt_allowedCount = 1, wt_phase = Waiting\<rparr>"
  let ?w2 = "\<lparr>wt_channel = None, wt_allowedCount = 0, wt_phase = InCallback\<rparr>"
  let ?w3 = "\<lparr>wt_channel = Some SIGINT, wt_allowedCount = 0, wt_phase = InCallback\<rparr>"
  have "WaitForProcessInterruption True main_callback NewWaiter (Arrives SIGTERM) ?w1"
    using arrives [of SIGTERM NewWaiter] by (simp add: NewWaiter_def)
  moreover have "WaitForProcessInterruption True main_callback ?w1 (Takes SIGTERM) ?w2"
    using takes [of ?w1 SIGTERM True] by (simp add: handle_signal_def)
  moreover have "WaitForProcessInterruption True main_callback ?w2 (Arrives SIGINT) ?w3"
    using arrives [of SIGINT ?w2] by simp
  moreover have "WaitForProcessInterruption True main_callback ?w3 (CallbackExits 1) demo_waiter"
    using callback_exits [of ?w3 main_callback 1] by (simp add: main_callback_def demo_waiter_def)
  ultimately show ?thesis
    using wait_more [OF wait_more [OF wait_more [OF wait_more [OF wait_refl]]]] by fastforce
qed

theorem WaitForProcessInterruption_exit_witness:
  "CallbackExits 1 \<in> set [Arrives SIGTERM, Takes SIGTERM, Arrives SIGINT, CallbackExits 1] \<and> wt_phase demo_waiter = Exited 1 \<and>
    taken [Arrives SIGTERM, Takes SIGTERM, Arrives SIGINT, CallbackExits 1] = [SIGTERM]"
  using WaitForProcessInterruption_exit [OF demo_wait] by (simp add: demo_waiter_def taken_def)

theorem main_exits_with_1_witness:
  "start_action demo_start_env (start_flags\<lparr>af_HooksDir := ''/h''\<rparr>) \<lparr>cs_next = 0, cs_cancelled = []\<rparr> = Serving NewWaiter \<and>
   (\<exists>es w. wait_run True main_callback NewWaiter es w \<and> wt_phase w = Exited 1 \<and> length (taken es) = 1)"
proof -
  obtain bo so where s: "InitAndStart demo_start_env (start_flags\<lparr>af_HooksDir := ''/h''\<rparr>)
      (DefaultOperator \<lparr>cs_next = 0, cs_cancelled = []\<rparr>) = Ret (Inr (bo, so))"
    using demo_run_parts by metis
  then have st: "start_action demo_start_env (start_flags\<lparr>af_HooksDir := ''/h''\<rparr>) \<lparr>cs_next = 0, cs_cancelled = []\<rparr> = Serving NewWaiter"
    by (simp add: start_action_def)
  have "wt_phase demo_waiter = Exited 1" by (simp add: demo_waiter_def)
  from main_exits_with_1 [OF st demo_wait this] st demo_wait this show ?thesis by blast
qed

end
