(* ===== verification/App_Flags.thy ===== *)
theory App_Flags
  imports Operator_Init
begin

text \<open>
  \<open>pkg/app\<close>: the flags of the start command. A flag has a name, an environment variable, a default and
  the variable that it sets. The library kingpin takes the value from the command line, else from the
  environment variable, else the default, and refuses two flags of a command with one name.
\<close>

record flag_spec =
  fl_Flag :: string
  fl_Envar :: string
  fl_Default :: string

definition DefineKubeClientFlags :: "flag_spec list" where
  "DefineKubeClientFlags =
     [\<lparr>fl_Flag = ''kube-context'', fl_Envar = ''KUBE_CONTEXT'', fl_Default = []\<rparr>,
      \<lparr>fl_Flag = ''kube-config'', fl_Envar = ''KUBE_CONFIG'', fl_Default = []\<rparr>,
      \<lparr>fl_Flag = ''kube-client-qps'', fl_Envar = ''KUBE_CLIENT_QPS'', fl_Default = ''5''\<rparr>,
      \<lparr>fl_Flag = ''kube-client-burst'', fl_Envar = ''KUBE_CLIENT_BURST'', fl_Default = ''10''\<rparr>,
      \<lparr>fl_Flag = ''kube-server'', fl_Envar = ''KUBE_SERVER'', fl_Default = []\<rparr>]"

definition DefineJqFlags :: "flag_spec list" where
  "DefineJqFlags = [\<lparr>fl_Flag = ''jq-library-path'', fl_Envar = ''JQ_LIBRARY_PATH'', fl_Default = []\<rparr>]"

definition DefineLoggingFlags :: "flag_spec list" where
  "DefineLoggingFlags =
     [\<lparr>fl_Flag = ''log-level'', fl_Envar = ''LOG_LEVEL'', fl_Default = ''info''\<rparr>,
      \<lparr>fl_Flag = ''log-type'', fl_Envar = ''LOG_TYPE'', fl_Default = ''text''\<rparr>,
      \<lparr>fl_Flag = ''log-no-time'', fl_Envar = ''LOG_NO_TIME'', fl_Default = ''false''\<rparr>]"

definition DefineDebugUnixSocketFlag :: "flag_spec list" where
  "DefineDebugUnixSocketFlag =
     [\<lparr>fl_Flag = ''debug-unix-socket'', fl_Envar = ''DEBUG_UNIX_SOCKET'', fl_Default = ''/var/run/shell-operator/debug.socket''\<rparr>]"

definition DefineDebugFlags :: "flag_spec list" where
  "DefineDebugFlags = DefineDebugUnixSocketFlag @
     [\<lparr>fl_Flag = ''debug-keep-tmp-files'', fl_Envar = ''DEBUG_KEEP_TMP_FILES'', fl_Default = ''no''\<rparr>]"

definition DefineStartCommandFlags :: "flag_spec list" where
  "DefineStartCommandFlags =
     [\<lparr>fl_Flag = ''hooks-dir'', fl_Envar = ''SHELL_OPERATOR_HOOKS_DIR'', fl_Default = []\<rparr>,
      \<lparr>fl_Flag = ''tmp-dir'', fl_Envar = ''SHELL_OPERATOR_TMP_DIR'', fl_Default = ''/tmp/shell-operator''\<rparr>,
      \<lparr>fl_Flag = ''listen-address'', fl_Envar = ''SHELL_OPERATOR_LISTEN_ADDRESS'', fl_Default = ''0.0.0.0''\<rparr>,
      \<lparr>fl_Flag = ''listen-port'', fl_Envar = ''SHELL_OPERATOR_LISTEN_PORT'', fl_Default = ''9115''\<rparr>,
      \<lparr>fl_Flag = ''prometheus-metrics-prefix'', fl_Envar = ''SHELL_OPERATOR_PROMETHEUS_METRICS_PREFIX'', fl_Default = ''shell_operator_''\<rparr>,
      \<lparr>fl_Flag = ''hook-metrics-listen-port'', fl_Envar = ''SHELL_OPERATOR_HOOK_METRICS_LISTEN_PORT'', fl_Default = []\<rparr>] @
     DefineKubeClientFlags @ DefineJqFlags @ DefineLoggingFlags @ DefineDebugFlags"

definition flag_value :: "(string \<times> string) list \<Rightarrow> (string \<times> string) list \<Rightarrow> flag_spec \<Rightarrow> string" where
  "flag_value args environ f =
     (case map_of args (fl_Flag f) of
        Some v \<Rightarrow> v
      | None \<Rightarrow> (case map_of environ (fl_Envar f) of Some v \<Rightarrow> v | None \<Rightarrow> fl_Default f))"

definition value_of_flag :: "(string \<times> string) list \<Rightarrow> (string \<times> string) list \<Rightarrow> string \<Rightarrow> string" where
  "value_of_flag args environ name =
     (case find (\<lambda>f. fl_Flag f = name) DefineStartCommandFlags of None \<Rightarrow> [] | Some f \<Rightarrow> flag_value args environ f)"

text \<open>The variables after the command line; a number that does not parse ends the process, \<open>None\<close>.\<close>

definition parse_flags ::
    "(string \<Rightarrow> rat option) \<Rightarrow> (string \<Rightarrow> int option) \<Rightarrow> (string \<times> string) list \<Rightarrow> (string \<times> string) list \<Rightarrow> app_flags option" where
  "parse_flags ParseFloat ParseInt args environ =
     (let v = value_of_flag args environ in
      case (ParseFloat (v ''kube-client-qps''), ParseInt (v ''kube-client-burst'')) of
        (Some qps, Some burst) \<Rightarrow> Some \<lparr>af_HooksDir = v ''hooks-dir'', af_TempDir = v ''tmp-dir'',
          af_ListenAddress = v ''listen-address'', af_ListenPort = v ''listen-port'',
          af_HookMetricsListenPort = v ''hook-metrics-listen-port'',
          af_PrometheusMetricsPrefix = v ''prometheus-metrics-prefix'', af_DebugUnixSocket = v ''debug-unix-socket'',
          af_KubeContext = v ''kube-context'', af_KubeConfig = v ''kube-config'', af_KubeServer = v ''kube-server'',
          af_KubeClientQps = qps, af_KubeClientBurst = burst\<rparr>
      | _ \<Rightarrow> None)"

section \<open>Properties\<close>

text \<open>
  The flags of the start command have distinct names, so that kingpin accepts them, and distinct
  environment variables, so that no variable sets two flags.
\<close>

theorem flags_distinct:
  "distinct (map fl_Flag DefineStartCommandFlags) \<and> distinct (map fl_Envar DefineStartCommandFlags)"
  by code_simp

lemma find_flag:
  "f \<in> set fs \<Longrightarrow> distinct (map fl_Flag fs) \<Longrightarrow> find (\<lambda>g. fl_Flag g = fl_Flag f) fs = Some f"
  by (induction fs) force+

lemma start_flags_distinct: "distinct (map fl_Flag DefineStartCommandFlags)"
  by code_simp

text \<open>
  Every flag of the start command takes its value from the command line before the environment, and
  from its own variable only: the value of one flag does not depend on the settings of another.
\<close>

theorem value_of_flag_own:
  assumes "f \<in> set DefineStartCommandFlags"
  shows "value_of_flag args environ (fl_Flag f) =
    (case map_of args (fl_Flag f) of
       Some v \<Rightarrow> v
     | None \<Rightarrow> (case map_of environ (fl_Envar f) of Some v \<Rightarrow> v | None \<Rightarrow> fl_Default f))"
  using find_flag [OF assms start_flags_distinct] by (simp add: value_of_flag_def flag_value_def)

text \<open>Without arguments and environment, the flags are the initial values of the variables.\<close>

theorem parse_flags_default:
  assumes "ParseFloat ''5'' = Some 5" "ParseInt ''10'' = Some 10"
  shows "parse_flags ParseFloat ParseInt [] [] = Some start_flags"
proof -
  have "map (value_of_flag [] []) [''kube-client-qps'', ''kube-client-burst'', ''hooks-dir'', ''tmp-dir'', ''listen-address'',
      ''listen-port'', ''hook-metrics-listen-port'', ''prometheus-metrics-prefix'', ''debug-unix-socket'', ''kube-context'',
      ''kube-config'', ''kube-server''] =
    [''5'', ''10'', [], ''/tmp/shell-operator'', ''0.0.0.0'', ''9115'', [], ''shell_operator_'',
     ''/var/run/shell-operator/debug.socket'', [], [], []]"
    by code_simp
  with assms show ?thesis by (simp add: parse_flags_def start_flags_def Let_def)
qed

end
