(* ===== verification/Debug_Endpoint.thy ===== *)
theory Debug_Endpoint
  imports App_Flags
begin

text \<open>
  The debug endpoint: the handlers that \<open>SetupDebugServerHandles\<close> of \<open>operator.go\<close> gives to the router,
  and the client and the commands of \<open>pkg/debug\<close> that ask it. A route is an alternative of paths; the
  router answers a path without a route with an error page.
\<close>

section \<open>The server\<close>

type_synonym handler = "string \<Rightarrow> string go"

definition AppName :: string where "AppName = ''shell-operator''"

text \<open>\<open>dump\<close> is the text of the queues; the format that the path names is only logged.\<close>

definition SetupDebugServerHandles :: "string go \<Rightarrow> (string list \<times> handler) list" where
  "SetupDebugServerHandles dump =
     [([''/''], \<lambda>_. Ret (AppName @ '' control endpoint is alive'')),
      (map (\<lambda>format. ''/queue/list.'' @ format) [''json'', ''yaml'', ''text''], \<lambda>_. dump)]"

definition route :: "(string list \<times> handler) list \<Rightarrow> string \<Rightarrow> string go option" where
  "route routes path = map_option (\<lambda>(_, f). f path) (find (\<lambda>(ps, _). path \<in> set ps) routes)"

text \<open>What the socket answers: the page of the router, or nothing when nobody listens.\<close>

record socket =
  so_path :: string
  so_serve :: "string \<Rightarrow> string"

definition debug_socket :: "app_flags \<Rightarrow> string \<Rightarrow> string go \<Rightarrow> socket" where
  "debug_socket flags notFound dump =
     \<lparr>so_path = af_DebugUnixSocket flags,
      so_serve = (\<lambda>path. case route (SetupDebugServerHandles dump) path of Some (Ret body) \<Rightarrow> body | Some Panic \<Rightarrow> [] | None \<Rightarrow> notFound)\<rparr>"

section \<open>The client\<close>

record Client =
  cl_SocketPath :: string

definition NewClient :: Client where "NewClient = \<lparr>cl_SocketPath = []\<rparr>"

definition client_WithSocketPath :: "string \<Rightarrow> Client \<Rightarrow> Client" where
  "client_WithSocketPath path c = c\<lparr>cl_SocketPath := path\<rparr>"

definition DefaultClient :: "app_flags \<Rightarrow> Client" where
  "DefaultClient flags = client_WithSocketPath (af_DebugUnixSocket flags) NewClient"

text \<open>\<open>newHttpClient\<close>: the path to dial, whatever the host of the URL.\<close>

definition newHttpClient :: "sys_env \<Rightarrow> Client \<Rightarrow> string + string" where
  "newHttpClient sys c =
     (case FileExists (se_Stat sys (cl_SocketPath c)) of
        Inl err \<Rightarrow> Inl (''check debug socket '' @ cl_SocketPath c @ '': '' @ err)
      | Inr False \<Rightarrow> Inl (''debug socket '' @ cl_SocketPath c @ '' is not exists'')
      | Inr True \<Rightarrow> Inr (cl_SocketPath c))"

definition url_path :: "string \<Rightarrow> string" where
  "url_path url = drop (length ''http://unix'') url"

definition client_Get :: "sys_env \<Rightarrow> socket list \<Rightarrow> string \<Rightarrow> Client \<Rightarrow> string + string" where
  "client_Get sys sockets url c =
     (case newHttpClient sys c of
        Inl err \<Rightarrow> Inl err
      | Inr path \<Rightarrow>
          (case find (\<lambda>s. so_path s = path) sockets of
             None \<Rightarrow> Inl ''connection refused''
           | Some s \<Rightarrow> Inr (so_serve s (url_path url))))"

definition queue_Dump :: "sys_env \<Rightarrow> socket list \<Rightarrow> string \<Rightarrow> Client \<Rightarrow> string + string" where
  "queue_Dump sys sockets format c = client_Get sys sockets (''http://unix/queue/list.'' @ format) c"

text \<open>The commands \<open>queue list\<close> and \<open>raw\<close>: the line that is printed, or the error.\<close>

definition queue_list_command :: "sys_env \<Rightarrow> socket list \<Rightarrow> app_flags \<Rightarrow> string \<Rightarrow> string + string" where
  "queue_list_command sys sockets flags OutputFormat =
     map_sum id (\<lambda>dump. dump @ newline) (queue_Dump sys sockets OutputFormat (DefaultClient flags))"

definition raw_command :: "sys_env \<Rightarrow> socket list \<Rightarrow> app_flags \<Rightarrow> string \<Rightarrow> string + string" where
  "raw_command sys sockets flags rawUrl =
     map_sum id (\<lambda>resp. resp @ newline) (client_Get sys sockets (''http://unix'' @ rawUrl) (DefaultClient flags))"

section \<open>Properties\<close>

text \<open>
  \<open>queue list\<close> prints the queues of the operator that listens on the socket of the same flags, and it
  prints them as text whatever format is asked for.
\<close>

theorem queue_list_prints_text:
  assumes "format \<in> {''json'', ''yaml'', ''text''}" "se_Stat sys (af_DebugUnixSocket flags) = StatFile"
    and "TaskQueueSetToText srt desc status ks tqs = Ret txt"
  shows "queue_list_command sys [debug_socket flags notFound (TaskQueueSetToText srt desc status ks tqs)] flags format =
    Inr (txt @ newline)"
proof -
  have "route (SetupDebugServerHandles (Ret txt)) (''/queue/list.'' @ format) = Some (Ret txt)"
    using assms(1) by (auto simp: route_def SetupDebugServerHandles_def)
  moreover have "url_path (''http://unix/queue/list.'' @ format) = ''/queue/list.'' @ format" by (simp add: url_path_def)
  ultimately show ?thesis
    using assms(2,3)
    by (simp add: queue_list_command_def queue_Dump_def client_Get_def newHttpClient_def DefaultClient_def
        client_WithSocketPath_def NewClient_def FileExists_def debug_socket_def)
qed

end
