(* ===== verification/Executor.thy ===== *)
theory Executor
  imports Hook_Manager
begin

text \<open>
  \<open>pkg/executor/executor.go\<close>: how commands run. The output of a command is read with a
  \<open>bufio.Scanner\<close>, whose buffer has at most 64 KiB: when it is full and has no end of line, the scanner
  stops for good and nothing reads the pipe any more. \<open>os_cmd\<close> has what the operating system and the
  program do; a pipe holds \<open>oc_pipe\<close> bytes that nobody has read. \<open>None\<close> is a call that never returns.
\<close>

section \<open>Scanning lines\<close>

abbreviation nl :: char where "nl \<equiv> CHR 0x0A"
abbreviation cr :: char where "cr \<equiv> CHR 0x0D"

definition MaxScanTokenSize :: nat where "MaxScanTokenSize = 64 * 1024"

definition dropCR :: "string \<Rightarrow> string" where
  "dropCR data = (if data \<noteq> [] \<and> last data = cr then butlast data else data)"

datatype scan = ScanEnd | ScanTooLong | ScanToken string string

text \<open>One call of \<open>Scan\<close>: the next line and what follows it; a last line needs no end of line.\<close>

definition Scan :: "nat \<Rightarrow> string \<Rightarrow> scan" where
  "Scan bufsize s =
     (let line = takeWhile (\<lambda>c. c \<noteq> nl) s in
      if length line < bufsize \<and> length line < length s then ScanToken (dropCR line) (drop (Suc (length line)) s)
      else if bufsize \<le> length s then ScanTooLong
      else if s = [] then ScanEnd
      else ScanToken (dropCR s) [])"

lemma Scan_shorter: "Scan bufsize s = ScanToken t rest \<Longrightarrow> length rest < length s"
  by (auto simp: Scan_def Let_def split: if_splits)

text \<open>The loop \<open>for scanner.Scan()\<close>: the texts that are logged and the bytes that are never read.\<close>

function scan_lines :: "nat \<Rightarrow> string \<Rightarrow> string list \<times> string" where
  "scan_lines bufsize s =
     (case Scan bufsize s of
        ScanEnd \<Rightarrow> ([], [])
      | ScanTooLong \<Rightarrow> ([], drop bufsize s)
      | ScanToken t rest \<Rightarrow> (let (ts, unread) = scan_lines bufsize rest in (t # ts, unread)))"
  by pat_completeness auto
termination
  by (relation "measure (\<lambda>(bufsize, s). length s)") (auto dest: Scan_shorter)

declare scan_lines.simps [simp del]

section \<open>Commands\<close>

record Cmd =
  cmd_Path :: string
  cmd_Args :: "string list"
  cmd_Env :: "string list"
  cmd_Dir :: string

definition MakeCommand :: "string \<Rightarrow> string \<Rightarrow> string list \<Rightarrow> string list \<Rightarrow> Cmd" where
  "MakeCommand dir entrypoint args envs =
     \<lparr>cmd_Path = entrypoint, cmd_Args = entrypoint # args, cmd_Env = [] @ envs, cmd_Dir = dir\<rparr>"

record os_cmd =
  oc_StdoutPipe :: "string option"
  oc_StderrPipe :: "string option"
  oc_Start :: "string option"
  oc_stdout :: string
  oc_stderr :: string
  oc_pipe :: nat
  oc_Wait :: "string option"
  oc_usage :: "CmdUsage option"

text \<open>A program that writes to a pipe which is full and has no reader does not end.\<close>

definition blocks :: "os_cmd \<Rightarrow> bool" where
  "blocks os \<longleftrightarrow> oc_pipe os < length (snd (scan_lines MaxScanTokenSize (oc_stdout os))) \<or>
     oc_pipe os < length (snd (scan_lines MaxScanTokenSize (oc_stderr os)))"

definition LabelsToLogFields :: "labels list \<Rightarrow> labels" where
  "LabelsToLogFields labelsMaps = foldl map_merge [] labelsMaps"

type_synonym entry = "labels \<times> string"

definition RunAndLogLines ::
    "(Cmd \<Rightarrow> os_cmd) \<Rightarrow> Cmd \<Rightarrow> labels \<Rightarrow> ((entry list \<times> entry list) \<times> CmdUsage option \<times> string option) option" where
  "RunAndLogLines run cmd logLabels =
     (let os = run cmd; fields = LabelsToLogFields [logLabels];
          entries = (\<lambda>output text. map (Pair (mput ''output'' output fields)) (fst (scan_lines MaxScanTokenSize text)))
      in case oc_StdoutPipe os of
           Some err \<Rightarrow> Some (([], []), None, Some err)
         | None \<Rightarrow>
             (case oc_StderrPipe os of
                Some err \<Rightarrow> Some (([], []), None, Some err)
              | None \<Rightarrow>
                  (case oc_Start os of
                     Some err \<Rightarrow> Some (([], []), None, Some err)
                   | None \<Rightarrow>
                       if blocks os then None
                       else Some ((entries ''stdout'' (oc_stdout os), entries ''stderr'' (oc_stderr os)),
                              oc_usage os, oc_Wait os))))"

text \<open>\<open>Output\<close> keeps the whole output in memory, \<open>Run\<close> none of it.\<close>

definition Run :: "(Cmd \<Rightarrow> os_cmd) \<Rightarrow> Cmd \<Rightarrow> string option" where
  "Run run cmd = (case oc_Start (run cmd) of Some err \<Rightarrow> Some err | None \<Rightarrow> oc_Wait (run cmd))"

definition Output :: "(Cmd \<Rightarrow> os_cmd) \<Rightarrow> Cmd \<Rightarrow> string \<times> string option" where
  "Output run cmd =
     (case oc_Start (run cmd) of Some err \<Rightarrow> ([], Some err) | None \<Rightarrow> (oc_stdout (run cmd), oc_Wait (run cmd)))"

definition execCommandOutput ::
    "(Cmd \<Rightarrow> os_cmd) \<Rightarrow> string list \<Rightarrow> string \<Rightarrow> string \<Rightarrow> string \<Rightarrow> string list \<Rightarrow> string list \<Rightarrow> string \<times> string option" where
  "execCommandOutput run environ hookName dir entrypoint envs args =
     Output run (MakeCommand dir entrypoint args (environ @ envs))"

section \<open>Lines and texts\<close>

definition unlines :: "string list \<Rightarrow> string" where
  "unlines ls = concat (map (\<lambda>l. l @ [nl]) ls)"

definition plain_line :: "nat \<Rightarrow> string \<Rightarrow> bool" where
  "plain_line bufsize l \<longleftrightarrow> length l < bufsize \<and> nl \<notin> set l \<and> (l \<noteq> [] \<longrightarrow> last l \<noteq> cr)"

lemma takeWhile_line: "nl \<notin> set l \<Longrightarrow> takeWhile (\<lambda>c. c \<noteq> nl) (l @ nl # rest) = l"
  by (subst takeWhile_append2) auto

lemma Scan_line: "plain_line bufsize l \<Longrightarrow> Scan bufsize (l @ nl # rest) = ScanToken l rest"
  using takeWhile_line [of l rest] by (auto simp: plain_line_def Scan_def dropCR_def)

lemma scan_lines_line: "plain_line bufsize l \<Longrightarrow> scan_lines bufsize (l @ nl # rest) = (l # fst (scan_lines bufsize rest), snd (scan_lines bufsize rest))"
  by (subst scan_lines.simps) (simp add: Scan_line split_beta)

lemma scan_lines_unlines:
  "list_all (plain_line bufsize) ls \<Longrightarrow>
   scan_lines bufsize (unlines ls @ rest) = (ls @ fst (scan_lines bufsize rest), snd (scan_lines bufsize rest))"
  by (induction ls) (simp_all add: unlines_def scan_lines_line)

lemma scan_lines_empty: "0 < bufsize \<Longrightarrow> scan_lines bufsize [] = ([], [])"
  by (subst scan_lines.simps) (simp add: Scan_def)

lemma scan_lines_long:
  assumes "nl \<notin> set long" "length long = bufsize"
  shows "scan_lines bufsize (long @ rest) = ([], rest)"
proof -
  have "takeWhile (\<lambda>c. c \<noteq> nl) (long @ rest) = long @ takeWhile (\<lambda>c. c \<noteq> nl) rest"
    using assms(1) by (intro takeWhile_append2) auto
  then have "Scan bufsize (long @ rest) = ScanTooLong" using assms(2) by (simp add: Scan_def)
  then show ?thesis using assms(2) by (subst scan_lines.simps) simp
qed

section \<open>Properties\<close>

text \<open>
  C11. A command whose lines are shorter than 64 KiB: \<open>RunAndLogLines\<close> returns, logs exactly the lines of
  both outputs, in order and marked with the name of the output, and returns the usage and the error
  of the command.
\<close>

theorem RunAndLogLines_logs:
  assumes "oc_StdoutPipe (run cmd) = None" "oc_StderrPipe (run cmd) = None" "oc_Start (run cmd) = None"
    and "oc_stdout (run cmd) = unlines outs" "list_all (plain_line MaxScanTokenSize) outs"
    and "oc_stderr (run cmd) = unlines errs" "list_all (plain_line MaxScanTokenSize) errs"
  shows "RunAndLogLines run cmd logLabels =
    Some ((map (Pair (mput ''output'' ''stdout'' (MergeLabels [logLabels]))) outs,
           map (Pair (mput ''output'' ''stderr'' (MergeLabels [logLabels]))) errs),
      oc_usage (run cmd), oc_Wait (run cmd))"
proof -
  have "scan_lines MaxScanTokenSize (unlines ls) = (ls, [])" if "list_all (plain_line MaxScanTokenSize) ls" for ls
    using scan_lines_unlines [OF that, of "[]"] by (simp add: scan_lines_empty MaxScanTokenSize_def)
  then show ?thesis
    using assms by (simp add: RunAndLogLines_def blocks_def Let_def LabelsToLogFields_def MergeLabels_def)
qed

text \<open>
  C12. A line of 64 KiB or more ends the log of that output. When the command writes more than a pipe
  holds after the first 64 KiB of the line, \<open>RunAndLogLines\<close> never returns, so that the hook and its queue
  hang; otherwise it returns with the lines before the long one, and the rest is lost.
\<close>

theorem RunAndLogLines_long_line:
  assumes start: "oc_StdoutPipe (run cmd) = None" "oc_StderrPipe (run cmd) = None" "oc_Start (run cmd) = None"
    and out: "oc_stdout (run cmd) = unlines outs @ long @ rest" "list_all (plain_line MaxScanTokenSize) outs"
      "nl \<notin> set long" "length long = MaxScanTokenSize"
    and err: "oc_stderr (run cmd) = []"
  shows "RunAndLogLines run cmd logLabels =
    (if oc_pipe (run cmd) < length rest then None
     else Some ((map (Pair (mput ''output'' ''stdout'' (MergeLabels [logLabels]))) outs, []),
            oc_usage (run cmd), oc_Wait (run cmd)))"
proof -
  have "scan_lines MaxScanTokenSize (oc_stdout (run cmd)) = (outs, rest)"
    using scan_lines_unlines [OF out(2)] scan_lines_long [OF out(3,4)] by (simp add: out(1))
  moreover have "scan_lines MaxScanTokenSize (oc_stderr (run cmd)) = ([], [])"
    by (simp add: err scan_lines_empty MaxScanTokenSize_def)
  ultimately show ?thesis
    using start by (simp add: RunAndLogLines_def blocks_def Let_def LabelsToLogFields_def MergeLabels_def)
qed

abbreviation demo_cmd :: "string \<Rightarrow> Cmd \<Rightarrow> os_cmd" where
  "demo_cmd out \<equiv> \<lambda>_. \<lparr>oc_StdoutPipe = None, oc_StderrPipe = None, oc_Start = None, oc_stdout = out, oc_stderr = [],
     oc_pipe = 65536, oc_Wait = None, oc_usage = None\<rparr>"

theorem RunAndLogLines_logs_witness:
  "RunAndLogLines (demo_cmd (unlines [''a'', ''bc''])) (MakeCommand ''/h'' ''/h/a'' [] []) [] =
     Some (([([(''output'', ''stdout'')], ''a''), ([(''output'', ''stdout'')], ''bc'')], []), None, None)"
  using RunAndLogLines_logs [of "demo_cmd (unlines [''a'', ''bc''])" "MakeCommand ''/h'' ''/h/a'' [] []" "[''a'', ''bc'']" "[]" "[]"]
  by (simp add: plain_line_def MaxScanTokenSize_def unlines_def MergeLabels_def map_merge_def AList.update.simps)

theorem RunAndLogLines_long_line_witness:
  "RunAndLogLines (demo_cmd (unlines [''a''] @ replicate 65536 (CHR ''x'') @ replicate 70000 (CHR ''y'')))
     (MakeCommand ''/h'' ''/h/a'' [] []) [] = None"
proof -
  let ?out = "unlines [''a''] @ replicate 65536 (CHR ''x'') @ replicate 70000 (CHR ''y'')"
  show ?thesis
    using RunAndLogLines_long_line [of "demo_cmd ?out" "MakeCommand ''/h'' ''/h/a'' [] []" "[''a'']"
        "replicate 65536 (CHR ''x'')" "replicate 70000 (CHR ''y'')" "[]"]
    by (simp add: plain_line_def MaxScanTokenSize_def)
qed

end
