(* ===== verification/Manifests.thy ===== *)
theory Manifests
  imports Kube_Types
begin

text \<open>
  \<open>pkg/utils/manifest\<close>: Kubernetes manifests as decoded YAML documents, and the splitting of a stream
  of documents. The YAML decoder is a parameter. The regular expression of the separator,
  \<open>(?:^|\s*\n)---\s*\<close>, is written out as a function; \<open>\s\<close> is tab, newline, form feed, carriage return
  or space, and \<open>TrimSpace\<close> also removes vertical tabs (for ASCII).
\<close>

section \<open>Manifests\<close>

type_synonym Manifest = "(string, json) gomap"

definition getFieldString :: "(string, json) gomap \<Rightarrow> string \<Rightarrow> string" where
  "getFieldString m field = (case mget m field of Some (JStr s) \<Rightarrow> s | _ \<Rightarrow> [])"

definition NewManifest :: "string \<Rightarrow> string \<Rightarrow> string \<Rightarrow> Manifest" where
  "NewManifest apiVersion kind name =
     [(''apiVersion'', JStr apiVersion), (''kind'', JStr kind), (''metadata'', JObj [(''name'', JStr name)])]"

definition NewManifestFromYaml :: "(string \<Rightarrow> string + Manifest) \<Rightarrow> string \<Rightarrow> string + Manifest" where
  "NewManifestFromYaml unmarshal yamlOrJson =
     (case unmarshal yamlOrJson of Inl err \<Rightarrow> Inl err | Inr m \<Rightarrow> Inr m)"

definition MustManifestFromYaml :: "(string \<Rightarrow> string + Manifest) \<Rightarrow> string \<Rightarrow> Manifest go" where
  "MustManifestFromYaml unmarshal yamlOrJson =
     (case NewManifestFromYaml unmarshal yamlOrJson of Inl err \<Rightarrow> Panic | Inr m \<Rightarrow> Ret m)"

definition Manifest_Metadata :: "Manifest \<Rightarrow> (string, json) gomap" where
  "Manifest_Metadata m = (case mget m ''metadata'' of Some (JObj meta) \<Rightarrow> meta | _ \<Rightarrow> [])"

definition Manifest_Kind :: "Manifest \<Rightarrow> string" where
  "Manifest_Kind m = getFieldString m ''kind''"

definition Manifest_ApiVersion :: "Manifest \<Rightarrow> string" where
  "Manifest_ApiVersion m = getFieldString m ''apiVersion''"

definition Manifest_Name :: "Manifest \<Rightarrow> string" where
  "Manifest_Name m = getFieldString (Manifest_Metadata m) ''name''"

definition Manifest_Namespace :: "string \<Rightarrow> Manifest \<Rightarrow> string" where
  "Manifest_Namespace defaultNs m =
     (let ns = getFieldString (Manifest_Metadata m) ''namespace'' in if ns \<noteq> [] then ns else defaultNs)"

definition Manifest_Id :: "Manifest \<Rightarrow> string" where
  "Manifest_Id m = Manifest_Namespace ''default'' m @ ''/'' @ Manifest_Kind m @ ''/'' @ Manifest_Name m"

definition HasBasicFields :: "Manifest \<Rightarrow> bool" where
  "HasBasicFields m \<longleftrightarrow>
     (if mget m ''kind'' = None \<or> mget m ''apiVersion'' = None then False
      else mget (Manifest_Metadata m) ''name'' \<noteq> None)"

text \<open>\<open>SetNamespace\<close> writes into the map that \<open>Metadata\<close> returns, which is a new one without metadata.\<close>

definition SetNamespace :: "string \<Rightarrow> Manifest \<Rightarrow> Manifest" where
  "SetNamespace ns m =
     (case mget m ''metadata'' of
        Some (JObj meta) \<Rightarrow> mput ''metadata'' (JObj (mput ''namespace'' (JStr ns) meta)) m
      | _ \<Rightarrow> m)"

section \<open>Splitting a stream of documents\<close>

abbreviation nl :: char where "nl \<equiv> char_of (10 :: nat)"

definition re_space :: "char \<Rightarrow> bool" where
  "re_space c \<longleftrightarrow> (of_char c :: nat) \<in> {9, 10, 12, 13, 32}"

definition go_space :: "char \<Rightarrow> bool" where
  "go_space c \<longleftrightarrow> re_space c \<or> (of_char c :: nat) = 11"

definition TrimSpace :: "string \<Rightarrow> string" where
  "TrimSpace s = rev (dropWhile go_space (rev (dropWhile go_space s)))"

text \<open>
  \<open>sep_match start s\<close>: what follows the separator if it matches at the beginning of \<open>s\<close>, where \<open>start\<close>
  says that this is the start of the text. Greedy white space before a newline means that the last
  character of the run of white space is that newline.
\<close>

definition sep_match :: "bool \<Rightarrow> string \<Rightarrow> string option" where
  "sep_match start s =
     (let run = takeWhile re_space s; rest = dropWhile re_space s in
      if start \<and> take 3 s = ''---'' then Some (dropWhile re_space (drop 3 s))
      else if run \<noteq> [] \<and> last run = nl \<and> take 3 rest = ''---'' then Some (dropWhile re_space (drop 3 rest))
      else None)"

lemma dropWhile_le [termination_simp]: "length (dropWhile P xs) \<le> length xs"
  by (rule length_dropWhile_le)

lemma sep_match_shorter: "sep_match start s = Some t \<Longrightarrow> length t < length s"
proof -
  have 3: "length (dropWhile re_space (drop 3 u)) < length u" if "take 3 u = ''---''" for u :: string
  proof -
    have "length (drop 3 u) < length u" using that by (cases u) auto
    then show ?thesis using length_dropWhile_le [of re_space "drop 3 u"] by linarith
  qed
  assume "sep_match start s = Some t"
  then consider "t = dropWhile re_space (drop 3 s)" "take 3 s = ''---''"
    | "t = dropWhile re_space (drop 3 (dropWhile re_space s))" "take 3 (dropWhile re_space s) = ''---''"
    by (auto simp: sep_match_def Let_def split: if_splits)
  then show ?thesis
  proof cases
    case 2
    then show ?thesis using 3 [of "dropWhile re_space s"] length_dropWhile_le [of re_space s] by simp
  qed (use 3 in auto)
qed

text \<open>
  \<open>sep.Split(s, -1)\<close>: the pieces between the leftmost matches. White space that does not lead to a
  separator cannot begin a match further on either, so that it is passed character by character.
\<close>

function sep_split :: "bool \<Rightarrow> string \<Rightarrow> string \<Rightarrow> string list" where
  "sep_split start piece [] = [rev piece]"
| "sep_split start piece (c # s) =
     (case sep_match start (c # s) of
        Some t \<Rightarrow> rev piece # sep_split False [] t
      | None \<Rightarrow> sep_split False (c # piece) s)"
  by pat_completeness auto
termination
  by (relation "measure (\<lambda>(_, _, s). length s)") (auto dest: sep_match_shorter)

definition SplitManifests :: "string \<Rightarrow> (string, string) gomap" where
  "SplitManifests bigFile =
     (let docs = map TrimSpace (filter (\<lambda>d. d \<noteq> []) (sep_split True [] (TrimSpace bigFile)))
      in map (\<lambda>(i, d). (''manifest-'' @ show_nat i, d)) (enumerate 0 docs))"

text \<open>The range loop over the map visits the documents in the order \<open>ks\<close>.\<close>

fun manifests_of :: "(string \<Rightarrow> string + Manifest) \<Rightarrow> string list \<Rightarrow> string + Manifest list" where
  "manifests_of unmarshal [] = Inr []"
| "manifests_of unmarshal (doc # docs) =
     (case NewManifestFromYaml unmarshal doc of
        Inl err \<Rightarrow> Inl err
      | Inr m \<Rightarrow>
          (case manifests_of unmarshal docs of
             Inl err \<Rightarrow> Inl err
           | Inr ms \<Rightarrow> Inr (if HasBasicFields m then m # ms else ms)))"

definition GetManifestListFromYamlDocuments ::
    "(string \<Rightarrow> string + Manifest) \<Rightarrow> string list \<Rightarrow> string \<Rightarrow> string + Manifest list" where
  "GetManifestListFromYamlDocuments unmarshal ks rawManifests =
     manifests_of unmarshal (map (\<lambda>k. case mget (SplitManifests rawManifests) k of None \<Rightarrow> [] | Some doc \<Rightarrow> doc) ks)"


section \<open>Splitting what was joined\<close>

text \<open>\<open>doc_ok\<close>: a document without white space around it and without a separator in it.\<close>

definition no_sep :: "string \<Rightarrow> bool" where
  "no_sep d \<longleftrightarrow> (\<forall>u v. d \<noteq> u @ nl # ''---'' @ v)"

definition doc_ok :: "string \<Rightarrow> bool" where
  "doc_ok d \<longleftrightarrow> d \<noteq> [] \<and> \<not> go_space (hd d) \<and> \<not> go_space (last d) \<and> take 3 d \<noteq> ''---'' \<and> no_sep d"

fun join_docs :: "string list \<Rightarrow> string" where
  "join_docs [] = []"
| "join_docs [d] = d"
| "join_docs (d # e # ds) = d @ nl # ''---'' @ nl # join_docs (e # ds)"

lemma spaces [simp]: "re_space nl" "\<not> re_space (CHR ''-'')" "CHR ''-'' \<noteq> nl" "nl \<noteq> CHR ''-''"
proof -
  show 1: "re_space nl" "\<not> re_space (CHR ''-'')" by (simp_all add: re_space_def)
  then show "CHR ''-'' \<noteq> nl" "nl \<noteq> CHR ''-''" by metis+
qed

lemma take3_before_nl: "take 3 (u @ nl # v) = ''---'' \<Longrightarrow> take 3 u = ''---''"
  by (cases u; cases "tl u"; cases "tl (tl u)") (auto simp: numeral_3_eq_3)

lemma no_sep_Cons: "no_sep (c # s) \<Longrightarrow> no_sep s"
  unfolding no_sep_def by (metis append_Cons)

lemma no_match_inside:
  assumes s: "s \<noteq> []" "\<not> re_space (last s)" "no_sep s" "st \<Longrightarrow> take 3 s \<noteq> ''---''" and v: "v = [] \<or> (\<exists>w. v = nl # w)"
  shows "sep_match st (s @ v) = None"
proof -
  have sp: "takeWhile re_space (s @ v) = takeWhile re_space s" "dropWhile re_space (s @ v) = dropWhile re_space s @ v"
    using takeWhile_append1 [of "last s" s re_space v] dropWhile_append1 [of "last s" s re_space v] s(1,2) by simp_all
  have take: "take 3 (u @ v) = ''---'' \<Longrightarrow> take 3 u = ''---''" for u using v take3_before_nl by auto
  have "\<not> (takeWhile re_space s \<noteq> [] \<and> last (takeWhile re_space s) = nl \<and> take 3 (dropWhile re_space s) = ''---'')"
  proof
    assume a: "takeWhile re_space s \<noteq> [] \<and> last (takeWhile re_space s) = nl \<and> take 3 (dropWhile re_space s) = ''---''"
    let ?u = "butlast (takeWhile re_space s)" and ?w = "drop 3 (dropWhile re_space s)"
    have "takeWhile re_space s = ?u @ [nl]" using a by (metis append_butlast_last_id)
    moreover have "dropWhile re_space s = ''---'' @ ?w" using a by (metis append_take_drop_id)
    ultimately have "s = ?u @ nl # ''---'' @ ?w"
      using takeWhile_dropWhile_id [of re_space s] by (metis append.assoc append_Cons append_Nil)
    with s(3) show False unfolding no_sep_def by blast
  qed
  with s(4) take sp show ?thesis by (auto simp: sep_match_def Let_def)
qed

lemma sep_split_doc:
  assumes "no_sep s" "s = [] \<or> \<not> re_space (last s)" "st \<Longrightarrow> s \<noteq> [] \<and> take 3 s \<noteq> ''---''" "t \<noteq> []" "\<not> re_space (hd t)"
  shows "sep_split st p (s @ nl # ''---'' @ nl # t) = (rev p @ s) # sep_split False [] t"
  using assms(1-3)
proof (induction s arbitrary: st p)
  case Nil
  have "dropWhile re_space t = t" using assms(4,5) by (cases t) auto
  then have "sep_match False (nl # ''---'' @ nl # t) = Some t" by (simp add: sep_match_def Let_def)
  moreover have "st = False" using Nil by blast
  ultimately show ?case by simp
next
  case (Cons c s)
  have "sep_match st ((c # s) @ nl # ''---'' @ nl # t) = None"
    using Cons.prems by (intro no_match_inside) auto
  moreover have "sep_split False (c # p) (s @ nl # ''---'' @ nl # t) = (rev (c # p) @ s) # sep_split False [] t"
    using Cons.prems no_sep_Cons by (intro Cons.IH) (auto split: if_splits)
  ultimately show ?case by simp
qed

lemma sep_split_last:
  assumes "no_sep s" "s = [] \<or> \<not> re_space (last s)" "st \<Longrightarrow> take 3 s \<noteq> ''---''"
  shows "sep_split st p s = [rev p @ s]"
  using assms
proof (induction s arbitrary: st p)
  case (Cons c s)
  have "sep_match st ((c # s) @ []) = None" using Cons.prems by (intro no_match_inside) auto
  moreover have "sep_split False (c # p) s = [rev (c # p) @ s]"
    using Cons.prems no_sep_Cons by (intro Cons.IH) (auto split: if_splits)
  ultimately show ?case by simp
qed simp

lemma doc_ok_re: "doc_ok d \<Longrightarrow> d \<noteq> [] \<and> \<not> re_space (hd d) \<and> \<not> re_space (last d) \<and> take 3 d \<noteq> ''---'' \<and> no_sep d"
  by (auto simp: doc_ok_def go_space_def)

lemma join_docs_ends:
  "ds \<noteq> [] \<Longrightarrow> \<forall>d\<in>set ds. doc_ok d \<Longrightarrow>
   join_docs ds \<noteq> [] \<and> hd (join_docs ds) = hd (hd ds) \<and> last (join_docs ds) = last (last ds)"
  by (induction ds rule: join_docs.induct) (auto simp: doc_ok_def hd_append)

lemma sep_split_join:
  "ds \<noteq> [] \<Longrightarrow> \<forall>d\<in>set ds. doc_ok d \<Longrightarrow> sep_split st [] (join_docs ds) = ds"
proof (induction ds arbitrary: st rule: join_docs.induct)
  case (2 d)
  then show ?case using sep_split_last [of d st "[]"] doc_ok_re [of d] by simp
next
  case (3 d e ds)
  have d: "doc_ok d" "doc_ok e" using 3(3) by simp_all
  have t: "join_docs (e # ds) \<noteq> []" "\<not> re_space (hd (join_docs (e # ds)))"
    using join_docs_ends [of "e # ds"] 3(3) doc_ok_re [OF d(2)] by auto
  have "sep_split st [] (d @ nl # ''---'' @ nl # join_docs (e # ds)) = (rev [] @ d) # sep_split False [] (join_docs (e # ds))"
    using doc_ok_re [OF d(1)] t by (intro sep_split_doc) auto
  with 3 show ?case by simp
qed simp

lemma TrimSpace_id: "d \<noteq> [] \<Longrightarrow> \<not> go_space (hd d) \<Longrightarrow> \<not> go_space (last d) \<Longrightarrow> TrimSpace d = d"
proof -
  assume d: "d \<noteq> []" "\<not> go_space (hd d)" "\<not> go_space (last d)"
  then have "dropWhile go_space d = d" by (cases d) auto
  moreover have "dropWhile go_space (rev d) = rev d" using d(1,3) by (cases "rev d") (auto simp: hd_rev [symmetric])
  ultimately show ?thesis by (simp add: TrimSpace_def)
qed

section \<open>Properties\<close>

text \<open>
  C34. Splitting is the inverse of joining documents by separator lines: every document that has no
  white space around it and contains no separator comes back unchanged, under the number of its
  position.
\<close>

theorem SplitManifests_join:
  assumes "ds \<noteq> []" "\<forall>d\<in>set ds. doc_ok d"
  shows "SplitManifests (join_docs ds) = map (\<lambda>(i, d). (''manifest-'' @ show_nat i, d)) (enumerate 0 ds)"
proof -
  have ends: "join_docs ds \<noteq> []" "\<not> go_space (hd (join_docs ds))" "\<not> go_space (last (join_docs ds))"
    using join_docs_ends [OF assms] assms by (auto simp: doc_ok_def)
  have "filter (\<lambda>d. d \<noteq> []) ds = ds" using assms(2) by (auto simp: doc_ok_def filter_id_conv)
  moreover have "map TrimSpace ds = ds" using assms(2) by (intro map_idI TrimSpace_id) (auto simp: doc_ok_def)
  ultimately show ?thesis
    using TrimSpace_id [OF ends] sep_split_join [OF assms, of True] by (simp add: SplitManifests_def Let_def)
qed

theorem SplitManifests_join_witness:
  "SplitManifests (join_docs [''kind: A'', ''kind: B'']) = [(''manifest-0'', ''kind: A''), (''manifest-1'', ''kind: B'')]"
proof -
  have "no_sep d" if "nl \<notin> set d" for d using that unfolding no_sep_def by auto
  moreover have "nl \<notin> set ''kind: A''" "nl \<notin> set ''kind: B''" by code_simp+
  ultimately have "no_sep ''kind: A''" "no_sep ''kind: B''" by blast+
  then have "doc_ok ''kind: A''" "doc_ok ''kind: B''"
    by (simp_all add: doc_ok_def go_space_def re_space_def)
  then have "SplitManifests (join_docs [''kind: A'', ''kind: B'']) =
      map (\<lambda>(i, d). (''manifest-'' @ show_nat i, d)) (enumerate 0 [''kind: A'', ''kind: B''])"
    by (intro SplitManifests_join) simp_all
  also have "\<dots> = [(''manifest-0'', ''kind: A''), (''manifest-1'', ''kind: B'')]" by code_simp
  finally show ?thesis .
qed

text \<open>
  \<open>SetNamespace\<close> is read back by \<open>Namespace\<close> and changes nothing else that identifies the manifest,
  if the manifest has metadata; without metadata the namespace is lost.
\<close>

theorem SetNamespace_Namespace:
  "Manifest_Namespace d (SetNamespace ns m) =
     (case mget m ''metadata'' of Some (JObj meta) \<Rightarrow> (if ns = [] then d else ns) | _ \<Rightarrow> d) \<and>
   Manifest_Kind (SetNamespace ns m) = Manifest_Kind m \<and> Manifest_ApiVersion (SetNamespace ns m) = Manifest_ApiVersion m \<and>
   Manifest_Name (SetNamespace ns m) = Manifest_Name m \<and> HasBasicFields (SetNamespace ns m) = HasBasicFields m"
proof (cases "\<exists>meta. mget m ''metadata'' = Some (JObj meta)")
  case True
  then obtain meta where meta: "mget m ''metadata'' = Some (JObj meta)" by blast
  have get: "mget (SetNamespace ns m) k = (if k = ''metadata'' then Some (JObj (mput ''namespace'' (JStr ns) meta)) else mget m k)" for k
    using meta by (simp add: SetNamespace_def)
  then have "Manifest_Metadata (SetNamespace ns m) = mput ''namespace'' (JStr ns) meta" "Manifest_Metadata m = meta"
    using meta by (simp_all add: Manifest_Metadata_def)
  then show ?thesis
    unfolding Manifest_Namespace_def Manifest_Kind_def Manifest_ApiVersion_def Manifest_Name_def HasBasicFields_def
      getFieldString_def get meta by simp
next
  case False
  then have "SetNamespace ns m = m" "Manifest_Metadata m = []"
    by (auto simp: SetNamespace_def Manifest_Metadata_def split: option.splits json.splits)
  moreover have "(case mget m ''metadata'' of Some (JObj meta) \<Rightarrow> (if ns = [] then d else ns) | _ \<Rightarrow> d) = d"
    using False by (auto split: option.splits json.splits)
  ultimately show ?thesis by (simp add: Manifest_Namespace_def getFieldString_def)
qed

end
