(* ===== verification/Tool_Commands.thy ===== *)
theory Tool_Commands
  imports App_Flags Executor Manifests
begin

text \<open>
  Commands that the program and its test tools make: the filter with the jq program of \<open>pkg/jq\<close>, kubectl
  and the operator itself of \<open>test/utils\<close>. A program with its standard input is \<open>jq\<close>, the library that
  is linked with cgo is \<open>libjq\<close>; an environment is a list of names and values, in which the last entry
  of a name counts.
\<close>

section \<open>Filters\<close>

definition jq_command :: "string \<Rightarrow> string \<Rightarrow> Cmd" where
  "jq_command jqFilter libPath =
     \<lparr>cmd_Path = ''/usr/bin/jq'',
      cmd_Args = ''/usr/bin/jq'' # (if libPath = [] then [jqFilter] else [''-L'', libPath, jqFilter]),
      cmd_Env = [], cmd_Dir = []\<rparr>"

definition jqFilterExec :: "(string \<Rightarrow> Cmd \<Rightarrow> os_cmd) \<Rightarrow> string \<Rightarrow> string \<Rightarrow> string \<Rightarrow> string + string" where
  "jqFilterExec jq jqFilter jsonData libPath =
     (let cmd = jq_command jqFilter libPath; err = Run (jq jsonData) cmd;
          stdout = TrimSpace (oc_stdout (jq jsonData cmd)); stderr = TrimSpace (oc_stderr (jq jsonData cmd))
      in case err of
           Some e \<Rightarrow> Inl (''exec jq: err: '' @ e @ '' stderr: '' @ stderr)
         | None \<Rightarrow> Inr stdout)"

definition jqFilterLibJqGo ::
    "(string \<Rightarrow> string \<Rightarrow> string \<Rightarrow> string + string) \<Rightarrow> string \<Rightarrow> string \<Rightarrow> string \<Rightarrow> string + string" where
  "jqFilterLibJqGo libjq jqFilter jsonData libPath =
     (case libjq libPath jqFilter jsonData of
        Inl err \<Rightarrow> Inl (''libjq filter '' @ jqFilter @ '': '' @ err)
      | Inr result \<Rightarrow> Inr result)"

text \<open>\<open>cgo\<close>: how the program is built; \<open>jqExec\<close>: the variable \<open>JQ_EXEC\<close>.\<close>

definition runJqFilter ::
    "bool \<Rightarrow> string \<Rightarrow> (string \<Rightarrow> Cmd \<Rightarrow> os_cmd) \<Rightarrow> (string \<Rightarrow> string \<Rightarrow> string \<Rightarrow> string + string) \<Rightarrow>
     string \<Rightarrow> string \<Rightarrow> string \<Rightarrow> string + string" where
  "runJqFilter cgo jqExec jq libjq jqFilter jsonData libPath =
     (if \<not> cgo then jqFilterExec jq jqFilter jsonData libPath
      else if jqExec = ''yes'' then jqFilterExec jq jqFilter jsonData libPath
      else jqFilterLibJqGo libjq jqFilter jsonData libPath)"

definition ApplyJqFilter ::
    "bool \<Rightarrow> string \<Rightarrow> (string \<Rightarrow> Cmd \<Rightarrow> os_cmd) \<Rightarrow> (string \<Rightarrow> string \<Rightarrow> string \<Rightarrow> string + string) \<Rightarrow>
     string \<Rightarrow> string \<Rightarrow> string \<Rightarrow> string + string" where
  "ApplyJqFilter cgo jqExec jq libjq jqFilter jsonData libPath = runJqFilter cgo jqExec jq libjq jqFilter jsonData libPath"

section \<open>Kubectl\<close>

record KubectlCmd =
  ku_ContextName :: string
  ku_ConfigPath :: string

definition Kubectl :: "string \<Rightarrow> KubectlCmd" where
  "Kubectl context = \<lparr>ku_ContextName = context, ku_ConfigPath = []\<rparr>"

definition GetKubectlPath :: "string \<Rightarrow> string" where
  "GetKubectlPath binaryPath = (if binaryPath = [] then ''kubectl'' else binaryPath)"

text \<open>\<open>Succeed\<close>: the arguments and the environment of the command that runs.\<close>

definition kubectl_Succeed :: "string list \<Rightarrow> KubectlCmd \<Rightarrow> string list \<times> (string \<times> string) list" where
  "kubectl_Succeed args k =
     (args @ (if ku_ContextName k \<noteq> [] then [''--context'', ku_ContextName k] else []),
      if ku_ConfigPath k \<noteq> [] then [(''KUBECONFIG'', ku_ConfigPath k)] else [])"

definition kubectl_Apply :: "string \<Rightarrow> string \<Rightarrow> KubectlCmd \<Rightarrow> string list \<times> (string \<times> string) list" where
  "kubectl_Apply ns fileName = kubectl_Succeed ([''apply''] @ (if ns \<noteq> [] then [''-n'', ns] else []) @ [''-f'', fileName])"

definition kubectl_ReplaceForce :: "string \<Rightarrow> string \<Rightarrow> KubectlCmd \<Rightarrow> string list \<times> (string \<times> string) list" where
  "kubectl_ReplaceForce ns fileName =
     kubectl_Succeed ([''replace''] @ (if ns \<noteq> [] then [''-n'', ns] else []) @ [''--force'', ''-f'', fileName])"

definition kubectl_Delete :: "string \<Rightarrow> string \<Rightarrow> KubectlCmd \<Rightarrow> string list \<times> (string \<times> string) list" where
  "kubectl_Delete ns resourceName =
     kubectl_Succeed ([''delete''] @ (if ns \<noteq> [] then [''-n'', ns] else []) @ [resourceName])"

section \<open>The operator as a command\<close>

record ShellOperatorOptions =
  oo_CurrentDir :: string
  oo_BinPath :: string
  oo_Command :: string
  oo_Args :: "string list option"
  oo_LogType :: string
  oo_WorkingDir :: string
  oo_KubeConfig :: string

definition DefaultShellOperatorOptions :: "string \<Rightarrow> string \<Rightarrow> string \<Rightarrow> ShellOperatorOptions" where
  "DefaultShellOperatorOptions binPath currentDir configPath =
     \<lparr>oo_CurrentDir = currentDir, oo_BinPath = binPath, oo_Command = [], oo_Args = Some [''start''],
      oo_LogType = ''json'', oo_WorkingDir = [], oo_KubeConfig = configPath\<rparr>"

definition Merge :: "ShellOperatorOptions \<Rightarrow> ShellOperatorOptions \<Rightarrow> ShellOperatorOptions" where
  "Merge ops opts =
     (let res = ops;
          ops = (if oo_CurrentDir opts \<noteq> [] then ops\<lparr>oo_CurrentDir := oo_CurrentDir opts\<rparr> else ops);
          ops = (if oo_BinPath opts \<noteq> [] then ops\<lparr>oo_BinPath := oo_BinPath opts\<rparr> else ops);
          ops = (if oo_Command opts \<noteq> [] then ops\<lparr>oo_Command := oo_Command opts\<rparr> else ops);
          ops = (if oo_Args opts \<noteq> None then ops\<lparr>oo_Args := oo_Args opts\<rparr> else ops);
          ops = (if oo_LogType opts \<noteq> [] then ops\<lparr>oo_LogType := oo_LogType opts\<rparr> else ops);
          ops = (if oo_WorkingDir opts \<noteq> [] then ops\<lparr>oo_WorkingDir := oo_WorkingDir opts\<rparr> else ops);
          ops = (if oo_KubeConfig opts \<noteq> [] then ops\<lparr>oo_KubeConfig := oo_KubeConfig opts\<rparr> else ops)
      in res)"

text \<open>The path, the arguments, the directory and the environment that \<open>ExecShellOperator\<close> runs.\<close>

definition ExecShellOperator ::
    "string \<Rightarrow> (string \<times> string) list \<Rightarrow> ShellOperatorOptions \<Rightarrow>
     string \<times> string list \<times> string \<times> (string \<times> string) list" where
  "ExecShellOperator binPath environ opts =
     (if oo_BinPath opts = [] then binPath else oo_BinPath opts,
      case oo_Args opts of None \<Rightarrow> [] | Some args \<Rightarrow> args,
      oo_CurrentDir opts,
      environ @ (if oo_LogType opts \<noteq> [] then [(''LOG_TYPE'', oo_LogType opts)] else []) @
        (if oo_KubeConfig opts \<noteq> [] then [(''SHELL_OPERATOR_KUBE_CONFIG'', oo_KubeConfig opts)] else []) @
        (if oo_WorkingDir opts \<noteq> [] then [(''SHELL_OPERATOR_WORKING_DIR'', oo_WorkingDir opts)] else []))"

section \<open>Properties\<close>

text \<open>A filter that is run as a program fails exactly when the program fails, and its result is trimmed.\<close>

theorem jqFilterExec_result:
  "isl (jqFilterExec jq f d p) \<longleftrightarrow> Run (jq d) (jq_command f p) \<noteq> None"
  "jqFilterExec jq f d p = Inr r \<Longrightarrow> r = TrimSpace (oc_stdout (jq d (jq_command f p))) \<and> last (cmd_Args (jq_command f p)) = f"
  by (auto simp: jqFilterExec_def Let_def jq_command_def split: option.splits)

text \<open>\<open>Merge\<close> returns its receiver as it was: no option of the argument has an effect.\<close>

theorem Merge_has_no_effect: "Merge ops opts = ops"
  by (simp add: Merge_def Let_def)

text \<open>
  The options for the kubeconfig and the working directory do not reach the operator: it reads other
  variables than \<open>ExecShellOperator\<close> sets, so that every flag but the type of the log has the value that
  it has without the options.
\<close>

lemma envars_of_flags:
  "''SHELL_OPERATOR_KUBE_CONFIG'' \<notin> fl_Envar ` set DefineStartCommandFlags"
  "''SHELL_OPERATOR_WORKING_DIR'' \<notin> fl_Envar ` set DefineStartCommandFlags"
  "\<forall>f\<in>set DefineStartCommandFlags. fl_Envar f = ''LOG_TYPE'' \<longrightarrow> fl_Flag f = ''log-type''"
  by code_simp+

theorem ExecShellOperator_options_are_lost:
  assumes f: "f \<in> set DefineStartCommandFlags" "fl_Flag f \<noteq> ''log-type''"
    and run: "ExecShellOperator binPath environ opts = (bin, args, dir, env)"
  shows "flag_value cmdline (rev env) f = flag_value cmdline (rev environ) f"
proof -
  have "fl_Envar f \<noteq> ''SHELL_OPERATOR_KUBE_CONFIG''" "fl_Envar f \<noteq> ''SHELL_OPERATOR_WORKING_DIR''" "fl_Envar f \<noteq> ''LOG_TYPE''"
    using envars_of_flags f by (metis imageI)+
  then have "map_of (rev env) (fl_Envar f) = map_of (rev environ) (fl_Envar f)"
    using run by (auto simp: ExecShellOperator_def map_add_def split: option.splits)
  then show ?thesis by (simp add: flag_value_def split: option.split)
qed

end
