(* ===== verification/Queue_Measure.thy ===== *)
theory Queue_Measure
  imports Task_Queue Labels
begin

text \<open>
  The measurements of a queue: \<open>MeasureActionTime\<close> of \<open>pkg/task/queue/task_queue.go\<close> and \<open>Duration\<close> of
  \<open>pkg/utils/measure/measure.go\<close>, which every method of the queue defers. A trace has the beginnings and
  the ends of calls in the order of time, in nanoseconds; calls may overlap. Beside it, the head lock
  and the text of a queue.
\<close>

section \<open>Measuring\<close>

text \<open>The function that \<open>Duration\<close> returns has captured the callback's action and the time of its creation.\<close>

datatype measure_fn = MeasureNothing | MeasureSince string int

definition Duration :: "string \<Rightarrow> int \<Rightarrow> measure_fn" where
  "Duration action now = MeasureSince action now"

text \<open>\<open>fn\<close> is the field \<open>measureActionFn\<close>, \<open>None\<close> before \<open>measureActionFnOnce\<close>; \<open>off\<close>: the variable disables metrics.\<close>

definition MeasureActionTime :: "bool \<Rightarrow> string \<Rightarrow> int \<Rightarrow> measure_fn option \<Rightarrow> measure_fn option" where
  "MeasureActionTime off action now fn =
     (case fn of Some f \<Rightarrow> Some f | None \<Rightarrow> Some (if off then MeasureNothing else Duration action now))"

type_synonym observation = "rat \<times> labels"

text \<open>The call of the function at the end of a method: the arguments of \<open>HistogramObserve\<close>.\<close>

definition call_measure :: "string \<Rightarrow> int \<Rightarrow> measure_fn option \<Rightarrow> observation list" where
  "call_measure name now fn =
     (case fn of
        Some (MeasureSince action start) \<Rightarrow>
          [(of_int (now - start) / 1000000000, [(''queue_name'', name), (''queue_action'', action)])]
      | _ \<Rightarrow> [])"

datatype timed = Begins string int | Ends int

fun measured :: "bool \<Rightarrow> string \<Rightarrow> measure_fn option \<Rightarrow> timed list \<Rightarrow> observation list" where
  "measured off name fn [] = []"
| "measured off name fn (Begins action now # es) = measured off name (MeasureActionTime off action now fn) es"
| "measured off name fn (Ends now # es) = call_measure name now fn @ measured off name fn es"

section \<open>Head lock and text\<close>

definition DoWithHeadLock :: "('t TaskQueue \<Rightarrow> 't TaskQueue) option \<Rightarrow> 't TaskQueue \<Rightarrow> 't TaskQueue" where
  "DoWithHeadLock fn q = (case fn of None \<Rightarrow> q | Some fn \<Rightarrow> fn q)"

text \<open>The verb \<open>%10.10s\<close>.\<close>

definition fmt_10_10s :: "string \<Rightarrow> string" where
  "fmt_10_10s s = replicate (10 - length s) (CHR '' '') @ take 10 s"

definition queue_String :: "('t \<Rightarrow> string) \<Rightarrow> ('t \<Rightarrow> string) \<Rightarrow> 't TaskQueue \<Rightarrow> string go" where
  "queue_String desc gid q =
     (let qLen = Length q in
      go_bind (go_fold (\<lambda>t (buf, index). case t of
            None \<Rightarrow> Panic
          | Some t \<Rightarrow>
              (let buf = buf @ ''['' @ desc t @ '',id='' @ fmt_10_10s (gid t) @ '']''; index = Suc index in
               if index = qLen then Ret (buf, index) else Ret (buf @ '', '', index)))
        (q_Items q) ([], 0)) (\<lambda>(buf, index). Ret buf))"

section \<open>Properties\<close>

lemma measured_fixed:
  "measured off name (Some f) es =
     concat (map (\<lambda>e. case e of Ends now \<Rightarrow> call_measure name now (Some f) | _ \<Rightarrow> []) es)"
  by (induction es) (auto simp: MeasureActionTime_def split: timed.splits)

text \<open>
  C15. Every measurement of a queue is that of its first action: whatever actions follow, each end of a
  call observes the time since the beginning of the very first call, under the name of the very first
  action. A queue that is measured reports neither the durations nor the actions of its later calls.
\<close>

theorem MeasureActionTime_is_the_first:
  "measured False name None (Begins action start # es) =
     concat (map (\<lambda>e. case e of Begins _ _ \<Rightarrow> [] | Ends now \<Rightarrow>
       [(of_int (now - start) / 1000000000, [(''queue_name'', name), (''queue_action'', action)])]) es)"
proof -
  have "(case e of Ends now \<Rightarrow> call_measure name now (Some (MeasureSince action start)) | _ \<Rightarrow> []) =
      (case e of Begins _ _ \<Rightarrow> [] | Ends now \<Rightarrow>
         [(of_int (now - start) / 1000000000, [(''queue_name'', name), (''queue_action'', action)])])" for e
    by (simp add: call_measure_def split: timed.splits)
  then show ?thesis by (simp add: MeasureActionTime_def Duration_def measured_fixed)
qed

definition join_comma :: "string list \<Rightarrow> string" where
  "join_comma xs = concat (map (\<lambda>x. x @ '', '') (butlast xs)) @ (if xs = [] then [] else last xs)"

lemma queue_String_loop:
  assumes "length ts + i = n" "ts \<noteq> []"
  shows "go_fold (\<lambda>t (buf, index). case t of
      None \<Rightarrow> Panic
    | Some t \<Rightarrow>
        (let buf = buf @ f t; index = Suc index in
         if index = n then Ret (buf, index) else Ret (buf @ '', '', index))) (map Some ts) (buf, i) =
    Ret (buf @ join_comma (map f ts), n)"
  using assms
proof (induction ts arbitrary: i buf)
  case (Cons t ts)
  show ?case
  proof (cases "ts = []")
    case True
    then show ?thesis using Cons.prems by (simp add: join_comma_def)
  next
    case False
    then have "Suc i \<noteq> n" using Cons.prems(1) by auto
    with Cons.IH [of "Suc i"] Cons.prems(1) False show ?thesis by (simp add: join_comma_def)
  qed
qed simp

text \<open>The text of a queue without nil tasks: its tasks in order, separated by commas.\<close>

theorem queue_String_joins:
  assumes "q_Items q = map Some ts"
  shows "queue_String desc gid q = Ret (join_comma (map (\<lambda>t. ''['' @ desc t @ '',id='' @ fmt_10_10s (gid t) @ '']'') ts))"
proof (cases "ts = []")
  case False
  from queue_String_loop [of ts 0 "length ts" "\<lambda>t. ''['' @ desc t @ '',id='' @ fmt_10_10s (gid t) @ '']''" "[]", OF _ False]
  show ?thesis by (simp add: queue_String_def Length_def assms Let_def)
qed (simp add: queue_String_def Length_def assms join_comma_def)

end
