(* ===== verification/Config_Schema.thy ===== *)
theory Config_Schema
  imports Hook_Config
begin

text \<open>
  \<open>pkg/hook/config/schemas.go\<close>: the schemas of hook configurations as data, and what it means that a
  configuration conforms to one. The schemas are text in the source; a schema is the list of its
  keywords here, with titles, descriptions, defaults and examples left out, since they do not
  validate. Parsing the text and the validator belong to go-openapi; \<open>schema_ok\<close> is the meaning of the
  keywords in the specification of OpenAPI, and the properties assume it of the validator.
\<close>

section \<open>Schemas\<close>

text \<open>A pattern is an alternative of names here; \<open>"$ref"\<close> names an entry of \<open>definitions\<close>.\<close>

datatype keyword =
    KType string
  | KEnum "string list"
  | KRequired "string list"
  | KProperties "(string \<times> keyword list) list"
  | KPatternProperties "string list" "keyword list"
  | KAdditionalProperties bool
  | KAdditionalPropertiesSchema "keyword list"
  | KMinProperties nat
  | KMaxProperties nat
  | KItems "keyword list"
  | KAdditionalItems bool
  | KMinItems nat
  | KRef string

type_synonym schema = "keyword list"

abbreviation string_schema :: schema where "string_schema \<equiv> [KType ''string'']"
abbreviation boolean_schema :: schema where "boolean_schema \<equiv> [KType ''boolean'']"

definition definitions_v1 :: "(string \<times> schema) list" where
  "definitions_v1 =
     [(''nameSelector'',
        [KType ''object'', KAdditionalProperties False, KRequired [''matchNames''],
         KProperties [(''matchNames'', [KType ''array'', KAdditionalItems False, KItems string_schema])]]),
      (''labelSelector'',
        [KType ''object'', KAdditionalProperties False, KMinProperties 1, KMaxProperties 2,
         KProperties
           [(''matchLabels'', [KType ''object'', KAdditionalPropertiesSchema string_schema]),
            (''matchExpressions'',
              [KType ''array'', KItems
                [KType ''object'', KAdditionalProperties False, KRequired [''key'', ''operator''],
                 KProperties
                   [(''key'', string_schema),
                    (''operator'', [KType ''string'', KEnum [''In'', ''NotIn'', ''Exists'', ''DoesNotExist'']]),
                    (''values'', [KType ''array'', KItems string_schema])]]])]])]"

definition schedule_schema :: schema where
  "schedule_schema =
     [KType ''array'', KAdditionalItems False, KMinItems 1, KItems
        [KType ''object'', KAdditionalProperties False, KRequired [''crontab''],
         KProperties
           [(''name'', string_schema), (''crontab'', string_schema), (''allowFailure'', boolean_schema),
            (''includeSnapshotsFrom'', [KType ''array'', KAdditionalItems False, KMinItems 1, KItems string_schema]),
            (''queue'', string_schema), (''group'', string_schema)]]]"

definition fieldSelector_schema :: schema where
  "fieldSelector_schema =
     [KType ''object'', KAdditionalProperties False, KRequired [''matchExpressions''],
      KProperties
        [(''matchExpressions'', [KType ''array'', KItems
           [KType ''object'', KAdditionalProperties False, KMinProperties 3, KMaxProperties 3,
            KProperties
              [(''field'', string_schema),
               (''operator'', [KType ''string'', KEnum [''='', ''=='', ''Equals'', ''!='', ''NotEquals'']]),
               (''value'', string_schema)]]])]]"

definition namespace_schema :: schema where
  "namespace_schema =
     [KType ''object'', KAdditionalProperties False, KMinProperties 1, KMaxProperties 2,
      KProperties [(''nameSelector'', [KRef ''nameSelector'']), (''labelSelector'', [KRef ''labelSelector''])]]"

definition kubernetes_properties :: "(string \<times> schema) list" where
  "kubernetes_properties =
     [(''name'', string_schema), (''apiVersion'', string_schema), (''kind'', string_schema),
      (''includeSnapshotsFrom'', [KType ''array'', KAdditionalItems False, KMinItems 1, KItems string_schema]),
      (''queue'', string_schema), (''jqFilter'', string_schema), (''keepFullObjectsInMemory'', boolean_schema),
      (''allowFailure'', boolean_schema), (''executeHookOnSynchronization'', boolean_schema),
      (''waitForSynchronization'', boolean_schema), (''resynchronizationPeriod'', string_schema),
      (''nameSelector'', [KRef ''nameSelector'']), (''labelSelector'', [KRef ''labelSelector'']),
      (''fieldSelector'', fieldSelector_schema), (''group'', string_schema), (''namespace'', namespace_schema)]"

definition kubernetes_item :: schema where
  "kubernetes_item =
     [KType ''object'', KAdditionalProperties False, KRequired [''kind''],
      KPatternProperties [''watchEvent'', ''executeHookOnEvent'']
        [KType ''array'', KAdditionalItems False, KMinItems 0,
         KItems [KType ''string'', KEnum [''Added'', ''Modified'', ''Deleted'']]],
      KProperties kubernetes_properties]"

definition schema_v1 :: schema where
  "schema_v1 =
     [KType ''object'', KAdditionalProperties False, KRequired [''configVersion''], KMinProperties 2,
      KProperties
        [(''configVersion'', [KType ''string'', KEnum [''v1'']]), (''onStartup'', [KType ''integer'']),
         (''schedule'', schedule_schema),
         (''kubernetes'', [KType ''array'', KAdditionalItems False, KMinItems 1, KItems kubernetes_item])]]"

definition schema_v0 :: schema where
  "schema_v0 =
     [KType ''object'', KAdditionalProperties False, KMinProperties 1,
      KProperties
        [(''onStartup'', [KType ''integer'']), (''schedule'', [KType ''array'', KItems [KType ''object'']]),
         (''onKubernetesEvent'', [KType ''array'', KItems [KType ''object'']])]]"

section \<open>Loading\<close>

text \<open>\<open>spec.ExpandSchema\<close> puts the definitions in the place of the references.\<close>

fun expand :: "(string \<times> schema) list \<Rightarrow> keyword \<Rightarrow> schema" where
  "expand ds (KRef n) = (case map_of ds n of None \<Rightarrow> [] | Some s \<Rightarrow> s)"
| "expand ds (KProperties ps) = [KProperties (map (\<lambda>(n, s). (n, concat (map (expand ds) s))) ps)]"
| "expand ds (KPatternProperties ns s) = [KPatternProperties ns (concat (map (expand ds) s))]"
| "expand ds (KAdditionalPropertiesSchema s) = [KAdditionalPropertiesSchema (concat (map (expand ds) s))]"
| "expand ds (KItems s) = [KItems (concat (map (expand ds) s))]"
| "expand ds k = [k]"

definition LoadSchema :: "string \<Rightarrow> schema" where
  "LoadSchema name =
     (if name = ''v1'' then concat (map (expand definitions_v1) schema_v1) else if name = ''v0'' then schema_v0 else [])"

text \<open>\<open>GetSchema\<close> with its cache.\<close>

definition GetSchema :: "string \<Rightarrow> (string, schema) gomap \<Rightarrow> schema option \<times> (string, schema) gomap" where
  "GetSchema name cache =
     (case mget cache name of
        Some s \<Rightarrow> (Some s, cache)
      | None \<Rightarrow>
          if name \<notin> set Schemas then (None, cache)
          else (let cache = mput name (LoadSchema name) cache in (mget cache name, cache)))"

section \<open>Conforming\<close>

definition type_ok :: "string \<Rightarrow> json \<Rightarrow> bool" where
  "type_ok t j =
     (case j of
        JNull \<Rightarrow> t = ''null'' | JBool _ \<Rightarrow> t = ''boolean'' | JStr _ \<Rightarrow> t = ''string'' | JArr _ \<Rightarrow> t = ''array'' | JObj _ \<Rightarrow> t = ''object''
      | JNum x \<Rightarrow> t = ''number'' \<or> t = ''integer'' \<and> of_int \<lfloor>x\<rfloor> = x)"

definition names_of_schema :: "schema \<Rightarrow> string list" where
  "names_of_schema s =
     concat (map (\<lambda>k. case k of KProperties ps \<Rightarrow> map fst ps | KPatternProperties ns _ \<Rightarrow> ns | _ \<Rightarrow> []) s)"

text \<open>\<open>known\<close> are the properties that the schema of the keyword names.\<close>

fun schema_ok :: "schema \<Rightarrow> json \<Rightarrow> bool" and keyword_ok :: "string list \<Rightarrow> keyword \<Rightarrow> json \<Rightarrow> bool" where
  "schema_ok s j = list_all (\<lambda>k. keyword_ok (names_of_schema s) k j) s"
| "keyword_ok known k j =
     (case (k, j) of
        (KType t, _) \<Rightarrow> type_ok t j
      | (KEnum vs, JStr v) \<Rightarrow> v \<in> set vs
      | (KEnum vs, _) \<Rightarrow> False
      | (KRequired ns, JObj fs) \<Rightarrow> list_all (\<lambda>n. n \<in> fst ` set fs) ns
      | (KProperties ps, JObj fs) \<Rightarrow>
          list_all (\<lambda>p. case map_of fs (fst p) of None \<Rightarrow> True | Some v \<Rightarrow> schema_ok (snd p) v) ps
      | (KPatternProperties ns s, JObj fs) \<Rightarrow>
          list_all (\<lambda>n. case map_of fs n of None \<Rightarrow> True | Some v \<Rightarrow> schema_ok s v) ns
      | (KAdditionalProperties b, JObj fs) \<Rightarrow> b \<or> list_all (\<lambda>(n, v). n \<in> set known) fs
      | (KAdditionalPropertiesSchema s, JObj fs) \<Rightarrow> list_all (\<lambda>(n, v). n \<in> set known \<or> schema_ok s v) fs
      | (KMinProperties m, JObj fs) \<Rightarrow> m \<le> length (remdups (map fst fs))
      | (KMaxProperties m, JObj fs) \<Rightarrow> length (remdups (map fst fs)) \<le> m
      | (KItems s, JArr js) \<Rightarrow> list_all (schema_ok s) js
      | (KMinItems m, JArr js) \<Rightarrow> m \<le> length js
      | _ \<Rightarrow> True)"

declare schema_ok.simps [simp del] keyword_ok.simps [simp del]

lemma schema_ok_keyword: "schema_ok s j \<Longrightarrow> k \<in> set s \<Longrightarrow> keyword_ok (names_of_schema s) k j"
  by (simp add: schema_ok.simps list_all_iff)

lemma schema_ok_type: "schema_ok s j \<Longrightarrow> KType t \<in> set s \<Longrightarrow> type_ok t j"
  by (drule (1) schema_ok_keyword) (simp add: keyword_ok.simps)

lemma schema_ok_enum: "schema_ok s (JStr v) \<Longrightarrow> KEnum vs \<in> set s \<Longrightarrow> v \<in> set vs"
  by (drule (1) schema_ok_keyword) (simp add: keyword_ok.simps)

lemma schema_ok_property:
  "schema_ok s (JObj fs) \<Longrightarrow> KProperties ps \<in> set s \<Longrightarrow> (n, s') \<in> set ps \<Longrightarrow> map_of fs n = Some v \<Longrightarrow> schema_ok s' v"
  by (drule (1) schema_ok_keyword) (auto simp: keyword_ok.simps list_all_iff split: option.splits)

lemma schema_ok_closed:
  "schema_ok s (JObj fs) \<Longrightarrow> KAdditionalProperties False \<in> set s \<Longrightarrow> map_of fs n = Some v \<Longrightarrow> n \<in> set (names_of_schema s)"
  by (drule (1) schema_ok_keyword) (auto simp: keyword_ok.simps list_all_iff dest: map_of_SomeD)

lemma schema_ok_required:
  "schema_ok s (JObj fs) \<Longrightarrow> KRequired ns \<in> set s \<Longrightarrow> n \<in> set ns \<Longrightarrow> map_of fs n \<noteq> None"
  by (drule (1) schema_ok_keyword) (auto simp: keyword_ok.simps list_all_iff map_of_eq_None_iff)

lemma schema_ok_item: "schema_ok s (JArr js) \<Longrightarrow> KItems s' \<in> set s \<Longrightarrow> j \<in> set js \<Longrightarrow> schema_ok s' j"
  by (drule (1) schema_ok_keyword) (auto simp: keyword_ok.simps list_all_iff)

lemma type_ok_object: "type_ok ''object'' j \<longleftrightarrow> (\<exists>fs. j = JObj fs)"
  and type_ok_array: "type_ok ''array'' j \<longleftrightarrow> (\<exists>js. j = JArr js)"
  and type_ok_string: "type_ok ''string'' j \<longleftrightarrow> (\<exists>v. j = JStr v)"
  and type_ok_integer: "type_ok ''integer'' j \<longleftrightarrow> (\<exists>x. j = JNum (of_int x))"
  by (auto simp: type_ok_def split: json.splits)

text \<open>The cache only ever holds what \<open>LoadSchema\<close> returns.\<close>

lemma GetSchema_loads:
  assumes "\<forall>n s. mget cache n = Some s \<longrightarrow> n \<in> set Schemas \<and> s = LoadSchema n" "GetSchema name cache = (r, cache')"
  shows "r = (if name \<in> set Schemas then Some (LoadSchema name) else None) \<and>
    (\<forall>n s. mget cache' n = Some s \<longrightarrow> n \<in> set Schemas \<and> s = LoadSchema n)"
proof (cases "mget cache name")
  case None
  then show ?thesis using assms by (auto simp: GetSchema_def Let_def update_conv' split: if_splits)
next
  case (Some s)
  then have "name \<in> set Schemas" "s = LoadSchema name" using assms(1) by blast+
  moreover have "r = Some s" "cache' = cache" using Some assms(2) by (simp_all add: GetSchema_def)
  ultimately show ?thesis using assms(1) by simp
qed

section \<open>The schema of version 1\<close>

definition item_v1 :: schema where
  "item_v1 = concat (map (expand definitions_v1) kubernetes_item)"

lemma LoadSchema_v1:
  "LoadSchema ''v1'' =
     [KType ''object'', KAdditionalProperties False, KRequired [''configVersion''], KMinProperties 2,
      KProperties
        [(''configVersion'', [KType ''string'', KEnum [''v1'']]), (''onStartup'', [KType ''integer'']),
         (''schedule'', schedule_schema),
         (''kubernetes'', [KType ''array'', KAdditionalItems False, KMinItems 1, KItems item_v1])]]"
  by (simp add: LoadSchema_def schema_v1_def item_v1_def schedule_schema_def kubernetes_item_def)

lemmas v1_property = schema_ok_property [of "LoadSchema ''v1''", unfolded LoadSchema_v1, OF _ list.set_intros(2)
  [OF list.set_intros(2) [OF list.set_intros(2) [OF list.set_intros(2) [OF list.set_intros(1)]]]], folded LoadSchema_v1]

lemma item_v1_keywords:
  "KType ''object'' \<in> set item_v1" "KAdditionalProperties False \<in> set item_v1"
  "\<exists>ps. KProperties ps \<in> set item_v1 \<and> (''fieldSelector'', fieldSelector_schema) \<in> set ps"
  "''mode'' \<notin> set (names_of_schema item_v1)"
  by (simp_all add: item_v1_def kubernetes_item_def kubernetes_properties_def fieldSelector_schema_def names_of_schema_def)

section \<open>Decoding\<close>

text \<open>What decoding a conforming object into the structs of \<open>hook_config.go\<close> gives.\<close>

definition dec_str :: "string \<Rightarrow> (string \<times> json) list \<Rightarrow> string" where
  "dec_str key fs = (case map_of fs key of Some (JStr v) \<Rightarrow> v | _ \<Rightarrow> [])"

definition dec_requirement :: "json \<Rightarrow> FieldSelectorRequirement" where
  "dec_requirement j =
     (case j of JObj fs \<Rightarrow> \<lparr>fr_Field = dec_str ''field'' fs, fr_Operator = dec_str ''operator'' fs, fr_Value = dec_str ''value'' fs\<rparr>
      | _ \<Rightarrow> \<lparr>fr_Field = [], fr_Operator = [], fr_Value = []\<rparr>)"

definition dec_field_selector :: "json \<Rightarrow> FieldSelector" where
  "dec_field_selector j =
     \<lparr>fs_MatchExpressions =
        (case j of
           JObj fs \<Rightarrow> (case map_of fs ''matchExpressions'' of Some (JArr es) \<Rightarrow> Some (map dec_requirement es) | _ \<Rightarrow> None)
         | _ \<Rightarrow> None)\<rparr>"

definition decodes_kube :: "json \<Rightarrow> OnKubernetesEventConfigV1 \<Rightarrow> bool" where
  "decodes_kube j k \<longleftrightarrow>
     (case j of
        JObj fs \<Rightarrow> k1_Mode k = dec_str ''mode'' fs \<and>
          k1_FieldSelector k = map_option dec_field_selector (map_of fs ''fieldSelector'')
      | _ \<Rightarrow> False)"

definition decodes_v1 :: "(string \<times> json) list \<Rightarrow> HookConfigV1 \<Rightarrow> bool" where
  "decodes_v1 obj v1 \<longleftrightarrow>
     v1_OnStartup v1 = (case map_of obj ''onStartup'' of None \<Rightarrow> JNull | Some j \<Rightarrow> j) \<and>
     list_all2 decodes_kube (case map_of obj ''kubernetes'' of Some (JArr js) \<Rightarrow> js | _ \<Rightarrow> []) (v1_OnKubernetesEvent v1)"

text \<open>
  What is assumed of the libraries: a valid configuration conforms to its schema, and the decoder
  fills the structs from a conforming object.
\<close>

definition validator_sound :: "config_env \<Rightarrow> bool" where
  "validator_sound env \<longleftrightarrow> (\<forall>obj ver. fst (ce_Validate env obj ver) \<longrightarrow> schema_ok (LoadSchema ver) (JObj obj))"

definition decoder_v1 :: "config_env \<Rightarrow> bool" where
  "decoder_v1 env \<longleftrightarrow>
     (\<forall>data obj v1. ce_Unmarshal env data = Inr obj \<longrightarrow> schema_ok (LoadSchema ''v1'') (JObj obj) \<longrightarrow>
        ce_UnmarshalV1 env data = Inr v1 \<longrightarrow> decodes_v1 obj v1)"

lemma conforming_onStartup:
  assumes "schema_ok (LoadSchema ''v1'') (JObj obj)" "decodes_v1 obj v1"
  shows "v1_OnStartup v1 = JNull \<or> (\<exists>x. v1_OnStartup v1 = JNum (of_int x))"
proof (cases "map_of obj ''onStartup''")
  case (Some j)
  then have "schema_ok [KType ''integer''] j" by (intro v1_property [OF assms(1)]) simp_all
  then have "type_ok ''integer'' j" by (rule schema_ok_type) simp
  then show ?thesis using assms(2) Some by (simp add: decodes_v1_def type_ok_integer)
qed (use assms(2) in \<open>simp add: decodes_v1_def\<close>)

lemma conforming_kube:
  assumes "schema_ok (LoadSchema ''v1'') (JObj obj)" "decodes_v1 obj v1" "k \<in> set (v1_OnKubernetesEvent v1)"
  obtains fs where "schema_ok item_v1 (JObj fs)" "decodes_kube (JObj fs) k"
proof -
  let ?js = "case map_of obj ''kubernetes'' of Some (JArr js) \<Rightarrow> js | _ \<Rightarrow> []"
  have all2: "list_all2 decodes_kube ?js (v1_OnKubernetesEvent v1)" using assms(2) unfolding decodes_v1_def by (rule conjunct2)
  obtain i where "i < length (v1_OnKubernetesEvent v1)" "k = v1_OnKubernetesEvent v1 ! i"
    using assms(3) unfolding in_set_conv_nth by blast
  then obtain j where "j \<in> set ?js" "decodes_kube j k"
    using list_all2_nthD2 [OF all2] list_all2_lengthD [OF all2] nth_mem by metis
  then obtain js where js: "map_of obj ''kubernetes'' = Some (JArr js)" "j \<in> set js" "decodes_kube j k"
    by (cases "map_of obj ''kubernetes''") (auto split: json.splits)
  from assms(1) js(1) have "schema_ok [KType ''array'', KAdditionalItems False, KMinItems 1, KItems item_v1] (JArr js)"
    by (intro v1_property [OF assms(1) _ js(1)]) simp
  from schema_ok_item [OF this _ js(2)] have "schema_ok item_v1 j" by simp
  moreover obtain fs where "j = JObj fs" using js(3) by (auto simp: decodes_kube_def split: json.splits)
  ultimately show thesis using that js(3) by blast
qed

lemma conforming_mode:
  assumes "schema_ok item_v1 (JObj fs)" "decodes_kube (JObj fs) k"
  shows "k1_Mode k = []"
proof -
  have "map_of fs ''mode'' = None"
    using schema_ok_closed [OF assms(1) item_v1_keywords(2), of "''mode''"] item_v1_keywords(4) by (cases "map_of fs ''mode''") auto
  with assms(2) show ?thesis by (simp add: decodes_kube_def dec_str_def)
qed

text \<open>Each term of a conforming field selector has an operator that \<open>FormatFieldSelector\<close> knows.\<close>

definition requirement_schema :: schema where
  "requirement_schema =
     [KType ''object'', KAdditionalProperties False, KMinProperties 3, KMaxProperties 3,
      KProperties
        [(''field'', string_schema),
         (''operator'', [KType ''string'', KEnum [''='', ''=='', ''Equals'', ''!='', ''NotEquals'']]),
         (''value'', string_schema)]]"

lemma conforming_requirement:
  assumes ok: "schema_ok requirement_schema (JObj fs)"
  shows "dec_str ''operator'' fs \<in> {''='', ''=='', ''Equals'', ''!='', ''NotEquals''}"
proof -
  let ?ns = "[''field'', ''operator'', ''value'']"
  have names: "names_of_schema requirement_schema = ?ns" by (simp add: names_of_schema_def requirement_schema_def)
  have "card (fst ` set fs) = 3"
    using schema_ok_keyword [OF ok, of "KMinProperties 3"] schema_ok_keyword [OF ok, of "KMaxProperties 3"]
    by (simp add: requirement_schema_def keyword_ok.simps length_remdups_card_conv)
  moreover have "fst ` set fs \<subseteq> set ?ns"
    using schema_ok_keyword [OF ok, of "KAdditionalProperties False"] unfolding names
    by (auto simp: requirement_schema_def keyword_ok.simps list_all_iff)
  moreover have "card (set ?ns) = 3" by simp
  ultimately have "fst ` set fs = set ?ns" using card_subset_eq [OF finite_set] by metis
  then obtain v where v: "map_of fs ''operator'' = Some v" by (cases "map_of fs ''operator''") (auto simp: map_of_eq_None_iff)
  have "schema_ok [KType ''string'', KEnum [''='', ''=='', ''Equals'', ''!='', ''NotEquals'']] v"
    by (rule schema_ok_property [OF ok _ _ v]) (auto simp: requirement_schema_def)
  then show ?thesis
    using schema_ok_type [of _ v "''string''"] schema_ok_enum v by (fastforce simp: dec_str_def type_ok_string)
qed

lemma field_terms_known:
  "list_all (\<lambda>r. fr_Operator r \<in> {''='', ''=='', ''Equals'', ''!='', ''NotEquals''}) reqs \<Longrightarrow> \<not> isl (field_terms reqs)"
  by (induction reqs) (auto split: sum.splits)

lemma fieldSelector_schema_keywords:
  "KType ''object'' \<in> set fieldSelector_schema" "KRequired [''matchExpressions''] \<in> set fieldSelector_schema"
  "KProperties [(''matchExpressions'', [KType ''array'', KItems requirement_schema])] \<in> set fieldSelector_schema"
  by (simp_all add: fieldSelector_schema_def requirement_schema_def)

lemma conforming_field_selector:
  assumes "schema_ok fieldSelector_schema j"
  shows "\<not> isl (FormatFieldSelector fields_String (Some (dec_field_selector j)))"
proof -
  obtain fs where j: "j = JObj fs"
    using schema_ok_type [OF assms fieldSelector_schema_keywords(1)] by (auto simp: type_ok_object)
  obtain v where v: "map_of fs ''matchExpressions'' = Some v"
    using schema_ok_required [OF assms [unfolded j] fieldSelector_schema_keywords(2)] by fastforce
  have arr: "schema_ok [KType ''array'', KItems requirement_schema] v"
    by (rule schema_ok_property [OF assms [unfolded j] fieldSelector_schema_keywords(3) _ v]) simp
  then obtain es where es: "v = JArr es" using schema_ok_type [OF arr, of "''array''"] by (auto simp: type_ok_array)
  have "fr_Operator (dec_requirement e) \<in> {''='', ''=='', ''Equals'', ''!='', ''NotEquals''}" if "e \<in> set es" for e
  proof -
    have ok: "schema_ok requirement_schema e" by (rule schema_ok_item [OF arr [unfolded es] _ that]) simp
    have "type_ok ''object'' e" by (rule schema_ok_type [OF ok]) (simp add: requirement_schema_def)
    then obtain gs where "e = JObj gs" by (auto simp: type_ok_object)
    then show ?thesis using conforming_requirement [of gs] ok by (simp add: dec_requirement_def)
  qed
  then have "\<not> isl (field_terms (map dec_requirement es))" by (intro field_terms_known) (simp add: list_all_iff)
  then show ?thesis
    by (cases "field_terms (map dec_requirement es)") (simp_all add: FormatFieldSelector_def dec_field_selector_def j v es)
qed

text \<open>The way of a configuration with version 1 through \<open>LoadAndValidate\<close>.\<close>

lemma LoadAndValidate_v1:
  assumes libs: "validator_sound env" "decoder_v1 env"
    and data: "ce_Unmarshal env data = Inr obj" "LoadConfigVersion obj = Inr ''v1''"
  obtains (invalid) errs where "LoadAndValidate env n data c = Inl (EValidate errs)"
  | (unmarshal) err where "LoadAndValidate env n data c = Inl (EUnmarshal err)"
  | (converted) v1 where "schema_ok (LoadSchema ''v1'') (JObj obj)" "decodes_v1 obj v1"
      "ce_UnmarshalV1 env data = Inr v1"
      "LoadAndValidate env n data c = ConvertAndCheckV1 env n v1 (c\<lparr>cfg_Version := ''v1'', cfg_V1 := Some v1\<rparr>)"
proof -
  have l: "LoadAndValidate env n data c =
      (if ValidateConfig env obj ''v1'' \<noteq> [] then Inl (EValidate (ValidateConfig env obj ''v1''))
       else ConvertAndCheck env n data (c\<lparr>cfg_Version := ''v1''\<rparr>))"
    using data by (simp add: LoadAndValidate_def VersionedUntyped_Load_def)
  show thesis
  proof (cases "ValidateConfig env obj ''v1'' = []")
    case True
    then have "fst (ce_Validate env obj ''v1'')"
      by (auto simp: ValidateConfig_def Schemas_def split: prod.splits bool.splits if_splits)
    then have s: "schema_ok (LoadSchema ''v1'') (JObj obj)" using libs(1) by (simp add: validator_sound_def)
    show thesis
    proof (cases "ce_UnmarshalV1 env data")
      case (Inl err)
      then show thesis using unmarshal l True by (simp add: ConvertAndCheck_def)
    next
      case (Inr v1)
      then have "decodes_v1 obj v1" using libs(2) data(1) s by (simp add: decoder_v1_def)
      with converted [OF s this Inr] l True Inr show thesis by (simp add: ConvertAndCheck_def)
    qed
  qed (use invalid l in simp)
qed

lemma convert_all_Inl: "convert_all f n i raws = Inl e \<Longrightarrow> \<exists>raw\<in>set raws. \<exists>n i. f n i raw = Inl e"
proof (induction raws arbitrary: n i)
  case (Cons raw raws)
  then show ?case by (cases "f n i raw"; cases "convert_all f (Suc n) (Suc i) raws") fastforce+
qed simp

lemma convert_all_Inr: "convert_all f n i raws = Inr (n', ks) \<Longrightarrow> k \<in> set ks \<Longrightarrow> \<exists>raw\<in>set raws. \<exists>n i. f n i raw = Inr k"
proof (induction raws arbitrary: n i n' ks)
  case (Cons raw raws)
  then obtain k0 ks0 where "f n i raw = Inr k0" "convert_all f (Suc n) (Suc i) raws = Inr (n', ks0)" "ks = k0 # ks0"
    by (auto split: sum.splits)
  with Cons.IH Cons.prems(2) show ?case by fastforce
qed simp

lemma schedules_v1_Inl: "schedules_v1 env ks n i raws = Inl e \<Longrightarrow> \<exists>j errs. e = ESchedule j errs"
  by (induction env ks n i raws rule: schedules_v1.induct) (auto split: sum.splits if_splits)

lemma check_kube_includes_error: "check_kube_includes ks i raws = Some e \<Longrightarrow> \<exists>j m. e = EIncludeSnapshots j m"
  by (induction ks i raws rule: check_kube_includes.induct) (auto split: option.splits if_splits)

lemma mc_Mode_selectors [simp]:
  "mc_Mode (WithEventTypes ts m) = mc_Mode m" "mc_Mode (WithNameSelector a m) = mc_Mode m"
  "mc_Mode (WithFieldSelector b m) = mc_Mode m" "mc_Mode (WithNamespaceSelector d m) = mc_Mode m"
  "mc_Mode (WithLabelSelector e m) = mc_Mode m"
  by (simp_all add: WithEventTypes_def WithNameSelector_def WithFieldSelector_def WithNamespaceSelector_def
      WithLabelSelector_def split: option.split)

lemma convert_kube_v1_mode:
  assumes "convert_kube_v1 env n i raw = Inr k" "k1_Mode raw = []"
  shows "mc_Mode (kc_Monitor k) = []"
proof (cases "CheckOnKubernetesEventV1 env raw = []")
  case True
  have "isl r \<or> mc_Mode (kc_Monitor (projr r)) = []" if "r = convert_kube_v1 env n i raw" for r
    unfolding that convert_kube_v1_def Let_def WithMode_def using assms(2) True by (simp split: option.split)
  from this [OF assms(1) [symmetric]] show ?thesis by simp
qed (use assms(1) in \<open>simp add: convert_kube_v1_def\<close>)

lemma ConvertOnStartup_ok: "v = JNull \<or> (\<exists>x. v = JNum x) \<Longrightarrow> \<exists>st. ConvertOnStartup v = Inr st"
  by (auto simp: ConvertOnStartup_def ConvertFloatForBinding_def)

lemma ConvertAndCheckV1_error:
  assumes "ConvertAndCheckV1 env n v1 c = Inl e" "v1_OnStartup v1 = JNull \<or> (\<exists>x. v1_OnStartup v1 = JNum (of_int x))"
  shows "(\<exists>raw\<in>set (v1_OnKubernetesEvent v1). \<exists>i. e = EKubernetes i (CheckOnKubernetesEventV1 env raw)) \<or>
    (\<exists>i m. e = EIncludeSnapshots i m) \<or> (\<exists>i errs. e = ESchedule i errs)"
proof -
  obtain st where "ConvertOnStartup (v1_OnStartup v1) = Inr st" using ConvertOnStartup_ok assms(2) by blast
  then consider "convert_all (convert_kube_v1 env) n 0 (v1_OnKubernetesEvent v1) = Inl e"
    | kubes where "check_kube_includes kubes 0 (v1_OnKubernetesEvent v1) = Some e"
    | kubes n' where "schedules_v1 env kubes n' 0 (v1_Schedule v1) = Inl e"
    using assms(1) by (auto simp: ConvertAndCheckV1_def Let_def split: sum.splits option.splits)
  then show ?thesis
  proof cases
    case 1
    from convert_all_Inl [OF this] obtain raw m i where raw: "raw \<in> set (v1_OnKubernetesEvent v1)" "convert_kube_v1 env m i raw = Inl e"
      by blast
    then have "e = EKubernetes i (CheckOnKubernetesEventV1 env raw)" by (simp add: convert_kube_v1_def Let_def split: if_splits)
    with raw(1) show ?thesis by blast
  qed (blast dest: check_kube_includes_error schedules_v1_Inl)+
qed

lemma check_kube_v1_field:
  assumes "k1_FieldSelector k \<noteq> None \<longrightarrow> \<not> isl (FormatFieldSelector (env_fields_String (ce_kube env)) (k1_FieldSelector k))"
  shows "''fieldSelector is invalid: '' @ err \<notin> set (CheckOnKubernetesEventV1 env k)"
proof -
  let ?P = "\<lambda>x. take 16 x \<noteq> ''fieldSelector is''"
  have e3: "(if k1_FieldSelector k \<noteq> None then
      (case FormatFieldSelector (env_fields_String (ce_kube env)) (k1_FieldSelector k) of
         Inl err \<Rightarrow> [''fieldSelector is invalid: '' @ err] | Inr _ \<Rightarrow> []) else []) = []"
    using assms
    by (cases "FormatFieldSelector (env_fields_String (ce_kube env)) (k1_FieldSelector k)") (simp_all only: sum.case isl_def, auto)
  have const: "?P ''apiVersion is invalid''" "?P (''labelSelector is invalid: '' @ m)"
    "?P ''fieldSelector metadata.name and nameSelector.matchNames are mutually exclusive''" for m
    by simp_all
  have "list_all ?P (CheckOnKubernetesEventV1 env k)"
    unfolding CheckOnKubernetesEventV1_def Let_def e3 list_all_append
    by (intro conjI) (simp_all only: list.pred_inject list.pred_map const comp_def list.pred_True
      refl simp_thms if_True if_False split: if_split sum.split option.split)
  moreover have "\<not> ?P (''fieldSelector is invalid: '' @ err)" by simp
  ultimately show ?thesis by (auto simp only: list_all_iff)
qed

section \<open>Properties\<close>

text \<open>
  C14. The schema of version 1 leaves two checks of the code without work: a configuration is never
  rejected for its \<open>onStartup\<close> value or for an operator of a field selector, because the schema has
  rejected it before. The operators of the schema are exactly those that \<open>FormatFieldSelector\<close> knows.
\<close>

theorem schema_covers_checks:
  assumes libs: "validator_sound env" "decoder_v1 env"
    and data: "ce_Unmarshal env data = Inr obj" "LoadConfigVersion obj = Inr ''v1''"
    and err: "LoadAndValidate env n data c = Inl e"
  shows "e \<noteq> EOnStartup msg \<and> (e = EKubernetes i errs \<longrightarrow> ''fieldSelector is invalid: '' @ m \<notin> set errs)"
  using libs data
proof (cases rule: LoadAndValidate_v1 [where n = n and c = c])
  case (converted v1)
  note start = conforming_onStartup [OF converted(1,2)]
  have "''fieldSelector is invalid: '' @ m \<notin> set (CheckOnKubernetesEventV1 env raw)"
    if raw: "raw \<in> set (v1_OnKubernetesEvent v1)" for raw
  proof -
    obtain fs where fs: "schema_ok item_v1 (JObj fs)" "decodes_kube (JObj fs) raw"
      using conforming_kube [OF converted(1,2) raw] .
    obtain ps where ps: "KProperties ps \<in> set item_v1" "(''fieldSelector'', fieldSelector_schema) \<in> set ps"
      using item_v1_keywords(3) by blast
    have "schema_ok fieldSelector_schema v" if "map_of fs ''fieldSelector'' = Some v" for v
      using schema_ok_property [OF fs(1) ps that] .
    then have "k1_FieldSelector raw \<noteq> None \<longrightarrow> \<not> isl (FormatFieldSelector (env_fields_String (ce_kube env)) (k1_FieldSelector raw))"
      using fs(2) conforming_field_selector by (auto simp: decodes_kube_def)
    then show ?thesis by (rule check_kube_v1_field)
  qed
  with ConvertAndCheckV1_error [OF _ start] err converted(4) show ?thesis by fastforce
qed (use err in auto)

text \<open>
  No configuration of version 1 sets the mode of a binding: the schema rejects the key, and the
  default of \<open>WithMode\<close> is lost, so that every monitor of a loaded hook has an empty mode, neither
  \<open>v0\<close> nor \<open>Incremental\<close>.
\<close>

theorem mode_is_never_set:
  assumes libs: "validator_sound env" "decoder_v1 env"
    and data: "ce_Unmarshal env data = Inr obj" "LoadConfigVersion obj = Inr ''v1''"
    and ok: "LoadAndValidate env n data c = Inr (n', c')"
  shows "list_all (\<lambda>k. mc_Mode (kc_Monitor k) = []) (cfg_OnKubernetesEvents c')"
  using libs data
proof (cases rule: LoadAndValidate_v1 [where n = n and c = c])
  case (converted v1)
  have mode: "k1_Mode raw = []" if "raw \<in> set (v1_OnKubernetesEvent v1)" for raw
    using conforming_kube [OF converted(1,2) that] conforming_mode by blast
  from ok converted(4) obtain m ks where "convert_all (convert_kube_v1 env) n 0 (v1_OnKubernetesEvent v1) = Inr (m, ks)"
    and c': "\<forall>k\<in>set (cfg_OnKubernetesEvents c'). \<exists>k0\<in>set ks. kc_Monitor k = kc_Monitor k0"
    by (fastforce simp: ConvertAndCheckV1_def Let_def split: sum.splits option.splits)
  then have "mc_Mode (kc_Monitor k) = []" if "k \<in> set ks" for k
    using convert_all_Inr [OF _ that] mode convert_kube_v1_mode by blast
  with c' show ?thesis by (auto simp: list_all_iff)
qed (use ok in auto)

text \<open>A configuration with a field selector and the given crontab, and libraries that do what is assumed.\<close>

definition demo_selector :: json where
  "demo_selector = JObj [(''matchExpressions'', JArr [JObj [(''field'', JStr ''metadata.name''), (''operator'', JStr ''!=''), (''value'', JStr ''x'')]])]"

definition demo_object :: "string \<Rightarrow> (string \<times> json) list" where
  "demo_object crontab =
     [(''configVersion'', JStr ''v1''), (''onStartup'', JNum 10), (''schedule'', JArr [JObj [(''crontab'', JStr crontab)]]),
      (''kubernetes'', JArr [JObj [(''name'', JStr ''a''), (''kind'', JStr ''Pod''), (''fieldSelector'', demo_selector)]])]"

definition demo_schema_env :: "string \<Rightarrow> config_env" where
  "demo_schema_env crontab = demo_config_env\<lparr>ce_Unmarshal := \<lambda>_. Inr (demo_object crontab),
     ce_UnmarshalV1 := \<lambda>_. Inr (demo_v1\<lparr>
       v1_Schedule := [\<lparr>s1_Name = [], s1_Crontab = crontab, s1_AllowFailure = False, s1_IncludeSnapshotsFrom = [], s1_Queue = [], s1_Group = []\<rparr>],
       v1_OnKubernetesEvent := [(demo_k1 ''a'')\<lparr>k1_FieldSelector := Some (dec_field_selector demo_selector)\<rparr>]\<rparr>),
     ce_Validate := \<lambda>obj ver. (schema_ok (LoadSchema ver) (JObj obj), [])\<rparr>"

lemma demo_schema_libs: "validator_sound (demo_schema_env crontab)" "decoder_v1 (demo_schema_env crontab)"
  by (simp_all add: validator_sound_def decoder_v1_def demo_schema_env_def decodes_v1_def decodes_kube_def demo_object_def
      demo_v1_def demo_k1_def dec_str_def)

lemma demo_schema_data:
  "ce_Unmarshal (demo_schema_env crontab) data = Inr (demo_object crontab)" "LoadConfigVersion (demo_object crontab) = Inr ''v1''"
  by (simp_all add: demo_schema_env_def demo_object_def LoadConfigVersion_def GetString_def VersionKey_def VersionValidator_def Schemas_def)

lemma demo_schema_loads:
  "map_sum id (\<lambda>(n, c). map kc_BindingName (cfg_OnKubernetesEvents c))
     (LoadAndValidate (demo_schema_env ''* * * * *'') 0 [] empty_HookConfig) = Inr [''a'']"
  "map_sum id (\<lambda>(n, c). 0 :: nat) (LoadAndValidate (demo_schema_env []) 0 [] empty_HookConfig) =
     Inl (ESchedule 0 [''crontab is invalid: empty''])"
  by code_simp+

theorem schema_covers_checks_witness:
  "\<exists>e. LoadAndValidate (demo_schema_env []) 0 [] empty_HookConfig = Inl e \<and> (\<forall>msg. e \<noteq> EOnStartup msg)"
proof -
  obtain e where e: "LoadAndValidate (demo_schema_env []) 0 [] empty_HookConfig = Inl e"
    using demo_schema_loads(2) by (cases "LoadAndValidate (demo_schema_env []) 0 [] empty_HookConfig") auto
  from schema_covers_checks [OF demo_schema_libs demo_schema_data this] e show ?thesis by blast
qed

theorem mode_is_never_set_witness:
  "\<exists>n' c'. LoadAndValidate (demo_schema_env ''* * * * *'') 0 [] empty_HookConfig = Inr (n', c') \<and>
     map (mc_Mode \<circ> kc_Monitor) (cfg_OnKubernetesEvents c') = [[]]"
proof -
  obtain n' c' where c: "LoadAndValidate (demo_schema_env ''* * * * *'') 0 [] empty_HookConfig = Inr (n', c')"
    "map kc_BindingName (cfg_OnKubernetesEvents c') = [''a'']"
    using demo_schema_loads(1) by (cases "LoadAndValidate (demo_schema_env ''* * * * *'') 0 [] empty_HookConfig") auto
  from mode_is_never_set [OF demo_schema_libs demo_schema_data c(1)] c show ?thesis
    by (cases "cfg_OnKubernetesEvents c'") auto
qed

end
