(* ===== verification/V0_Hooks.thy ===== *)
theory V0_Hooks
  imports Operator_Start
begin

text \<open>
  The way of a watch event to a hook with a configuration of version 0: conversion of the
  configuration, informer, manager, controller and run of the hook.
\<close>

lemma convert_kube_v0_drops_objects:
  assumes "convert_kube_v0 env n i cfg = Inr k"
  shows "\<not> mc_KeepFullObjectsInMemory (kc_Monitor k)"
  using assms
  by (auto simp: convert_kube_v0_def Let_def monitor_base_def empty_MonitorConfig_def WithMode_def WithEventTypes_def
      WithNameSelector_def WithNamespaceSelector_def WithLabelSelector_def split: sum.splits option.splits if_splits)

lemma fired_without_object:
  assumes "HandleWatchEvent env obj ty ei = Ret (evs, ei')" "ev \<in> set evs" "\<not> mc_KeepFullObjectsInMemory (ei_Monitor ei)"
  shows "\<exists>r. ke_WatchEvents ev = [ty] \<and> ke_Objects ev = [r] \<and> ofr_Object r = None"
proof -
  have running: "\<not> ei_stopped ei" using assms(1,2) by (auto simp: HandleWatchEvent_def)
  then obtain o1 where o1: "unwrap_object obj = Ret o1" using assms(1) by (auto simp: HandleWatchEvent_def)
  then obtain r where r: "informer_filter env (ei_Monitor ei) o1 = Inr r"
    using assms(1,2) running by (cases "informer_filter env (ei_Monitor ei) o1") (auto simp: HandleWatchEvent_def Let_def)
  obtain skip ei1 where u: "update_cache (ResourceId o1) ty r ei = (skip, ei1)" by fastforce
  have "ke_WatchEvents ev = [ty] \<and> ke_Objects ev = [r]"
    using assms(1,2) running o1 r u by (auto simp: HandleWatchEvent_def Let_def split: if_splits)
  with informer_filter_object [OF r] assms(3) show ?thesis by auto
qed

lemma v0_map_panics:
  "bc_BindingType bc = OnKubernetesEvent \<Longrightarrow> bc_Objects bc = r # rs \<Longrightarrow> ofr_Object r = None \<Longrightarrow>
   ConvertBindingContextList unmarshal ''v0'' [bc] = Panic"
  by (simp add: ConvertBindingContextList_def BindingContext_Map_def BindingContext_MapV0_def Let_def)

lemma UpdateSnapshots_single:
  "UpdateSnapshots ord mgr [bc] hc = Ret bcs \<Longrightarrow> \<exists>s. bcs = [bc\<lparr>bc_Snapshots := s\<rparr>]"
  by (cases "hc_KubernetesController hc") (auto simp: UpdateSnapshots_def intro: exI [of _ "bc_Snapshots bc"])

section \<open>Property\<close>

text \<open>
  C16. Every event of a Kubernetes binding of version 0 crashes the operator: the conversion leaves
  the full objects out of memory, the informer drops the object before it fires the event, and the
  map of version 0 dereferences the missing object when the hook is run.
\<close>

theorem v0_event_crashes:
  assumes conv: "convert_kube_v0 cenv n i cfg = Inr k"
    and watch: "ei_Monitor ei = kc_Monitor k" "HandleWatchEvent kenv obj ty ei = Ret (evs, ei')" "ev \<in> set evs"
    and out: "MakeKubeEvent ord m [ev] = Some out" and hook: "cfg_Version (h_Config h) = ''v0''"
  shows "Hook_Run henv ord mgr uid1 uid2 (ConvertKubeEventToBindingContext out (binding_link k)) h fs = Panic"
proof -
  obtain r where r: "ke_WatchEvents ev = [ty]" "ke_Objects ev = [r]" "ofr_Object r = None"
    using fired_without_object [OF watch(2,3)] convert_kube_v0_drops_objects [OF conv] watch(1) by auto
  let ?bc = "kube_bc out (binding_link k) ty"
  have o: "ke_Type out = TypeEvent" "ke_WatchEvents out = [ty]" "ke_Objects out = [r]"
    using out r by (auto simp: MakeKubeEvent_def)
  then have bcs: "ConvertKubeEventToBindingContext out (binding_link k) = [?bc]"
    by (simp add: ConvertKubeEventToBindingContext_def)
  have bc: "bc_BindingType (?bc\<lparr>bc_Snapshots := s\<rparr>) = OnKubernetesEvent" "bc_Objects (?bc\<lparr>bc_Snapshots := s\<rparr>) = [r]" for s
    using o(3) by (simp_all add: kube_bc_def)
  show ?thesis
  proof (cases "UpdateSnapshots ord mgr [?bc] (h_HookController h)")
    case (Ret bcs')
    then obtain s where "bcs' = [?bc\<lparr>bc_Snapshots := s\<rparr>]" using UpdateSnapshots_single by blast
    with Ret v0_map_panics [OF bc r(3)] hook bcs show ?thesis by (simp add: Hook_Run_def)
  qed (simp add: Hook_Run_def bcs)
qed

definition demo_k0 :: OnKubernetesEventConfigV0 where
  "demo_k0 = \<lparr>k0_Name = ''pods'', k0_EventTypes = [''add''], k0_Kind = ''Pod'', k0_Selector = None, k0_ObjectName = [],
     k0_NamespaceSelector = None, k0_JqFilter = [], k0_AllowFailure = False\<rparr>"

abbreviation demo_v0_pod :: watch_object where
  "demo_v0_pod \<equiv> WObj \<lparr>o_Namespace = ''n'', o_Kind = ''Pod'', o_Name = ''a'', o_Data = ''x''\<rparr>"

lemma demo_v0_watch:
  "(case convert_kube_v0 demo_config_env 0 0 demo_k0 of
      Inl _ \<Rightarrow> []
    | Inr k \<Rightarrow> (case HandleWatchEvent demo_env demo_v0_pod WatchEventAdded (NewResourceInformer (kc_Monitor k)) of
         Panic \<Rightarrow> [] | Ret (evs, _) \<Rightarrow> map ke_WatchEvents evs)) = [[WatchEventAdded]]"
  by code_simp

theorem v0_event_crashes_witness:
  "\<exists>k ei' ev out. convert_kube_v0 demo_config_env 0 0 demo_k0 = Inr k \<and>
     HandleWatchEvent demo_env demo_v0_pod WatchEventAdded (NewResourceInformer (kc_Monitor k)) = Ret ([ev], ei') \<and>
     MakeKubeEvent key_orders (NewMonitor (kc_Monitor k) []) [ev] = Some out \<and>
     Hook_Run demo_hook_env key_orders \<lparr>kem_Monitors = [], kem_ctx = []\<rparr> ''1'' ''2''
       (ConvertKubeEventToBindingContext out (binding_link k)) demo_v0_hook [] = Panic"
proof -
  obtain k where k: "convert_kube_v0 demo_config_env 0 0 demo_k0 = Inr k"
    using demo_v0_watch by (auto split: sum.splits)
  obtain evs ei' where w: "HandleWatchEvent demo_env demo_v0_pod WatchEventAdded (NewResourceInformer (kc_Monitor k)) = Ret (evs, ei')"
    "map ke_WatchEvents evs = [[WatchEventAdded]]"
    using demo_v0_watch k by (auto split: go.splits)
  from w(2) obtain ev where ev: "evs = [ev]" by auto
  obtain out where out: "MakeKubeEvent key_orders (NewMonitor (kc_Monitor k) []) [ev] = Some out"
    by (simp add: MakeKubeEvent_def)
  have "ei_Monitor (NewResourceInformer (kc_Monitor k)) = kc_Monitor k" "cfg_Version (h_Config demo_v0_hook) = ''v0''"
    by (simp_all add: NewResourceInformer_def demo_v0_hook_def)
  with v0_event_crashes [OF k _ w(1) _ out] k w(1) ev out show ?thesis
    by (intro exI [of _ k] exI [of _ ei'] exI [of _ ev] exI [of _ out]) simp
qed

end
