(* ===== verification/Fake_Cluster.thy ===== *)
theory Fake_Cluster
  imports Kube_Client
begin

text \<open>
  The lookup of the fake cluster (\<open>FindGvr\<close> of \<open>pkg/kube/fake/resources.go\<close>, \<open>RegisterCRD\<close> and
  \<open>FindGVR\<close> of \<open>cluster.go\<close>), with which the tests of hooks replace the discovery of a real cluster.
  The table of resources that the cluster starts with and the fake clients of client-go are left out.
\<close>

section \<open>Operations\<close>

definition EqualFold :: "string \<Rightarrow> string \<Rightarrow> bool" where
  "EqualFold s t \<longleftrightarrow> ToLower s = ToLower t"

fun find_kind_or_name :: "string \<Rightarrow> APIResource list \<Rightarrow> APIResource option" where
  "find_kind_or_name kindOrName [] = None"
| "find_kind_or_name kindOrName (r # rs) =
     (if EqualFold (ar_Kind r) kindOrName \<or> EqualFold (ar_Name r) kindOrName then Some r
      else find_kind_or_name kindOrName rs)"

fun FindGvr ::
    "(string \<Rightarrow> (string \<times> string) option) \<Rightarrow> APIResourceList list \<Rightarrow> string \<Rightarrow> string \<Rightarrow>
     (string \<times> string \<times> string) option" where
  "FindGvr parse [] apiVersion kindOrName = None"
| "FindGvr parse (rl # rls) apiVersion kindOrName =
     (if apiVersion \<noteq> [] \<and> arl_GroupVersion rl \<noteq> apiVersion then FindGvr parse rls apiVersion kindOrName
      else case find_kind_or_name kindOrName (arl_APIResources rl) of
          Some r \<Rightarrow>
            (let gv = (case parse (arl_GroupVersion rl) of None \<Rightarrow> ([], []) | Some gv \<Rightarrow> gv)
             in Some (fst gv, snd gv, ar_Name r))
        | None \<Rightarrow> FindGvr parse rls apiVersion kindOrName)"

definition FakeCluster_FindGVR ::
    "(string \<Rightarrow> (string \<times> string) option) \<Rightarrow> string \<Rightarrow> string \<Rightarrow> APIResourceList list \<Rightarrow>
     string + (string \<times> string \<times> string)" where
  "FakeCluster_FindGVR parse apiVersion kind resources =
     (case FindGvr parse resources apiVersion kind of
        None \<Rightarrow> Inl (''GVR for '' @ kind @ '' is not find'') | Some gvr \<Rightarrow> Inr gvr)"

definition crd_resource :: "string \<Rightarrow> string \<Rightarrow> string \<Rightarrow> bool \<Rightarrow> APIResource" where
  "crd_resource grp version kind namespaced =
     \<lparr>ar_Name = ToLower kind @ ''s'', ar_Kind = kind, ar_ShortNames = [],
      ar_Verbs = [''create'', ''delete'', ''deletecollection'', ''get'', ''list'', ''patch'', ''update'', ''watch''],
      ar_Group = grp, ar_Version = version, ar_Namespaced = namespaced\<rparr>"

fun add_crd :: "string \<Rightarrow> APIResource \<Rightarrow> APIResourceList list \<Rightarrow> APIResourceList list" where
  "add_crd gv r [] = [\<lparr>arl_GroupVersion = gv, arl_APIResources = [r]\<rparr>]"
| "add_crd gv r (rl # rls) =
     (if arl_GroupVersion rl = gv then rl\<lparr>arl_APIResources := arl_APIResources rl @ [r]\<rparr> # rls
      else rl # add_crd gv r rls)"

definition RegisterCRD :: "string \<Rightarrow> string \<Rightarrow> string \<Rightarrow> bool \<Rightarrow> APIResourceList list \<Rightarrow> APIResourceList list" where
  "RegisterCRD grp version kind namespaced resources =
     add_crd (grp @ ''/'' @ version) (crd_resource grp version kind namespaced) resources"

section \<open>Agreement with the client\<close>

text \<open>The discovery of a cluster that serves the given lists.\<close>

definition table_discovery ::
    "(string \<Rightarrow> (string \<times> string) option) \<Rightarrow> (string \<times> string \<Rightarrow> string) \<Rightarrow> APIResourceList list \<Rightarrow> discovery" where
  "table_discovery parse show_gv rls =
     \<lparr>d_ServerPreferredResources = (rls, None),
      d_ServerResourcesForGroupVersion = \<lambda>gv. (case find (\<lambda>rl. arl_GroupVersion rl = gv) rls of
          None \<Rightarrow> Inl ''GroupVersion not found'' | Some rl \<Rightarrow> Inr rl),
      d_ParseGroupVersion = parse, d_GroupVersionString = show_gv\<rparr>"

text \<open>
  \<open>plain rls kind\<close>: the kind is no short name, and a resource with this kind or name has verbs.
  \<open>one_list rls\<close>: two lists for one group version are the same.
\<close>

definition plain :: "APIResourceList list \<Rightarrow> string \<Rightarrow> bool" where
  "plain rls kind \<longleftrightarrow> (\<forall>rl\<in>set rls. \<forall>r\<in>set (arl_APIResources rl).
     (ToLower kind \<in> {ToLower (ar_Kind r), ToLower (ar_Name r)} \<longrightarrow> ar_Verbs r \<noteq> []) \<and>
     ToLower kind \<notin> ToLower ` set (ar_ShortNames r))"

definition one_list :: "APIResourceList list \<Rightarrow> bool" where
  "one_list rls \<longleftrightarrow> (\<forall>rl\<in>set rls. \<forall>rl'\<in>set rls. arl_GroupVersion rl = arl_GroupVersion rl' \<longrightarrow> rl = rl')"

lemma find_kind_or_name_plain:
  "(\<forall>r\<in>set rs. (ToLower kind \<in> {ToLower (ar_Kind r), ToLower (ar_Name r)} \<longrightarrow> ar_Verbs r \<noteq> []) \<and>
     ToLower kind \<notin> ToLower ` set (ar_ShortNames r)) \<Longrightarrow>
   find_kind_or_name kind rs = find_in_list kind rs"
  by (induction rs) (auto simp: EqualFold_def equalLowerCased_iff)

lemma FindGvr_preferred:
  "plain rls kind \<Longrightarrow>
   FindGvr parse rls [] kind = map_option (\<lambda>r. (ar_Group r, ar_Version r, ar_Name r)) (find_resource (table_discovery parse s all) kind rls)"
proof (induction rls)
  case (Cons rl rls)
  then have "find_kind_or_name kind (arl_APIResources rl) = find_in_list kind (arl_APIResources rl)"
    by (intro find_kind_or_name_plain) (auto simp: plain_def)
  with Cons show ?case by (auto simp: plain_def table_discovery_def Let_def split: option.splits)
qed simp

lemma FindGvr_absent:
  "v \<noteq> [] \<Longrightarrow> \<forall>rl\<in>set rls. arl_GroupVersion rl = v \<longrightarrow> find_kind_or_name kind (arl_APIResources rl) = None \<Longrightarrow>
   FindGvr parse rls v kind = None"
  by (induction rls) auto

lemma FindGvr_version:
  "v \<noteq> [] \<Longrightarrow> one_list rls \<Longrightarrow> plain rls kind \<Longrightarrow>
   FindGvr parse rls v kind =
     (case find (\<lambda>rl. arl_GroupVersion rl = v) rls of
        None \<Rightarrow> None
      | Some rl \<Rightarrow> map_option (\<lambda>r. (ar_Group r, ar_Version r, ar_Name r)) (find_resource (table_discovery parse s all) kind [rl]))"
proof (induction rls)
  case (Cons rl rls)
  then have "find_kind_or_name kind (arl_APIResources rl) = find_in_list kind (arl_APIResources rl)"
    by (intro find_kind_or_name_plain) (auto simp: plain_def)
  moreover have "FindGvr parse rls v kind = None"
    if "arl_GroupVersion rl = v" "find_kind_or_name kind (arl_APIResources rl) = None"
    using Cons.prems that by (intro FindGvr_absent) (auto simp: one_list_def)
  moreover have "one_list rls" "plain rls kind" using Cons.prems by (auto simp: one_list_def plain_def)
  ultimately show ?case
    using Cons by (auto simp: table_discovery_def Let_def split: option.splits)
qed simp

section \<open>Property\<close>

text \<open>
  On a table of resources without contradicting lists for a group version, the fake cluster finds
  a kind that is no short name and whose resources have verbs exactly when the real client does, and
  finds the same resource.
\<close>

theorem FindGvr_agrees:
  assumes tab: "one_list rls" "plain rls kind"
    and gv: "\<And>v p. parse v = Some p \<Longrightarrow> s p = v" and v: "v \<noteq> [] \<Longrightarrow> parse v \<noteq> None"
  shows "FindGvr parse rls v kind = (case GroupVersionResource (table_discovery parse s rls) v kind of
      Inl _ \<Rightarrow> None | Inr gvr \<Rightarrow> Some gvr)"
proof (cases "v = []")
  case True
  then show ?thesis using FindGvr_preferred [OF tab(2), of parse s rls]
    by (auto simp: GroupVersionResource_def client_APIResource_def client_APIResourceList_def table_discovery_def Let_def
        split: option.splits)
next
  case False
  then obtain p where p: "parse v = Some p" "s p = v" using v gv by blast
  let ?d = "table_discovery parse s rls"
  show ?thesis
  proof (cases "find (\<lambda>rl. arl_GroupVersion rl = v) rls")
    case None
    then show ?thesis using FindGvr_version [OF False tab, of parse] p False
      by (simp add: GroupVersionResource_def client_APIResource_def client_APIResourceList_def table_discovery_def)
  next
    case (Some rl)
    then have "client_APIResourceList ?d v = ([rl], None)"
      using p False by (simp add: client_APIResourceList_def table_discovery_def)
    then show ?thesis using FindGvr_version [OF False tab, of parse s rls] Some
      by (simp add: GroupVersionResource_def client_APIResource_def Let_def split: option.splits)
  qed
qed

theorem FindGvr_agrees_witness:
  "let rls = RegisterCRD ''g'' ''v2'' ''Foo'' True (RegisterCRD ''g'' ''v1'' ''Foo'' True []);
       parse = (\<lambda>v. if v \<in> {''g/v1'', ''g/v2''} then Some (''g'', drop 2 v) else None)
   in FindGvr parse rls ''g/v2'' ''foos'' = Some (''g'', ''v2'', ''foos'') \<and>
      GroupVersionResource (table_discovery parse (\<lambda>(g, v). g @ ''/'' @ v) rls) ''g/v2'' ''foos'' = Inr (''g'', ''v2'', ''foos'')"
proof -
  let ?rls = "RegisterCRD ''g'' ''v2'' ''Foo'' True (RegisterCRD ''g'' ''v1'' ''Foo'' True [])"
  let ?parse = "\<lambda>v. if v \<in> {''g/v1'', ''g/v2''} then Some (''g'', drop 2 v) else None"
  let ?s = "\<lambda>(g, v). g @ ''/'' @ v"
  have f: "FindGvr ?parse ?rls ''g/v2'' ''foos'' = Some (''g'', ''v2'', ''foos'')" by code_simp
  have "one_list ?rls" by code_simp
  moreover have "plain ?rls ''foos''" by (simp add: plain_def RegisterCRD_def crd_resource_def)
  moreover have "?parse v = Some p \<Longrightarrow> ?s p = v" for v p by (auto split: if_splits)
  ultimately have "Some (''g'', ''v2'', ''foos'') = (case GroupVersionResource (table_discovery ?parse ?s ?rls) ''g/v2'' ''foos'' of
      Inl _ \<Rightarrow> None | Inr gvr \<Rightarrow> Some gvr)"
    using FindGvr_agrees [of ?rls "''foos''" ?parse ?s "''g/v2''"] f by simp
  with f show ?thesis by (simp add: Let_def split: sum.splits)
qed

end
