(* ===== verification/Cluster_Resources.thy ===== *)
theory Cluster_Resources
  imports Fake_Cluster
begin

text \<open>
  The table \<open>ClusterResources\<close> of \<open>pkg/kube/fake/resources.go\<close>: the resources that the fake cluster
  serves. Each list of the literal is one definition, in the order of the file; \<open>api_resource\<close> builds
  one entry from the fields in the order in which the literal gives them. The properties say that the
  table is consistent and that the lookups of the fake cluster and of the real client agree on it.
\<close>

section \<open>The table\<close>

definition api_resource :: "string \<Rightarrow> string \<Rightarrow> string list \<Rightarrow> string \<Rightarrow> string \<Rightarrow> bool \<Rightarrow> APIResource" where
  "api_resource kind name verbs grp version namespaced =
     \<lparr>ar_Name = name, ar_Kind = kind, ar_ShortNames = [], ar_Verbs = verbs, ar_Group = grp, ar_Version = version,
      ar_Namespaced = namespaced\<rparr>"

definition res_v1 :: APIResourceList where
  "res_v1 = \<lparr>arl_GroupVersion = ''v1'', arl_APIResources =
      [api_resource ''Binding'' ''bindings'' [''create'']
         [] ''v1'' True,
       api_resource ''ComponentStatus'' ''componentstatuses'' [''get'', ''list'']
         [] ''v1'' False,
       api_resource ''ConfigMap'' ''configmaps'' [''create'', ''delete'', ''deletecollection'', ''get'', ''list'', ''patch'', ''update'', ''watch'']
         [] ''v1'' True,
       api_resource ''Endpoints'' ''endpoints'' [''create'', ''delete'', ''deletecollection'', ''get'', ''list'', ''patch'', ''update'', ''watch'']
         [] ''v1'' True,
       api_resource ''Event'' ''events'' [''create'', ''delete'', ''deletecollection'', ''get'', ''list'', ''patch'', ''update'', ''watch'']
         [] ''v1'' True,
       api_resource ''LimitRange'' ''limitranges'' [''create'', ''delete'', ''deletecollection'', ''get'', ''list'', ''patch'', ''update'', ''watch'']
         [] ''v1'' True,
       api_resource ''Namespace'' ''namespaces'' [''create'', ''delete'', ''get'', ''list'', ''patch'', ''update'', ''watch'']
         [] ''v1'' False,
       api_resource ''Node'' ''nodes'' [''create'', ''delete'', ''deletecollection'', ''get'', ''list'', ''patch'', ''update'', ''watch'']
         [] ''v1'' False,
       api_resource ''PersistentVolumeClaim'' ''persistentvolumeclaims'' [''create'', ''delete'', ''deletecollection'', ''get'', ''list'', ''patch'', ''update'', ''watch'']
         [] ''v1'' True,
       api_resource ''PersistentVolume'' ''persistentvolumes'' [''create'', ''delete'', ''deletecollection'', ''get'', ''list'', ''patch'', ''update'', ''watch'']
         [] ''v1'' False,
       api_resource ''Pod'' ''pods'' [''create'', ''delete'', ''deletecollection'', ''get'', ''list'', ''patch'', ''update'', ''watch'']
         [] ''v1'' True,
       api_resource ''PodTemplate'' ''podtemplates'' [''create'', ''delete'', ''deletecollection'', ''get'', ''list'', ''patch'', ''update'', ''watch'']
         [] ''v1'' True,
       api_resource ''ReplicationController'' ''replicationcontrollers'' [''create'', ''delete'', ''deletecollection'', ''get'', ''list'', ''patch'', ''update'', ''watch'']
         [] ''v1'' True,
       api_resource ''ResourceQuota'' ''resourcequotas'' [''create'', ''delete'', ''deletecollection'', ''get'', ''list'', ''patch'', ''update'', ''watch'']
         [] ''v1'' True,
       api_resource ''Secret'' ''secrets'' [''create'', ''delete'', ''deletecollection'', ''get'', ''list'', ''patch'', ''update'', ''watch'']
         [] ''v1'' True,
       api_resource ''ServiceAccount'' ''serviceaccounts'' [''create'', ''delete'', ''deletecollection'', ''get'', ''list'', ''patch'', ''update'', ''watch'']
         [] ''v1'' True,
       api_resource ''Service'' ''services'' [''create'', ''delete'', ''get'', ''list'', ''patch'', ''update'', ''watch'']
         [] ''v1'' True]\<rparr>"

definition res_apiregistration_v1 :: APIResourceList where
  "res_apiregistration_v1 = \<lparr>arl_GroupVersion = ''apiregistration.k8s.io/v1'', arl_APIResources =
      [api_resource ''APIService'' ''apiservices'' [''create'', ''delete'', ''deletecollection'', ''get'', ''list'', ''patch'', ''update'', ''watch'']
         ''apiregistration.k8s.io'' ''v1'' False]\<rparr>"

definition res_apiregistration_v1beta1 :: APIResourceList where
  "res_apiregistration_v1beta1 = \<lparr>arl_GroupVersion = ''apiregistration.k8s.io/v1beta1'', arl_APIResources =
      [api_resource ''APIService'' ''apiservices'' [''create'', ''delete'', ''deletecollection'', ''get'', ''list'', ''patch'', ''update'', ''watch'']
         ''apiregistration.k8s.io'' ''v1beta1'' False]\<rparr>"

definition res_extensions_v1beta1 :: APIResourceList where
  "res_extensions_v1beta1 = \<lparr>arl_GroupVersion = ''extensions/v1beta1'', arl_APIResources =
      [api_resource ''DaemonSet'' ''daemonsets'' [''create'', ''delete'', ''deletecollection'', ''get'', ''list'', ''patch'', ''update'', ''watch'']
         ''extensions'' ''v1beta1'' True,
       api_resource ''Deployment'' ''deployments'' [''create'', ''delete'', ''deletecollection'', ''get'', ''list'', ''patch'', ''update'', ''watch'']
         ''extensions'' ''v1beta1'' True,
       api_resource ''Ingress'' ''ingresses'' [''create'', ''delete'', ''deletecollection'', ''get'', ''list'', ''patch'', ''update'', ''watch'']
         ''extensions'' ''v1beta1'' True,
       api_resource ''NetworkPolicy'' ''networkpolicies'' [''create'', ''delete'', ''deletecollection'', ''get'', ''list'', ''patch'', ''update'', ''watch'']
         ''extensions'' ''v1beta1'' True,
       api_resource ''PodSecurityPolicy'' ''podsecuritypolicies'' [''create'', ''delete'', ''deletecollection'', ''get'', ''list'', ''patch'', ''update'', ''watch'']
         ''extensions'' ''v1beta1'' False,
       api_resource ''ReplicaSet'' ''replicasets'' [''create'', ''delete'', ''deletecollection'', ''get'', ''list'', ''patch'', ''update'', ''watch'']
         ''extensions'' ''v1beta1'' True,
       api_resource ''ReplicationControllerDummy'' ''replicationcontrollers'' []
         ''extensions'' ''v1beta1'' True]\<rparr>"

definition res_apiregistration_v1_again :: APIResourceList where
  "res_apiregistration_v1_again = \<lparr>arl_GroupVersion = ''apiregistration.k8s.io/v1'', arl_APIResources =
      [api_resource ''APIService'' ''apiservices'' [''create'', ''delete'', ''deletecollection'', ''get'', ''list'', ''patch'', ''update'', ''watch'']
         ''apiregistration.k8s.io'' ''v1'' False]\<rparr>"

definition res_apiregistration_v1beta1_again :: APIResourceList where
  "res_apiregistration_v1beta1_again = \<lparr>arl_GroupVersion = ''apiregistration.k8s.io/v1beta1'', arl_APIResources =
      [api_resource ''APIService'' ''apiservices'' [''create'', ''delete'', ''deletecollection'', ''get'', ''list'', ''patch'', ''update'', ''watch'']
         ''apiregistration.k8s.io'' ''v1beta1'' False]\<rparr>"

definition res_extensions_v1beta1_again :: APIResourceList where
  "res_extensions_v1beta1_again = \<lparr>arl_GroupVersion = ''extensions/v1beta1'', arl_APIResources =
      [api_resource ''DaemonSet'' ''daemonsets'' [''create'', ''delete'', ''deletecollection'', ''get'', ''list'', ''patch'', ''update'', ''watch'']
         ''extensions'' ''v1beta1'' True,
       api_resource ''Deployment'' ''deployments'' [''create'', ''delete'', ''deletecollection'', ''get'', ''list'', ''patch'', ''update'', ''watch'']
         ''extensions'' ''v1beta1'' True,
       api_resource ''Ingress'' ''ingresses'' [''create'', ''delete'', ''deletecollection'', ''get'', ''list'', ''patch'', ''update'', ''watch'']
         ''extensions'' ''v1beta1'' True,
       api_resource ''NetworkPolicy'' ''networkpolicies'' [''create'', ''delete'', ''deletecollection'', ''get'', ''list'', ''patch'', ''update'', ''watch'']
         ''extensions'' ''v1beta1'' True,
       api_resource ''PodSecurityPolicy'' ''podsecuritypolicies'' [''create'', ''delete'', ''deletecollection'', ''get'', ''list'', ''patch'', ''update'', ''watch'']
         ''extensions'' ''v1beta1'' False,
       api_resource ''ReplicaSet'' ''replicasets'' [''create'', ''delete'', ''deletecollection'', ''get'', ''list'', ''patch'', ''update'', ''watch'']
         ''extensions'' ''v1beta1'' True,
       api_resource ''ReplicationControllerDummy'' ''replicationcontrollers'' []
         ''extensions'' ''v1beta1'' True]\<rparr>"

definition res_apps_v1 :: APIResourceList where
  "res_apps_v1 = \<lparr>arl_GroupVersion = ''apps/v1'', arl_APIResources =
      [api_resource ''ControllerRevision'' ''controllerrevisions'' [''create'', ''delete'', ''deletecollection'', ''get'', ''list'', ''patch'', ''update'', ''watch'']
         ''apps'' ''v1'' True,
       api_resource ''DaemonSet'' ''daemonsets'' [''create'', ''delete'', ''deletecollection'', ''get'', ''list'', ''patch'', ''update'', ''watch'']
         ''apps'' ''v1'' True,
       api_resource ''Deployment'' ''deployments'' [''create'', ''delete'', ''deletecollection'', ''get'', ''list'', ''patch'', ''update'', ''watch'']
         ''apps'' ''v1'' True,
       api_resource ''ReplicaSet'' ''replicasets'' [''create'', ''delete'', ''deletecollection'', ''get'', ''list'', ''patch'', ''update'', ''watch'']
         ''apps'' ''v1'' True,
       api_resource ''StatefulSet'' ''statefulsets'' [''create'', ''delete'', ''deletecollection'', ''get'', ''list'', ''patch'', ''update'', ''watch'']
         ''apps'' ''v1'' True]\<rparr>"

definition res_apps_v1beta2 :: APIResourceList where
  "res_apps_v1beta2 = \<lparr>arl_GroupVersion = ''apps/v1beta2'', arl_APIResources =
      [api_resource ''ControllerRevision'' ''controllerrevisions'' [''create'', ''delete'', ''deletecollection'', ''get'', ''list'', ''patch'', ''update'', ''watch'']
         ''apps'' ''v1beta2'' True,
       api_resource ''DaemonSet'' ''daemonsets'' [''create'', ''delete'', ''deletecollection'', ''get'', ''list'', ''patch'', ''update'', ''watch'']
         ''apps'' ''v1beta2'' True,
       api_resource ''Deployment'' ''deployments'' [''create'', ''delete'', ''deletecollection'', ''get'', ''list'', ''patch'', ''update'', ''watch'']
         ''apps'' ''v1beta2'' True,
       api_resource ''ReplicaSet'' ''replicasets'' [''create'', ''delete'', ''deletecollection'', ''get'', ''list'', ''patch'', ''update'', ''watch'']
         ''apps'' ''v1beta2'' True,
       api_resource ''StatefulSet'' ''statefulsets'' [''create'', ''delete'', ''deletecollection'', ''get'', ''list'', ''patch'', ''update'', ''watch'']
         ''apps'' ''v1beta2'' True]\<rparr>"

definition res_apps_v1beta1 :: APIResourceList where
  "res_apps_v1beta1 = \<lparr>arl_GroupVersion = ''apps/v1beta1'', arl_APIResources =
      [api_resource ''ControllerRevision'' ''controllerrevisions'' [''create'', ''delete'', ''deletecollection'', ''get'', ''list'', ''patch'', ''update'', ''watch'']
         ''apps'' ''v1beta1'' True,
       api_resource ''Deployment'' ''deployments'' [''create'', ''delete'', ''deletecollection'', ''get'', ''list'', ''patch'', ''update'', ''watch'']
         ''apps'' ''v1beta1'' True,
       api_resource ''StatefulSet'' ''statefulsets'' [''create'', ''delete'', ''deletecollection'', ''get'', ''list'', ''patch'', ''update'', ''watch'']
         ''apps'' ''v1beta1'' True]\<rparr>"

definition res_events_v1beta1 :: APIResourceList where
  "res_events_v1beta1 = \<lparr>arl_GroupVersion = ''events.k8s.io/v1beta1'', arl_APIResources =
      [api_resource ''Event'' ''events'' [''create'', ''delete'', ''deletecollection'', ''get'', ''list'', ''patch'', ''update'', ''watch'']
         ''events.k8s.io'' ''v1beta1'' True]\<rparr>"

definition res_authentication_v1 :: APIResourceList where
  "res_authentication_v1 = \<lparr>arl_GroupVersion = ''authentication.k8s.io/v1'', arl_APIResources =
      [api_resource ''TokenReview'' ''tokenreviews'' [''create'']
         ''authentication.k8s.io'' ''v1'' False]\<rparr>"

definition res_authentication_v1beta1 :: APIResourceList where
  "res_authentication_v1beta1 = \<lparr>arl_GroupVersion = ''authentication.k8s.io/v1beta1'', arl_APIResources =
      [api_resource ''TokenReview'' ''tokenreviews'' [''create'']
         ''authentication.k8s.io'' ''v1beta1'' False]\<rparr>"

definition res_authorization_v1 :: APIResourceList where
  "res_authorization_v1 = \<lparr>arl_GroupVersion = ''authorization.k8s.io/v1'', arl_APIResources =
      [api_resource ''LocalSubjectAccessReview'' ''localsubjectaccessreviews'' [''create'']
         ''authorization.k8s.io'' ''v1'' True,
       api_resource ''SelfSubjectAccessReview'' ''selfsubjectaccessreviews'' [''create'']
         ''authorization.k8s.io'' ''v1'' False,
       api_resource ''SelfSubjectRulesReview'' ''selfsubjectrulesreviews'' [''create'']
         ''authorization.k8s.io'' ''v1'' False,
       api_resource ''SubjectAccessReview'' ''subjectaccessreviews'' [''create'']
         ''authorization.k8s.io'' ''v1'' False]\<rparr>"

definition res_authorization_v1beta1 :: APIResourceList where
  "res_authorization_v1beta1 = \<lparr>arl_GroupVersion = ''authorization.k8s.io/v1beta1'', arl_APIResources =
      [api_resource ''LocalSubjectAccessReview'' ''localsubjectaccessreviews'' [''create'']
         ''authorization.k8s.io'' ''v1beta1'' True,
       api_resource ''SelfSubjectAccessReview'' ''selfsubjectaccessreviews'' [''create'']
         ''authorization.k8s.io'' ''v1beta1'' False,
       api_resource ''SelfSubjectRulesReview'' ''selfsubjectrulesreviews'' [''create'']
         ''authorization.k8s.io'' ''v1beta1'' False,
       api_resource ''SubjectAccessReview'' ''subjectaccessreviews'' [''create'']
         ''authorization.k8s.io'' ''v1beta1'' False]\<rparr>"

definition res_autoscaling_v1 :: APIResourceList where
  "res_autoscaling_v1 = \<lparr>arl_GroupVersion = ''autoscaling/v1'', arl_APIResources =
      [api_resource ''HorizontalPodAutoscaler'' ''horizontalpodautoscalers'' [''create'', ''delete'', ''deletecollection'', ''get'', ''list'', ''patch'', ''update'', ''watch'']
         ''autoscaling'' ''v1'' True]\<rparr>"

definition res_autoscaling_v2beta1 :: APIResourceList where
  "res_autoscaling_v2beta1 = \<lparr>arl_GroupVersion = ''autoscaling/v2beta1'', arl_APIResources =
      [api_resource ''HorizontalPodAutoscaler'' ''horizontalpodautoscalers'' [''create'', ''delete'', ''deletecollection'', ''get'', ''list'', ''patch'', ''update'', ''watch'']
         ''autoscaling'' ''v2beta1'' True]\<rparr>"

definition res_autoscaling_v2beta2 :: APIResourceList where
  "res_autoscaling_v2beta2 = \<lparr>arl_GroupVersion = ''autoscaling/v2beta2'', arl_APIResources =
      [api_resource ''HorizontalPodAutoscaler'' ''horizontalpodautoscalers'' [''create'', ''delete'', ''deletecollection'', ''get'', ''list'', ''patch'', ''update'', ''watch'']
         ''autoscaling'' ''v2beta2'' True]\<rparr>"

definition res_batch_v1 :: APIResourceList where
  "res_batch_v1 = \<lparr>arl_GroupVersion = ''batch/v1'', arl_APIResources =
      [api_resource ''Job'' ''jobs'' [''create'', ''delete'', ''deletecollection'', ''get'', ''list'', ''patch'', ''update'', ''watch'']
         ''batch'' ''v1'' True]\<rparr>"

definition res_batch_v1beta1 :: APIResourceList where
  "res_batch_v1beta1 = \<lparr>arl_GroupVersion = ''batch/v1beta1'', arl_APIResources =
      [api_resource ''CronJob'' ''cronjobs'' [''create'', ''delete'', ''deletecollection'', ''get'', ''list'', ''patch'', ''update'', ''watch'']
         ''batch'' ''v1beta1'' True]\<rparr>"

definition res_certificates_v1beta1 :: APIResourceList where
  "res_certificates_v1beta1 = \<lparr>arl_GroupVersion = ''certificates.k8s.io/v1beta1'', arl_APIResources =
      [api_resource ''CertificateSigningRequest'' ''certificatesigningrequests'' [''create'', ''delete'', ''deletecollection'', ''get'', ''list'', ''patch'', ''update'', ''watch'']
         ''certificates.k8s.io'' ''v1beta1'' False]\<rparr>"

definition res_networking_v1 :: APIResourceList where
  "res_networking_v1 = \<lparr>arl_GroupVersion = ''networking.k8s.io/v1'', arl_APIResources =
      [api_resource ''NetworkPolicy'' ''networkpolicies'' [''create'', ''delete'', ''deletecollection'', ''get'', ''list'', ''patch'', ''update'', ''watch'']
         ''networking.k8s.io'' ''v1'' True]\<rparr>"

definition res_networking_v1beta1 :: APIResourceList where
  "res_networking_v1beta1 = \<lparr>arl_GroupVersion = ''networking.k8s.io/v1beta1'', arl_APIResources =
      [api_resource ''Ingress'' ''ingresses'' [''create'', ''delete'', ''deletecollection'', ''get'', ''list'', ''patch'', ''update'', ''watch'']
         ''networking.k8s.io'' ''v1beta1'' True]\<rparr>"

definition res_policy_v1beta1 :: APIResourceList where
  "res_policy_v1beta1 = \<lparr>arl_GroupVersion = ''policy/v1beta1'', arl_APIResources =
      [api_resource ''PodDisruptionBudget'' ''poddisruptionbudgets'' [''create'', ''delete'', ''deletecollection'', ''get'', ''list'', ''patch'', ''update'', ''watch'']
         ''policy'' ''v1beta1'' True,
       api_resource ''PodSecurityPolicy'' ''podsecuritypolicies'' [''create'', ''delete'', ''deletecollection'', ''get'', ''list'', ''patch'', ''update'', ''watch'']
         ''policy'' ''v1beta1'' False]\<rparr>"

definition res_rbac_authorization_v1 :: APIResourceList where
  "res_rbac_authorization_v1 = \<lparr>arl_GroupVersion = ''rbac.authorization.k8s.io/v1'', arl_APIResources =
      [api_resource ''ClusterRoleBinding'' ''clusterrolebindings'' [''create'', ''delete'', ''deletecollection'', ''get'', ''list'', ''patch'', ''update'', ''watch'']
         ''rbac.authorization.k8s.io'' ''v1'' False,
       api_resource ''ClusterRole'' ''clusterroles'' [''create'', ''delete'', ''deletecollection'', ''get'', ''list'', ''patch'', ''update'', ''watch'']
         ''rbac.authorization.k8s.io'' ''v1'' False,
       api_resource ''RoleBinding'' ''rolebindings'' [''create'', ''delete'', ''deletecollection'', ''get'', ''list'', ''patch'', ''update'', ''watch'']
         ''rbac.authorization.k8s.io'' ''v1'' True,
       api_resource ''Role'' ''roles'' [''create'', ''delete'', ''deletecollection'', ''get'', ''list'', ''patch'', ''update'', ''watch'']
         ''rbac.authorization.k8s.io'' ''v1'' True]\<rparr>"

definition res_rbac_authorization_v1beta1 :: APIResourceList where
  "res_rbac_authorization_v1beta1 = \<lparr>arl_GroupVersion = ''rbac.authorization.k8s.io/v1beta1'', arl_APIResources =
      [api_resource ''ClusterRoleBinding'' ''clusterrolebindings'' [''create'', ''delete'', ''deletecollection'', ''get'', ''list'', ''patch'', ''update'', ''watch'']
         ''rbac.authorization.k8s.io'' ''v1beta1'' False,
       api_resource ''ClusterRole'' ''clusterroles'' [''create'', ''delete'', ''deletecollection'', ''get'', ''list'', ''patch'', ''update'', ''watch'']
         ''rbac.authorization.k8s.io'' ''v1beta1'' False,
       api_resource ''RoleBinding'' ''rolebindings'' [''create'', ''delete'', ''deletecollection'', ''get'', ''list'', ''patch'', ''update'', ''watch'']
         ''rbac.authorization.k8s.io'' ''v1beta1'' True,
       api_resource ''Role'' ''roles'' [''create'', ''delete'', ''deletecollection'', ''get'', ''list'', ''patch'', ''update'', ''watch'']
         ''rbac.authorization.k8s.io'' ''v1beta1'' True]\<rparr>"

definition res_storage_v1 :: APIResourceList where
  "res_storage_v1 = \<lparr>arl_GroupVersion = ''storage.k8s.io/v1'', arl_APIResources =
      [api_resource ''StorageClass'' ''storageclasses'' [''create'', ''delete'', ''deletecollection'', ''get'', ''list'', ''patch'', ''update'', ''watch'']
         ''storage.k8s.io'' ''v1'' False,
       api_resource ''VolumeAttachment'' ''volumeattachments'' [''create'', ''delete'', ''deletecollection'', ''get'', ''list'', ''patch'', ''update'', ''watch'']
         ''storage.k8s.io'' ''v1'' False]\<rparr>"

definition res_storage_v1beta1 :: APIResourceList where
  "res_storage_v1beta1 = \<lparr>arl_GroupVersion = ''storage.k8s.io/v1beta1'', arl_APIResources =
      [api_resource ''CSIDriver'' ''csidrivers'' [''create'', ''delete'', ''deletecollection'', ''get'', ''list'', ''patch'', ''update'', ''watch'']
         ''storage.k8s.io'' ''v1beta1'' False,
       api_resource ''CSINode'' ''csinodes'' [''create'', ''delete'', ''deletecollection'', ''get'', ''list'', ''patch'', ''update'', ''watch'']
         ''storage.k8s.io'' ''v1beta1'' False,
       api_resource ''StorageClass'' ''storageclasses'' [''create'', ''delete'', ''deletecollection'', ''get'', ''list'', ''patch'', ''update'', ''watch'']
         ''storage.k8s.io'' ''v1beta1'' False,
       api_resource ''VolumeAttachment'' ''volumeattachments'' [''create'', ''delete'', ''deletecollection'', ''get'', ''list'', ''patch'', ''update'', ''watch'']
         ''storage.k8s.io'' ''v1beta1'' False]\<rparr>"

definition res_admissionregistration_v1beta1 :: APIResourceList where
  "res_admissionregistration_v1beta1 = \<lparr>arl_GroupVersion = ''admissionregistration.k8s.io/v1beta1'', arl_APIResources =
      [api_resource ''MutatingWebhookConfiguration'' ''mutatingwebhookconfigurations'' [''create'', ''delete'', ''deletecollection'', ''get'', ''list'', ''patch'', ''update'', ''watch'']
         ''admissionregistration.k8s.io'' ''v1beta1'' False,
       api_resource ''ValidatingWebhookConfiguration'' ''validatingwebhookconfigurations'' [''create'', ''delete'', ''deletecollection'', ''get'', ''list'', ''patch'', ''update'', ''watch'']
         ''admissionregistration.k8s.io'' ''v1beta1'' False]\<rparr>"

definition res_apiextensions_v1beta1 :: APIResourceList where
  "res_apiextensions_v1beta1 = \<lparr>arl_GroupVersion = ''apiextensions.k8s.io/v1beta1'', arl_APIResources =
      [api_resource ''CustomResourceDefinition'' ''customresourcedefinitions'' [''create'', ''delete'', ''deletecollection'', ''get'', ''list'', ''patch'', ''update'', ''watch'']
         ''apiextensions.k8s.io'' ''v1beta1'' False]\<rparr>"

definition res_scheduling_v1 :: APIResourceList where
  "res_scheduling_v1 = \<lparr>arl_GroupVersion = ''scheduling.k8s.io/v1'', arl_APIResources =
      [api_resource ''PriorityClass'' ''priorityclasses'' [''create'', ''delete'', ''deletecollection'', ''get'', ''list'', ''patch'', ''update'', ''watch'']
         ''scheduling.k8s.io'' ''v1'' False]\<rparr>"

definition res_scheduling_v1beta1 :: APIResourceList where
  "res_scheduling_v1beta1 = \<lparr>arl_GroupVersion = ''scheduling.k8s.io/v1beta1'', arl_APIResources =
      [api_resource ''PriorityClass'' ''priorityclasses'' [''create'', ''delete'', ''deletecollection'', ''get'', ''list'', ''patch'', ''update'', ''watch'']
         ''scheduling.k8s.io'' ''v1beta1'' False]\<rparr>"

definition res_coordination_v1 :: APIResourceList where
  "res_coordination_v1 = \<lparr>arl_GroupVersion = ''coordination.k8s.io/v1'', arl_APIResources =
      [api_resource ''Lease'' ''leases'' [''create'', ''delete'', ''deletecollection'', ''get'', ''list'', ''patch'', ''update'', ''watch'']
         ''coordination.k8s.io'' ''v1'' True]\<rparr>"

definition res_coordination_v1beta1 :: APIResourceList where
  "res_coordination_v1beta1 = \<lparr>arl_GroupVersion = ''coordination.k8s.io/v1beta1'', arl_APIResources =
      [api_resource ''Lease'' ''leases'' [''create'', ''delete'', ''deletecollection'', ''get'', ''list'', ''patch'', ''update'', ''watch'']
         ''coordination.k8s.io'' ''v1beta1'' True]\<rparr>"

definition res_node_v1beta1 :: APIResourceList where
  "res_node_v1beta1 = \<lparr>arl_GroupVersion = ''node.k8s.io/v1beta1'', arl_APIResources =
      [api_resource ''RuntimeClass'' ''runtimeclasses'' [''create'', ''delete'', ''deletecollection'', ''get'', ''list'', ''patch'', ''update'', ''watch'']
         ''node.k8s.io'' ''v1beta1'' False]\<rparr>"

definition res_snapshot_storage_v1alpha1 :: APIResourceList where
  "res_snapshot_storage_v1alpha1 = \<lparr>arl_GroupVersion = ''snapshot.storage.k8s.io/v1alpha1'', arl_APIResources =
      [api_resource ''VolumeSnapshotClass'' ''volumesnapshotclasses'' [''delete'', ''deletecollection'', ''get'', ''list'', ''patch'', ''create'', ''update'', ''watch'']
         ''snapshot.storage.k8s.io'' ''v1alpha1'' False,
       api_resource ''VolumeSnapshotContent'' ''volumesnapshotcontents'' [''delete'', ''deletecollection'', ''get'', ''list'', ''patch'', ''create'', ''update'', ''watch'']
         ''snapshot.storage.k8s.io'' ''v1alpha1'' False,
       api_resource ''VolumeSnapshot'' ''volumesnapshots'' [''delete'', ''deletecollection'', ''get'', ''list'', ''patch'', ''create'', ''update'', ''watch'']
         ''snapshot.storage.k8s.io'' ''v1alpha1'' True]\<rparr>"

definition res_autoscaling_v1beta2 :: APIResourceList where
  "res_autoscaling_v1beta2 = \<lparr>arl_GroupVersion = ''autoscaling.k8s.io/v1beta2'', arl_APIResources =
      [api_resource ''VerticalPodAutoscaler'' ''verticalpodautoscalers'' [''delete'', ''deletecollection'', ''get'', ''list'', ''patch'', ''create'', ''update'', ''watch'']
         ''autoscaling.k8s.io'' ''v1beta2'' True,
       api_resource ''VerticalPodAutoscalerCheckpoint'' ''verticalpodautoscalercheckpoints'' [''delete'', ''deletecollection'', ''get'', ''list'', ''patch'', ''create'', ''update'', ''watch'']
         ''autoscaling.k8s.io'' ''v1beta2'' True]\<rparr>"

definition res_autoscaling_v1beta1 :: APIResourceList where
  "res_autoscaling_v1beta1 = \<lparr>arl_GroupVersion = ''autoscaling.k8s.io/v1beta1'', arl_APIResources =
      [api_resource ''VerticalPodAutoscaler'' ''verticalpodautoscalers'' [''delete'', ''deletecollection'', ''get'', ''list'', ''patch'', ''create'', ''update'', ''watch'']
         ''autoscaling.k8s.io'' ''v1beta1'' True,
       api_resource ''VerticalPodAutoscalerCheckpoint'' ''verticalpodautoscalercheckpoints'' [''delete'', ''deletecollection'', ''get'', ''list'', ''patch'', ''create'', ''update'', ''watch'']
         ''autoscaling.k8s.io'' ''v1beta1'' True]\<rparr>"

definition res_metrics_v1beta1 :: APIResourceList where
  "res_metrics_v1beta1 = \<lparr>arl_GroupVersion = ''metrics.k8s.io/v1beta1'', arl_APIResources =
      [api_resource ''NodeMetrics'' ''nodes'' [''get'', ''list'']
         ''metrics.k8s.io'' ''v1beta1'' False,
       api_resource ''PodMetrics'' ''pods'' [''get'', ''list'']
         ''metrics.k8s.io'' ''v1beta1'' True]\<rparr>"

definition ClusterResources :: "APIResourceList list" where
  "ClusterResources =
     [res_v1, res_apiregistration_v1, res_apiregistration_v1beta1, res_extensions_v1beta1,
      res_apiregistration_v1_again, res_apiregistration_v1beta1_again, res_extensions_v1beta1_again, res_apps_v1,
      res_apps_v1beta2, res_apps_v1beta1, res_events_v1beta1, res_authentication_v1,
      res_authentication_v1beta1, res_authorization_v1, res_authorization_v1beta1, res_autoscaling_v1,
      res_autoscaling_v2beta1, res_autoscaling_v2beta2, res_batch_v1, res_batch_v1beta1,
      res_certificates_v1beta1, res_networking_v1, res_networking_v1beta1, res_policy_v1beta1,
      res_rbac_authorization_v1, res_rbac_authorization_v1beta1, res_storage_v1, res_storage_v1beta1,
      res_admissionregistration_v1beta1, res_apiextensions_v1beta1, res_scheduling_v1, res_scheduling_v1beta1,
      res_coordination_v1, res_coordination_v1beta1, res_node_v1beta1, res_snapshot_storage_v1alpha1,
      res_autoscaling_v1beta2, res_autoscaling_v1beta1, res_metrics_v1beta1]"

section \<open>The table is consistent\<close>

definition gv_string :: "string \<Rightarrow> string \<Rightarrow> string" where
  "gv_string grp version = (if grp = [] then version else grp @ ''/'' @ version)"

definition own_list :: "APIResourceList \<Rightarrow> APIResource \<Rightarrow> bool" where
  "own_list rl r \<longleftrightarrow> arl_GroupVersion rl = gv_string (ar_Group r) (ar_Version r) \<and> ar_Version r \<noteq> [] \<and>
     CHR ''/'' \<notin> set (ar_Group r) \<union> set (ar_Version r) \<and>
     find_kind_or_name (ar_Kind r) (arl_APIResources rl) = Some r"

text \<open>Lower case by the bits of a character: evaluating the table folds the case of thousands of them.\<close>

lemma char_lower_code [code]:
  "char_lower (Char b0 b1 b2 b3 b4 b5 b6 b7) =
     Char b0 b1 b2 b3 b4
       (b5 \<or> b6 \<and> \<not> b7 \<and> (b0 \<or> b1 \<or> b2 \<or> b3 \<or> b4) \<and> \<not> (b4 \<and> b3 \<and> (b2 \<or> b1 \<and> b0))) b6 b7"
  by (cases b0; cases b1; cases b2; cases b3; cases b4; cases b5; cases b6; cases b7) (simp_all add: char_lower_def char_of_def bit_0)

lemma own_lists: "\<forall>rl\<in>set ClusterResources. \<forall>r\<in>set (arl_APIResources rl). own_list rl r"
  by code_simp

text \<open>Three lists occur twice.\<close>

lemma repeated_lists:
  "res_apiregistration_v1_again = res_apiregistration_v1"
  "res_apiregistration_v1beta1_again = res_apiregistration_v1beta1"
  "res_extensions_v1beta1_again = res_extensions_v1beta1"
  by (simp_all add: res_apiregistration_v1_again_def res_apiregistration_v1_def
    res_apiregistration_v1beta1_again_def res_apiregistration_v1beta1_def
    res_extensions_v1beta1_again_def res_extensions_v1beta1_def)

lemma one_list_distinct: "distinct (map arl_GroupVersion ds) \<Longrightarrow> set rls = set ds \<Longrightarrow> one_list rls"
  by (auto simp: one_list_def distinct_map inj_on_def)

lemma one_list_table: "one_list ClusterResources"
proof (rule one_list_distinct)
  let ?ds = "[res_v1, res_apiregistration_v1, res_apiregistration_v1beta1, res_extensions_v1beta1,
    res_apps_v1, res_apps_v1beta2, res_apps_v1beta1, res_events_v1beta1,
    res_authentication_v1, res_authentication_v1beta1, res_authorization_v1, res_authorization_v1beta1,
    res_autoscaling_v1, res_autoscaling_v2beta1, res_autoscaling_v2beta2, res_batch_v1,
    res_batch_v1beta1, res_certificates_v1beta1, res_networking_v1, res_networking_v1beta1,
    res_policy_v1beta1, res_rbac_authorization_v1, res_rbac_authorization_v1beta1, res_storage_v1,
    res_storage_v1beta1, res_admissionregistration_v1beta1, res_apiextensions_v1beta1, res_scheduling_v1,
    res_scheduling_v1beta1, res_coordination_v1, res_coordination_v1beta1, res_node_v1beta1,
    res_snapshot_storage_v1alpha1, res_autoscaling_v1beta2, res_autoscaling_v1beta1, res_metrics_v1beta1]"
  show "distinct (map arl_GroupVersion ?ds)" by code_simp
  show "set ClusterResources = set ?ds" by (auto simp: ClusterResources_def repeated_lists)
qed

lemma FindGvr_listed:
  assumes "rl \<in> set rls" "one_list rls" "arl_GroupVersion rl \<noteq> []"
    "find_kind_or_name kind (arl_APIResources rl) = Some r" "parse (arl_GroupVersion rl) = Some gv"
  shows "FindGvr parse rls (arl_GroupVersion rl) kind = Some (fst gv, snd gv, ar_Name r)"
  using assms
proof (induction rls)
  case (Cons rl' rls)
  show ?case
  proof (cases "arl_GroupVersion rl' = arl_GroupVersion rl")
    case True
    then have "rl' = rl" using Cons.prems(1,2) by (auto simp: one_list_def)
    then show ?thesis using Cons.prems by simp
  next
    case False
    then show ?thesis using Cons by (auto simp: one_list_def)
  qed
qed simp

section \<open>Properties\<close>

text \<open>
  Every resource of the table is listed under its own group and version, and the fake cluster
  finds each of them by its kind and the group version of its list, with the group, the version and
  the name that its entry has, although the table repeats three of its lists.
\<close>

theorem ClusterResources_finds:
  assumes parse: "\<And>g v. v \<noteq> [] \<Longrightarrow> CHR ''/'' \<notin> set g \<union> set v \<Longrightarrow> parse (gv_string g v) = Some (g, v)"
    and r: "rl \<in> set ClusterResources" "r \<in> set (arl_APIResources rl)"
  shows "arl_GroupVersion rl = gv_string (ar_Group r) (ar_Version r) \<and>
    FindGvr parse ClusterResources (arl_GroupVersion rl) (ar_Kind r) = Some (ar_Group r, ar_Version r, ar_Name r)"
proof -
  have own: "own_list rl r" using own_lists r by blast
  then have "parse (arl_GroupVersion rl) = Some (ar_Group r, ar_Version r)"
    using parse by (simp add: own_list_def)
  moreover have "arl_GroupVersion rl \<noteq> []" using own by (simp add: own_list_def gv_string_def)
  ultimately show ?thesis
    using FindGvr_listed [OF r(1) one_list_table] own by (simp add: own_list_def)
qed

definition split_gv :: "string \<Rightarrow> (string \<times> string) option" where
  "split_gv s = (let g = takeWhile (\<lambda>c. c \<noteq> CHR ''/'') s in if g = s then Some ([], s) else Some (g, drop (length g + 1) s))"

lemma split_gv: "v \<noteq> [] \<Longrightarrow> CHR ''/'' \<notin> set g \<union> set v \<Longrightarrow> split_gv (gv_string g v) = Some (g, v)"
  by (auto simp: split_gv_def gv_string_def Let_def takeWhile_append takeWhile_eq_all_conv)

theorem ClusterResources_finds_witness:
  "FindGvr split_gv ClusterResources ''apps/v1'' ''Deployment'' = Some (''apps'', ''v1'', ''deployments'')"
proof -
  have "res_apps_v1 \<in> set ClusterResources" by (simp add: ClusterResources_def)
  moreover have "arl_APIResources res_apps_v1 ! 2 \<in> set (arl_APIResources res_apps_v1)"
    by (simp add: res_apps_v1_def)
  ultimately show ?thesis
    using ClusterResources_finds [of split_gv res_apps_v1 "arl_APIResources res_apps_v1 ! 2", OF split_gv]
    by (simp add: res_apps_v1_def api_resource_def gv_string_def)
qed

end
