(* ===== verification/Fake_Objects.thy ===== *)
theory Fake_Objects
  imports Cluster_Resources Manifests
begin

text \<open>
  The operations of \<open>pkg/kube/fake/cluster.go\<close> on objects. The fake dynamic client and the fake core
  client that keep the objects belong to client-go: they are the record \<open>dynamic\<close> of operations on a
  state \<open>'cl\<close> of their own, of which \<open>tracker\<close> states what they document. Parsing and printing a group
  version belong to apimachinery and are arguments too.
\<close>

section \<open>The cluster\<close>

type_synonym gvr = "string \<times> string \<times> string"
type_synonym object_key = "gvr \<times> string \<times> string"

record 'cl dynamic =
  dyn_Create :: "gvr \<Rightarrow> string \<Rightarrow> Manifest \<Rightarrow> 'cl \<Rightarrow> string + 'cl"
  dyn_Update :: "gvr \<Rightarrow> string \<Rightarrow> Manifest \<Rightarrow> 'cl \<Rightarrow> string + 'cl"
  dyn_Delete :: "gvr \<Rightarrow> string \<Rightarrow> string \<Rightarrow> 'cl \<Rightarrow> string + 'cl"
  dyn_CreateNs :: "string \<Rightarrow> 'cl \<Rightarrow> string + 'cl"
  dyn_Parse :: "string \<Rightarrow> (string \<times> string) option"
  dyn_GVString :: "string \<times> string \<Rightarrow> string"

record 'cl FakeCluster =
  fc_Resources :: "APIResourceList list"
  fc_Objects :: 'cl

definition NewFakeCluster :: "'cl \<Rightarrow> 'cl FakeCluster" where
  "NewFakeCluster objects = \<lparr>fc_Resources = ClusterResources, fc_Objects = objects\<rparr>"

definition CreateNs :: "'cl dynamic \<Rightarrow> string \<Rightarrow> 'cl FakeCluster \<Rightarrow> 'cl FakeCluster" where
  "CreateNs dyn ns fc =
     (case dyn_CreateNs dyn ns (fc_Objects fc) of Inl _ \<Rightarrow> fc | Inr cl \<Rightarrow> fc\<lparr>fc_Objects := cl\<rparr>)"

definition FindGVR :: "'cl dynamic \<Rightarrow> string \<Rightarrow> string \<Rightarrow> 'cl FakeCluster \<Rightarrow> string + gvr" where
  "FindGVR dyn apiVersion kind fc = FakeCluster_FindGVR (dyn_Parse dyn) apiVersion kind (fc_Resources fc)"

definition MustFindGVR :: "'cl dynamic \<Rightarrow> string \<Rightarrow> string \<Rightarrow> 'cl FakeCluster \<Rightarrow> gvr option" where
  "MustFindGVR dyn apiVersion kind fc = FindGvr (dyn_Parse dyn) (fc_Resources fc) apiVersion kind"

definition CreateSimpleNamespaced ::
    "'cl dynamic \<Rightarrow> string \<Rightarrow> string \<Rightarrow> string \<Rightarrow> 'cl FakeCluster \<Rightarrow> 'cl FakeCluster go" where
  "CreateSimpleNamespaced dyn ns kind name fc =
     (let fc = CreateNs dyn ns fc in
      case MustFindGVR dyn [] kind fc of
        None \<Rightarrow> Panic
      | Some gvr \<Rightarrow>
          (let obj = NewManifest (dyn_GVString dyn (fst gvr, fst (snd gvr))) kind name in
           case dyn_Create dyn gvr ns obj (fc_Objects fc) of
             Inl err \<Rightarrow> Panic
           | Inr cl \<Rightarrow> Ret (fc\<lparr>fc_Objects := cl\<rparr>)))"

definition DeleteSimpleNamespaced ::
    "'cl dynamic \<Rightarrow> string \<Rightarrow> string \<Rightarrow> string \<Rightarrow> 'cl FakeCluster \<Rightarrow> 'cl FakeCluster go" where
  "DeleteSimpleNamespaced dyn ns kind name fc =
     (case MustFindGVR dyn [] kind fc of
        None \<Rightarrow> Panic
      | Some gvr \<Rightarrow>
          (case dyn_Delete dyn gvr ns name (fc_Objects fc) of
             Inl err \<Rightarrow> Panic
           | Inr cl \<Rightarrow> Ret (fc\<lparr>fc_Objects := cl\<rparr>)))"

definition FakeCluster_Create :: "'cl dynamic \<Rightarrow> string \<Rightarrow> Manifest \<Rightarrow> 'cl FakeCluster \<Rightarrow> string + 'cl FakeCluster" where
  "FakeCluster_Create dyn ns m fc =
     (case FindGVR dyn (Manifest_ApiVersion m) (Manifest_Kind m) fc of
        Inl err \<Rightarrow> Inl err
      | Inr gvr \<Rightarrow>
          (case dyn_Create dyn gvr (Manifest_Namespace ns m) m (fc_Objects fc) of
             Inl err \<Rightarrow> Inl (''creating object failed: '' @ err)
           | Inr cl \<Rightarrow> Inr (fc\<lparr>fc_Objects := cl\<rparr>)))"

definition FakeCluster_Delete :: "'cl dynamic \<Rightarrow> string \<Rightarrow> Manifest \<Rightarrow> 'cl FakeCluster \<Rightarrow> string + 'cl FakeCluster" where
  "FakeCluster_Delete dyn ns m fc =
     (case FindGVR dyn (Manifest_ApiVersion m) (Manifest_Kind m) fc of
        Inl err \<Rightarrow> Inl err
      | Inr gvr \<Rightarrow>
          (case dyn_Delete dyn gvr (Manifest_Namespace ns m) (Manifest_Name m) (fc_Objects fc) of
             Inl err \<Rightarrow> Inl (''deleting object failed: '' @ err)
           | Inr cl \<Rightarrow> Inr (fc\<lparr>fc_Objects := cl\<rparr>)))"

definition FakeCluster_Update :: "'cl dynamic \<Rightarrow> string \<Rightarrow> Manifest \<Rightarrow> 'cl FakeCluster \<Rightarrow> string + 'cl FakeCluster" where
  "FakeCluster_Update dyn ns m fc =
     (case FindGVR dyn (Manifest_ApiVersion m) (Manifest_Kind m) fc of
        Inl err \<Rightarrow> Inl err
      | Inr gvr \<Rightarrow>
          (case dyn_Update dyn gvr (Manifest_Namespace ns m) m (fc_Objects fc) of
             Inl err \<Rightarrow> Inl (''updating object failed: '' @ err)
           | Inr cl \<Rightarrow> Inr (fc\<lparr>fc_Objects := cl\<rparr>)))"

section \<open>What the tracker of client-go documents\<close>

text \<open>
  \<open>tracker dyn objs\<close>: with \<open>objs cl\<close> the keys of the objects that are kept, creating an object that
  exists fails, updating or deleting one that does not exist fails, and everything else succeeds.
\<close>

definition tracker :: "'cl dynamic \<Rightarrow> ('cl \<Rightarrow> object_key set) \<Rightarrow> bool" where
  "tracker dyn objs \<longleftrightarrow>
     (\<forall>g ns m cl. case dyn_Create dyn g ns m cl of
        Inl _ \<Rightarrow> (g, ns, Manifest_Name m) \<in> objs cl
      | Inr cl' \<Rightarrow> (g, ns, Manifest_Name m) \<notin> objs cl \<and> objs cl' = insert (g, ns, Manifest_Name m) (objs cl)) \<and>
     (\<forall>g ns m cl. case dyn_Update dyn g ns m cl of
        Inl _ \<Rightarrow> (g, ns, Manifest_Name m) \<notin> objs cl
      | Inr cl' \<Rightarrow> (g, ns, Manifest_Name m) \<in> objs cl \<and> objs cl' = objs cl) \<and>
     (\<forall>g ns name cl. case dyn_Delete dyn g ns name cl of
        Inl _ \<Rightarrow> (g, ns, name) \<notin> objs cl
      | Inr cl' \<Rightarrow> (g, ns, name) \<in> objs cl \<and> objs cl' = objs cl - {(g, ns, name)})"

text \<open>The key of the object that a manifest describes, if its kind is known.\<close>

definition manifest_key :: "'cl dynamic \<Rightarrow> 'cl FakeCluster \<Rightarrow> Manifest \<Rightarrow> object_key option" where
  "manifest_key dyn fc m =
     map_option (\<lambda>g. (g, Manifest_Namespace ''default'' m, Manifest_Name m))
       (FindGvr (dyn_Parse dyn) (fc_Resources fc) (Manifest_ApiVersion m) (Manifest_Kind m))"

lemma manifest_key_cong [simp]: "manifest_key dyn (fc\<lparr>fc_Objects := cl\<rparr>) = manifest_key dyn fc"
  by (simp add: manifest_key_def fun_eq_iff)

lemma FakeCluster_Create_new:
  assumes "tracker dyn objs" "manifest_key dyn fc m = Some k" "k \<notin> objs (fc_Objects fc)"
  shows "\<exists>cl. FakeCluster_Create dyn ''default'' m fc = Inr (fc\<lparr>fc_Objects := cl\<rparr>) \<and> objs cl = insert k (objs (fc_Objects fc))"
proof -
  obtain g where g: "FindGvr (dyn_Parse dyn) (fc_Resources fc) (Manifest_ApiVersion m) (Manifest_Kind m) = Some g"
    "k = (g, Manifest_Namespace ''default'' m, Manifest_Name m)" using assms(2) by (auto simp: manifest_key_def)
  then have "case dyn_Create dyn g (Manifest_Namespace ''default'' m) m (fc_Objects fc) of
      Inl _ \<Rightarrow> k \<in> objs (fc_Objects fc) | Inr cl \<Rightarrow> k \<notin> objs (fc_Objects fc) \<and> objs cl = insert k (objs (fc_Objects fc))"
    using assms(1) unfolding tracker_def by blast
  with g assms(3) show ?thesis
    by (auto simp: FakeCluster_Create_def FindGVR_def FakeCluster_FindGVR_def split: sum.splits)
qed

lemma FakeCluster_Update_old:
  assumes "tracker dyn objs" "manifest_key dyn fc m = Some k" "k \<in> objs (fc_Objects fc)"
  shows "\<exists>cl. FakeCluster_Update dyn ''default'' m fc = Inr (fc\<lparr>fc_Objects := cl\<rparr>) \<and> objs cl = objs (fc_Objects fc)"
proof -
  obtain g where g: "FindGvr (dyn_Parse dyn) (fc_Resources fc) (Manifest_ApiVersion m) (Manifest_Kind m) = Some g"
    "k = (g, Manifest_Namespace ''default'' m, Manifest_Name m)" using assms(2) by (auto simp: manifest_key_def)
  then have "case dyn_Update dyn g (Manifest_Namespace ''default'' m) m (fc_Objects fc) of
      Inl _ \<Rightarrow> k \<notin> objs (fc_Objects fc) | Inr cl \<Rightarrow> k \<in> objs (fc_Objects fc) \<and> objs cl = objs (fc_Objects fc)"
    using assms(1) unfolding tracker_def by blast
  with g assms(3) show ?thesis
    by (auto simp: FakeCluster_Update_def FindGVR_def FakeCluster_FindGVR_def split: sum.splits)
qed

lemma FakeCluster_Delete_old:
  assumes "tracker dyn objs" "manifest_key dyn fc m = Some k" "k \<in> objs (fc_Objects fc)"
  shows "\<exists>cl. FakeCluster_Delete dyn ''default'' m fc = Inr (fc\<lparr>fc_Objects := cl\<rparr>) \<and> objs cl = objs (fc_Objects fc) - {k}"
proof -
  obtain g where g: "FindGvr (dyn_Parse dyn) (fc_Resources fc) (Manifest_ApiVersion m) (Manifest_Kind m) = Some g"
    "k = (g, Manifest_Namespace ''default'' m, Manifest_Name m)" using assms(2) by (auto simp: manifest_key_def)
  then have "case dyn_Delete dyn g (Manifest_Namespace ''default'' m) (Manifest_Name m) (fc_Objects fc) of
      Inl _ \<Rightarrow> k \<notin> objs (fc_Objects fc) | Inr cl \<Rightarrow> k \<in> objs (fc_Objects fc) \<and> objs cl = objs (fc_Objects fc) - {k}"
    using assms(1) unfolding tracker_def by blast
  with g assms(3) show ?thesis
    by (auto simp: FakeCluster_Delete_def FindGVR_def FakeCluster_FindGVR_def split: sum.splits)
qed

text \<open>A tracker that keeps a list of keys.\<close>

definition list_tracker :: "object_key list dynamic" where
  "list_tracker =
     \<lparr>dyn_Create = \<lambda>g ns m cl. let k = (g, ns, Manifest_Name m) in if k \<in> set cl then Inl ''exists'' else Inr (k # cl),
      dyn_Update = \<lambda>g ns m cl. if (g, ns, Manifest_Name m) \<in> set cl then Inr cl else Inl ''not found'',
      dyn_Delete = \<lambda>g ns name cl. if (g, ns, name) \<in> set cl then Inr (removeAll (g, ns, name) cl) else Inl ''not found'',
      dyn_CreateNs = \<lambda>ns cl. Inr cl, dyn_Parse = split_gv, dyn_GVString = \<lambda>(g, v). gv_string g v\<rparr>"

lemma list_tracker: "tracker list_tracker set"
  unfolding tracker_def list_tracker_def by (auto simp: Let_def)

section \<open>Property\<close>

text \<open>
  The helpers of the tests are inverse: after an object of a known kind was created in a
  namespace, deleting it succeeds and the cluster has the objects it had before. Creating the same
  object a second time panics.
\<close>

theorem CreateSimpleNamespaced_Delete:
  assumes tr: "tracker dyn objs" and ns: "\<And>ns cl cl'. dyn_CreateNs dyn ns cl = Inr cl' \<Longrightarrow> objs cl' = objs cl"
    and gvr: "MustFindGVR dyn [] kind fc = Some gvr" and new: "(gvr, ns, name) \<notin> objs (fc_Objects fc)"
  shows "\<exists>fc1 fc2. CreateSimpleNamespaced dyn ns kind name fc = Ret fc1 \<and> (gvr, ns, name) \<in> objs (fc_Objects fc1) \<and>
    CreateSimpleNamespaced dyn ns kind name fc1 = Panic \<and>
    DeleteSimpleNamespaced dyn ns kind name fc1 = Ret fc2 \<and> objs (fc_Objects fc2) = objs (fc_Objects fc)"
proof -
  let ?m = "NewManifest (dyn_GVString dyn (fst gvr, fst (snd gvr))) kind name"
  have name: "Manifest_Name ?m = name"
    by (simp add: NewManifest_def Manifest_Name_def Manifest_Metadata_def getFieldString_def)
  have CreateNs: "fc_Resources (CreateNs dyn ns fc) = fc_Resources fc \<and>
      objs (fc_Objects (CreateNs dyn ns fc)) = objs (fc_Objects fc)" for fc
    using ns by (auto simp: CreateNs_def split: sum.splits)
  have create: "case dyn_Create dyn gvr ns ?m cl of
      Inl _ \<Rightarrow> (gvr, ns, name) \<in> objs cl
    | Inr cl' \<Rightarrow> (gvr, ns, name) \<notin> objs cl \<and> objs cl' = insert (gvr, ns, name) (objs cl)" for cl
    using tr name unfolding tracker_def by metis
  have delete: "case dyn_Delete dyn gvr ns name cl of
      Inl _ \<Rightarrow> (gvr, ns, name) \<notin> objs cl
    | Inr cl' \<Rightarrow> (gvr, ns, name) \<in> objs cl \<and> objs cl' = objs cl - {(gvr, ns, name)}" for cl
    using tr unfolding tracker_def by blast
  have known: "MustFindGVR dyn [] kind fc' = Some gvr" if "fc_Resources fc' = fc_Resources fc" for fc'
    using gvr that by (simp add: MustFindGVR_def)
  obtain fc1 where fc1: "CreateSimpleNamespaced dyn ns kind name fc = Ret fc1" "fc_Resources fc1 = fc_Resources fc"
    "objs (fc_Objects fc1) = insert (gvr, ns, name) (objs (fc_Objects fc))"
    using create [of "fc_Objects (CreateNs dyn ns fc)"] CreateNs known [of "CreateNs dyn ns fc"] new
    by (auto simp: CreateSimpleNamespaced_def Let_def split: sum.splits)
  moreover have "CreateSimpleNamespaced dyn ns kind name fc1 = Panic"
    using create [of "fc_Objects (CreateNs dyn ns fc1)"] CreateNs [of fc1] known [of "CreateNs dyn ns fc1"] fc1
    by (auto simp: CreateSimpleNamespaced_def Let_def split: sum.splits)
  moreover have "\<exists>fc2. DeleteSimpleNamespaced dyn ns kind name fc1 = Ret fc2 \<and> objs (fc_Objects fc2) = objs (fc_Objects fc)"
    using delete [of "fc_Objects fc1"] known [of fc1] fc1 new
    by (auto simp: DeleteSimpleNamespaced_def split: sum.splits)
  ultimately show ?thesis by auto
qed

theorem CreateSimpleNamespaced_Delete_witness:
  "\<exists>fc1. CreateSimpleNamespaced list_tracker ''ns'' ''Pod'' ''p'' (NewFakeCluster []) = Ret fc1 \<and>
     CreateSimpleNamespaced list_tracker ''ns'' ''Pod'' ''p'' fc1 = Panic"
proof -
  have "MustFindGVR list_tracker [] ''Pod'' (NewFakeCluster []) = Some ([], ''v1'', ''pods'')" by code_simp
  then show ?thesis
    using CreateSimpleNamespaced_Delete [OF list_tracker, of "''Pod''" "NewFakeCluster []" _ "''ns''" "''p''"]
    by (auto simp: list_tracker_def NewFakeCluster_def)
qed

end
