(* ===== verification/Hook_Test_Context.thy ===== *)
theory Hook_Test_Context
  imports Fake_Objects Operator_Combine
begin

text \<open>
  \<open>test/hook/context\<close>: the library with which the authors of hooks test them. It applies states,
  given as YAML documents, to a fake cluster (\<open>state.go\<close>) and renders the binding contexts that the
  changes give rise to (\<open>generator.go\<close>). The clients of the fake
  cluster that keep the objects belong to client-go and are a parameter, as in the theory of the cluster.
\<close>

section \<open>Rendering binding contexts\<close>

text \<open>The loop of \<open>convertBindingContexts\<close> with \<open>lastGroup\<close>, \<open>lastGroupIndex\<close> and the result so far.\<close>

fun compact_step ::
    "string \<times> nat \<times> BindingContext list \<Rightarrow> BindingContext \<Rightarrow> string \<times> nat \<times> BindingContext list" where
  "compact_step (lastGroup, lastGroupIndex, compacted) bc =
     (if bc_Group bc = [] then ([], lastGroupIndex, compacted @ [bc])
      else if lastGroup \<noteq> bc_Group bc then (bc_Group bc, length (compacted @ [bc]) - 1, compacted @ [bc])
      else (lastGroup, lastGroupIndex, compacted[lastGroupIndex := bc]))"

definition convertBindingContexts ::
    "(string \<Rightarrow> json option) \<Rightarrow> ((string, iface) gomap list \<Rightarrow> string + string) \<Rightarrow> BindingContext list \<Rightarrow>
     (string + string \<times> BindingContext list) go" where
  "convertBindingContexts unmarshal encode bindingContexts =
     (case foldl compact_step ([], 0, []) bindingContexts of
        (_, _, compacted) \<Rightarrow>
          go_bind (ConvertBindingContextList unmarshal ''v1'' compacted) (\<lambda>bcList. Ret
            (case encode bcList of
               Inl err \<Rightarrow> Inl (''marshaling binding context error: '' @ err)
             | Inr data \<Rightarrow> Inr (data, bindingContexts))))"

lemma compact_step_fold:
  "(lg = [] \<longrightarrow> snd (snd (foldl compact_step (lg, i, out) bcs)) = out @ compact_contexts bcs) \<and>
   (lg \<noteq> [] \<and> bc_Group b = lg \<longrightarrow>
      snd (snd (foldl compact_step (lg, length out, out @ [b]) bcs)) = out @ compact_contexts (b # bcs))"
proof (induction bcs arbitrary: lg i out b)
  case (Cons c bcs)
  have 1: "snd (snd (foldl compact_step ([], i, out) (c # bcs))) = out @ compact_contexts (c # bcs)" for i out
  proof (cases "bc_Group c = []")
    case True
    then have "snd (snd (foldl compact_step ([], i, out) (c # bcs))) = (out @ [c]) @ compact_contexts bcs"
      using Cons.IH [of "[]" i "out @ [c]"] by simp
    moreover have "compact_contexts (c # bcs) = c # compact_contexts bcs" using True by (cases bcs) simp_all
    ultimately show ?thesis by simp
  next
    case False
    then show ?thesis using Cons.IH [of "bc_Group c" _ out c] by simp
  qed
  have 2: "snd (snd (foldl compact_step (lg, length out, out @ [b]) (c # bcs))) = out @ compact_contexts (b # c # bcs)"
    if lg: "lg \<noteq> []" "bc_Group b = lg"
  proof (cases "bc_Group c = lg")
    case True
    then have "snd (snd (foldl compact_step (lg, length out, out @ [b]) (c # bcs))) = out @ compact_contexts (c # bcs)"
      using Cons.IH [of lg _ out c] lg by (simp add: list_update_append)
    then show ?thesis using lg True by simp
  next
    case False
    have "snd (snd (foldl compact_step (lg, length out, out @ [b]) (c # bcs))) = (out @ [b]) @ compact_contexts (c # bcs)"
    proof (cases "bc_Group c = []")
      case True
      then have "compact_contexts (c # bcs) = c # compact_contexts bcs" by (cases bcs) simp_all
      then show ?thesis using True Cons.IH [of "[]" "length out" "out @ [b, c]"] by simp
    next
      case nonempty: False
      then show ?thesis using False lg Cons.IH [of "bc_Group c" _ "out @ [b]" c] by simp
    qed
    then show ?thesis using False lg by simp
  qed
  show ?case using 1 2 by auto
qed simp

section \<open>States\<close>

text \<open>\<open>reflect.DeepEqual\<close> on decoded documents: the order of the fields of an object does not matter.\<close>

fun json_norm :: "json \<Rightarrow> json" where
  "json_norm (JArr xs) = JArr (map json_norm xs)"
| "json_norm (JObj kvs) = JObj (sort_key fst (map (\<lambda>(k, v). (k, json_norm v)) kvs))"
| "json_norm j = j"

definition manifest_norm :: "Manifest \<Rightarrow> json" where
  "manifest_norm m = json_norm (JObj m)"

definition DeepEqual :: "Manifest \<Rightarrow> Manifest \<Rightarrow> bool" where
  "DeepEqual m1 m2 \<longleftrightarrow> manifest_norm m1 = manifest_norm m2"

text \<open>The controller, with the cluster that is a variable of the package.\<close>

record 'cl StateController =
  st_CurrentState :: "(string, Manifest) gomap"
  st_cluster :: "'cl FakeCluster"

definition NewStateController :: "'cl FakeCluster \<Rightarrow> 'cl StateController" where
  "NewStateController fc = \<lparr>st_CurrentState = [], st_cluster = fc\<rparr>"

fun create_all ::
    "'cl dynamic \<Rightarrow> Manifest list \<Rightarrow> (string, Manifest) gomap \<Rightarrow> 'cl FakeCluster \<Rightarrow>
     'cl FakeCluster \<times> (string + (string, Manifest) gomap)" where
  "create_all dyn [] newState fc = (fc, Inr newState)"
| "create_all dyn (m # ms) newState fc =
     (case FakeCluster_Create dyn ''default'' m fc of
        Inl err \<Rightarrow> (fc, Inl (''create initial state: '' @ err))
      | Inr fc \<Rightarrow> create_all dyn ms (mput (Manifest_Id m) m newState) fc)"

definition SetInitialState ::
    "(string \<Rightarrow> string + Manifest) \<Rightarrow> string list \<Rightarrow> 'cl dynamic \<Rightarrow> string \<Rightarrow> 'cl StateController \<Rightarrow>
     'cl StateController \<times> string option" where
  "SetInitialState unmarshal ks dyn initialState c =
     (case GetManifestListFromYamlDocuments unmarshal ks initialState of
        Inl err \<Rightarrow> (c, Some (''create initial state: '' @ err))
      | Inr manifests \<Rightarrow>
          (case create_all dyn manifests [] (st_cluster c) of
             (fc, Inl err) \<Rightarrow> (c\<lparr>st_cluster := fc\<rparr>, Some err)
           | (fc, Inr newState) \<Rightarrow> (\<lparr>st_CurrentState = newState, st_cluster = fc\<rparr>, None)))"

text \<open>The first loop of \<open>ChangeState\<close>: create or update, one event for each change.\<close>

fun apply_new ::
    "'cl dynamic \<Rightarrow> Manifest list \<Rightarrow> nat \<Rightarrow> 'cl StateController \<Rightarrow> 'cl StateController \<times> nat \<times> string option" where
  "apply_new dyn [] generatedEvents c = (c, generatedEvents, None)"
| "apply_new dyn (m # ms) generatedEvents c =
     (case mget (st_CurrentState c) (Manifest_Id m) of
        None \<Rightarrow>
          (case FakeCluster_Create dyn ''default'' m (st_cluster c) of
             Inl err \<Rightarrow> (c, generatedEvents, Some err)
           | Inr fc \<Rightarrow> apply_new dyn ms (generatedEvents + 1)
               \<lparr>st_CurrentState = mput (Manifest_Id m) m (st_CurrentState c), st_cluster = fc\<rparr>)
      | Some currM \<Rightarrow>
          if \<not> DeepEqual currM m then
            (case FakeCluster_Update dyn ''default'' m (st_cluster c) of
               Inl err \<Rightarrow> (c, generatedEvents, Some err)
             | Inr fc \<Rightarrow> apply_new dyn ms (generatedEvents + 1)
                 \<lparr>st_CurrentState = mput (Manifest_Id m) m (st_CurrentState c), st_cluster = fc\<rparr>)
          else apply_new dyn ms generatedEvents c)"

text \<open>The second loop, over the current identifiers in the order of the map.\<close>

fun remove_old ::
    "'cl dynamic \<Rightarrow> (string, Manifest) gomap \<Rightarrow> string list \<Rightarrow> nat \<Rightarrow> 'cl StateController \<Rightarrow>
     'cl StateController \<times> nat \<times> string option" where
  "remove_old dyn newState [] generatedEvents c = (c, generatedEvents, None)"
| "remove_old dyn newState (currId # ids) generatedEvents c =
     (case mget (st_CurrentState c) currId of
        None \<Rightarrow> remove_old dyn newState ids generatedEvents c
      | Some currM \<Rightarrow>
          if mget newState currId = None then
            (case FakeCluster_Delete dyn ''default'' currM (st_cluster c) of
               Inl err \<Rightarrow> (c, generatedEvents, Some err)
             | Inr fc \<Rightarrow> remove_old dyn newState ids (generatedEvents + 1)
                 \<lparr>st_CurrentState = mdel currId (st_CurrentState c), st_cluster = fc\<rparr>)
          else remove_old dyn newState ids generatedEvents c)"

text \<open>\<open>order\<close> is the order in which the range loop over the current state visits it.\<close>

definition ChangeState ::
    "(string \<Rightarrow> string + Manifest) \<Rightarrow> string list \<Rightarrow> ((string, Manifest) gomap \<Rightarrow> string list) \<Rightarrow> 'cl dynamic \<Rightarrow> string \<Rightarrow>
     'cl StateController \<Rightarrow> 'cl StateController \<times> nat \<times> string option" where
  "ChangeState unmarshal ks order dyn newRawState c =
     (case GetManifestListFromYamlDocuments unmarshal ks newRawState of
        Inl err \<Rightarrow> (c, 0, Some (''error while changing state: '' @ err))
      | Inr newManifests \<Rightarrow>
          (let newState = foldl (\<lambda>s m. mput (Manifest_Id m) m s) [] newManifests in
           case apply_new dyn newManifests 0 c of
             (c, generatedEvents, Some err) \<Rightarrow> (c, generatedEvents, Some err)
           | (c, generatedEvents, None) \<Rightarrow>
               remove_old dyn newState (order (st_CurrentState c)) generatedEvents c))"

section \<open>The state and the cluster agree\<close>

text \<open>
  \<open>known dyn fc U\<close>: the cluster knows the kinds of the manifests in \<open>U\<close>, and on them the identifier
  names the object (it does not contain the API version). \<open>synced\<close>: the cluster has exactly the
  objects of the current state, which is keyed by the identifiers.
\<close>

definition known :: "'cl dynamic \<Rightarrow> 'cl FakeCluster \<Rightarrow> Manifest set \<Rightarrow> bool" where
  "known dyn fc U \<longleftrightarrow> (\<forall>m\<in>U. manifest_key dyn fc m \<noteq> None) \<and>
     (\<forall>m\<in>U. \<forall>m'\<in>U. Manifest_Id m = Manifest_Id m' \<longleftrightarrow> manifest_key dyn fc m = manifest_key dyn fc m')"

definition synced :: "'cl dynamic \<Rightarrow> ('cl \<Rightarrow> object_key set) \<Rightarrow> Manifest set \<Rightarrow> 'cl StateController \<Rightarrow> bool" where
  "synced dyn objs U c \<longleftrightarrow> known dyn (st_cluster c) U \<and> wf_map (st_CurrentState c) \<and>
     (\<forall>i m. mget (st_CurrentState c) i = Some m \<longrightarrow> i = Manifest_Id m \<and> m \<in> U) \<and>
     Some ` objs (fc_Objects (st_cluster c)) = manifest_key dyn (st_cluster c) ` ran (mget (st_CurrentState c))"

abbreviation norm_of :: "(string, Manifest) gomap \<Rightarrow> string \<Rightarrow> json option" where
  "norm_of s i \<equiv> map_option manifest_norm (mget s i)"

lemma known_cong [simp]: "known dyn (fc\<lparr>fc_Objects := cl\<rparr>) U = known dyn fc U"
  by (simp add: known_def)

lemma syncedD:
  assumes "synced dyn objs U c"
  shows "known dyn (st_cluster c) U" "wf_map (st_CurrentState c)"
    and "\<And>i m. mget (st_CurrentState c) i = Some m \<Longrightarrow> i = Manifest_Id m \<and> m \<in> U"
    and "Some ` objs (fc_Objects (st_cluster c)) = manifest_key dyn (st_cluster c) ` ran (mget (st_CurrentState c))"
  using assms unfolding synced_def by blast+

lemma synced_step:
  assumes c: "synced dyn objs U c" "wf_map s"
    and s: "\<And>i m. mget s i = Some m \<Longrightarrow> i = Manifest_Id m \<and> m \<in> U"
    and k: "Some ` objs cl = manifest_key dyn (st_cluster c) ` ran (mget s)"
  shows "synced dyn objs U \<lparr>st_CurrentState = s, st_cluster = (st_cluster c)\<lparr>fc_Objects := cl\<rparr>\<rparr>"
  using syncedD(1) [OF c(1)] c(2) s k unfolding synced_def by simp

lemma known_key: "known dyn fc U \<Longrightarrow> m \<in> U \<Longrightarrow> \<exists>k. manifest_key dyn fc m = Some k"
  by (auto simp: known_def)

lemma known_same:
  "known dyn fc U \<Longrightarrow> m \<in> U \<Longrightarrow> m' \<in> U \<Longrightarrow>
   manifest_key dyn fc m = manifest_key dyn fc m' \<longleftrightarrow> Manifest_Id m = Manifest_Id m'"
  by (auto simp: known_def)

lemma synced_create:
  assumes tr: "tracker dyn objs" and c: "synced dyn objs U c" "m \<in> U" "mget (st_CurrentState c) (Manifest_Id m) = None"
  shows "\<exists>fc. FakeCluster_Create dyn ''default'' m (st_cluster c) = Inr fc \<and>
    synced dyn objs U \<lparr>st_CurrentState = mput (Manifest_Id m) m (st_CurrentState c), st_cluster = fc\<rparr>"
proof -
  let ?fc = "st_cluster c" and ?s = "st_CurrentState c"
  let ?key = "manifest_key dyn ?fc"
  obtain k where k: "?key m = Some k" using known_key [OF syncedD(1) [OF c(1)]] c(2) by blast
  have "?key m \<notin> ?key ` ran (mget ?s)"
  proof
    assume "?key m \<in> ?key ` ran (mget ?s)"
    then obtain i m' where m': "mget ?s i = Some m'" "?key m = ?key m'" by (auto simp: ran_def)
    then show False using syncedD(3) [OF c(1) m'(1)] known_same [OF syncedD(1) [OF c(1)] c(2)] c(3) by simp
  qed
  then have "Some k \<notin> Some ` objs (fc_Objects ?fc)" using syncedD(4) [OF c(1)] k by simp
  then have "k \<notin> objs (fc_Objects ?fc)" by blast
  from FakeCluster_Create_new [OF tr k this] obtain cl where
    cl: "FakeCluster_Create dyn ''default'' m ?fc = Inr (?fc\<lparr>fc_Objects := cl\<rparr>)" "objs cl = insert k (objs (fc_Objects ?fc))"
    by blast
  have "mget (mput (Manifest_Id m) m ?s) = (mget ?s)(Manifest_Id m \<mapsto> m)" by (rule ext) simp
  then have "ran (mget (mput (Manifest_Id m) m ?s)) = insert m (ran (mget ?s))" using c(3) by simp
  then have "Some ` objs cl = ?key ` ran (mget (mput (Manifest_Id m) m ?s))"
    using syncedD(4) [OF c(1)] cl(2) k by simp
  then have "synced dyn objs U \<lparr>st_CurrentState = mput (Manifest_Id m) m ?s, st_cluster = ?fc\<lparr>fc_Objects := cl\<rparr>\<rparr>"
    using syncedD(2,3) [OF c(1)] c(2) by (intro synced_step [OF c(1)]) (auto split: if_splits)
  with cl(1) show ?thesis by blast
qed

lemma synced_update:
  assumes tr: "tracker dyn objs" and c: "synced dyn objs U c" "m \<in> U" "mget (st_CurrentState c) (Manifest_Id m) = Some m'"
  shows "\<exists>fc. FakeCluster_Update dyn ''default'' m (st_cluster c) = Inr fc \<and>
    synced dyn objs U \<lparr>st_CurrentState = mput (Manifest_Id m) m (st_CurrentState c), st_cluster = fc\<rparr>"
proof -
  let ?fc = "st_cluster c" and ?s = "st_CurrentState c"
  let ?key = "manifest_key dyn ?fc"
  have m': "Manifest_Id m = Manifest_Id m'" "m' \<in> U" using syncedD(3) [OF c(1,3)] by auto
  then have key: "?key m = ?key m'" using known_same [OF syncedD(1) [OF c(1)] c(2)] by blast
  obtain k where k: "?key m = Some k" using known_key [OF syncedD(1) [OF c(1)]] c(2) by blast
  have "?key m \<in> ?key ` ran (mget ?s)" using c(3) key by (auto simp: ran_def)
  then have "Some k \<in> Some ` objs (fc_Objects ?fc)" using syncedD(4) [OF c(1)] k by simp
  then have "k \<in> objs (fc_Objects ?fc)" by blast
  from FakeCluster_Update_old [OF tr k this] obtain cl where
    cl: "FakeCluster_Update dyn ''default'' m ?fc = Inr (?fc\<lparr>fc_Objects := cl\<rparr>)" "objs cl = objs (fc_Objects ?fc)"
    by blast
  have "?key ` ran (mget (mput (Manifest_Id m) m ?s)) = ?key ` ran (mget ?s)"
  proof (intro set_eqI iffI)
    fix x assume "x \<in> ?key ` ran (mget ?s)"
    then obtain i n where "mget ?s i = Some n" "x = ?key n" by (auto simp: ran_def)
    then show "x \<in> ?key ` ran (mget (mput (Manifest_Id m) m ?s))"
      using c(3) key by (cases "i = Manifest_Id m") (auto simp: ran_def image_iff split: if_splits)
  qed (use c(3) key in \<open>auto simp: ran_def split: if_splits\<close>)
  then have "Some ` objs cl = ?key ` ran (mget (mput (Manifest_Id m) m ?s))"
    using syncedD(4) [OF c(1)] cl(2) by simp
  then have "synced dyn objs U \<lparr>st_CurrentState = mput (Manifest_Id m) m ?s, st_cluster = ?fc\<lparr>fc_Objects := cl\<rparr>\<rparr>"
    using syncedD(2,3) [OF c(1)] c(2) by (intro synced_step [OF c(1)]) (auto split: if_splits)
  with cl(1) show ?thesis by blast
qed

lemma synced_delete:
  assumes tr: "tracker dyn objs" and c: "synced dyn objs U c" "mget (st_CurrentState c) i = Some m"
  shows "\<exists>fc. FakeCluster_Delete dyn ''default'' m (st_cluster c) = Inr fc \<and>
    synced dyn objs U \<lparr>st_CurrentState = mdel i (st_CurrentState c), st_cluster = fc\<rparr>"
proof -
  let ?fc = "st_cluster c" and ?s = "st_CurrentState c"
  let ?key = "manifest_key dyn ?fc"
  have m: "i = Manifest_Id m" "m \<in> U" using syncedD(3) [OF c] by auto
  then obtain k where k: "?key m = Some k" using known_key [OF syncedD(1) [OF c(1)]] by blast
  have "?key m \<in> ?key ` ran (mget ?s)" using c(2) by (auto simp: ran_def)
  then have "Some k \<in> Some ` objs (fc_Objects ?fc)" using syncedD(4) [OF c(1)] k by simp
  then have "k \<in> objs (fc_Objects ?fc)" by blast
  from FakeCluster_Delete_old [OF tr k this] obtain cl where
    cl: "FakeCluster_Delete dyn ''default'' m ?fc = Inr (?fc\<lparr>fc_Objects := cl\<rparr>)" "objs cl = objs (fc_Objects ?fc) - {k}"
    by blast
  have other: "?key n \<noteq> ?key m" if "mget ?s j = Some n" "j \<noteq> i" for j n
    using known_same [OF syncedD(1) [OF c(1)], of n m] syncedD(3) [OF c(1) that(1)] m that(2) by auto
  have "?key ` ran (mget (mdel i ?s)) = ?key ` ran (mget ?s) - {Some k}"
  proof (intro set_eqI iffI)
    fix x assume "x \<in> ?key ` ran (mget ?s) - {Some k}"
    then obtain j n where n: "mget ?s j = Some n" "x = ?key n" "x \<noteq> ?key m" using k by (auto simp: ran_def)
    then have "mget (mdel i ?s) j = Some n" using c(2) by auto
    then show "x \<in> ?key ` ran (mget (mdel i ?s))" using n(2) by (auto simp: ran_def simp del: mget_mdel)
  qed (use other k in \<open>auto simp: ran_def split: if_splits\<close>)
  moreover have "Some ` (objs (fc_Objects ?fc) - {k}) = Some ` objs (fc_Objects ?fc) - {Some k}" by auto
  ultimately have "Some ` objs cl = ?key ` ran (mget (mdel i ?s))"
    using syncedD(4) [OF c(1)] cl(2) by simp
  then have "synced dyn objs U \<lparr>st_CurrentState = mdel i ?s, st_cluster = ?fc\<lparr>fc_Objects := cl\<rparr>\<rparr>"
    using syncedD(2,3) [OF c(1)] by (intro synced_step [OF c(1)]) (auto split: if_splits)
  with cl(1) show ?thesis by blast
qed

section \<open>The two loops of a change\<close>

abbreviation by_id :: "Manifest list \<Rightarrow> (string, Manifest) gomap" where
  "by_id ms \<equiv> map (\<lambda>m. (Manifest_Id m, m)) ms"

lemma by_id_fresh: "Manifest_Id m \<notin> Manifest_Id ` set ms \<Longrightarrow> mget (by_id ms) (Manifest_Id m) = None"
  by (auto simp: map_of_eq_None_iff)

lemma new_state_get:
  "distinct (map Manifest_Id ms) \<Longrightarrow>
   mget (foldl (\<lambda>s m. mput (Manifest_Id m) m s) s ms) i =
     (case mget (by_id ms) i of None \<Rightarrow> mget s i | Some m \<Rightarrow> Some m)"
  by (induction ms arbitrary: s) (auto simp: by_id_fresh split: option.splits)

lemma apply_new_step:
  assumes "tracker dyn objs" "synced dyn objs U c" "m \<in> U"
  shows "\<exists>c'. (\<forall>ms n. apply_new dyn (m # ms) n c =
      apply_new dyn ms (n + (if norm_of (st_CurrentState c) (Manifest_Id m) \<noteq> Some (manifest_norm m) then 1 else 0)) c') \<and>
    synced dyn objs U c' \<and>
    (\<forall>i. norm_of (st_CurrentState c') i =
      (if i = Manifest_Id m then Some (manifest_norm m) else norm_of (st_CurrentState c) i))"
proof (cases "mget (st_CurrentState c) (Manifest_Id m)")
  case None
  from synced_create [OF assms None] obtain fc where "FakeCluster_Create dyn ''default'' m (st_cluster c) = Inr fc"
    "synced dyn objs U \<lparr>st_CurrentState = mput (Manifest_Id m) m (st_CurrentState c), st_cluster = fc\<rparr>" by blast
  with None show ?thesis
    by (intro exI [of _ "\<lparr>st_CurrentState = mput (Manifest_Id m) m (st_CurrentState c), st_cluster = fc\<rparr>"]) simp
next
  case (Some m')
  show ?thesis
  proof (cases "DeepEqual m' m")
    case True
    then show ?thesis using Some assms(2) by (intro exI [of _ c]) (simp add: DeepEqual_def)
  next
    case False
    from synced_update [OF assms Some] obtain fc where "FakeCluster_Update dyn ''default'' m (st_cluster c) = Inr fc"
      "synced dyn objs U \<lparr>st_CurrentState = mput (Manifest_Id m) m (st_CurrentState c), st_cluster = fc\<rparr>" by blast
    with Some False show ?thesis
      by (intro exI [of _ "\<lparr>st_CurrentState = mput (Manifest_Id m) m (st_CurrentState c), st_cluster = fc\<rparr>"])
        (simp add: DeepEqual_def)
  qed
qed

lemma apply_new_all:
  assumes "tracker dyn objs"
  shows "distinct (map Manifest_Id ms) \<Longrightarrow> set ms \<subseteq> U \<Longrightarrow> synced dyn objs U c \<Longrightarrow>
   \<exists>c'. apply_new dyn ms n c =
       (c', n + length (filter (\<lambda>m. norm_of (st_CurrentState c) (Manifest_Id m) \<noteq> Some (manifest_norm m)) ms), None) \<and>
     synced dyn objs U c' \<and>
     (\<forall>i. norm_of (st_CurrentState c') i =
       (case mget (by_id ms) i of None \<Rightarrow> norm_of (st_CurrentState c) i | Some m \<Rightarrow> Some (manifest_norm m)))"
proof (induction ms arbitrary: c n)
  case (Cons m ms)
  let ?k = "if norm_of (st_CurrentState c) (Manifest_Id m) \<noteq> Some (manifest_norm m) then 1 else 0"
  from apply_new_step [OF assms, of U c m] Cons.prems obtain c1 where
    c1: "\<And>ms n. apply_new dyn (m # ms) n c = apply_new dyn ms (n + ?k) c1" "synced dyn objs U c1"
      "\<And>i. norm_of (st_CurrentState c1) i = (if i = Manifest_Id m then Some (manifest_norm m) else norm_of (st_CurrentState c) i)"
    by auto
  from Cons.IH [of c1 "n + ?k"] c1(2) Cons.prems obtain c' where
    c': "apply_new dyn ms (n + ?k) c1 = (c', n + ?k +
        length (filter (\<lambda>m. norm_of (st_CurrentState c1) (Manifest_Id m) \<noteq> Some (manifest_norm m)) ms), None)"
      "synced dyn objs U c'"
      "\<And>i. norm_of (st_CurrentState c') i =
        (case mget (by_id ms) i of None \<Rightarrow> norm_of (st_CurrentState c1) i | Some m \<Rightarrow> Some (manifest_norm m))"
    by auto
  have "filter (\<lambda>m. norm_of (st_CurrentState c1) (Manifest_Id m) \<noteq> Some (manifest_norm m)) ms =
      filter (\<lambda>m. norm_of (st_CurrentState c) (Manifest_Id m) \<noteq> Some (manifest_norm m)) ms"
  proof (intro filter_cong)
    fix x assume "x \<in> set ms"
    then have "Manifest_Id x \<noteq> Manifest_Id m" using Cons.prems(1) by (metis distinct.simps(2) image_eqI list.set_map list.simps(9))
    then show "(norm_of (st_CurrentState c1) (Manifest_Id x) \<noteq> Some (manifest_norm x)) =
        (norm_of (st_CurrentState c) (Manifest_Id x) \<noteq> Some (manifest_norm x))" using c1(3) by presburger
  qed simp
  with c1(1) [of ms n] c'(1) have "apply_new dyn (m # ms) n c = (c', n +
      length (filter (\<lambda>m. norm_of (st_CurrentState c) (Manifest_Id m) \<noteq> Some (manifest_norm m)) (m # ms)), None)"
    by (simp del: apply_new.simps)
  moreover have "norm_of (st_CurrentState c') i =
      (case mget (by_id (m # ms)) i of None \<Rightarrow> norm_of (st_CurrentState c) i | Some m \<Rightarrow> Some (manifest_norm m))" for i
    using c'(3) [of i] c1(3) [of i] by_id_fresh [of m ms] Cons.prems(1) by (auto split: option.splits)
  ultimately show ?case using c'(2) by blast
qed simp

lemma remove_old_all:
  assumes "tracker dyn objs"
  shows "distinct ids \<Longrightarrow> synced dyn objs U c \<Longrightarrow>
   \<exists>c'. remove_old dyn s ids n c =
       (c', n + length (filter (\<lambda>i. mget (st_CurrentState c) i \<noteq> None \<and> mget s i = None) ids), None) \<and>
     synced dyn objs U c' \<and>
     (\<forall>i. mget (st_CurrentState c') i = (if i \<in> set ids \<and> mget s i = None then None else mget (st_CurrentState c) i))"
proof (induction ids arbitrary: c n)
  case (Cons j ids)
  show ?case
  proof (cases "\<exists>m. mget (st_CurrentState c) j = Some m \<and> mget s j = None")
    case False
    then have "remove_old dyn s (j # ids) n c = remove_old dyn s ids n c" by (auto split: option.splits)
    with Cons.IH [of c n] Cons.prems False show ?thesis by auto
  next
    case True
    then obtain m where m: "mget (st_CurrentState c) j = Some m" "mget s j = None" by blast
    from synced_delete [OF assms Cons.prems(2) m(1)] obtain fc where
      fc: "FakeCluster_Delete dyn ''default'' m (st_cluster c) = Inr fc"
        "synced dyn objs U \<lparr>st_CurrentState = mdel j (st_CurrentState c), st_cluster = fc\<rparr>" by blast
    have "filter (\<lambda>i. mget (mdel j (st_CurrentState c)) i \<noteq> None \<and> mget s i = None) ids =
        filter (\<lambda>i. mget (st_CurrentState c) i \<noteq> None \<and> mget s i = None) ids"
      using Cons.prems(1) by (intro filter_cong) auto
    with Cons.IH [of "\<lparr>st_CurrentState = mdel j (st_CurrentState c), st_cluster = fc\<rparr>" "n + 1"] fc m Cons.prems
    show ?thesis by auto
  qed
qed simp

lemma by_id_get: "distinct (map Manifest_Id ms) \<Longrightarrow> mget (by_id ms) i = Some m \<longleftrightarrow> m \<in> set ms \<and> i = Manifest_Id m"
  by (auto simp: distinct_map map_of_eq_Some_iff comp_def)

lemma length_changed:
  assumes ms: "distinct (map Manifest_Id ms)" and ids: "distinct ids" "\<And>i. P i \<Longrightarrow> i \<in> set ids"
    and P: "\<And>i. P i \<longleftrightarrow> old i \<noteq> None \<and> mget (by_id ms) i = None"
  shows "length (filter (\<lambda>m. old (Manifest_Id m) \<noteq> Some (manifest_norm m)) ms) + length (filter P ids) =
    card {i. old i \<noteq> norm_of (by_id ms) i}"
proof -
  let ?A = "Manifest_Id ` set (filter (\<lambda>m. old (Manifest_Id m) \<noteq> Some (manifest_norm m)) ms)"
  have norm: "norm_of (by_id ms) (Manifest_Id m) = Some (manifest_norm m)" if "m \<in> set ms" for m
    using that by_id_get [OF ms, of "Manifest_Id m" m] by simp
  have "length (filter (\<lambda>m. old (Manifest_Id m) \<noteq> Some (manifest_norm m)) ms) = card ?A"
    using distinct_card [OF distinct_map_filter [OF ms]] by (metis length_map list.set_map)
  moreover have "length (filter P ids) = card (set (filter P ids))" by (metis distinct_card distinct_filter ids(1))
  moreover have "?A \<inter> set (filter P ids) = {}" using P norm by fastforce
  moreover have "{i. old i \<noteq> norm_of (by_id ms) i} = ?A \<union> set (filter P ids)"
  proof (intro set_eqI iffI)
    fix i assume i: "i \<in> {i. old i \<noteq> norm_of (by_id ms) i}"
    show "i \<in> ?A \<union> set (filter P ids)"
    proof (cases "mget (by_id ms) i")
      case None
      then show ?thesis using i P [of i] ids(2) by auto
    next
      case (Some m)
      then have "m \<in> set ms" "i = Manifest_Id m" using by_id_get [OF ms] by simp_all
      moreover have "old i \<noteq> Some (manifest_norm m)" using i Some by simp
      ultimately show ?thesis by simp
    qed
  next
    fix i assume "i \<in> ?A \<union> set (filter P ids)"
    then show "i \<in> {i. old i \<noteq> norm_of (by_id ms) i}" using P norm by auto
  qed
  ultimately show ?thesis by (simp add: card_Un_disjoint)
qed

lemma create_all_synced:
  assumes "tracker dyn objs"
  shows "distinct (map Manifest_Id ms) \<Longrightarrow> set ms \<subseteq> U \<Longrightarrow> \<forall>m\<in>set ms. mget s (Manifest_Id m) = None \<Longrightarrow>
    synced dyn objs U \<lparr>st_CurrentState = s, st_cluster = fc\<rparr> \<Longrightarrow>
    \<exists>fc'. create_all dyn ms s fc = (fc', Inr (foldl (\<lambda>s m. mput (Manifest_Id m) m s) s ms)) \<and>
      synced dyn objs U \<lparr>st_CurrentState = foldl (\<lambda>s m. mput (Manifest_Id m) m s) s ms, st_cluster = fc'\<rparr>"
proof (induction ms arbitrary: s fc)
  case (Cons m ms)
  from synced_create [OF assms Cons.prems(4), of m] Cons.prems obtain fc1 where
    fc1: "FakeCluster_Create dyn ''default'' m fc = Inr fc1"
      "synced dyn objs U \<lparr>st_CurrentState = mput (Manifest_Id m) m s, st_cluster = fc1\<rparr>" by auto
  have "\<forall>m'\<in>set ms. mget (mput (Manifest_Id m) m s) (Manifest_Id m') = None"
    using Cons.prems(1,3) by (auto simp: image_iff)
  with Cons.IH [OF _ _ _ fc1(2)] Cons.prems fc1(1) show ?case by simp
qed simp

lemma ChangeState_applies:
  assumes tr: "tracker dyn objs" and c: "synced dyn objs U c" and order: "\<And>m. wf_map m \<Longrightarrow> range_of m (order m)"
    and new: "GetManifestListFromYamlDocuments unmarshal ks raw = Inr ms" "distinct (map Manifest_Id ms)" "set ms \<subseteq> U"
  shows "\<exists>c'. ChangeState unmarshal ks order dyn raw c =
      (c', card {i. norm_of (st_CurrentState c) i \<noteq> norm_of (by_id ms) i}, None) \<and>
    synced dyn objs U c' \<and> (\<forall>i. norm_of (st_CurrentState c') i = norm_of (by_id ms) i)"
proof -
  let ?old = "norm_of (st_CurrentState c)" and ?s = "foldl (\<lambda>s m. mput (Manifest_Id m) m s) [] ms"
  have s: "mget ?s i = mget (by_id ms) i" for i using new_state_get [OF new(2), of "[]" i] by (simp split: option.splits)
  from apply_new_all [OF tr new(2,3) c, of 0] obtain c1 where
    c1: "apply_new dyn ms 0 c = (c1, length (filter (\<lambda>m. ?old (Manifest_Id m) \<noteq> Some (manifest_norm m)) ms), None)"
      "synced dyn objs U c1"
      "\<And>i. norm_of (st_CurrentState c1) i =
        (case mget (by_id ms) i of None \<Rightarrow> ?old i | Some m \<Rightarrow> Some (manifest_norm m))" by auto
  let ?ids = "order (st_CurrentState c1)"
  let ?P = "\<lambda>i. mget (st_CurrentState c1) i \<noteq> None \<and> mget ?s i = None"
  have range: "range_of (st_CurrentState c1) ?ids" by (rule order [OF syncedD(2) [OF c1(2)]])
  then have ids: "distinct ?ids" "\<And>i. i \<in> set ?ids \<longleftrightarrow> mget (st_CurrentState c1) i \<noteq> None"
    by (simp add: range_of_def) (rule range_of_mem [OF range])
  let ?n = "length (filter (\<lambda>m. ?old (Manifest_Id m) \<noteq> Some (manifest_norm m)) ms)"
  from remove_old_all [OF tr ids(1) c1(2), of ?s ?n] obtain c' where
    c': "remove_old dyn ?s ?ids ?n c1 = (c', ?n + length (filter ?P ?ids), None)" "synced dyn objs U c'"
      "\<And>i. mget (st_CurrentState c') i = (if i \<in> set ?ids \<and> mget ?s i = None then None else mget (st_CurrentState c1) i)"
    by blast
  have "?P i \<longleftrightarrow> ?old i \<noteq> None \<and> mget (by_id ms) i = None" for i
    using c1(3) [of i] s [of i]
    by (cases "mget (by_id ms) i"; cases "mget (st_CurrentState c1) i"; cases "mget (st_CurrentState c) i") simp_all
  then have "?n + length (filter ?P ?ids) = card {i. ?old i \<noteq> norm_of (by_id ms) i}"
    using ids by (intro length_changed [OF new(2)]) blast+
  then have "ChangeState unmarshal ks order dyn raw c = (c', card {i. ?old i \<noteq> norm_of (by_id ms) i}, None)"
    using new(1) c1(1) c'(1) by (simp add: ChangeState_def Let_def)
  moreover have "norm_of (st_CurrentState c') i = norm_of (by_id ms) i" for i
    using c'(3) [of i] ids(2) [of i] c1(3) [of i] s [of i] by (auto split: option.splits)
  ultimately show ?thesis using c'(2) by blast
qed

section \<open>Properties\<close>

text \<open>
  C33. The test library compacts binding contexts exactly as the operator does when it combines
  tasks: the rendered list is the operator's compaction of the list, converted for version v1, and
  the list that is returned next to it is the full one.
\<close>

theorem convertBindingContexts_compacts:
  "convertBindingContexts unmarshal encode bcs =
     go_bind (ConvertBindingContextList unmarshal ''v1'' (compact_contexts bcs)) (\<lambda>bcList. Ret
       (case encode bcList of
          Inl err \<Rightarrow> Inl (''marshaling binding context error: '' @ err)
        | Inr data \<Rightarrow> Inr (data, bcs)))"
proof -
  have "snd (snd (foldl compact_step ([], 0, []) bcs)) = compact_contexts bcs"
    using compact_step_fold [of "[]" 0 "[]" bcs] by simp
  then show ?thesis by (auto simp: convertBindingContexts_def split: prod.split)
qed


text \<open>
  On a cluster without objects, setting the initial state creates the objects of the manifests
  and establishes the agreement of state and cluster that a change of state relies on.
\<close>

theorem SetInitialState_synced:
  assumes tr: "tracker dyn objs" and empty: "objs (fc_Objects fc) = {}" and U: "known dyn fc U"
    and new: "GetManifestListFromYamlDocuments unmarshal ks raw = Inr ms" "distinct (map Manifest_Id ms)" "set ms \<subseteq> U"
  shows "\<exists>c. SetInitialState unmarshal ks dyn raw (NewStateController fc) = (c, None) \<and> synced dyn objs U c \<and>
    (\<forall>i. mget (st_CurrentState c) i = mget (by_id ms) i)"
proof -
  let ?s = "foldl (\<lambda>s m. mput (Manifest_Id m) m s) [] ms"
  have "synced dyn objs U \<lparr>st_CurrentState = [], st_cluster = fc\<rparr>" using empty U by (simp add: synced_def)
  from create_all_synced [OF tr new(2,3) _ this] obtain fc' where
    "create_all dyn ms [] fc = (fc', Inr ?s)" "synced dyn objs U \<lparr>st_CurrentState = ?s, st_cluster = fc'\<rparr>" by auto
  moreover have "mget ?s i = mget (by_id ms) i" for i
    using new_state_get [OF new(2), of "[]" i] by (simp split: option.splits)
  ultimately show ?thesis using new(1) by (simp add: SetInitialState_def NewStateController_def)
qed

abbreviation pod_manifest :: "string \<Rightarrow> string \<Rightarrow> Manifest" where
  "pod_manifest name img \<equiv> [(''apiVersion'', JStr ''v1''), (''kind'', JStr ''Pod''),
     (''metadata'', JObj [(''name'', JStr name)]), (''image'', JStr img)]"

definition demo_yaml :: "string \<Rightarrow> string + Manifest" where
  "demo_yaml s = (if length s = 2 then Inr (pod_manifest [hd s] (tl s)) else Inl ''syntax error'')"

definition demo_state :: "object_key list StateController" where
  "demo_state = \<lparr>st_CurrentState = by_id [pod_manifest ''a'' ''1'', pod_manifest ''b'' ''1''],
     st_cluster = \<lparr>fc_Resources = ClusterResources,
       fc_Objects = map (\<lambda>n. (([], ''v1'', ''pods''), ''default'', n)) [''a'', ''b'']\<rparr>\<rparr>"

lemma pod_manifest_id: "Manifest_Id (pod_manifest n i) = ''default/Pod/'' @ n"
  by (simp add: Manifest_Id_def Manifest_Namespace_def Manifest_Kind_def Manifest_Name_def Manifest_Metadata_def
      getFieldString_def)

lemma pod_manifest_key:
  "manifest_key list_tracker (st_cluster demo_state) (pod_manifest n i) = Some (([], ''v1'', ''pods''), ''default'', n)"
proof -
  have "FindGvr split_gv ClusterResources ''v1'' ''Pod'' = Some ([], ''v1'', ''pods'')" by code_simp
  then show ?thesis
    by (simp add: manifest_key_def demo_state_def list_tracker_def Manifest_Namespace_def Manifest_ApiVersion_def
        Manifest_Kind_def Manifest_Name_def Manifest_Metadata_def getFieldString_def)
qed

lemma demo_known: "known list_tracker (st_cluster demo_state) {m. \<exists>n i. m = pod_manifest n i}"
proof (unfold known_def, intro conjI ballI)
  fix m m' assume "m \<in> {m. \<exists>n i. m = pod_manifest n i}" "m' \<in> {m. \<exists>n i. m = pod_manifest n i}"
  then obtain n i n' i' where "m = pod_manifest n i" "m' = pod_manifest n' i'" by blast
  then show "Manifest_Id m = Manifest_Id m' \<longleftrightarrow>
      manifest_key list_tracker (st_cluster demo_state) m = manifest_key list_tracker (st_cluster demo_state) m'"
    by (simp only: pod_manifest_id pod_manifest_key option.inject prod.inject same_append_eq simp_thms)
next
  fix m assume "m \<in> {m. \<exists>n i. m = pod_manifest n i}"
  then obtain n i where "m = pod_manifest n i" by blast
  then show "manifest_key list_tracker (st_cluster demo_state) m \<noteq> None"
    by (simp only: pod_manifest_key option.simps not_False_eq_True)
qed

lemma demo_docs:
  "GetManifestListFromYamlDocuments demo_yaml [''manifest-0'', ''manifest-1''] (join_docs [''a2'', ''c1'']) =
     Inr [pod_manifest ''a'' ''2'', pod_manifest ''c'' ''1'']"
  "distinct (map Manifest_Id [pod_manifest ''a'' ''2'', pod_manifest ''c'' ''1''])"
  "set [pod_manifest ''a'' ''2'', pod_manifest ''c'' ''1''] \<subseteq> {m. \<exists>n i. m = pod_manifest n i}"
  by code_simp (auto simp: pod_manifest_id)

theorem SetInitialState_synced_witness:
  "\<exists>c. SetInitialState demo_yaml [''manifest-0'', ''manifest-1''] list_tracker (join_docs [''a2'', ''c1''])
       (NewStateController (NewFakeCluster [])) = (c, None) \<and>
     mget (st_CurrentState c) ''default/Pod/c'' = Some (pod_manifest ''c'' ''1'')"
proof -
  have fc: "st_cluster demo_state = (NewFakeCluster []) \<lparr>fc_Objects := fc_Objects (st_cluster demo_state)\<rparr>"
    by (simp add: demo_state_def NewFakeCluster_def)
  have "known list_tracker (NewFakeCluster []) {m. \<exists>n i. m = pod_manifest n i}"
    using demo_known unfolding arg_cong [OF fc, of "\<lambda>f. known list_tracker f _"] known_cong .
  from SetInitialState_synced [OF list_tracker _ this demo_docs] show ?thesis
    by (auto simp: NewFakeCluster_def pod_manifest_id)
qed


end
