(* ===== verification/Hook_Test_Run.thy ===== *)
theory Hook_Test_Run
  imports Hook_Test_Context Hook_Manager
begin

text \<open>
  The controller of \<open>test/hook/context/generator.go\<close>: it runs a hook configuration against the fake cluster
  and returns the binding contexts of the changes. What happens in the informers between two calls is
  an argument: each wait for an event gets the event and the events manager at that moment, or the
  end of the time limit. The fresh managers of \<open>Run\<close> are an argument as well.
\<close>

section \<open>Operations\<close>

record ('cl, 'c) BindingContextController =
  bcc_Hook :: "Hook option"
  bcc_HookCtrl :: "hookController option"
  bcc_HookConfig :: string
  bcc_Controller :: "'cl StateController"
  bcc_managers :: "'c managers"

definition NewBindingContextController ::
    "'cl \<Rightarrow> 'c managers \<Rightarrow> string \<Rightarrow> ('cl, 'c) BindingContextController" where
  "NewBindingContextController objects w config =
     \<lparr>bcc_Hook = None, bcc_HookCtrl = None, bcc_HookConfig = config,
      bcc_Controller = NewStateController (NewFakeCluster objects), bcc_managers = w\<rparr>"

definition WithHook :: "Hook \<Rightarrow> ('cl, 'c) BindingContextController \<Rightarrow> ('cl, 'c) BindingContextController" where
  "WithHook h b = b\<lparr>bcc_Hook := Some h, bcc_HookConfig := []\<rparr>"

definition controller_RegisterCRD ::
    "string \<Rightarrow> string \<Rightarrow> string \<Rightarrow> bool \<Rightarrow> ('cl, 'c) BindingContextController \<Rightarrow> ('cl, 'c) BindingContextController" where
  "controller_RegisterCRD grp version kind namespaced b =
     (let c = bcc_Controller b; fc = st_cluster c in
      b\<lparr>bcc_Controller := c\<lparr>st_cluster := fc\<lparr>fc_Resources := RegisterCRD grp version kind namespaced (fc_Resources fc)\<rparr>\<rparr>\<rparr>)"

datatype run_error = EState string | EConfig config_error | EEnable string | ERender string | ETimeout

text \<open>What the code uses of the outside: decoders, the encoder, the clients and the libraries of the managers.\<close>

record ('cl, 'c) test_env =
  te_unmarshal :: "string \<Rightarrow> string + Manifest"
  te_docs :: "string \<Rightarrow> string list"
  te_order :: "(string, Manifest) gomap \<Rightarrow> string list"
  te_dyn :: "'cl dynamic"
  te_json :: "string \<Rightarrow> json option"
  te_encode :: "(string, iface) gomap list \<Rightarrow> string + string"
  te_config :: config_env
  te_libs :: "'c libs"

definition render ::
    "('cl, 'c) test_env \<Rightarrow> BindingContext list \<Rightarrow> (run_error + string \<times> BindingContext list) go" where
  "render env bcs =
     go_bind (convertBindingContexts (te_json env) (te_encode env) bcs) (\<lambda>r. Ret
       (case r of Inl err \<Rightarrow> Inl (ERender err) | Inr res \<Rightarrow> Inr res))"

text \<open>The callback of \<open>Run\<close> and \<open>RunSchedule\<close>: the contexts with fresh snapshots, appended.\<close>

definition append_updated ::
    "orders \<Rightarrow> kubeEventsManager \<Rightarrow> hookController \<Rightarrow> BindingExecutionInfo list \<Rightarrow> BindingContext list go" where
  "append_updated ord mgr hc infos =
     go_fold (\<lambda>info bcs. go_bind (UpdateSnapshots ord mgr (bei_BindingContext info) hc) (\<lambda>new. Ret (bcs @ new))) infos []"

definition controller_Run ::
    "('cl, 'c) test_env \<Rightarrow> nat \<Rightarrow> string list \<Rightarrow> 'c managers \<Rightarrow> string \<Rightarrow> ('cl, 'c) BindingContextController \<Rightarrow>
     (('cl, 'c) BindingContextController \<times> (run_error + string \<times> BindingContext list)) go" where
  "controller_Run env n ks w initialState b =
     (let b = b\<lparr>bcc_managers := w\<rparr> in
      case SetInitialState (te_unmarshal env) (te_docs env initialState) (te_dyn env) initialState (bcc_Controller b) of
        (c, Some err) \<Rightarrow> Ret (b\<lparr>bcc_Controller := c\<rparr>, Inl (EState err))
      | (c, None) \<Rightarrow>
          (let b = b\<lparr>bcc_Controller := c\<rparr> in
           case (case bcc_Hook b of
                   Some h \<Rightarrow> Inr h
                 | None \<Rightarrow> (case Hook_WithConfig (te_config env) n (bcc_HookConfig b) (NewHook ''test'' ''test'') of
                     Inl err \<Rightarrow> Inl err | Inr (_, h) \<Rightarrow> Inr h)) of
             Inl err \<Rightarrow> Ret (b, Inl (EConfig err))
           | Inr h \<Rightarrow>
               (let hc = InitScheduleBindings (cfg_Schedules (h_Config h))
                      (InitKubernetesBindings (cfg_OnKubernetesEvents (h_Config h)) NewHookController);
                    (hc, w) = hc_EnableScheduleBindings (lib_cron (te_libs env)) hc (bcc_managers b)
                in case HandleEnableKubernetesBindings (te_libs env) hc w of
                     (hc, w, Inl err) \<Rightarrow>
                       Ret (b\<lparr>bcc_Hook := Some (WithHookController hc h), bcc_HookCtrl := Some hc, bcc_managers := w\<rparr>,
                         Inl (EEnable err))
                   | (hc, w, Inr infos) \<Rightarrow>
                       go_bind (append_updated (lib_ord (te_libs env)) (w_kem w) hc infos) (\<lambda>bcs.
                       go_bind (hc_StartMonitors (te_libs env) ks hc w) (\<lambda>w.
                       go_bind (render env bcs) (\<lambda>res. Ret
                         (b\<lparr>bcc_Hook := Some (WithHookController hc h), bcc_HookCtrl := Some hc, bcc_managers := w\<rparr>, res)))))))"

type_synonym arrivals = "(KubeEvent \<times> kubeEventsManager) option list"

definition event_contexts :: "orders \<Rightarrow> hookController \<Rightarrow> KubeEvent \<times> kubeEventsManager \<Rightarrow> BindingContext list" where
  "event_contexts ord hc ev = concat (map bei_BindingContext (hc_HandleKubeEvent ord (snd ev) (fst ev) hc))"

text \<open>
  The inner loop of \<open>ChangeState\<close>: as many waits as there are events. A wait that runs into the time
  limit receives nothing; its \<open>break\<close> leaves the \<open>select\<close> only, so that the loop goes on.
\<close>

fun receive_events ::
    "orders \<Rightarrow> hookController \<Rightarrow> nat \<Rightarrow> arrivals \<Rightarrow> BindingContext list \<Rightarrow> BindingContext list \<times> arrivals" where
  "receive_events ord hc 0 arr bcs = (bcs, arr)"
| "receive_events ord hc (Suc n) [] bcs = receive_events ord hc n [] bcs"
| "receive_events ord hc (Suc n) (None # arr) bcs = receive_events ord hc n arr bcs"
| "receive_events ord hc (Suc n) (Some ev # arr) bcs = receive_events ord hc n arr (bcs @ event_contexts ord hc ev)"

text \<open>Without a run before, the channel of the events manager and the controller of the hook are nil.\<close>

definition receive_all ::
    "orders \<Rightarrow> hookController option \<Rightarrow> nat \<Rightarrow> arrivals \<Rightarrow> BindingContext list \<Rightarrow> (BindingContext list \<times> arrivals) go" where
  "receive_all ord hookCtrl n arr bcs =
     (if n = 0 then Ret (bcs, arr)
      else case hookCtrl of None \<Rightarrow> Panic | Some hc \<Rightarrow> Ret (receive_events ord hc n arr bcs))"

fun change_states ::
    "('cl, 'c) test_env \<Rightarrow> hookController option \<Rightarrow> string list \<Rightarrow> arrivals \<Rightarrow> BindingContext list \<Rightarrow> 'cl StateController \<Rightarrow>
     ('cl StateController \<times> (run_error + BindingContext list)) go" where
  "change_states env hookCtrl [] arr bcs c = Ret (c, Inr bcs)"
| "change_states env hookCtrl (state # states) arr bcs c =
     (case ChangeState (te_unmarshal env) (te_docs env state) (te_order env) (te_dyn env) state c of
        (c, generatedEvents, Some err) \<Rightarrow> Ret (c, Inl (EState err))
      | (c, generatedEvents, None) \<Rightarrow>
          go_bind (receive_all (lib_ord (te_libs env)) hookCtrl generatedEvents arr bcs)
            (\<lambda>(bcs, arr). change_states env hookCtrl states arr bcs c))"

definition controller_ChangeState ::
    "('cl, 'c) test_env \<Rightarrow> string list \<Rightarrow> arrivals \<Rightarrow> ('cl, 'c) BindingContextController \<Rightarrow>
     (('cl, 'c) BindingContextController \<times> (run_error + string \<times> BindingContext list)) go" where
  "controller_ChangeState env newState arr b =
     go_bind (change_states env (bcc_HookCtrl b) newState arr [] (bcc_Controller b)) (\<lambda>(c, r).
       case r of
         Inl err \<Rightarrow> Ret (b\<lparr>bcc_Controller := c\<rparr>, Inl err)
       | Inr bcs \<Rightarrow> go_bind (render env bcs) (\<lambda>res. Ret (b\<lparr>bcc_Controller := c\<rparr>, res)))"

text \<open>The loop of \<open>ChangeStateAndWaitForBindingContexts\<close>, until the number is exactly the desired one.\<close>

fun wait_events ::
    "orders \<Rightarrow> hookController \<Rightarrow> nat \<Rightarrow> arrivals \<Rightarrow> BindingContext list \<Rightarrow> run_error + BindingContext list" where
  "wait_events ord hc desiredQuantity arr bcs =
     (if length bcs = desiredQuantity then Inr bcs
      else case arr of
          [] \<Rightarrow> Inl ETimeout
        | None # _ \<Rightarrow> Inl ETimeout
        | Some ev # arr' \<Rightarrow> wait_events ord hc desiredQuantity arr' (bcs @ event_contexts ord hc ev))"

definition ChangeStateAndWaitForBindingContexts ::
    "('cl, 'c) test_env \<Rightarrow> nat \<Rightarrow> string \<Rightarrow> arrivals \<Rightarrow> ('cl, 'c) BindingContextController \<Rightarrow>
     (('cl, 'c) BindingContextController \<times> (run_error + string \<times> BindingContext list)) go" where
  "ChangeStateAndWaitForBindingContexts env desiredQuantity newState arr b =
     (case ChangeState (te_unmarshal env) (te_docs env newState) (te_order env) (te_dyn env) newState (bcc_Controller b) of
        (c, _, Some err) \<Rightarrow> Ret (b\<lparr>bcc_Controller := c\<rparr>, Inl (EState err))
      | (c, _, None) \<Rightarrow>
          (case (if desiredQuantity = 0 then Ret (Inr [])
                 else case bcc_HookCtrl b of
                     None \<Rightarrow> Panic
                   | Some hc \<Rightarrow> Ret (wait_events (lib_ord (te_libs env)) hc desiredQuantity arr [])) of
             Panic \<Rightarrow> Panic
           | Ret (Inl err) \<Rightarrow> Ret (b\<lparr>bcc_Controller := c\<rparr>, Inl err)
           | Ret (Inr bcs) \<Rightarrow> go_bind (render env bcs) (\<lambda>res. Ret (b\<lparr>bcc_Controller := c\<rparr>, res))))"

definition RunSchedule ::
    "('cl, 'c) test_env \<Rightarrow> string list \<Rightarrow> string \<Rightarrow> ('cl, 'c) BindingContextController \<Rightarrow>
     (run_error + string \<times> BindingContext list) go" where
  "RunSchedule env ks crontab b =
     (case bcc_HookCtrl b of
        None \<Rightarrow> Panic
      | Some hc \<Rightarrow>
          (let ord = lib_ord (te_libs env); mgr = w_kem (bcc_managers b) in
           go_bind (append_updated ord mgr hc (hc_HandleScheduleEvent ord mgr ks crontab hc)) (render env)))"

definition controller_Stop :: "string list \<Rightarrow> ('cl, 'c) BindingContextController \<Rightarrow> ('cl, 'c) BindingContextController" where
  "controller_Stop ks b =
     (case bcc_HookCtrl b of None \<Rightarrow> b | Some hc \<Rightarrow> b\<lparr>bcc_managers := hc_StopMonitors ks hc (bcc_managers b)\<rparr>)"

declare wait_events.simps [simp del]

section \<open>The loops\<close>

lemma receive_events_all:
  "receive_events ord hc (length evs) (map Some evs @ rest) bcs = (bcs @ concat (map (event_contexts ord hc) evs), rest)"
  by (induction evs arbitrary: bcs) auto

lemma wait_events_iff:
  "wait_events ord hc q arr bcs = Inr res \<longleftrightarrow>
     (\<exists>evs rest. arr = map Some evs @ rest \<and> res = bcs @ concat (map (event_contexts ord hc) evs) \<and> length res = q \<and>
       (\<forall>k<length evs. length (bcs @ concat (map (event_contexts ord hc) (take k evs))) \<noteq> q))"
  (is "_ \<longleftrightarrow> ?R arr bcs")
proof (induction arr arbitrary: bcs)
  case Nil
  then show ?case by (auto simp: wait_events.simps)
next
  case (Cons a arr)
  show ?case
  proof (cases "length bcs = q")
    case True
    have "evs = []" if "a # arr = map Some evs @ rest"
      "\<forall>k<length evs. length (bcs @ concat (map (event_contexts ord hc) (take k evs))) \<noteq> q" for evs rest
      using that True by (cases evs) (auto dest: spec [of _ 0])
    then have "?R (a # arr) bcs \<longleftrightarrow> res = bcs" using True by (auto intro: exI [of _ "[]"])
    then show ?thesis using True by (auto simp: wait_events.simps)
  next
    case False
    show ?thesis
    proof (cases a)
      case None
      then have "\<not> ?R (a # arr) bcs" using False by (auto simp: Cons_eq_append_conv Cons_eq_map_conv)
      then show ?thesis using None False by (simp add: wait_events.simps)
    next
      case (Some ev)
      have "?R (a # arr) bcs \<longleftrightarrow> ?R arr (bcs @ event_contexts ord hc ev)"
      proof
        assume "?R (a # arr) bcs"
        then obtain evs rest where e: "a # arr = map Some evs @ rest" "res = bcs @ concat (map (event_contexts ord hc) evs)"
          "length res = q" "\<And>k. k < length evs \<Longrightarrow> length (bcs @ concat (map (event_contexts ord hc) (take k evs))) \<noteq> q" by blast
        have "evs \<noteq> []" using e False by auto
        then obtain evs' where evs: "evs = ev # evs'" "arr = map Some evs' @ rest" using e(1) Some by (cases evs) auto
        have "length ((bcs @ event_contexts ord hc ev) @ concat (map (event_contexts ord hc) (take k evs'))) \<noteq> q"
          if "k < length evs'" for k using e(4) [of "Suc k"] that evs(1) by simp
        with evs e(2,3) show "?R arr (bcs @ event_contexts ord hc ev)" by (intro exI [of _ evs'] exI [of _ rest]) simp
      next
        assume "?R arr (bcs @ event_contexts ord hc ev)"
        then obtain evs rest where e: "arr = map Some evs @ rest"
          "res = (bcs @ event_contexts ord hc ev) @ concat (map (event_contexts ord hc) evs)" "length res = q"
          "\<And>k. k < length evs \<Longrightarrow> length ((bcs @ event_contexts ord hc ev) @ concat (map (event_contexts ord hc) (take k evs))) \<noteq> q"
          by blast
        have "length (bcs @ concat (map (event_contexts ord hc) (take k (ev # evs)))) \<noteq> q" if "k < length (ev # evs)" for k
          using e(4) [of "k - 1"] that False by (cases k) auto
        with e Some show "?R (a # arr) bcs" by (intro exI [of _ "ev # evs"] exI [of _ rest]) simp
      qed
      moreover have "wait_events ord hc q (a # arr) bcs = wait_events ord hc q arr (bcs @ event_contexts ord hc ev)"
        by (subst wait_events.simps) (simp add: Some False)
      ultimately show ?thesis using Cons.IH [of "bcs @ event_contexts ord hc ev"] by (simp only:)
    qed
  qed
qed

section \<open>Properties\<close>

text \<open>
  When the events of a change arrive in time, the test library returns the contexts of all of
  them in the order of their arrival, next to the rendering of their compaction, and its state and
  the cluster hold the new manifests.
\<close>

theorem controller_ChangeState_renders:
  assumes tr: "tracker (te_dyn env) objs" and c: "synced (te_dyn env) objs U (bcc_Controller b)"
    and order: "\<And>m. wf_map m \<Longrightarrow> range_of m (te_order env m)"
    and new: "GetManifestListFromYamlDocuments (te_unmarshal env) (te_docs env raw) raw = Inr ms"
      "distinct (map Manifest_Id ms)" "set ms \<subseteq> U"
    and hc: "bcc_HookCtrl b = Some hc"
    and evs: "length evs = card {i. norm_of (st_CurrentState (bcc_Controller b)) i \<noteq> norm_of (by_id ms) i}"
  shows "\<exists>c'. controller_ChangeState env [raw] (map Some evs) b =
      go_bind (render env (concat (map (event_contexts (lib_ord (te_libs env)) hc) evs)))
        (\<lambda>res. Ret (b\<lparr>bcc_Controller := c'\<rparr>, res)) \<and>
    synced (te_dyn env) objs U c' \<and> (\<forall>i. norm_of (st_CurrentState c') i = norm_of (by_id ms) i)"
proof -
  let ?ord = "lib_ord (te_libs env)"
  from ChangeState_applies [OF tr c order new] obtain c' where
    c': "ChangeState (te_unmarshal env) (te_docs env raw) (te_order env) (te_dyn env) raw (bcc_Controller b) = (c', length evs, None)"
      "synced (te_dyn env) objs U c'" "\<forall>i. norm_of (st_CurrentState c') i = norm_of (by_id ms) i"
    unfolding evs by blast
  have "receive_all ?ord (Some hc) (length evs) (map Some evs) [] = Ret (concat (map (event_contexts ?ord hc) evs), [])"
    using receive_events_all [of ?ord hc evs "[]" "[]"] by (simp add: receive_all_def)
  with c'(1) hc have "controller_ChangeState env [raw] (map Some evs) b =
      go_bind (render env (concat (map (event_contexts ?ord hc) evs))) (\<lambda>res. Ret (b\<lparr>bcc_Controller := c'\<rparr>, res))"
    by (simp add: controller_ChangeState_def)
  with c'(2,3) show ?thesis by blast
qed

text \<open>
  Waiting for a number of binding contexts succeeds exactly when the contexts of some first events
  are as many as desired, before the time limit, and then returns these; when an event brings the
  number beyond the desired one, it runs into the time limit.
\<close>

theorem wait_events_exact:
  "(\<exists>res. wait_events ord hc q arr [] = Inr res) \<longleftrightarrow>
     (\<exists>evs rest. arr = map Some evs @ rest \<and> length (concat (map (event_contexts ord hc) evs)) = q)"
proof
  assume "\<exists>res. wait_events ord hc q arr [] = Inr res"
  then show "\<exists>evs rest. arr = map Some evs @ rest \<and> length (concat (map (event_contexts ord hc) evs)) = q"
    unfolding wait_events_iff by force
next
  let ?P = "\<lambda>k evs. length (concat (map (event_contexts ord hc) (take k evs))) = q"
  assume "\<exists>evs rest. arr = map Some evs @ rest \<and> length (concat (map (event_contexts ord hc) evs)) = q"
  then obtain evs rest where e: "arr = map Some evs @ rest" "?P (length evs) evs" by auto
  define k where "k = (LEAST k. ?P k evs)"
  have k: "?P k evs" unfolding k_def by (rule LeastI [of "\<lambda>k. ?P k evs", OF e(2)])
  have least: "\<not> ?P j evs" if "j < k" for j using that not_less_Least unfolding k_def by blast
  have "k \<le> length evs" unfolding k_def by (rule Least_le) (rule e(2))
  have "arr = map Some (take k evs) @ (map Some (drop k evs) @ rest)"
    using e(1) by (metis append.assoc append_take_drop_id map_append)
  moreover have "\<forall>j<length (take k evs). length ([] @ concat (map (event_contexts ord hc) (take j (take k evs)))) \<noteq> q"
    using least by (auto simp: min_def)
  ultimately have "wait_events ord hc q arr [] = Inr (concat (map (event_contexts ord hc) (take k evs)))"
    unfolding wait_events_iff using k
    by (intro exI [of _ "take k evs"] exI [of _ "map Some (drop k evs) @ rest"]) simp
  then show "\<exists>res. wait_events ord hc q arr [] = Inr res" by blast
qed

end
