(* ===== verification/Checksums.thy ===== *)
theory Checksums
  imports Resource_Informer
begin

text \<open>
  The checksums of files and directories (\<open>pkg/utils/checksum/checksum.go\<close>). A directory tree is what
  \<open>filepath.Walk\<close> visits, in its lexical order: regular files with their content or the error of
  reading them, other files, directories, and directories that cannot be read.
  The walk does not follow links; a path that is a link to a directory is left out.
\<close>

section \<open>Operations\<close>

datatype cnode =
    CFile string "string + string"
  | COther string "string + string"
  | CDir string "cnode list"
  | CBroken string string

definition CalculateChecksumOfFile :: "kube_env \<Rightarrow> string + string \<Rightarrow> string + string" where
  "CalculateChecksumOfFile env content =
     (case content of Inl err \<Rightarrow> Inl err | Inr content \<Rightarrow> Inr (CalculateChecksum env [content]))"

text \<open>The function that is walked, with \<open>res\<close> as its state.\<close>

fun checksum_walk :: "kube_env \<Rightarrow> cnode \<Rightarrow> string \<Rightarrow> string + string"
  and checksum_children :: "kube_env \<Rightarrow> cnode list \<Rightarrow> string \<Rightarrow> string + string" where
  "checksum_walk env (CBroken _ err) res = Inl err"
| "checksum_walk env (COther _ _) res = Inr res"
| "checksum_walk env (CDir _ children) res = checksum_children env children res"
| "checksum_walk env (CFile _ content) res =
     (case CalculateChecksumOfFile env content of
        Inl err \<Rightarrow> Inl err
      | Inr checksum \<Rightarrow> Inr (CalculateChecksum env [res, checksum]))"
| "checksum_children env [] res = Inr res"
| "checksum_children env (c # cs) res =
     (case checksum_walk env c res of Inl err \<Rightarrow> Inl err | Inr res \<Rightarrow> checksum_children env cs res)"

definition CalculateChecksumOfDirectory :: "kube_env \<Rightarrow> cnode \<Rightarrow> string + string" where
  "CalculateChecksumOfDirectory env tree =
     (case checksum_walk env tree [] of Inl err \<Rightarrow> Inl err | Inr res \<Rightarrow> Inr res)"

text \<open>The loop over the paths; \<open>os.Stat\<close> gives an error or what the path leads to.\<close>

fun checksum_paths :: "kube_env \<Rightarrow> (string \<Rightarrow> string + cnode) \<Rightarrow> string list \<Rightarrow> string \<Rightarrow> string + string" where
  "checksum_paths env fs [] res = Inr res"
| "checksum_paths env fs (path # paths) res =
     (case fs path of
        Inl err \<Rightarrow> Inl err
      | Inr node \<Rightarrow>
          (case (case node of
                   CDir n cs \<Rightarrow> CalculateChecksumOfDirectory env node
                 | CFile n content \<Rightarrow> CalculateChecksumOfFile env content
                 | CBroken n err \<Rightarrow> CalculateChecksumOfDirectory env node
                 | COther n content \<Rightarrow> CalculateChecksumOfFile env content) of
             Inl err \<Rightarrow> Inl err
           | Inr checksum \<Rightarrow> checksum_paths env fs paths (CalculateChecksum env [res, checksum])))"

definition CalculateChecksumOfPaths :: "kube_env \<Rightarrow> (string \<Rightarrow> string + cnode) \<Rightarrow> string list \<Rightarrow> string + string" where
  "CalculateChecksumOfPaths env fs pathArr = checksum_paths env fs pathArr []"

section \<open>Contents\<close>

text \<open>\<open>contents\<close>: the contents of the regular files in the order of the walk, if everything can be read.\<close>

fun contents :: "cnode \<Rightarrow> string list option"
  and contents_list :: "cnode list \<Rightarrow> string list option" where
  "contents (CBroken _ err) = None"
| "contents (COther _ _) = Some []"
| "contents (CDir _ children) = contents_list children"
| "contents (CFile _ content) = (case content of Inl _ \<Rightarrow> None | Inr s \<Rightarrow> Some [s])"
| "contents_list [] = Some []"
| "contents_list (c # cs) =
     (case contents c of None \<Rightarrow> None | Some xs \<Rightarrow> map_option (\<lambda>ys. xs @ ys) (contents_list cs))"

abbreviation chain :: "kube_env \<Rightarrow> string list \<Rightarrow> string \<Rightarrow> string" where
  "chain env xs res \<equiv> foldl (\<lambda>res s. CalculateChecksum env [res, CalculateChecksum env [s]]) res xs"

lemma checksum_walk_contents:
  "case contents t of
     None \<Rightarrow> (\<exists>err. checksum_walk env t res = Inl err)
   | Some xs \<Rightarrow> checksum_walk env t res = Inr (chain env xs res)"
  "case contents_list ts of
     None \<Rightarrow> (\<exists>err. checksum_children env ts res = Inl err)
   | Some xs \<Rightarrow> checksum_children env ts res = Inr (chain env xs res)"
proof (induction t and ts arbitrary: res and res rule: contents_contents_list.induct)
  case (6 c cs)
  show ?case
  proof (cases "contents c")
    case None
    then show ?thesis using "6.IH"(1) [of res] by auto
  next
    case (Some xs)
    then show ?thesis using "6.IH"(1) [of res] "6.IH"(2) [OF Some, of "chain env xs res"]
      by (auto split: option.splits)
  qed
qed (auto simp: CalculateChecksumOfFile_def split: sum.splits option.splits)

section \<open>Property\<close>

text \<open>
  The checksum of a directory exists exactly when everything in it can be read, and it depends
  on the contents of the regular files in the order of the walk only: renaming a file so that the
  order stays, or moving it into a subdirectory at its place, is not noticed.
\<close>

theorem CalculateChecksumOfDirectory_contents:
  "(case contents t of
      None \<Rightarrow> (\<exists>err. CalculateChecksumOfDirectory env t = Inl err)
    | Some xs \<Rightarrow> CalculateChecksumOfDirectory env t = Inr (chain env xs []))"
  using checksum_walk_contents(1) [where t = t and env = env and res = "[]"]
  by (auto simp: CalculateChecksumOfDirectory_def split: option.splits)

end
