(* ===== verification/Log_Analyzer.thy ===== *)
theory Log_Analyzer
  imports Prelude "HOL-Library.Sublist"
begin

text \<open>
  \<open>test/utils/jsonloganalyzer.go\<close>: matchers that follow the log of the operator in the integration
  tests. A matcher has steps, each of which waits for a log record; an analyzer has groups of
  matchers, one group after the other. The callbacks of a step may panic; \<open>HandleLine\<close> of a matcher
  recovers. Decoding a line is a parameter (its error is ignored by the code).
\<close>

section \<open>Log records\<close>

type_synonym JsonLogRecord = "(string, string) gomap"

definition HasField :: "JsonLogRecord \<Rightarrow> string \<Rightarrow> bool" where
  "HasField m key \<longleftrightarrow> mget m key \<noteq> None"

definition FieldContains :: "JsonLogRecord \<Rightarrow> string \<Rightarrow> string \<Rightarrow> bool" where
  "FieldContains m key s = (case mget m key of None \<Rightarrow> False | Some v \<Rightarrow> sublist s v)"

definition FieldHasPrefix :: "JsonLogRecord \<Rightarrow> string \<Rightarrow> string \<Rightarrow> bool" where
  "FieldHasPrefix m key s = (case mget m key of None \<Rightarrow> False | Some v \<Rightarrow> prefix s v)"

definition FieldEquals :: "JsonLogRecord \<Rightarrow> string \<Rightarrow> string \<Rightarrow> bool" where
  "FieldEquals m key s = (case mget m key of None \<Rightarrow> False | Some v \<Rightarrow> v = s)"

section \<open>Matchers\<close>

type_synonym match_fn = "JsonLogRecord \<Rightarrow> bool go"
type_synonym on_match_fn = "JsonLogRecord \<Rightarrow> string option go"

record MatcherStep =
  ms_Matcher :: "match_fn option"
  ms_OnMatch :: "on_match_fn option"
  ms_NotMatcher :: "match_fn option"
  ms_OnNotMatch :: "on_match_fn option"

definition LineMatcher :: "match_fn \<Rightarrow> on_match_fn list \<Rightarrow> MatcherStep" where
  "LineMatcher matchFn onMatch =
     \<lparr>ms_Matcher = Some matchFn, ms_OnMatch = (if length onMatch > 0 then Some (onMatch ! 0) else None),
      ms_NotMatcher = None, ms_OnNotMatch = None\<rparr>"

definition AwaitMatch :: "match_fn \<Rightarrow> on_match_fn list \<Rightarrow> MatcherStep" where
  "AwaitMatch matchFn onMatch = LineMatcher matchFn onMatch"

text \<open>The text of the default error ends with the formatted record, which \<open>show_rec\<close> stands for.\<close>

definition LineNotMatcher :: "(JsonLogRecord \<Rightarrow> string) \<Rightarrow> match_fn \<Rightarrow> on_match_fn list \<Rightarrow> MatcherStep" where
  "LineNotMatcher show_rec matchFn onMatch =
     \<lparr>ms_Matcher = None, ms_OnMatch = None, ms_NotMatcher = Some matchFn,
      ms_OnNotMatch = (if length onMatch > 0 then Some (onMatch ! 0)
        else Some (\<lambda>r. Ret (Some (''log line matches negative matcher: '' @ show_rec r))))\<rparr>"

definition AwaitNotMatch :: "(JsonLogRecord \<Rightarrow> string) \<Rightarrow> match_fn \<Rightarrow> on_match_fn list \<Rightarrow> MatcherStep" where
  "AwaitNotMatch show_rec notMatchFn onMatch = LineNotMatcher show_rec notMatchFn onMatch"

record JsonLogMatcher =
  jm_Steps :: "MatcherStep list"
  jm_Index :: nat
  jm_finished :: bool
  jm_err :: "string option"

definition NewJsonLogMatcher :: "MatcherStep list \<Rightarrow> JsonLogMatcher" where
  "NewJsonLogMatcher steps = \<lparr>jm_Steps = steps, jm_Index = 0, jm_finished = False, jm_err = None\<rparr>"

definition matcher_Reset :: "JsonLogMatcher \<Rightarrow> JsonLogMatcher" where
  "matcher_Reset m = m\<lparr>jm_Index := 0, jm_finished := False, jm_err := None\<rparr>"

definition next_step :: "JsonLogMatcher \<Rightarrow> JsonLogMatcher" where
  "next_step m = (if jm_Index m = length (jm_Steps m) - 1 then m\<lparr>jm_finished := True\<rparr> else m\<lparr>jm_Index := jm_Index m + 1\<rparr>)"

text \<open>
  The two halves of \<open>HandleLine\<close>. The result says whether the function goes on after the half; a
  panic ends it in the deferred function, which sets \<open>finished\<close>.
\<close>

definition match_half :: "MatcherStep \<Rightarrow> JsonLogRecord \<Rightarrow> JsonLogMatcher \<Rightarrow> JsonLogMatcher \<times> bool" where
  "match_half step logRecord m =
     (case ms_Matcher step of
        None \<Rightarrow> (m, True)
      | Some f \<Rightarrow>
          (case f logRecord of
             Panic \<Rightarrow> (m\<lparr>jm_finished := True\<rparr>, False)
           | Ret False \<Rightarrow> (m, True)
           | Ret True \<Rightarrow>
               (case ms_OnMatch step of
                  None \<Rightarrow> (next_step m, True)
                | Some g \<Rightarrow>
                    (case g logRecord of
                       Panic \<Rightarrow> (m\<lparr>jm_finished := True\<rparr>, False)
                     | Ret (Some err) \<Rightarrow> (m\<lparr>jm_err := Some err, jm_finished := True\<rparr>, False)
                     | Ret None \<Rightarrow> (next_step m, True)))))"

definition not_match_half :: "MatcherStep \<Rightarrow> JsonLogRecord \<Rightarrow> JsonLogMatcher \<Rightarrow> JsonLogMatcher" where
  "not_match_half step logRecord m =
     (case ms_NotMatcher step of
        None \<Rightarrow> m
      | Some f \<Rightarrow>
          (let m = m\<lparr>jm_finished := True\<rparr> in
           case f logRecord of
             Panic \<Rightarrow> m
           | Ret False \<Rightarrow> m
           | Ret True \<Rightarrow>
               (case ms_OnNotMatch step of
                  None \<Rightarrow> next_step m
                | Some g \<Rightarrow>
                    (case g logRecord of
                       Panic \<Rightarrow> m
                     | Ret (Some err) \<Rightarrow> m\<lparr>jm_err := Some err\<rparr>
                     | Ret None \<Rightarrow> next_step m))))"

definition matcher_HandleLine :: "(string \<Rightarrow> JsonLogRecord) \<Rightarrow> string \<Rightarrow> JsonLogMatcher \<Rightarrow> JsonLogMatcher" where
  "matcher_HandleLine decode line m =
     (if jm_Index m \<ge> length (jm_Steps m) then m\<lparr>jm_finished := True\<rparr>
      else
        (let step = jm_Steps m ! jm_Index m in
         if jm_finished m \<and> ms_Matcher step \<noteq> None then m
         else
           (case match_half step (decode line) m of
              (m, goes_on) \<Rightarrow> if goes_on then not_match_half step (decode line) m else m)))"

section \<open>The analyzer\<close>

text \<open>\<open>OnStopFn\<close> is called or not; the second component of a result says so.\<close>

record JsonLogAnalyzer =
  ja_Matchers :: "JsonLogMatcher list list"
  ja_OnStop :: bool
  ja_Index :: nat
  ja_finished :: bool
  ja_groupFinished :: bool
  ja_err :: "string option"

definition NewJsonLogAnalyzer :: JsonLogAnalyzer where
  "NewJsonLogAnalyzer = \<lparr>ja_Matchers = [], ja_OnStop = False, ja_Index = 0, ja_finished = False,
     ja_groupFinished = True, ja_err = None\<rparr>"

definition AddGroup :: "JsonLogMatcher list \<Rightarrow> JsonLogAnalyzer \<Rightarrow> JsonLogAnalyzer" where
  "AddGroup analyzers r = r\<lparr>ja_Matchers := ja_Matchers r @ [analyzers]\<rparr>"

definition OnStop :: "JsonLogAnalyzer \<Rightarrow> JsonLogAnalyzer" where
  "OnStop r = r\<lparr>ja_OnStop := True\<rparr>"

definition analyzer_Reset :: "JsonLogAnalyzer \<Rightarrow> JsonLogAnalyzer" where
  "analyzer_Reset a = a\<lparr>ja_Matchers := map (map matcher_Reset) (ja_Matchers a), ja_Index := 0, ja_groupFinished := True,
     ja_finished := False, ja_err := None\<rparr>"

text \<open>The loop over the matchers of a group: the matchers afterwards, the error that ended it and \<open>groupFinished\<close>.\<close>

fun handle_group ::
    "(string \<Rightarrow> JsonLogRecord) \<Rightarrow> string \<Rightarrow> JsonLogMatcher list \<Rightarrow> JsonLogMatcher list \<times> string option \<times> bool" where
  "handle_group decode line [] = ([], None, True)"
| "handle_group decode line (m # ms) =
     (let m = matcher_HandleLine decode line m in
      case jm_err m of
        Some err \<Rightarrow> (m # ms, Some err, True)
      | None \<Rightarrow>
          (case handle_group decode line ms of
             (ms, err, groupFinished) \<Rightarrow> (m # ms, err, jm_finished m \<and> groupFinished)))"

definition analyzer_HandleLine ::
    "(string \<Rightarrow> JsonLogRecord) \<Rightarrow> string \<Rightarrow> JsonLogAnalyzer \<Rightarrow> (JsonLogAnalyzer \<times> bool) go" where
  "analyzer_HandleLine decode line a =
     (if ja_finished a then Ret (a, False)
      else if ja_Index a \<ge> length (ja_Matchers a) then Panic
      else
        (let matchers = ja_Matchers a ! ja_Index a;
             matchers = (if ja_groupFinished a then map matcher_Reset matchers else matchers);
             a = a\<lparr>ja_groupFinished := False\<rparr>
         in case handle_group decode line matchers of
           (matchers, err, groupFinished) \<Rightarrow>
             (let a = a\<lparr>ja_Matchers := (ja_Matchers a)[ja_Index a := matchers]\<rparr>;
                  a = (case err of
                      Some e \<Rightarrow> a\<lparr>ja_err := Some e, ja_finished := True\<rparr>
                    | None \<Rightarrow>
                        (let a = (if groupFinished then a\<lparr>ja_Index := ja_Index a + 1, ja_groupFinished := True\<rparr> else a)
                         in if ja_Index a = length (ja_Matchers a) then a\<lparr>ja_finished := True\<rparr> else a))
              in Ret (a, ja_finished a \<and> ja_OnStop a))))"

definition analyzer_succeeded :: "JsonLogAnalyzer \<Rightarrow> bool" where
  "analyzer_succeeded a \<longleftrightarrow> ja_finished a \<and> ja_err a = None"

section \<open>Waiting for records\<close>

text \<open>
  \<open>awaits ps rs\<close>: some records of \<open>rs\<close>, in their order, satisfy the predicates \<open>ps\<close> one by one.
  \<open>groups_match gs rs\<close>: \<open>rs\<close> can be cut into consecutive parts such that in each part all lists of
  predicates of a group are found.
\<close>

inductive awaits :: "('r \<Rightarrow> bool) list \<Rightarrow> 'r list \<Rightarrow> bool" where
  awaits_Nil: "awaits [] rs"
| awaits_skip: "awaits ps rs \<Longrightarrow> awaits ps (r # rs)"
| awaits_take: "p r \<Longrightarrow> awaits ps rs \<Longrightarrow> awaits (p # ps) (r # rs)"

inductive_cases awaits_ConsE: "awaits (p # ps) (r # rs)"
inductive_simps awaits_empty [simp]: "awaits ps []"

fun groups_match :: "('r \<Rightarrow> bool) list list list \<Rightarrow> 'r list \<Rightarrow> bool" where
  "groups_match [] rs = True"
| "groups_match (g # gs) rs = (\<exists>n\<le>length rs. (\<forall>ps\<in>set g. awaits ps (take n rs)) \<and> groups_match gs (drop n rs))"

declare awaits_Nil [simp, intro]

lemma awaits_tl: "awaits qs rs \<Longrightarrow> qs = p # ps \<Longrightarrow> awaits ps rs"
  by (induction arbitrary: p ps rule: awaits.induct) (auto intro: awaits.intros)

text \<open>Taking the first record that fits is as good as any other choice.\<close>

fun wait :: "'r \<Rightarrow> ('r \<Rightarrow> bool) list \<Rightarrow> ('r \<Rightarrow> bool) list" where
  "wait r [] = []"
| "wait r (p # ps) = (if p r then ps else p # ps)"

lemma awaits_greedy: "awaits ps (r # rs) \<longleftrightarrow> awaits (wait r ps) rs"
proof (cases ps)
  case (Cons p qs)
  show ?thesis unfolding Cons by (auto elim: awaits_ConsE dest: awaits_tl intro: awaits.intros)
qed simp

lemma awaits_append: "awaits ps rs \<Longrightarrow> awaits ps (qs @ rs)"
  by (induction qs) (auto intro: awaits_skip)

lemma groups_match_drop: "groups_match gs (drop n rs) \<Longrightarrow> groups_match gs rs"
proof (cases gs)
  case (Cons g gs')
  assume "groups_match gs (drop n rs)"
  then obtain k where k: "k \<le> length (drop n rs)" "\<forall>ps\<in>set g. awaits ps (take k (drop n rs))" "groups_match gs' (drop k (drop n rs))"
    using Cons by auto
  have "take (n + k) rs = take n rs @ take k (drop n rs)" by (rule take_add)
  then have "\<forall>ps\<in>set g. awaits ps (take (n + k) rs)" using k(2) awaits_append by metis
  moreover have "groups_match gs' (drop (n + k) rs)" using k(3) by (simp add: add.commute)
  ultimately show ?thesis using k(1) Cons
    by (cases "n + k \<le> length rs") (auto intro!: exI [of _ "min (n + k) (length rs)"])
qed simp

lemma groups_match_step:
  assumes "\<exists>ps\<in>set g. ps \<noteq> []"
  shows "groups_match (g # gs) (r # rs) \<longleftrightarrow> groups_match (map (wait r) g # gs) rs"
proof
  assume "groups_match (g # gs) (r # rs)"
  then obtain n where n: "n \<le> length (r # rs)" "\<forall>ps\<in>set g. awaits ps (take n (r # rs))" "groups_match gs (drop n (r # rs))"
    by auto
  have "n \<noteq> 0"
  proof
    assume "n = 0"
    then show False using assms n(2) by simp
  qed
  then obtain k where k: "n = Suc k" using not0_implies_Suc by blast
  show "groups_match (map (wait r) g # gs) rs"
    using n by (auto simp: k awaits_greedy)
next
  assume "groups_match (map (wait r) g # gs) rs"
  then obtain n where "n \<le> length rs" "\<forall>ps\<in>set g. awaits ps (r # take n rs)" "groups_match gs (drop n rs)"
    by (auto simp: awaits_greedy)
  then have "\<exists>n\<le>length (r # rs). (\<forall>ps\<in>set g. awaits ps (take n (r # rs))) \<and> groups_match gs (drop n (r # rs))"
    by (intro exI [of _ "Suc n"]) simp
  then show "groups_match (g # gs) (r # rs)" by simp
qed

lemma groups_match_done: "\<forall>ps\<in>set g. ps = [] \<Longrightarrow> groups_match (g # gs) rs \<longleftrightarrow> groups_match gs rs"
proof -
  assume g: "\<forall>ps\<in>set g. ps = []"
  have "groups_match (g # gs) rs \<longleftrightarrow> (\<exists>n\<le>length rs. groups_match gs (drop n rs))"
    using g by (metis awaits_Nil groups_match.simps(2))
  also have "\<dots> \<longleftrightarrow> groups_match gs rs" using groups_match_drop by (metis drop0 le0)
  finally show ?thesis .
qed

section \<open>Matchers follow the records\<close>

abbreviation await :: "(JsonLogRecord \<Rightarrow> bool) \<Rightarrow> MatcherStep" where
  "await p \<equiv> AwaitMatch (\<lambda>r. Ret (p r)) []"

text \<open>\<open>waiting m ps\<close>: the matcher has no error and still waits for \<open>ps\<close>, which is empty when it is finished.\<close>

definition waiting :: "JsonLogMatcher \<Rightarrow> (JsonLogRecord \<Rightarrow> bool) list \<Rightarrow> bool" where
  "waiting m ps \<longleftrightarrow> (\<exists>all. jm_Steps m = map await all \<and> jm_Index m < length all \<and> jm_err m = None \<and>
     ps = (if jm_finished m then [] else drop (jm_Index m) all))"

lemma waiting_finished: "waiting m ps \<Longrightarrow> jm_finished m \<longleftrightarrow> ps = []"
  by (auto simp: waiting_def split: if_splits)

lemma waiting_err: "waiting m ps \<Longrightarrow> jm_err m = None"
  by (auto simp: waiting_def)

lemma waiting_Reset: "ps \<noteq> [] \<Longrightarrow> jm_Steps m = map await ps \<Longrightarrow> waiting (matcher_Reset m) ps"
  by (auto simp: waiting_def matcher_Reset_def)

lemma waiting_HandleLine:
  assumes "waiting m ps"
  shows "waiting (matcher_HandleLine decode line m) (wait (decode line) ps)"
proof -
  obtain all where m: "jm_Steps m = map await all" "jm_Index m < length all" "jm_err m = None"
    "ps = (if jm_finished m then [] else drop (jm_Index m) all)" using assms by (auto simp: waiting_def)
  let ?p = "all ! jm_Index m" and ?r = "decode line"
  have step: "jm_Steps m ! jm_Index m = await ?p" using m by simp
  show ?thesis
  proof (cases "jm_finished m")
    case True
    then have "matcher_HandleLine decode line m = m"
      using m step by (simp add: matcher_HandleLine_def AwaitMatch_def LineMatcher_def)
    then show ?thesis using assms m True by simp
  next
    case False
    then have ps: "ps = ?p # drop (Suc (jm_Index m)) all" using m by (simp add: Cons_nth_drop_Suc)
    have run: "matcher_HandleLine decode line m = (if ?p ?r then next_step m else m)"
      using False m step
      by (simp add: matcher_HandleLine_def AwaitMatch_def LineMatcher_def match_half_def not_match_half_def)
    show ?thesis
    proof (cases "?p ?r")
      case True
      then show ?thesis using run ps m False
        by (auto simp: next_step_def waiting_def)
    next
      case np: False
      then show ?thesis using run ps assms by simp
    qed
  qed
qed

lemma handle_group_waiting:
  "list_all2 waiting ms g \<Longrightarrow>
   \<exists>ms'. handle_group decode line ms = (ms', None, \<forall>ps\<in>set g. wait (decode line) ps = []) \<and>
     list_all2 waiting ms' (map (wait (decode line)) g)"
proof (induction rule: list_all2_induct)
  case (Cons m ms ps g)
  have w: "waiting (matcher_HandleLine decode line m) (wait (decode line) ps)" by (rule waiting_HandleLine [OF Cons.hyps(1)])
  with Cons.IH show ?case
    using waiting_err [OF w] waiting_finished [OF w] by (auto simp: Let_def)
qed simp

section \<open>The analyzer follows the groups\<close>

definition HandleLines :: "(string \<Rightarrow> JsonLogRecord) \<Rightarrow> string list \<Rightarrow> JsonLogAnalyzer \<Rightarrow> JsonLogAnalyzer go" where
  "HandleLines decode lines a =
     go_fold (\<lambda>line a. go_bind (analyzer_HandleLine decode line a) (\<lambda>(a, _). Ret a)) lines a"

definition has_groups :: "JsonLogMatcher list list \<Rightarrow> (JsonLogRecord \<Rightarrow> bool) list list list \<Rightarrow> bool" where
  "has_groups mss gs \<longleftrightarrow> list_all2 (list_all2 (\<lambda>m ps. ps \<noteq> [] \<and> jm_Steps m = map await ps)) mss gs \<and> (\<forall>g\<in>set gs. g \<noteq> [])"

text \<open>\<open>follows a g gs\<close>: the current group still waits for \<open>g\<close>, and the groups \<open>gs\<close> come after it.\<close>

definition follows :: "JsonLogAnalyzer \<Rightarrow> (JsonLogRecord \<Rightarrow> bool) list list \<Rightarrow> (JsonLogRecord \<Rightarrow> bool) list list list \<Rightarrow> bool" where
  "follows a g gs \<longleftrightarrow> \<not> ja_finished a \<and> ja_err a = None \<and> ja_Index a < length (ja_Matchers a) \<and>
     list_all2 waiting (if ja_groupFinished a then map matcher_Reset (ja_Matchers a ! ja_Index a)
        else ja_Matchers a ! ja_Index a) g \<and>
     (\<exists>ps\<in>set g. ps \<noteq> []) \<and> has_groups (drop (Suc (ja_Index a)) (ja_Matchers a)) gs"

lemma drop_update_Suc: "drop (Suc i) (xs[i := x]) = drop (Suc i) xs"
  by simp

lemma follows_start:
  assumes "has_groups mss (g # gs)"
  shows "\<exists>ms mss'. mss = ms # mss' \<and> list_all2 waiting (map matcher_Reset ms) g \<and> (\<exists>ps\<in>set g. ps \<noteq> []) \<and> has_groups mss' gs"
proof -
  obtain ms mss' where mss: "mss = ms # mss'" "list_all2 (\<lambda>m ps. ps \<noteq> [] \<and> jm_Steps m = map await ps) ms g" "has_groups mss' gs"
    using assms by (auto simp: has_groups_def list_all2_Cons2)
  have "list_all2 waiting (map matcher_Reset ms) g"
    unfolding list_all2_map1 using mss(2) by (rule list_all2_mono) (simp add: waiting_Reset)
  moreover have "\<exists>ps\<in>set g. ps \<noteq> []" using assms mss(2) by (cases g) (auto simp: has_groups_def list_all2_Cons2)
  ultimately show ?thesis using mss by blast
qed

lemma follows_HandleLine:
  fixes decode line
  assumes a: "follows a g gs"
  defines "g' \<equiv> map (wait (decode line)) g"
  shows "\<exists>a' stop. analyzer_HandleLine decode line a = Ret (a', stop) \<and>
    (if \<exists>ps\<in>set g'. ps \<noteq> [] then follows a' g' gs
     else case gs of [] \<Rightarrow> analyzer_succeeded a' | g2 # gs' \<Rightarrow> follows a' g2 gs')"
proof -
  let ?i = "ja_Index a"
  let ?ms = "if ja_groupFinished a then map matcher_Reset (ja_Matchers a ! ?i) else ja_Matchers a ! ?i"
  have i: "\<not> ja_finished a" "ja_err a = None" "?i < length (ja_Matchers a)" "list_all2 waiting ?ms g"
    and gs: "has_groups (drop (Suc ?i) (ja_Matchers a)) gs" using a unfolding follows_def by blast+
  from handle_group_waiting [OF i(4), of decode line] obtain ms' where
    ms': "handle_group decode line ?ms = (ms', None, \<forall>ps\<in>set g'. ps = [])" "list_all2 waiting ms' g'"
    unfolding g'_def by auto
  let ?a = "a\<lparr>ja_groupFinished := False, ja_Matchers := (ja_Matchers a)[?i := ms']\<rparr>"
  show ?thesis
  proof (cases "\<exists>ps\<in>set g'. ps \<noteq> []")
    case True
    then have "handle_group decode line ?ms = (ms', None, False)" using ms'(1) by auto
    then have "analyzer_HandleLine decode line a = Ret (?a, False)"
      using i by (simp add: analyzer_HandleLine_def Let_def)
    moreover have "follows ?a g' gs" using i ms'(2) gs True by (simp add: follows_def)
    ultimately show ?thesis using True by auto
  next
    case False
    then have grp: "handle_group decode line ?ms = (ms', None, True)" using ms'(1) by auto
    show ?thesis
    proof (cases gs)
      case Nil
      then have "length (ja_Matchers a) = Suc ?i" using gs i(3) by (auto simp: has_groups_def)
      then show ?thesis using Nil False i grp
        by (simp add: analyzer_HandleLine_def Let_def analyzer_succeeded_def)
    next
      case (Cons g2 gs')
      from follows_start [OF gs [unfolded Cons]] obtain ms mss' where
        d: "drop (Suc ?i) (ja_Matchers a) = ms # mss'" "list_all2 waiting (map matcher_Reset ms) g2"
          "\<exists>ps\<in>set g2. ps \<noteq> []" "has_groups mss' gs'" by blast
      have len: "Suc ?i < length (ja_Matchers a)" using d(1) by (metis drop_eq_Nil linorder_not_le list.distinct(1))
      then have nth: "ja_Matchers a ! Suc ?i = ms" "drop (Suc (Suc ?i)) (ja_Matchers a) = mss'"
        using d(1) by (simp_all add: Cons_nth_drop_Suc [symmetric])
      let ?b = "?a\<lparr>ja_Index := Suc ?i, ja_groupFinished := True\<rparr>"
      have "analyzer_HandleLine decode line a = Ret (?b, False)"
        using i grp len by (simp add: analyzer_HandleLine_def Let_def)
      moreover have "follows ?b g2 gs'" using i(1,2) len nth d by (simp add: follows_def)
      ultimately show ?thesis using False Cons by auto
    qed
  qed
qed

lemma HandleLines_finished: "ja_finished a \<Longrightarrow> HandleLines decode lines a = Ret a"
  by (induction lines) (auto simp: HandleLines_def analyzer_HandleLine_def)

lemma HandleLines_follows:
  "follows a g gs \<Longrightarrow> \<exists>a'. HandleLines decode lines a = Ret a' \<and> (analyzer_succeeded a' \<longleftrightarrow> groups_match (g # gs) (map decode lines))"
proof (induction lines arbitrary: a g gs)
  case Nil
  then have "\<not> analyzer_succeeded a" "\<exists>ps\<in>set g. ps \<noteq> []" by (auto simp: follows_def analyzer_succeeded_def)
  then show ?case by (auto simp: HandleLines_def)
next
  case (Cons line lines)
  let ?g = "map (wait (decode line)) g"
  have ne: "\<exists>ps\<in>set g. ps \<noteq> []" using Cons.prems by (simp add: follows_def)
  have step: "groups_match (g # gs) (map decode (line # lines)) \<longleftrightarrow> groups_match (?g # gs) (map decode lines)"
    unfolding list.map by (rule groups_match_step [OF ne])
  from follows_HandleLine [OF Cons.prems, of decode line] obtain a1 stop where
    a1: "analyzer_HandleLine decode line a = Ret (a1, stop)"
      "if \<exists>ps\<in>set ?g. ps \<noteq> [] then follows a1 ?g gs
       else case gs of [] \<Rightarrow> analyzer_succeeded a1 | g2 # gs' \<Rightarrow> follows a1 g2 gs'" by blast
  have run: "HandleLines decode (line # lines) a = HandleLines decode lines a1" using a1(1) by (simp add: HandleLines_def)
  show ?case
  proof (cases "\<exists>ps\<in>set ?g. ps \<noteq> []")
    case True
    then show ?thesis using Cons.IH [of a1 ?g gs] a1(2) run step by simp
  next
    case False
    then have over: "groups_match (?g # gs) (map decode lines) \<longleftrightarrow> groups_match gs (map decode lines)"
      by (intro groups_match_done) blast
    show ?thesis
    proof (cases gs)
      case Nil
      then have "analyzer_succeeded a1" using a1(2) False by simp
      then show ?thesis using HandleLines_finished [of a1] run step over Nil by (simp add: analyzer_succeeded_def)
    next
      case gs: (Cons g2 gs')
      then have "follows a1 g2 gs'" using a1(2) False by simp
      from Cons.IH [OF this] run step over gs show ?thesis by simp
    qed
  qed
qed

section \<open>Properties\<close>

text \<open>
  An analyzer with groups of matchers that wait for records never panics, and it has finished
  successfully after some lines exactly when the lines can be cut into consecutive parts, one for
  each group, such that every matcher of the group finds its records in order in that part: taking
  each record at the first occasion never misses a match.
\<close>

theorem HandleLines_groups:
  assumes "gs \<noteq> []" "\<forall>g\<in>set gs. g \<noteq> [] \<and> (\<forall>ps\<in>set g. ps \<noteq> [])"
  shows "\<exists>a. HandleLines decode lines
      (foldl (\<lambda>a g. AddGroup (map (\<lambda>ps. NewJsonLogMatcher (map await ps)) g) a) NewJsonLogAnalyzer gs) = Ret a \<and>
    (analyzer_succeeded a \<longleftrightarrow> groups_match gs (map decode lines))"
proof -
  let ?mss = "map (map (\<lambda>ps. NewJsonLogMatcher (map await ps)))"
  let ?a = "NewJsonLogAnalyzer\<lparr>ja_Matchers := ?mss gs\<rparr>"
  have add: "foldl (\<lambda>a g. AddGroup (map (\<lambda>ps. NewJsonLogMatcher (map await ps)) g) a) NewJsonLogAnalyzer gs = ?a"
    by (induction gs rule: rev_induct) (simp_all add: NewJsonLogAnalyzer_def AddGroup_def)
  have "has_groups (?mss gs) gs"
    using assms(2) unfolding has_groups_def list_all2_map1 by (auto simp: NewJsonLogMatcher_def intro!: list.rel_refl_strong)
  moreover obtain g gs' where gs: "gs = g # gs'" using assms(1) by (cases gs) auto
  ultimately have "has_groups (?mss gs) (g # gs')" by simp
  from follows_start [OF this] have "follows ?a g gs'"
    by (elim exE conjE) (simp add: follows_def NewJsonLogAnalyzer_def del: map_eq_Cons_conv)
  from HandleLines_follows [OF this, of decode lines] show ?thesis unfolding add by (simp only: gs)
qed

theorem HandleLines_groups_witness:
  "\<exists>a. HandleLines (\<lambda>l. [(''msg'', l)]) [''start'', ''b'', ''x'', ''a'', ''stop'']
      (foldl (\<lambda>a g. AddGroup (map (\<lambda>ps. NewJsonLogMatcher (map await ps)) g) a) NewJsonLogAnalyzer
        [[[\<lambda>r. FieldEquals r ''msg'' ''start'', \<lambda>r. FieldEquals r ''msg'' ''a''], [\<lambda>r. FieldEquals r ''msg'' ''b'']],
         [[\<lambda>r. FieldHasPrefix r ''msg'' ''st'']]]) = Ret a \<and> analyzer_succeeded a"
proof -
  let ?gs = "[[[\<lambda>r. FieldEquals r ''msg'' ''start'', \<lambda>r. FieldEquals r ''msg'' ''a''], [\<lambda>r. FieldEquals r ''msg'' ''b'']],
         [[\<lambda>r. FieldHasPrefix r ''msg'' ''st'']]]"
  let ?rs = "map (\<lambda>l. [(''msg'', l)]) [''start'', ''b'', ''x'', ''a'', ''stop'']"
  have "groups_match (tl ?gs) (drop 4 ?rs)"
    by (auto simp: awaits_greedy FieldHasPrefix_def intro!: exI [of _ 1])
  moreover have "\<forall>ps\<in>set (hd ?gs). awaits ps (take 4 ?rs)"
    by (simp add: awaits_greedy FieldEquals_def)
  ultimately have "(\<forall>ps\<in>set (hd ?gs). awaits ps (take 4 ?rs)) \<and> groups_match (tl ?gs) (drop 4 ?rs)" by (rule conjI [rotated])
  then have "groups_match (hd ?gs # tl ?gs) ?rs" unfolding groups_match.simps by (intro exI [of _ 4]) simp
  then show ?thesis
    using HandleLines_groups [of ?gs "\<lambda>l. [(''msg'', l)]" "[''start'', ''b'', ''x'', ''a'', ''stop'']"]
    by (simp del: groups_match.simps)
qed

end
