(* ===== verification/Prom_Scraper.thy ===== *)
theory Prom_Scraper
  imports Prelude
begin

text \<open>
  \<open>test/utils/prometheus.go\<close>: the metrics that the integration tests read from the operator. The regular
  expression of a line, \<open>^([a-zA-Z_-]+)({(.*)})?\ ([0-9.eE+-])$\<close>, is written out: a name, labels in braces,
  a space and one character. Printing a float is a parameter.
\<close>

section \<open>Values of metrics\<close>

record PromMetricValue =
  pmv_Name :: string
  pmv_Labels :: "(string, string) gomap"
  pmv_Value :: rat

fun join_with :: "string \<Rightarrow> string list \<Rightarrow> string" where
  "join_with sep [] = []"
| "join_with sep [s] = s"
| "join_with sep (s # t # ss) = s @ sep @ join_with sep (t # ss)"

definition label_text :: "(string, string) gomap \<Rightarrow> string \<Rightarrow> string" where
  "label_text m k = k @ ''='' @ (case mget m k of None \<Rightarrow> [] | Some v \<Rightarrow> v)"

definition PromMetricValue_String :: "string list \<Rightarrow> (rat \<Rightarrow> string) \<Rightarrow> PromMetricValue \<Rightarrow> string" where
  "PromMetricValue_String ks show_float pmv =
     (let lbls = map (label_text (pmv_Labels pmv)) ks;
          l = (if length lbls > 0 then ''{'' @ join_with '','' lbls @ ''}'' else [])
      in pmv_Name pmv @ l @ '' '' @ show_float (pmv_Value pmv))"

definition IsEmpty :: "PromMetricValue \<Rightarrow> bool" where
  "IsEmpty pmv \<longleftrightarrow> pmv_Name pmv = [] \<and> length (pmv_Labels pmv) = 0 \<and> pmv_Value pmv = 0"

definition EmptyPromMetricsValue :: PromMetricValue where
  "EmptyPromMetricsValue = \<lparr>pmv_Name = [], pmv_Labels = [], pmv_Value = 0\<rparr>"

section \<open>Parsing\<close>

definition between :: "char \<Rightarrow> char \<Rightarrow> char \<Rightarrow> bool" where
  "between a b c \<longleftrightarrow> (of_char a :: nat) \<le> of_char c \<and> (of_char c :: nat) \<le> of_char b"

definition name_char :: "char \<Rightarrow> bool" where
  "name_char c \<longleftrightarrow> between (CHR ''a'') (CHR ''z'') c \<or> between (CHR ''A'') (CHR ''Z'') c \<or> c \<in> set ''_-''"

definition value_char :: "char \<Rightarrow> bool" where
  "value_char c \<longleftrightarrow> between (CHR ''0'') (CHR ''9'') c \<or> c \<in> set ''.eE+-''"

text \<open>\<open>metricMatchRe.FindStringSubmatch\<close>: the name, the text between the braces and the value.\<close>

definition metricMatchRe :: "string \<Rightarrow> (string \<times> string \<times> string) option" where
  "metricMatchRe line =
     (let name = takeWhile name_char line; rest = dropWhile name_char line;
          body = take (length rest - 2) rest; end = drop (length rest - 2) rest
      in if name \<noteq> [] \<and> length end = 2 \<and> end ! 0 = CHR '' '' \<and> value_char (end ! 1) then
           (if body = [] then Some (name, [], [end ! 1])
            else if length body \<ge> 2 \<and> hd body = CHR ''{'' \<and> last body = CHR ''}'' \<and> char_of (10 :: nat) \<notin> set (butlast (tl body))
            then Some (name, butlast (tl body), [end ! 1])
            else None)
         else None)"

text \<open>\<open>strconv.ParseFloat\<close> on a text of one character.\<close>

definition ParseFloat1 :: "string \<Rightarrow> rat option" where
  "ParseFloat1 s =
     (case s of [c] \<Rightarrow> (if between (CHR ''0'') (CHR ''9'') c then Some (of_nat (of_char c - 48)) else None) | _ \<Rightarrow> None)"

fun split_on :: "char \<Rightarrow> string \<Rightarrow> string list" where
  "split_on sep [] = [[]]"
| "split_on sep (c # s) =
     (if c = sep then [] # split_on sep s
      else (case split_on sep s of [] \<Rightarrow> [[c]] | part # parts \<Rightarrow> (c # part) # parts))"

definition splitN2 :: "char \<Rightarrow> string \<Rightarrow> string list" where
  "splitN2 sep s = (if sep \<in> set s then [takeWhile (\<lambda>c. c \<noteq> sep) s, tl (dropWhile (\<lambda>c. c \<noteq> sep) s)] else [s])"

definition ParsePromLabels :: "string \<Rightarrow> (string, string) gomap" where
  "ParsePromLabels lbls =
     foldl (\<lambda>res kvPart. case splitN2 (CHR ''='') kvPart of [k, v] \<Rightarrow> mput k v res | _ \<Rightarrow> res) [] (split_on (CHR '','') lbls)"

definition ParsePromMetricValue :: "string \<Rightarrow> PromMetricValue" where
  "ParsePromMetricValue line =
     (case metricMatchRe line of
        None \<Rightarrow> EmptyPromMetricsValue
      | Some (name, lbls, val) \<Rightarrow>
          (case ParseFloat1 val of
             None \<Rightarrow> EmptyPromMetricsValue
           | Some v \<Rightarrow> \<lparr>pmv_Name = name, pmv_Labels = ParsePromLabels lbls, pmv_Value = v\<rparr>))"

section \<open>The scraper\<close>

record PromScraper =
  ps_Address :: string
  ps_Metrics :: "PromMetricValue list"

definition NewPromScraper :: "string \<Rightarrow> PromScraper" where
  "NewPromScraper address = \<lparr>ps_Address = address, ps_Metrics = []\<rparr>"

definition WithAddress :: "string \<Rightarrow> PromScraper \<Rightarrow> PromScraper" where
  "WithAddress address p = p\<lparr>ps_Address := address\<rparr>"

text \<open>\<open>get\<close> is the HTTP request with the lines of the answer.\<close>

definition Scrape :: "(string \<Rightarrow> string + string list) \<Rightarrow> PromScraper \<Rightarrow> PromScraper \<times> string option" where
  "Scrape get p =
     (case get (ps_Address p) of
        Inl err \<Rightarrow> (p, Some err)
      | Inr body \<Rightarrow> (p\<lparr>ps_Metrics := filter (\<lambda>pmv. \<not> IsEmpty pmv) (map ParsePromMetricValue body)\<rparr>, None))"

definition labels_equal :: "(string, string) gomap \<Rightarrow> (string, string) gomap \<Rightarrow> bool" where
  "labels_equal m pmv = list_all (\<lambda>(k, v). mget pmv k = Some v) m"

fun find_exact :: "PromMetricValue \<Rightarrow> PromMetricValue list \<Rightarrow> PromMetricValue" where
  "find_exact pmv [] = \<lparr>pmv_Name = [], pmv_Labels = [], pmv_Value = 0\<rparr>"
| "find_exact pmv (m # ms) =
     (if pmv_Name m = pmv_Name pmv \<and> labels_equal (pmv_Labels m) (pmv_Labels pmv) then m else find_exact pmv ms)"

definition FindExact :: "PromMetricValue \<Rightarrow> PromScraper \<Rightarrow> PromMetricValue" where
  "FindExact pmv p = find_exact pmv (ps_Metrics p)"

definition PromMetricM :: "string \<Rightarrow> (string, string) gomap \<Rightarrow> PromMetricValue" where
  "PromMetricM name lbls = \<lparr>pmv_Name = name, pmv_Labels = lbls, pmv_Value = 0\<rparr>"

fun label_pairs :: "string list \<Rightarrow> (string, string) gomap \<Rightarrow> (string, string) gomap" where
  "label_pairs [] m = m"
| "label_pairs [k] m = mput k [] m"
| "label_pairs (k # v # ls) m = label_pairs ls (mput k v m)"

definition PromMetric :: "string \<Rightarrow> string list \<Rightarrow> PromMetricValue" where
  "PromMetric name lbls = PromMetricM name (label_pairs lbls [])"

definition HaveMetric :: "PromMetricValue \<Rightarrow> PromScraper \<Rightarrow> bool" where
  "HaveMetric pmv p \<longleftrightarrow> \<not> IsEmpty (FindExact pmv p)"

section \<open>Reading back what is printed\<close>

lemma split_on_nosep: "sep \<notin> set s \<Longrightarrow> split_on sep s = [s]"
  by (induction s) auto

lemma split_on_append: "sep \<notin> set s \<Longrightarrow> split_on sep (s @ sep # t) = s # split_on sep t"
  by (induction s) auto

lemma split_on_join: "ss \<noteq> [] \<Longrightarrow> \<forall>s\<in>set ss. sep \<notin> set s \<Longrightarrow> split_on sep (join_with [sep] ss) = ss"
  by (induction ss rule: induct_list012) (auto simp: split_on_nosep split_on_append)

lemma splitN2_pair: "sep \<notin> set k \<Longrightarrow> splitN2 sep (k @ sep # v) = [k, v]"
  unfolding splitN2_def by (induction k) auto

lemma set_join_with: "set (join_with [sep] ss) \<subseteq> insert sep (\<Union>(set ` set ss))"
  by (induction ss rule: induct_list012) auto

text \<open>\<open>plain_labels\<close>: the keys and values can be told apart in the text.\<close>

definition plain_labels :: "(string, string) gomap \<Rightarrow> bool" where
  "plain_labels m \<longleftrightarrow> wf_map m \<and> (\<forall>(k, v)\<in>set m. CHR ''='' \<notin> set k \<and>
     (\<forall>c\<in>{CHR '','', char_of (10 :: nat)}. c \<notin> set k \<union> set v))"

lemma foldl_mput_get:
  "distinct ks \<Longrightarrow> mget (foldl (\<lambda>m k. mput k (f k) m) m0 ks) k = (if k \<in> set ks then Some (f k) else mget m0 k)"
  by (induction ks arbitrary: m0) auto

lemma ParsePromLabels_join:
  assumes ks: "ks \<noteq> []" "\<forall>k\<in>set ks. CHR ''='' \<notin> set k" "\<forall>k\<in>set ks. CHR '','' \<notin> set (label_text m k)"
  shows "ParsePromLabels (join_with '','' (map (label_text m) ks)) =
    foldl (\<lambda>res k. mput k (case mget m k of None \<Rightarrow> [] | Some v \<Rightarrow> v) res) [] ks"
proof -
  have "foldl (\<lambda>res kvPart. case splitN2 (CHR ''='') kvPart of [k, v] \<Rightarrow> mput k v res | _ \<Rightarrow> res) r (map (label_text m) ks) =
      foldl (\<lambda>res k. mput k (case mget m k of None \<Rightarrow> [] | Some v \<Rightarrow> v) res) r ks" for r
    using ks(2) by (induction ks arbitrary: r) (auto simp: label_text_def splitN2_pair)
  then show ?thesis using ks(1,3) split_on_join [of "map (label_text m) ks" "CHR '',''"] by (simp add: ParsePromLabels_def)
qed

lemma metricMatchRe_line:
  assumes "name \<noteq> []" "\<forall>c\<in>set name. name_char c" "value_char d"
    and body: "body = [] \<and> l = [] \<or> body = CHR ''{'' # l @ ''}'' \<and> char_of (10 :: nat) \<notin> set l"
  shows "metricMatchRe (name @ body @ [CHR '' '', d]) = Some (name, l, [d])"
proof -
  let ?rest = "body @ [CHR '' '', d]"
  have "\<not> name_char (hd ?rest)" using body by (auto simp: name_char_def between_def)
  then have "takeWhile name_char (name @ ?rest) = name" "dropWhile name_char (name @ ?rest) = ?rest"
    using assms(2) by (cases ?rest; simp add: takeWhile_append dropWhile_append3)+
  then show ?thesis using assms by (auto simp: metricMatchRe_def Let_def butlast_append nth_append)
qed

lemma drop_last_two:
  assumes "2 \<le> length (dropWhile P xs)"
  shows "drop (length (dropWhile P xs) - 2) (dropWhile P xs) = drop (length xs - 2) xs"
proof -
  have "drop (length (ys @ zs) - 2) (ys @ zs) = drop (length zs - 2) zs" if "2 \<le> length zs" for ys zs :: "'a list"
    using that by simp
  from this [OF assms, of "takeWhile P xs"] show ?thesis by simp
qed

section \<open>Properties\<close>

text \<open>
  A metric that is printed and parsed again has the same name, labels and value, if its value
  prints as one digit and its name and labels contain no separators.
\<close>

theorem ParsePromMetricValue_String:
  assumes name: "pmv_Name pmv \<noteq> []" "\<forall>c\<in>set (pmv_Name pmv). name_char c"
    and lbls: "plain_labels (pmv_Labels pmv)" "range_of (pmv_Labels pmv) ks"
    and val: "show_float (pmv_Value pmv) = [d]" "ParseFloat1 [d] = Some (pmv_Value pmv)"
  defines "res \<equiv> ParsePromMetricValue (PromMetricValue_String ks show_float pmv)"
  shows "pmv_Name res = pmv_Name pmv \<and> pmv_Value res = pmv_Value pmv \<and>
    (\<forall>k. mget (pmv_Labels res) k = mget (pmv_Labels pmv) k)"
proof -
  let ?m = "pmv_Labels pmv"
  let ?l = "join_with '','' (map (label_text ?m) ks)"
  have d: "value_char d" using val(2) by (auto simp: ParseFloat1_def value_char_def split: if_splits)
  have key: "k \<in> set ks \<longleftrightarrow> (\<exists>v. mget ?m k = Some v)" for k using range_of_mem [OF lbls(2)] by auto
  have plain: "CHR ''='' \<notin> set k" "CHR '','' \<notin> set (label_text ?m k)" "char_of (10 :: nat) \<notin> set (label_text ?m k)"
    if k: "k \<in> set ks" for k
  proof -
    obtain v where v: "mget ?m k = Some v" "(k, v) \<in> set ?m" using key k map_of_SomeD by metis
    then have "CHR ''='' \<notin> set k" "CHR '','' \<notin> set k \<union> set v" "char_of (10 :: nat) \<notin> set k \<union> set v"
      using lbls(1) unfolding plain_labels_def by auto
    moreover have "CHR ''='' \<noteq> char_of (10 :: nat)" by code_simp
    ultimately show "CHR ''='' \<notin> set k" "CHR '','' \<notin> set (label_text ?m k)" "char_of (10 :: nat) \<notin> set (label_text ?m k)"
      using v(1) by (auto simp: label_text_def)
  qed
  have "CHR '','' \<noteq> char_of (10 :: nat)" by code_simp
  then have nl: "char_of (10 :: nat) \<notin> set ?l" using set_join_with [of "CHR '',''" "map (label_text ?m) ks"] plain(3) by auto
  have "metricMatchRe (PromMetricValue_String ks show_float pmv) = Some (pmv_Name pmv, ?l, [d])"
    using metricMatchRe_line [OF name d, of "[]" "[]"] metricMatchRe_line [OF name d, of "CHR ''{'' # ?l @ ''}''" ?l] nl val(1)
    by (cases ks) (simp_all add: PromMetricValue_String_def Let_def)
  then have res: "res = \<lparr>pmv_Name = pmv_Name pmv, pmv_Labels = ParsePromLabels ?l, pmv_Value = pmv_Value pmv\<rparr>"
    unfolding res_def using val(2) by (simp add: ParsePromMetricValue_def)
  have "mget (ParsePromLabels ?l) k = mget ?m k" for k
  proof (cases "ks = []")
    case True
    then show ?thesis using key [of k] by (simp add: ParsePromLabels_def splitN2_def)
  next
    case False
    then show ?thesis
      using plain lbls(2) key [of k] by (simp add: ParsePromLabels_join foldl_mput_get range_of_def) (cases "mget ?m k"; simp)
  qed
  then show ?thesis using res by simp
qed

theorem ParsePromMetricValue_String_witness:
  "let pmv = \<lparr>pmv_Name = ''up'', pmv_Labels = [(''job'', ''a''), (''hook'', ''b'')], pmv_Value = 7\<rparr>
   in mget (pmv_Labels (ParsePromMetricValue (PromMetricValue_String [''hook'', ''job''] (\<lambda>_. ''7'') pmv))) ''hook'' = Some ''b''"
proof -
  let ?pmv = "\<lparr>pmv_Name = ''up'', pmv_Labels = [(''job'', ''a''), (''hook'', ''b'')], pmv_Value = 7\<rparr>"
  have "plain_labels (pmv_Labels ?pmv)" by (simp add: plain_labels_def wf_map_def) code_simp
  moreover have "range_of (pmv_Labels ?pmv) [''hook'', ''job'']" by (auto simp: range_of_def)
  moreover have "ParseFloat1 [CHR ''7''] = Some 7" by code_simp
  ultimately show ?thesis
    using ParsePromMetricValue_String [of ?pmv "[''hook'', ''job'']" "\<lambda>_. ''7''" "CHR ''7''"]
    by (simp add: name_char_def between_def)
qed

text \<open>
  A value of more than one character is never read: the line gives the empty metric, which the
  scraper drops.
\<close>

theorem ParsePromMetricValue_long_value:
  assumes "length val \<ge> 2" "CHR '' '' \<notin> set val"
  shows "IsEmpty (ParsePromMetricValue (start @ '' '' @ val))"
proof -
  let ?line = "start @ '' '' @ val"
  have "metricMatchRe ?line = None"
  proof (rule ccontr)
    let ?rest = "dropWhile name_char ?line"
    assume "metricMatchRe ?line \<noteq> None"
    then have rest: "length (drop (length ?rest - 2) ?rest) = 2" "drop (length ?rest - 2) ?rest ! 0 = CHR '' ''"
      by (auto simp: metricMatchRe_def Let_def split: if_splits)
    then have two: "length ?rest \<ge> 2" by simp
    have "drop (length ?rest - 2) ?rest = drop (length ?line - 2) ?line" by (rule drop_last_two [OF two])
    also have "\<dots> = drop (length val - 2) val" using assms(1) by (simp add: drop_Cons split: nat.splits) (metis One_nat_def diff_Suc_Suc numeral_2_eq_2 diff_Suc_1 diff_diff_eq plus_1_eq_Suc)
    finally have "drop (length val - 2) val ! 0 = CHR '' ''" using rest(2) by simp
    then have "val ! (length val - 2) = CHR '' ''" using assms(1) by simp
    moreover have "val ! (length val - 2) \<in> set val" using assms(1) by (intro nth_mem) simp
    ultimately show False using assms(2) by simp
  qed
  then show ?thesis by (simp add: ParsePromMetricValue_def EmptyPromMetricsValue_def IsEmpty_def)
qed

theorem ParsePromMetricValue_long_value_witness: "IsEmpty (ParsePromMetricValue ''up{job=a} 12'')"
  using ParsePromMetricValue_long_value [of "''12''" "''up{job=a}''"] by simp

text \<open>
  After a scrape a metric is found exactly when the answer has a parsed metric of this name whose
  labels are among the labels that are asked for; it may lack some of them.
\<close>

theorem HaveMetric_scraped:
  assumes "get (ps_Address p) = Inr body" "pmv_Name pmv \<noteq> []"
  shows "HaveMetric pmv (fst (Scrape get p)) \<longleftrightarrow>
    (\<exists>m\<in>ParsePromMetricValue ` set body. pmv_Name m = pmv_Name pmv \<and>
       (\<forall>(k, v)\<in>set (pmv_Labels m). mget (pmv_Labels pmv) k = Some v))"
proof -
  have "\<not> IsEmpty (find_exact pmv ms) \<longleftrightarrow>
      (\<exists>m\<in>set ms. pmv_Name m = pmv_Name pmv \<and> (\<forall>(k, v)\<in>set (pmv_Labels m). mget (pmv_Labels pmv) k = Some v))" for ms
    using assms(2) by (induction ms) (auto simp: IsEmpty_def labels_equal_def list_all_iff)
  note find = this [of "filter (\<lambda>pmv. \<not> IsEmpty pmv) (map ParsePromMetricValue body)"]
  have "HaveMetric pmv (fst (Scrape get p)) \<longleftrightarrow>
      \<not> IsEmpty (find_exact pmv (filter (\<lambda>pmv. \<not> IsEmpty pmv) (map ParsePromMetricValue body)))"
    using assms(1) by (simp add: HaveMetric_def FindExact_def Scrape_def)
  moreover have "\<not> IsEmpty m" if "pmv_Name m = pmv_Name pmv" for m using assms(2) that by (simp add: IsEmpty_def)
  ultimately show ?thesis unfolding find set_filter set_map by blast
qed

theorem HaveMetric_scraped_witness:
  "HaveMetric (PromMetric ''up'' [''job'', ''a'', ''hook'', ''h'']) (fst (Scrape (\<lambda>_. Inr [''up{job=a} 1'']) (NewPromScraper ''x'')))"
proof -
  have "ParsePromMetricValue ''up{job=a} 1'' = \<lparr>pmv_Name = ''up'', pmv_Labels = [(''job'', ''a'')], pmv_Value = 1\<rparr>" by code_simp
  then show ?thesis
    using HaveMetric_scraped [of "\<lambda>_. Inr [''up{job=a} 1'']" "NewPromScraper ''x''" "[''up{job=a} 1'']"
        "PromMetric ''up'' [''job'', ''a'', ''hook'', ''h'']"]
    by (simp add: PromMetric_def PromMetricM_def)
qed

end
