(* ===== verification/Test_Directory.thy ===== *)
theory Test_Directory
  imports Files "HOL-Library.Sublist"
begin

text \<open>
  \<open>test/utils/directory.go\<close>: the directory that the integration tests use. \<open>filepath.IsAbs\<close> says whether a
  path begins with a slash; the current directory, \<open>filepath.Abs\<close> and \<open>os.Stat\<close> are arguments.
\<close>

section \<open>Operations\<close>

definition replace_first_dot :: "string \<Rightarrow> string \<Rightarrow> string" where
  "replace_first_dot new s =
     (if CHR ''.'' \<in> set s
      then takeWhile (\<lambda>c. c \<noteq> CHR ''.'') s @ new @ tl (dropWhile (\<lambda>c. c \<noteq> CHR ''.'') s) else s)"

definition ToAbsolutePath :: "string \<Rightarrow> (string \<Rightarrow> string + string) \<Rightarrow> string \<Rightarrow> string + string" where
  "ToAbsolutePath cwd Abs path =
     (if prefix ''/'' path then Inr path
      else if prefix ''./'' path then Inr (replace_first_dot cwd path)
      else case Abs path of Inl err \<Rightarrow> Inl err | Inr p \<Rightarrow> Inr p)"

text \<open>The results are the path and the error; the error of \<open>DirExists\<close> is ignored.\<close>

definition ChooseExistedDirectoryPath ::
    "string \<Rightarrow> (string \<Rightarrow> string + string) \<Rightarrow> (string \<Rightarrow> stat) \<Rightarrow> string list \<Rightarrow> (string \<times> string option) go" where
  "ChooseExistedDirectoryPath cwd Abs Stat paths =
     (let path = (case find (\<lambda>p. p \<noteq> []) paths of None \<Rightarrow> [] | Some p \<Rightarrow> p) in
      if path = [] then Ret ([], None)
      else case ToAbsolutePath cwd Abs path of
          Inl err \<Rightarrow> Ret ([], Some err)
        | Inr path \<Rightarrow>
            go_bind (DirExists (Stat path)) (\<lambda>exists.
              if \<not> exists then Ret ([], Some ''no working dir'') else Ret ([], None)))"

section \<open>Properties\<close>

text \<open>
  A relative path that begins with a dot and a slash becomes the same path below the current
  directory.
\<close>

theorem ToAbsolutePath_dot: "ToAbsolutePath cwd Abs (''./'' @ rest) = Inr (cwd @ ''/'' @ rest)"
  by (simp add: ToAbsolutePath_def replace_first_dot_def)

text \<open>
  The function never returns a path: a directory that exists is answered by the empty path without
  an error, as if no path had been given.
\<close>

theorem ChooseExistedDirectoryPath_empty:
  "case ChooseExistedDirectoryPath cwd Abs Stat paths of Panic \<Rightarrow> True | Ret (path, err) \<Rightarrow> path = []"
  by (auto simp: ChooseExistedDirectoryPath_def Let_def split: option.splits sum.splits go.splits)

end
